(* ===== verification/Prelude.thy ===== *)
theory Prelude
  imports Main "HOL-Library.Word" "HOL-Library.Signed_Division" "HOL-Library.List_Lexorder" "HOL-Library.Char_ord"
    "HOL-Library.Sublist" "HOL-Library.Multiset" "HOL-Library.Code_Target_Nat"
begin

text \<open>
  Shared ground of the development: Go's results (a value, an error, a panic), Go's fixed-width
  integers, byte strings and big-endian encodings, and the generic lemmas the component theories
  rest on. Nothing here models a file of the repository by itself; the constants stand for parts of
  the Go language and of its standard library (\<^verbatim>\<open>encoding/binary\<close>, integer
  arithmetic).
\<close>

section \<open>Types\<close>

type_synonym byte = "8 word"
type_synonym bytes = "8 word list"
type_synonym u32 = "32 word"
type_synonym u64 = "64 word"
type_synonym i64 = "64 word"

text \<open>
  Go errors. A sentinel error is registered once with its module and its code
  (\<^verbatim>\<open>errorsmod.Register\<close>); \<^verbatim>\<open>Wrap\<close> and \<^verbatim>\<open>Wrapf\<close>
  return a \<^emph>\<open>new\<close> value that carries the cause (the message text is dropped); a comparison with
  \<^verbatim>\<open>==\<close> tells a wrapped error from its sentinel. \<^verbatim>\<open>fmt.Errorf\<close> and
  \<^verbatim>\<open>errors.New\<close> errors are kept by their fixed text.
\<close>

datatype error = Registered string nat | Wrapped error | Errorf string

text \<open>The outcome of a Go call: a value, a returned error, or a panic (with its reason).\<close>

datatype 'a res = Ok 'a | Err error | Panic string

fun bind_res :: "'a res \<Rightarrow> ('a \<Rightarrow> 'b res) \<Rightarrow> 'b res" where
  "bind_res (Ok x) f = f x"
| "bind_res (Err e) f = Err e"
| "bind_res (Panic s) f = Panic s"

text \<open>
  \<open>fold_res\<close> is Go's loop over a slice in which the body may return early with an error or panic.
\<close>

fun fold_res :: "('a \<Rightarrow> 's \<Rightarrow> 's res) \<Rightarrow> 'a list \<Rightarrow> 's \<Rightarrow> 's res" where
  "fold_res f [] s = Ok s"
| "fold_res f (x # xs) s = bind_res (f x s) (fold_res f xs)"

text \<open>
  \<open>iterate\<close> is a store iterator that calls a handler on each element until the handler asks to stop;
  what the handler's closure captures and updates is threaded through.
\<close>

fun iterate :: "('a \<Rightarrow> 's \<Rightarrow> 's \<times> bool) \<Rightarrow> 'a list \<Rightarrow> 's \<Rightarrow> 's" where
  "iterate h [] s = s"
| "iterate h (x # xs) s = (case h x s of (s', stop) \<Rightarrow> if stop then s' else iterate h xs s')"

text \<open>\<open>panic_on_err\<close> is the idiom of a caller that panics when the call returned an error.\<close>

fun panic_on_err :: "'a res \<Rightarrow> 'a res" where
  "panic_on_err (Ok x) = Ok x"
| "panic_on_err (Err e) = Panic ''err''"
| "panic_on_err (Panic s) = Panic s"

text \<open>\<open>or_err m e\<close> is a caller that replaces an error of the call by its own.\<close>

fun or_err :: "'a res \<Rightarrow> error \<Rightarrow> 'a res" where
  "or_err (Ok x) e = Ok x"
| "or_err (Err _) e = Err e"
| "or_err (Panic s) e = Panic s"

text \<open>Reading a result: whether it is a value, and which.\<close>

fun is_ok :: "'a res \<Rightarrow> bool" where
  "is_ok (Ok x) = True"
| "is_ok _ = False"

fun is_panic :: "'a res \<Rightarrow> bool" where
  "is_panic (Panic s) = True"
| "is_panic _ = False"

fun ok_val :: "'a res \<Rightarrow> 'a" where
  "ok_val (Ok x) = x"

text \<open>\<open>check c e\<close> is a guard that returns the error \<open>e\<close> when the condition \<open>c\<close> fails.\<close>

definition check :: "bool \<Rightarrow> error \<Rightarrow> unit res" where
  "check c e = (if c then Ok () else Err e)"

section \<open>Automation\<close>

named_theorems key_simps
  \<open>how the key functions of the stores compare: injectivity and prefixes\<close>

named_theorems state_simps
  \<open>what the setters of a keeper leave unchanged\<close>

subsection \<open>Results\<close>

lemma bind_res_assoc [simp]: "bind_res (bind_res m f) g = bind_res m (\<lambda>x. bind_res (f x) g)"
  by (cases m) simp_all

lemma bind_res_eq_Ok [simp]: "bind_res m f = Ok y \<longleftrightarrow> (\<exists>x. m = Ok x \<and> f x = Ok y)"
  by (cases m) simp_all

lemma Ok_eq_bind_res [simp]: "Ok y = bind_res m f \<longleftrightarrow> (\<exists>x. m = Ok x \<and> f x = Ok y)"
  by (cases m) auto

lemma bind_res_eq_Err:
  "bind_res m f = Err e \<longleftrightarrow> m = Err e \<or> (\<exists>x. m = Ok x \<and> f x = Err e)"
  by (cases m) auto

lemma bind_res_eq_Panic:
  "bind_res m f = Panic s \<longleftrightarrow> m = Panic s \<or> (\<exists>x. m = Ok x \<and> f x = Panic s)"
  by (cases m) auto

lemma check_eq_Ok [simp]: "check c e = Ok u \<longleftrightarrow> c"
  by (simp add: check_def)

lemma check_eq_Err [simp]: "check c e = Err e' \<longleftrightarrow> \<not> c \<and> e' = e"
  by (auto simp: check_def)

lemma check_neq_Panic [simp]: "check c e \<noteq> Panic s"
  by (simp add: check_def)

lemma bind_check [simp]: "bind_res (check c e) f = (if c then f () else Err e)"
  by (simp add: check_def)

lemma panic_on_err_eq_Ok [simp]: "panic_on_err m = Ok x \<longleftrightarrow> m = Ok x"
  by (cases m) simp_all

lemma panic_on_err_neq_Err [simp]: "panic_on_err m \<noteq> Err e"
  by (cases m) simp_all

lemma or_err_eq_Ok [simp]: "or_err m e = Ok x \<longleftrightarrow> m = Ok x"
  by (cases m) simp_all

lemma or_err_eq_Panic [simp]: "or_err m e = Panic s \<longleftrightarrow> m = Panic s"
  by (cases m) simp_all

lemma is_ok_val: "is_ok m \<Longrightarrow> m = Ok (ok_val m)"
  by (cases m) simp_all

lemma is_panic_bind: "is_panic (bind_res m f) \<longleftrightarrow> is_panic m \<or> (\<exists>x. m = Ok x \<and> is_panic (f x))"
  by (cases m) simp_all

lemma foldl_sum: "foldl (\<lambda>acc x. acc + f x) a xs = a + (\<Sum>x\<leftarrow>xs. (f x :: int))"
  by (induction xs arbitrary: a) simp_all

lemma fold_res_append:
  "fold_res f (xs @ ys) s = bind_res (fold_res f xs s) (fold_res f ys)"
  by (induction xs arbitrary: s) (auto intro!: arg_cong [where f = "bind_res _"])

lemma iterate_collect [simp]: "iterate (\<lambda>x acc. (acc @ [g x], False)) xs acc = acc @ map g xs"
  by (induction xs arbitrary: acc) simp_all

lemma iterate_all: "iterate (\<lambda>x s. (f x s, False)) xs s = fold f xs s"
  by (induction xs arbitrary: s) simp_all

lemma iterate_find:
  "iterate (\<lambda>x found. if P x then (Some (g x), True) else (found, False)) xs None = map_option g (find P xs)"
  by (induction xs) simp_all

lemma iterate_any: "iterate (\<lambda>x found. if P x then (True, True) else (found, False)) xs False \<longleftrightarrow> list_ex P xs"
  by (induction xs) simp_all

text \<open>
  The loop rule: an invariant that every iteration re-establishes (and that promises the iteration
  returns) makes the whole loop return in a state that satisfies it. The invariant speaks of the
  elements still to be visited.
\<close>

lemma fold_res_total:
  assumes "\<And>x xs s. I (x # xs) s \<Longrightarrow> \<exists>s'. f x s = Ok s' \<and> I xs s'" and "I xs s"
  shows "\<exists>s'. fold_res f xs s = Ok s' \<and> I [] s'"
  using assms(2)
proof (induction xs arbitrary: s)
  case (Cons x xs)
  from assms(1) [OF Cons.prems] obtain s1 where "f x s = Ok s1" "I xs s1" by blast
  with Cons.IH [of s1] show ?case by simp
qed simp

lemma fold_res_invariant:
  assumes "\<And>x xs s s'. I (x # xs) s \<Longrightarrow> f x s = Ok s' \<Longrightarrow> I xs s'"
    and "I xs s" and "fold_res f xs s = Ok s'"
  shows "I [] s'"
  using assms(2,3)
proof (induction xs arbitrary: s)
  case (Cons x xs)
  from Cons.prems(2) obtain s1 where "f x s = Ok s1" "fold_res f xs s1 = Ok s'" by auto
  with assms(1) [OF Cons.prems(1)] Cons.IH show ?case by blast
qed simp

section \<open>Go integers\<close>

text \<open>
  \<^verbatim>\<open>int64\<close> and \<^verbatim>\<open>uint64\<close> share the type of 64-bit words: a Go conversion
  between them keeps the bits. Signed comparison and the remainder (which truncates towards zero and
  panics on a zero divisor) read the words in two's complement.
\<close>

definition rem_i64 :: "i64 \<Rightarrow> i64 \<Rightarrow> i64 res" where
  "rem_i64 a b = (if b = 0 then Panic ''integer divide by zero'' else Ok (word_of_int (sint a smod sint b)))"

definition uint64_of_nat :: "nat \<Rightarrow> u64" where
  "uint64_of_nat n = word_of_nat n"

lemma word_less_Suc: "(w :: 'a :: len word) + 1 \<noteq> 0 \<Longrightarrow> w < w + 1"
  by (simp add: word_less_nat_alt add.commute unatSuc)

lemma rem_i64_total: "b \<noteq> 0 \<Longrightarrow> \<exists>r. rem_i64 a b = Ok r"
  by (simp add: rem_i64_def)

section \<open>Byte strings\<close>

text \<open>\<open>be n x\<close> are the \<open>n\<close> big-endian bytes of \<open>x\<close> (\<^verbatim>\<open>encoding/binary\<close>).\<close>

fun be :: "nat \<Rightarrow> nat \<Rightarrow> bytes" where
  "be 0 x = []"
| "be (Suc n) x = word_of_nat (x div 256 ^ n) # be n (x mod 256 ^ n)"

definition un_be :: "bytes \<Rightarrow> nat" where
  "un_be bs = foldl (\<lambda>acc b. acc * 256 + unat b) 0 bs"

definition PutUint32 :: "u32 \<Rightarrow> bytes" where
  "PutUint32 w = be 4 (unat w)"

definition PutUint64 :: "u64 \<Rightarrow> bytes" where
  "PutUint64 w = be 8 (unat w)"

definition Uint32 :: "bytes \<Rightarrow> u32" where
  "Uint32 bs = word_of_nat (un_be (take 4 bs))"

definition Uint64 :: "bytes \<Rightarrow> u64" where
  "Uint64 bs = word_of_nat (un_be (take 8 bs))"

definition string_bytes :: "string \<Rightarrow> bytes" where
  "string_bytes s = map (\<lambda>c. word_of_nat (of_char c)) s"

lemma length_be [simp]: "length (be n x) = n"
  by (induction n arbitrary: x) simp_all

lemma length_PutUint32 [simp]: "length (PutUint32 w) = 4"
  by (simp add: PutUint32_def)

lemma length_PutUint64 [simp]: "length (PutUint64 w) = 8"
  by (simp add: PutUint64_def)

lemma PutUint64_not_Nil [simp]: "PutUint64 w \<noteq> []"
  using length_PutUint64 [of w] by (metis list.size(3) zero_neq_numeral)

lemma be_eq_iff: "x < 256 ^ n \<Longrightarrow> y < 256 ^ n \<Longrightarrow> be n x = be n y \<longleftrightarrow> x = y"
proof (induction n arbitrary: x y)
  case (Suc n)
  have "x div 256 ^ n < 256" "y div 256 ^ n < 256"
    using Suc.prems by (simp_all add: less_mult_imp_div_less mult.commute)
  then have "(word_of_nat (x div 256 ^ n) :: byte) = word_of_nat (y div 256 ^ n)
      \<longleftrightarrow> x div 256 ^ n = y div 256 ^ n"
    by (simp add: word_of_nat_eq_iff take_bit_eq_mod)
  moreover have "be n (x mod 256 ^ n) = be n (y mod 256 ^ n) \<longleftrightarrow> x mod 256 ^ n = y mod 256 ^ n"
    by (rule Suc.IH) simp_all
  ultimately show ?case
    by (metis be.simps(2) div_mult_mod_eq list.inject)
qed simp

lemma less_iff_div_mod:
  "x < y \<longleftrightarrow> x div B < y div B \<or> x div B = y div B \<and> x mod B < y mod (B :: nat)"
proof (cases "x div B" "y div B" rule: linorder_cases)
  case less
  then have "\<not> y \<le> x" using div_le_mono [of y x B] by linarith
  with less show ?thesis by simp
next
  case equal
  then have "x = y div B * B + x mod B" "y = y div B * B + y mod B"
    by (metis div_mult_mod_eq)+
  then have "x < y \<longleftrightarrow> x mod B < y mod B" by linarith
  with equal show ?thesis by simp
next
  case greater
  then have "\<not> x \<le> y" using div_le_mono [of x y B] by linarith
  with greater show ?thesis by simp
qed

lemma be_less_iff: "x < 256 ^ n \<Longrightarrow> y < 256 ^ n \<Longrightarrow> be n x < be n y \<longleftrightarrow> x < y"
proof (induction n arbitrary: x y)
  case (Suc n)
  let ?B = "256 ^ n :: nat"
  have b: "x div ?B < 256" "y div ?B < 256"
    using Suc.prems by (simp_all add: less_mult_imp_div_less mult.commute)
  then have eq: "(word_of_nat (x div ?B) :: byte) = word_of_nat (y div ?B) \<longleftrightarrow> x div ?B = y div ?B"
    by (simp add: word_of_nat_eq_iff take_bit_eq_mod)
  from b have ls: "(word_of_nat (x div ?B) :: byte) < word_of_nat (y div ?B) \<longleftrightarrow> x div ?B < y div ?B"
    by (simp add: word_of_nat_less_iff take_bit_eq_mod)
  have IH: "be n (x mod ?B) < be n (y mod ?B) \<longleftrightarrow> x mod ?B < y mod ?B"
    by (rule Suc.IH) simp_all
  have "x < y \<longleftrightarrow> x div ?B < y div ?B \<or> x div ?B = y div ?B \<and> x mod ?B < y mod ?B"
    by (rule less_iff_div_mod)
  then show ?case by (simp add: eq ls IH)
qed simp

lemma un_be_append: "un_be (xs @ [b]) = un_be xs * 256 + unat b"
  by (simp add: un_be_def)

text \<open>\<^verbatim>\<open>big.Int.Bytes\<close> and \<^verbatim>\<open>SetBytes\<close>: the shortest big-endian bytes of the absolute value.\<close>

fun nat_bytes :: "nat \<Rightarrow> bytes" where
  "nat_bytes n = (if n = 0 then [] else nat_bytes (n div 256) @ [word_of_nat (n mod 256)])"

declare nat_bytes.simps [simp del]

definition big_Bytes :: "int \<Rightarrow> bytes" where
  "big_Bytes i = nat_bytes (nat \<bar>i\<bar>)"

definition big_SetBytes :: "bytes \<Rightarrow> int" where
  "big_SetBytes bs = int (un_be bs)"

lemma un_be_nat_bytes: "un_be (nat_bytes n) = n"
proof (induction n rule: less_induct)
  case (less n)
  show ?case
  proof (cases "n = 0")
    case True
    then show ?thesis by (simp add: nat_bytes.simps un_be_def)
  next
    case False
    then have "nat_bytes n = nat_bytes (n div 256) @ [word_of_nat (n mod 256)]" by (simp add: nat_bytes.simps)
    moreover have "unat (word_of_nat (n mod 256) :: byte) = n mod 256" by (simp add: unat_of_nat)
    ultimately show ?thesis using False less [of "n div 256"] by (simp add: un_be_append)
  qed
qed

lemma big_SetBytes_Bytes [simp]: "big_SetBytes (big_Bytes i) = \<bar>i\<bar>"
  by (simp add: big_SetBytes_def big_Bytes_def un_be_nat_bytes)

lemma foldl_be: "x < 256 ^ n \<Longrightarrow> foldl (\<lambda>acc b. acc * 256 + unat b) a (be n x) = a * 256 ^ n + x"
proof (induction n arbitrary: a x)
  case (Suc n)
  have "x div 256 ^ n < 256"
    using Suc.prems by (simp add: less_mult_imp_div_less mult.commute)
  then have "unat (word_of_nat (x div 256 ^ n) :: byte) = x div 256 ^ n"
    by (simp add: unat_of_nat)
  moreover have "foldl (\<lambda>acc b. acc * 256 + unat b) (a * 256 + x div 256 ^ n) (be n (x mod 256 ^ n))
      = (a * 256 + x div 256 ^ n) * 256 ^ n + x mod 256 ^ n"
    by (rule Suc.IH) simp
  moreover have "x div 256 ^ n * 256 ^ n + x mod 256 ^ n = x" by (rule div_mult_mod_eq)
  ultimately show ?case by (simp add: algebra_simps del: mod_div_mult_eq div_mult_mod_eq)
qed simp

lemma unat_bound: "unat (w :: u32) < 256 ^ 4" "unat (v :: u64) < 256 ^ 8"
  using unsigned_less [of w, where ?'a = nat] unsigned_less [of v, where ?'a = nat] by simp_all

lemma Uint32_PutUint32 [simp]: "Uint32 (PutUint32 w) = w"
  using foldl_be [OF unat_bound(1), of 0 w]
  by (simp add: Uint32_def PutUint32_def un_be_def)

lemma Uint64_PutUint64 [simp]: "Uint64 (PutUint64 w) = w"
  using foldl_be [OF unat_bound(2), of 0 w]
  by (simp add: Uint64_def PutUint64_def un_be_def)

lemma PutUint32_inject [simp]: "PutUint32 v = PutUint32 w \<longleftrightarrow> v = w"
  by (metis Uint32_PutUint32)

lemma PutUint64_inject [simp]: "PutUint64 v = PutUint64 w \<longleftrightarrow> v = w"
  by (metis Uint64_PutUint64)

text \<open>Big-endian keys of one width sort as the numbers do.\<close>

lemma PutUint32_less_iff [simp]: "PutUint32 v < PutUint32 w \<longleftrightarrow> v < w"
  by (simp add: PutUint32_def be_less_iff [OF unat_bound(1) unat_bound(1)] word_less_nat_alt)

lemma PutUint64_less_iff [simp]: "PutUint64 v < PutUint64 w \<longleftrightarrow> v < w"
  by (simp add: PutUint64_def be_less_iff [OF unat_bound(2) unat_bound(2)] word_less_nat_alt)

lemma string_bytes_inject [simp]: "string_bytes s = string_bytes t \<longleftrightarrow> s = t"
proof -
  have "inj (\<lambda>c :: char. word_of_nat (of_char c) :: byte)"
    by (rule injI) (simp add: word_of_nat_eq_iff take_bit_eq_mod)
  then show ?thesis by (simp add: string_bytes_def inj_map_eq_map)
qed

lemma append_eq_append_same [simp]: "length xs = length ys \<Longrightarrow> xs @ us = ys @ vs \<longleftrightarrow> xs = ys \<and> us = vs"
  by auto

lemma prefix_append_same [simp]:
  "length xs = length ys \<Longrightarrow> prefix xs (ys @ zs) \<longleftrightarrow> xs = ys"
  by (auto simp: prefix_def)

lemma append_less_append_iff:
  "xs @ us < xs @ vs \<longleftrightarrow> us < (vs :: 'a :: linorder list)"
  by (induction xs) simp_all

text \<open>\<^verbatim>\<open>encoding/hex\<close>: two lower-case digits per byte; decoding accepts both cases.\<close>

definition hex_digit :: "nat \<Rightarrow> char" where
  "hex_digit n = ''0123456789abcdef'' ! n"

definition EncodeToString :: "bytes \<Rightarrow> string" where
  "EncodeToString bs = concat (map (\<lambda>b. [hex_digit (unat b div 16), hex_digit (unat b mod 16)]) bs)"

definition un_hex :: "char \<Rightarrow> nat option" where
  "un_hex c = map_of (zip ''0123456789abcdefABCDEF'' ([0..<16] @ [10..<16])) c"

fun DecodeString :: "string \<Rightarrow> bytes option" where
  "DecodeString [] = Some []"
| "DecodeString [c] = None"
| "DecodeString (c # d # s) = (case (un_hex c, un_hex d, DecodeString s) of
      (Some m, Some n, Some bs) \<Rightarrow> Some (word_of_nat (16 * m + n) # bs)
    | _ \<Rightarrow> None)"

lemma un_hex_digit: "n < 16 \<Longrightarrow> un_hex (hex_digit n) = Some n"
proof -
  have "list_all (\<lambda>n. un_hex (hex_digit n) = Some n) [0..<16]" by code_simp
  then show "n < 16 \<Longrightarrow> un_hex (hex_digit n) = Some n" by (simp add: list_all_iff)
qed

lemma DecodeString_EncodeToString [simp]: "DecodeString (EncodeToString bs) = Some bs"
proof (induction bs)
  case (Cons b bs)
  have "unat b div 16 < 16" using unsigned_less [of b, where ?'a = nat] by simp
  then show ?case using Cons by (simp add: EncodeToString_def un_hex_digit mult.commute)
qed (simp add: EncodeToString_def)

section \<open>Decimal text\<close>

text \<open>\<^verbatim>\<open>strconv.FormatUint(n, 10)\<close>, and \<^verbatim>\<open>%d\<close> of an unsigned number.\<close>

definition digit_char :: "nat \<Rightarrow> char" where
  "digit_char d = char_of (48 + d)"

fun decimal :: "nat \<Rightarrow> string" where
  "decimal n = (if n < 10 then [digit_char n] else decimal (n div 10) @ [digit_char (n mod 10)])"

declare decimal.simps [simp del]

definition FormatUint :: "u64 \<Rightarrow> string" where
  "FormatUint n = decimal (unat n)"

lemma digit_char_inj: "m < 10 \<Longrightarrow> n < 10 \<Longrightarrow> digit_char m = digit_char n \<longleftrightarrow> m = n"
  by (simp add: digit_char_def char_of_eq_iff take_bit_nat_eq_self)

lemma decimal_inj: "decimal m = decimal n \<Longrightarrow> m = n"
proof (induction m arbitrary: n rule: decimal.induct)
  case (1 m)
  have ne: "decimal k \<noteq> []" for k by (subst decimal.simps) simp
  show ?case
  proof (cases "m < 10 \<longleftrightarrow> n < 10")
    case True
    with 1 show ?thesis
      by (cases "m < 10") (auto simp: decimal.simps [of m] decimal.simps [of n] digit_char_inj,
          metis div_mult_mod_eq)
  next
    case False
    then show ?thesis using "1.prems" ne
      by (cases "m < 10") (auto simp: decimal.simps [of m] decimal.simps [of n] dest: arg_cong [where f = length])
  qed
qed

lemma FormatUint_inj [simp]: "FormatUint m = FormatUint n \<longleftrightarrow> m = n"
  by (auto simp: FormatUint_def word_unat_eq_iff dest!: decimal_inj)

lemma decimal_digits: "c \<in> set (decimal n) \<Longrightarrow> \<exists>d < 10. c = digit_char d"
  by (induction n rule: decimal.induct) (subst (asm) (2) decimal.simps, auto split: if_splits intro: exI [of _ "_ mod 10"])

end
