(* ===== verification/KVStore.thy ===== *)
theory KVStore
  imports Prelude
begin

text \<open>
  The state a keeper holds: finite maps from byte-string keys to values, iterated in ascending key
  order, as the SDK documents its key-value stores. One typed store is kept per key prefix of a
  module, so a value is the message the module marshals under that prefix; the protobuf encoding
  itself is not modelled. The locale \<open>ordered_kv\<close> is the interface the keepers rely on (what a read
  returns after a write or a deletion, which entries an iterator visits and in which order); its
  lemmas are what the component proofs use.
\<close>

section \<open>The representation\<close>

fun upd_entry :: "bytes \<Rightarrow> 'v \<Rightarrow> (bytes \<times> 'v) list \<Rightarrow> (bytes \<times> 'v) list" where
  "upd_entry k v [] = [(k, v)]"
| "upd_entry k v ((k', v') # es) =
     (if k < k' then (k, v) # (k', v') # es
      else if k = k' then (k, v) # es
      else (k', v') # upd_entry k v es)"

lemma keys_upd_entry [simp]: "fst ` set (upd_entry k v es) = insert k (fst ` set es)"
  by (induction k v es rule: upd_entry.induct) auto

lemma sorted_upd_entry:
  "sorted_wrt (<) (map fst es) \<Longrightarrow> sorted_wrt (<) (map fst (upd_entry k v es))"
proof (induction es)
  case (Cons e es)
  obtain k' v' where e: "e = (k', v')" by (cases e)
  have "\<forall>x \<in> fst ` set (upd_entry k v es). k' < x" if "k' < k"
    using that Cons.prems by (auto simp: e)
  then show ?case using Cons by (auto simp: e not_less)
qed simp

lemma map_of_upd_entry:
  "sorted_wrt (<) (map fst es) \<Longrightarrow> map_of (upd_entry k v es) = (map_of es)(k \<mapsto> v)"
  by (induction es) (auto simp: fun_eq_iff)

typedef 'v kvstore = "{es :: (bytes \<times> 'v) list. sorted_wrt (<) (map fst es)}"
  morphisms kv_entries kv_of_entries
  by (rule exI [of _ "[]"]) simp

lemma kv_of_entries_code [code abstype]: "kv_of_entries (kv_entries s) = s"
  by (rule kv_entries_inverse)

lemma kv_entries_sorted [simp]: "sorted_wrt (<) (map fst (kv_entries s))"
  using kv_entries [of s] by simp

definition kv_empty :: "'v kvstore" where
  "kv_empty = kv_of_entries []"

definition kv_set :: "'v kvstore \<Rightarrow> bytes \<Rightarrow> 'v \<Rightarrow> 'v kvstore" where
  "kv_set s k v = kv_of_entries (upd_entry k v (kv_entries s))"

definition kv_del :: "'v kvstore \<Rightarrow> bytes \<Rightarrow> 'v kvstore" where
  "kv_del s k = kv_of_entries (filter (\<lambda>e. fst e \<noteq> k) (kv_entries s))"

definition kv_get :: "'v kvstore \<Rightarrow> bytes \<Rightarrow> 'v option" where
  "kv_get s k = map_of (kv_entries s) k"

lemma kv_entries_empty [simp, code abstract]: "kv_entries kv_empty = []"
  by (simp add: kv_empty_def kv_of_entries_inverse)

lemma kv_entries_set [simp, code abstract]: "kv_entries (kv_set s k v) = upd_entry k v (kv_entries s)"
  by (simp add: kv_set_def kv_of_entries_inverse sorted_upd_entry)

lemma kv_entries_del [simp, code abstract]:
  "kv_entries (kv_del s k) = filter (\<lambda>e. fst e \<noteq> k) (kv_entries s)"
  by (simp add: kv_del_def kv_of_entries_inverse sorted_wrt_map sorted_wrt_filter
      kv_entries_sorted [unfolded sorted_wrt_map])

text \<open>The entries a prefix iterator visits, in its order.\<close>

definition kv_iter :: "'v kvstore \<Rightarrow> bytes \<Rightarrow> (bytes \<times> 'v) list" where
  "kv_iter s p = filter (\<lambda>e. prefix p (fst e)) (kv_entries s)"

lemma map_of_filter_key: "map_of (filter (\<lambda>e. fst e \<noteq> k) es) k' = (if k' = k then None else map_of es k')"
  by (induction es) auto

lemma map_of_sorted_mem:
  "sorted_wrt (<) (map fst (es :: (bytes \<times> 'v) list)) \<Longrightarrow> map_of es k = Some v \<longleftrightarrow> (k, v) \<in> set es"
  by (simp add: map_of_eq_Some_iff strict_sorted_iff)

section \<open>The interface\<close>

locale ordered_kv =
  fixes get :: "'s \<Rightarrow> bytes \<Rightarrow> 'v option"
    and put :: "'s \<Rightarrow> bytes \<Rightarrow> 'v \<Rightarrow> 's"
    and del :: "'s \<Rightarrow> bytes \<Rightarrow> 's"
    and iter :: "'s \<Rightarrow> bytes \<Rightarrow> (bytes \<times> 'v) list"
  assumes get_put: "get (put s k v) k' = (if k' = k then Some v else get s k')"
    and get_del: "get (del s k) k' = (if k' = k then None else get s k')"
    and iter_mem: "(k, v) \<in> set (iter s p) \<longleftrightarrow> get s k = Some v \<and> prefix p k"
    and iter_sorted: "sorted_wrt (<) (map fst (iter s p))"
begin

lemma iter_distinct: "distinct (map fst (iter s p))"
  using iter_sorted [of s p] by (simp add: strict_sorted_iff)

lemma iter_distinct_entries: "distinct (iter s p)"
  using iter_distinct by (auto simp: distinct_map)

text \<open>An iterator depends only on the keys under its prefix.\<close>

lemma iter_cong:
  assumes "\<And>k. prefix p k \<Longrightarrow> get s k = get t k"
  shows "iter s p = iter t p"
proof (rule map_sorted_distinct_set_unique [where f = fst])
  show "inj_on fst (set (iter s p) \<union> set (iter t p))"
    using assms by (auto simp: inj_on_def iter_mem)
  show "sorted (map fst (iter s p))" "sorted (map fst (iter t p))"
    using iter_sorted by (simp_all add: strict_sorted_iff)
  show "distinct (map fst (iter s p))" "distinct (map fst (iter t p))"
    by (rule iter_distinct)+
  show "set (iter s p) = set (iter t p)"
    using assms by (auto simp: iter_mem)
qed

lemma iter_put_other: "\<not> prefix p k \<Longrightarrow> iter (put s k v) p = iter s p"
  by (rule iter_cong) (auto simp: get_put)

lemma iter_del_other: "\<not> prefix p k \<Longrightarrow> iter (del s k) p = iter s p"
  by (rule iter_cong) (auto simp: get_del)

lemma mset_iter: "mset (iter s p) = mset_set (set (iter s p))"
  by (simp add: mset_set_set [OF iter_distinct_entries])

lemma set_iter_put: 
  "prefix p k \<Longrightarrow> set (iter (put s k v) p) = insert (k, v) {e \<in> set (iter s p). fst e \<noteq> k}"
  by (auto simp: iter_mem get_put split: if_splits)

lemma set_iter_del: "set (iter (del s k) p) = {e \<in> set (iter s p). fst e \<noteq> k}"
  by (auto simp: iter_mem get_del split: if_splits)

text \<open>Sums over the entries under a prefix, after a write and after a deletion.\<close>

lemma sum_list_iter: "(\<Sum>e\<leftarrow>iter s p. f e) = (\<Sum>e\<in>set (iter s p). f e)"
  by (simp add: sum_list_distinct_conv_sum_set [OF iter_distinct_entries])

lemma iter_entry_set:
  "get s k = Some v \<Longrightarrow> prefix p k \<Longrightarrow> set (iter s p) = insert (k, v) {e \<in> set (iter s p). fst e \<noteq> k}"
  by (auto simp: iter_mem)

lemma iter_no_entry: "get s k = None \<Longrightarrow> {e \<in> set (iter s p). fst e \<noteq> k} = set (iter s p)"
  by (auto simp: iter_mem)

lemma sum_iter_remove:
  fixes f :: "bytes \<times> 'v \<Rightarrow> int"
  assumes "prefix p k"
  shows "(\<Sum>e\<in>{e \<in> set (iter s p). fst e \<noteq> k}. f e)
    = (\<Sum>e\<leftarrow>iter s p. f e) - (case get s k of None \<Rightarrow> 0 | Some v \<Rightarrow> f (k, v))"
proof (cases "get s k")
  case None
  then show ?thesis by (simp add: sum_list_iter iter_no_entry)
next
  case (Some v)
  let ?A = "{e \<in> set (iter s p). fst e \<noteq> k}"
  have "(\<Sum>e\<in>insert (k, v) ?A. f e) = f (k, v) + (\<Sum>e\<in>?A. f e)"
    by (rule sum.insert) auto
  then have "(\<Sum>e\<in>set (iter s p). f e) = f (k, v) + (\<Sum>e\<in>?A. f e)"
    by (simp flip: iter_entry_set [OF Some assms])
  with Some show ?thesis by (simp add: sum_list_iter)
qed

lemma sum_iter_put:
  fixes f :: "bytes \<times> 'v \<Rightarrow> int"
  assumes "prefix p k"
  shows "(\<Sum>e\<leftarrow>iter (put s k v) p. f e)
    = (\<Sum>e\<leftarrow>iter s p. f e) - (case get s k of None \<Rightarrow> 0 | Some v \<Rightarrow> f (k, v)) + f (k, v)"
  by (simp add: sum_list_iter [of f "put s k v"] set_iter_put [OF assms] sum_iter_remove [OF assms])

lemma sum_iter_del:
  fixes f :: "bytes \<times> 'v \<Rightarrow> int"
  assumes "prefix p k"
  shows "(\<Sum>e\<leftarrow>iter (del s k) p. f e)
    = (\<Sum>e\<leftarrow>iter s p. f e) - (case get s k of None \<Rightarrow> 0 | Some v \<Rightarrow> f (k, v))"
  by (simp add: sum_list_iter [of f "del s k"] set_iter_del sum_iter_remove [OF assms])

text \<open>Two stores with the same reads have the same iterators.\<close>

lemma iter_ext: "(\<And>k. get s k = get t k) \<Longrightarrow> iter s = iter t"
  by (rule ext) (rule iter_cong, simp)

end

section \<open>The stores of the model satisfy the interface\<close>

lemma kv_get_set: "kv_get (kv_set s k v) k' = (if k' = k then Some v else kv_get s k')"
  by (simp add: kv_get_def map_of_upd_entry)

lemma kv_get_del: "kv_get (kv_del s k) k' = (if k' = k then None else kv_get s k')"
  by (simp add: kv_get_def map_of_filter_key)

lemma kv_get_empty [simp]: "kv_get kv_empty k = None"
  by (simp add: kv_get_def)

lemma kv_iter_mem: "(k, v) \<in> set (kv_iter s p) \<longleftrightarrow> kv_get s k = Some v \<and> prefix p k"
  by (auto simp: kv_iter_def kv_get_def map_of_sorted_mem)

lemma kv_iter_sorted: "sorted_wrt (<) (map fst (kv_iter s p))"
  by (simp add: kv_iter_def sorted_wrt_map sorted_wrt_filter kv_entries_sorted [unfolded sorted_wrt_map])

interpretation kvs: ordered_kv kv_get kv_set kv_del kv_iter
  by unfold_locales (simp_all add: kv_get_set kv_get_del kv_iter_mem kv_iter_sorted)

lemmas kv_simps [simp] = kv_get_set kv_get_del kvs.iter_put_other kvs.iter_del_other

lemma kv_eqI: "(\<And>k. kv_get s k = kv_get t k) \<Longrightarrow> s = t"
proof -
  assume eq: "\<And>k. kv_get s k = kv_get t k"
  have "kv_iter s [] = kv_iter t []" by (rule kvs.iter_cong) (rule eq)
  then have "kv_entries s = kv_entries t" by (simp add: kv_iter_def)
  then show "s = t" by (simp add: kv_entries_inject)
qed

lemma kv_iter_keys: "k \<in> fst ` set (kv_iter s p) \<longleftrightarrow> prefix p k \<and> kv_get s k \<noteq> None"
proof -
  have "k \<in> fst ` set (kv_iter s p) \<longleftrightarrow> (\<exists>v. (k, v) \<in> set (kv_iter s p))" by force
  then show ?thesis by (auto simp: kv_iter_mem)
qed

lemma kv_get_foldl_del:
  "kv_get (foldl (\<lambda>m e. kv_del m (f e)) m es) key = (if key \<in> f ` set es then None else kv_get m key)"
  by (induction es arbitrary: m) auto

text \<open>The stored values under a prefix, in key order: what the getters that collect a slice return.\<close>

definition kv_values :: "'v kvstore \<Rightarrow> bytes \<Rightarrow> 'v list" where
  "kv_values s p = map snd (kv_iter s p)"

lemma kv_values_mem: "v \<in> set (kv_values s p) \<longleftrightarrow> (\<exists>k. kv_get s k = Some v \<and> prefix p k)"
proof -
  have "v \<in> set (kv_values s p) \<longleftrightarrow> (\<exists>k. (k, v) \<in> set (kv_iter s p))"
    by (force simp: kv_values_def)
  then show ?thesis by (simp add: kv_iter_mem)
qed

lemma kv_values_set_other [simp]: "\<not> prefix p k \<Longrightarrow> kv_values (kv_set s k v) p = kv_values s p"
  by (simp add: kv_values_def)

lemma kv_values_del_other [simp]: "\<not> prefix p k \<Longrightarrow> kv_values (kv_del s k) p = kv_values s p"
  by (simp add: kv_values_def)

lemma sum_kv_values: "(\<Sum>v\<leftarrow>kv_values s p. f v) = (\<Sum>e\<leftarrow>kv_iter s p. f (snd e))"
  by (simp add: kv_values_def comp_def)

lemma sum_kv_values_set:
  fixes f :: "'v \<Rightarrow> int"
  shows "prefix p k \<Longrightarrow> (\<Sum>v\<leftarrow>kv_values (kv_set s k v) p. f v)
    = (\<Sum>v\<leftarrow>kv_values s p. f v) - (case kv_get s k of None \<Rightarrow> 0 | Some v \<Rightarrow> f v) + f v"
  using kvs.sum_iter_put [of p k "\<lambda>e. f (snd e)" s v] by (simp add: sum_kv_values cong: option.case_cong)

lemma sum_kv_values_del:
  fixes f :: "'v \<Rightarrow> int"
  shows "prefix p k \<Longrightarrow> (\<Sum>v\<leftarrow>kv_values (kv_del s k) p. f v)
    = (\<Sum>v\<leftarrow>kv_values s p. f v) - (case kv_get s k of None \<Rightarrow> 0 | Some v \<Rightarrow> f v)"
  using kvs.sum_iter_del [of p k "\<lambda>e. f (snd e)" s] by (simp add: sum_kv_values cong: option.case_cong)

text \<open>A property of all entries of a store; it computes.\<close>

definition kv_all :: "(bytes \<Rightarrow> 'v \<Rightarrow> bool) \<Rightarrow> 'v kvstore \<Rightarrow> bool" where
  "kv_all P s \<longleftrightarrow> list_all (\<lambda>e. P (fst e) (snd e)) (kv_entries s)"

lemma kv_all_iff: "kv_all P s \<longleftrightarrow> (\<forall>k v. kv_get s k = Some v \<longrightarrow> P k v)"
  by (auto simp: kv_all_def list_all_iff kv_get_def map_of_sorted_mem)

lemma kv_allD: "kv_all P s \<Longrightarrow> kv_get s k = Some v \<Longrightarrow> P k v"
  by (simp add: kv_all_iff)

lemma kv_all_empty [simp]: "kv_all P kv_empty"
  by (simp add: kv_all_iff)

lemma kv_all_set: "kv_all P s \<Longrightarrow> P k v \<Longrightarrow> kv_all P (kv_set s k v)"
  by (simp add: kv_all_iff)

lemma kv_all_del: "kv_all P s \<Longrightarrow> kv_all P (kv_del s k)"
  by (simp add: kv_all_iff)

lemma kv_all_mono: "kv_all P s \<Longrightarrow> (\<And>k v. kv_get s k = Some v \<Longrightarrow> P k v \<Longrightarrow> Q k v) \<Longrightarrow> kv_all Q s"
  by (simp add: kv_all_iff)

text \<open>Narrowing a prefix selects among the values of the wider one.\<close>

lemma kv_values_narrow:
  fixes f :: "'v \<Rightarrow> int"
  assumes "\<And>k. prefix q k \<Longrightarrow> prefix p k"
    and "\<And>k v. kv_get s k = Some v \<Longrightarrow> prefix p k \<Longrightarrow> prefix q k \<longleftrightarrow> P v"
  shows "(\<Sum>v\<leftarrow>kv_values s q. f v) = (\<Sum>v\<leftarrow>kv_values s p. if P v then f v else 0)"
proof -
  have "kv_iter s q = filter (\<lambda>e. P (snd e)) (kv_iter s p)"
    unfolding kv_iter_def filter_filter
    by (rule filter_cong [OF refl]) (use assms in \<open>force simp: kv_get_def map_of_sorted_mem\<close>)
  then show ?thesis by (simp add: sum_kv_values sum_list_map_filter')
qed

section \<open>Rebuilding a store\<close>

text \<open>Writing back a list of entries, as a genesis import does.\<close>

lemma kv_get_foldl_entries:
  "distinct (map fst es) \<Longrightarrow> kv_get (foldl (\<lambda>s e. kv_set s (fst e) (snd e)) s0 es) k =
    (case map_of es k of Some v \<Rightarrow> Some v | None \<Rightarrow> kv_get s0 k)"
proof (induction es arbitrary: s0)
  case (Cons e es)
  then show ?case
    by (cases e) (auto simp: map_of_eq_None_iff split: option.splits dest: map_of_SomeD intro: rev_image_eqI)
qed simp

lemma foldl_values_entries:
  "(\<And>e. e \<in> set es \<Longrightarrow> K (snd e) = fst e) \<Longrightarrow>
    foldl (\<lambda>s v. kv_set s (K v) v) s0 (map snd es) = foldl (\<lambda>s e. kv_set s (fst e) (snd e)) s0 es"
  by (induction es arbitrary: s0) simp_all

lemma kv_rebuild:
  assumes keys: "\<And>e. e \<in> set es \<Longrightarrow> K (snd e) = fst e" and dist: "distinct (map fst es)"
    and mem: "\<And>k v. (k, v) \<in> set es \<longleftrightarrow> kv_get s k = Some v"
  shows "foldl (\<lambda>s v. kv_set s (K v) v) kv_empty (map snd es) = s"
proof (rule kv_eqI)
  fix k
  have "map_of es k = kv_get s k"
    using mem [of k] map_of_eq_Some_iff [OF dist, of k] by (cases "kv_get s k") (auto simp: map_of_eq_None_iff)
  then show "kv_get (foldl (\<lambda>s v. kv_set s (K v) v) kv_empty (map snd es)) k = kv_get s k"
    by (simp add: foldl_values_entries [OF keys] kv_get_foldl_entries [OF dist] split: option.splits)
qed

text \<open>The case of one prefix under which all keys lie.\<close>

lemma kv_rebuild_values:
  assumes "\<And>k v. kv_get s k = Some v \<Longrightarrow> k = K v \<and> prefix p k"
  shows "foldl (\<lambda>s v. kv_set s (K v) v) kv_empty (kv_values s p) = s"
  unfolding kv_values_def
proof (rule kv_rebuild)
  show "K (snd e) = fst e" if "e \<in> set (kv_iter s p)" for e
    using that assms [of "fst e" "snd e"] kv_iter_mem [of "fst e" "snd e" s p] by simp
  show "distinct (map fst (kv_iter s p))" by (rule kvs.iter_distinct)
  show "(k, v) \<in> set (kv_iter s p) \<longleftrightarrow> kv_get s k = Some v" for k v
    using assms by (auto simp: kv_iter_mem)
qed

end
