(* ===== verification/Sdk.thy ===== *)
theory Sdk
  imports KVStore
begin

text \<open>
  What the modules take from the Cosmos SDK: decimals, coins, addresses and the bank. The SDK is not
  part of the repository, so its operations are parameters: the record \<open>sdk\<close> (pure functions) and
  the record \<open>bank_ops\<close> (the \<^verbatim>\<open>BankKeeper\<close> interface over an abstract bank state). The
  locales \<open>sdk_dec\<close> and \<open>bank_keeper\<close> state the documented behaviour the modules rely on: rounding of
  decimals to 18 places, and what a successful transfer does to balances. A decimal is its integer
  number of \<open>10\<^sup>-\<^sup>1\<^sup>8\<close> units, on which addition, subtraction and comparison are exact.
  Amounts are mathematical integers; the SDK's 256-bit overflow panics are out of scope.
  The last section gives reference instances, which show that the laws can hold together and on
  which the concrete examples of the development run.
\<close>

section \<open>Decimals, addresses and coins\<close>

type_synonym dec = int
type_synonym addr = bytes

definition dec_one :: dec where
  "dec_one = 1000000000000000000"

definition NewDecFromInt :: "int \<Rightarrow> dec" where
  "NewDecFromInt n = n * dec_one"

record sdk =
  Dec_Mul :: "dec \<Rightarrow> dec \<Rightarrow> dec"
  Dec_Quo :: "dec \<Rightarrow> dec \<Rightarrow> dec"
  Dec_Power :: "dec \<Rightarrow> u64 \<Rightarrow> dec"
  Dec_Ceil :: "dec \<Rightarrow> dec"
  Dec_TruncateInt :: "dec \<Rightarrow> int"
  Dec_String :: "dec \<Rightarrow> string"
  NewDecFromStr :: "string \<Rightarrow> dec option"
  ValidateDenom :: "string \<Rightarrow> bool"
  NewModuleAddress :: "string \<Rightarrow> addr"
  AccAddressFromBech32 :: "string \<Rightarrow> addr option"
  AccAddress_String :: "addr \<Rightarrow> string"
  ValAddressFromBech32 :: "string \<Rightarrow> addr option"
  ValAddressFromHex :: "string \<Rightarrow> addr option"
  ValAddress_String :: "addr \<Rightarrow> string"
  ValidateAbstract :: "string \<Rightarrow> string \<Rightarrow> unit res"
  GravityDenomPrefix :: string

text \<open>\<open>GravityDenomPrefix\<close> is the prefix of the denominations that the gravity bridge mints.
  \<^verbatim>\<open>Quo\<close> divides big integers and panics on a zero divisor; \<^verbatim>\<open>TruncateInt64\<close>
  panics when the truncated value does not fit into an \<^verbatim>\<open>int64\<close>.\<close>

definition Quo :: "sdk \<Rightarrow> dec \<Rightarrow> dec \<Rightarrow> dec res" where
  "Quo S a b = (if b = 0 then Panic ''division by zero'' else Ok (Dec_Quo S a b))"

definition TruncateInt64 :: "sdk \<Rightarrow> dec \<Rightarrow> int res" where
  "TruncateInt64 S d =
     (let n = Dec_TruncateInt S d
      in if - (2 ^ 63) \<le> n \<and> n < 2 ^ 63 then Ok n else Panic ''Int64() out of bound'')"

text \<open>What the modules take from go-ethereum: addresses from and to hexadecimal text, and hashing.\<close>

record eth =
  HexToAddress :: "string \<Rightarrow> addr"
  IsHexAddress :: "string \<Rightarrow> bool"
  Address_Hex :: "addr \<Rightarrow> string"
  BytesToAddress :: "bytes \<Rightarrow> addr"
  Keccak256Hash :: "bytes \<Rightarrow> bytes"

record coin =
  cDenom :: string
  cAmount :: int

definition mk_coin :: "string \<Rightarrow> int \<Rightarrow> coin" where
  "mk_coin d a = \<lparr>cDenom = d, cAmount = a\<rparr>"

definition Coin_IsValid :: "sdk \<Rightarrow> coin \<Rightarrow> bool" where
  "Coin_IsValid S c \<longleftrightarrow> ValidateDenom S (cDenom c) \<and> 0 \<le> cAmount c"

definition Coin_IsPositive :: "coin \<Rightarrow> bool" where
  "Coin_IsPositive c \<longleftrightarrow> 0 < cAmount c"

definition NewCoin :: "sdk \<Rightarrow> string \<Rightarrow> int \<Rightarrow> coin res" where
  "NewCoin S d a =
     (if Coin_IsValid S (mk_coin d a) then Ok (mk_coin d a) else Panic ''invalid coin'')"

text \<open>\<^verbatim>\<open>sdk.NewCoins(c)\<close> of one coin drops a zero amount and panics on an invalid coin.\<close>

definition NewCoins :: "sdk \<Rightarrow> coin \<Rightarrow> coin list res" where
  "NewCoins S c =
     (if cAmount c = 0 then Ok []
      else if Coin_IsValid S c then Ok [c] else Panic ''invalid coins'')"

definition Coin_Sub :: "coin \<Rightarrow> coin \<Rightarrow> coin res" where
  "Coin_Sub a b =
     (if cDenom a \<noteq> cDenom b then Panic ''invalid coin denominations''
      else if cAmount a - cAmount b < 0 then Panic ''negative coin amount''
      else Ok (mk_coin (cDenom a) (cAmount a - cAmount b)))"

definition amountOf :: "coin list \<Rightarrow> string \<Rightarrow> int" where
  "amountOf cs d = (\<Sum>c\<leftarrow>cs. if cDenom c = d then cAmount c else 0)"

lemma amountOf_simps [simp]:
  "amountOf [] d = 0"
  "amountOf (c # cs) d = (if cDenom c = d then cAmount c else 0) + amountOf cs d"
  by (simp_all add: amountOf_def)

lemma mk_coin_simps [simp]: "cDenom (mk_coin d a) = d" "cAmount (mk_coin d a) = a"
  by (simp_all add: mk_coin_def)

lemma mk_coin_eta [simp]: "mk_coin (cDenom c) (cAmount c) = c"
  by (simp add: mk_coin_def)

lemma dec_one_pos [simp]: "0 < dec_one"
  by (simp add: dec_one_def)

section \<open>The laws of decimals\<close>

lemma rounded_below: "2 * \<bar>x - y\<bar> \<le> q \<Longrightarrow> 0 < q \<Longrightarrow> x \<le> z - q \<Longrightarrow> y < (z :: int)"
  by (cases "x < y") (simp_all add: abs_if)

lemma rounded_above: "2 * \<bar>x - y\<bar> \<le> q \<Longrightarrow> 0 < q \<Longrightarrow> z + q \<le> x \<Longrightarrow> (z :: int) < y"
  by (cases "x < y") (simp_all add: abs_if)

locale sdk_dec =
  fixes S :: sdk
  assumes mul_round: "2 * \<bar>Dec_Mul S a b * dec_one - a * b\<bar> \<le> dec_one"
    and quo_upper: "0 \<le> a \<Longrightarrow> 0 < b \<Longrightarrow> 2 * (Dec_Quo S a b * b) \<le> 2 * (a * dec_one) + b"
    and quo_lower: "0 \<le> a \<Longrightarrow> 0 < b \<Longrightarrow>
      2 * (a * dec_one * dec_one) \<le> 2 * (Dec_Quo S a b * b * dec_one) + b * dec_one + 2 * b"
    and power_ten: "n \<le> 18 \<Longrightarrow> Dec_Power S (10 * dec_one) n = 10 ^ unat n * dec_one"
    and ceil_eq: "Dec_Ceil S d = - ((- d) div dec_one) * dec_one"
    and trunc_eq: "0 \<le> d \<Longrightarrow> Dec_TruncateInt S d = d div dec_one"
begin

text \<open>Rounding to the nearest keeps integer bounds.\<close>

lemma mul_ge: "m * dec_one \<le> a * b \<Longrightarrow> m \<le> Dec_Mul S a b"
proof (rule ccontr)
  assume *: "m * dec_one \<le> a * b" "\<not> m \<le> Dec_Mul S a b"
  then have "Dec_Mul S a b * dec_one \<le> (m - 1) * dec_one"
    by (intro mult_right_mono) (auto simp: less_imp_le)
  then have "a * b < m * dec_one"
    using rounded_below [OF mul_round dec_one_pos] by (simp add: left_diff_distrib)
  with * show False by simp
qed

lemma mul_le: "a * b \<le> m * dec_one \<Longrightarrow> Dec_Mul S a b \<le> m"
proof (rule ccontr)
  assume *: "a * b \<le> m * dec_one" "\<not> Dec_Mul S a b \<le> m"
  then have "(m + 1) * dec_one \<le> Dec_Mul S a b * dec_one"
    by (intro mult_right_mono) (auto simp: less_imp_le)
  then have "m * dec_one < a * b"
    using rounded_above [OF mul_round dec_one_pos] by (simp add: distrib_right)
  with * show False by simp
qed

lemma mul_exact: "a * b = m * dec_one \<Longrightarrow> Dec_Mul S a b = m"
  using mul_ge [of m a b] mul_le [of a b m] by simp

lemma mul_NewDecFromInt [simp]:
  "Dec_Mul S (NewDecFromInt n) b = n * b" "Dec_Mul S b (NewDecFromInt n) = n * b"
  by (rule mul_exact, simp add: NewDecFromInt_def algebra_simps)+

lemma mul_nonneg: "0 \<le> a \<Longrightarrow> 0 \<le> b \<Longrightarrow> 0 \<le> Dec_Mul S a b"
  using mul_ge [of 0 a b] by simp

lemma mul_mono: "0 \<le> a \<Longrightarrow> dec_one \<le> b \<Longrightarrow> a \<le> Dec_Mul S a b"
  by (rule mul_ge) (simp add: mult_left_mono)

text \<open>A quotient whose exact value is at least an integer multiple of one is at least that.\<close>

lemma quo_ge:
  assumes "0 \<le> a" "0 < b" "m * b \<le> a * dec_one"
  shows "m \<le> Dec_Quo S a b"
proof (rule ccontr)
  assume "\<not> m \<le> Dec_Quo S a b"
  then have "Dec_Quo S a b * b \<le> (m - 1) * b"
    using assms(2) by (intro mult_right_mono) auto
  also have "\<dots> \<le> a * dec_one - b" using assms(3) by (simp add: left_diff_distrib)
  finally have "Dec_Quo S a b * b * dec_one \<le> (a * dec_one - b) * dec_one"
    by (intro mult_right_mono) (auto simp: less_imp_le)
  then have "b * dec_one \<le> 2 * b"
    using quo_lower [OF assms(1,2)] by (simp add: left_diff_distrib)
  with assms(2) show False by (simp add: dec_one_def)
qed

lemma quo_le:
  assumes "0 \<le> a" "0 < b" "a * dec_one \<le> m * b"
  shows "Dec_Quo S a b \<le> m"
proof (rule ccontr)
  assume "\<not> Dec_Quo S a b \<le> m"
  then have "(m + 1) * b \<le> Dec_Quo S a b * b"
    using assms(2) by (intro mult_right_mono) auto
  with quo_upper [OF assms(1,2)] assms(2,3) show False by (simp add: distrib_right)
qed

lemma quo_exact: "0 \<le> a \<Longrightarrow> 0 < b \<Longrightarrow> a * dec_one = m * b \<Longrightarrow> Dec_Quo S a b = m"
  using quo_ge [of a b m] quo_le [of a b m] by simp

lemma quo_nonneg: "0 \<le> a \<Longrightarrow> 0 < b \<Longrightarrow> 0 \<le> Dec_Quo S a b"
  using quo_ge [of a b 0] by (simp add: less_imp_le)

text \<open>A quotient below one half is rounded to zero.\<close>

lemma quo_zero: "0 \<le> a \<Longrightarrow> 0 < b \<Longrightarrow> 2 * (a * dec_one) < b \<Longrightarrow> Dec_Quo S a b = 0"
proof -
  assume *: "0 \<le> a" "0 < b" "2 * (a * dec_one) < b"
  from quo_upper [OF *(1,2)] * have "Dec_Quo S a b * b < 1 * b" by linarith
  then have "Dec_Quo S a b < 1" using *(2) by (metis mult_right_less_imp_less less_imp_le)
  with quo_nonneg [OF *(1,2)] show ?thesis by simp
qed

text \<open>Rounding up to a whole number: \<open>Ceil\<close>, then \<open>TruncateInt\<close>.\<close>

lemma trunc_ceil: "0 \<le> d \<Longrightarrow> Dec_TruncateInt S (Dec_Ceil S d) = - ((- d) div dec_one)"
proof -
  assume "0 \<le> d"
  then have "(- d) div dec_one \<le> 0" by (simp add: div_nonpos_pos_le0)
  then have "0 \<le> Dec_Ceil S d" by (simp add: ceil_eq mult_nonpos_nonneg less_imp_le)
  then show ?thesis by (simp add: trunc_eq) (simp add: ceil_eq dec_one_def)
qed

end

section \<open>The bank\<close>

record 'b bank_ops =
  GetBalance :: "'b \<Rightarrow> addr \<Rightarrow> string \<Rightarrow> int"
  SendCoinsFromModuleToModule :: "'b \<Rightarrow> string \<Rightarrow> string \<Rightarrow> coin list \<Rightarrow> 'b res"
  SendCoinsFromAccountToModule :: "'b \<Rightarrow> addr \<Rightarrow> string \<Rightarrow> coin list \<Rightarrow> 'b res"
  SendCoinsFromModuleToAccount :: "'b \<Rightarrow> string \<Rightarrow> addr \<Rightarrow> coin list \<Rightarrow> 'b res"

definition moved :: "addr \<Rightarrow> addr \<Rightarrow> coin list \<Rightarrow> addr \<Rightarrow> string \<Rightarrow> int" where
  "moved src dst cs a d =
     (if a = dst then amountOf cs d else 0) - (if a = src then amountOf cs d else 0)"

locale bank_keeper =
  fixes B :: "'b bank_ops"
    and maddr :: "string \<Rightarrow> addr"
    and has_account :: "string \<Rightarrow> bool"
    and valid_denom :: "string \<Rightarrow> bool"
    and blocked :: "addr \<Rightarrow> bool"
  assumes balance_nonneg: "0 \<le> GetBalance B b a d"
    and maddr_inj: "maddr m = maddr n \<longleftrightarrow> m = n"
    and m2m_balance: "SendCoinsFromModuleToModule B b m n cs = Ok b' \<Longrightarrow>
      GetBalance B b' a d = GetBalance B b a d + moved (maddr m) (maddr n) cs a d"
    and a2m_balance: "SendCoinsFromAccountToModule B b x n cs = Ok b' \<Longrightarrow>
      GetBalance B b' a d = GetBalance B b a d + moved x (maddr n) cs a d"
    and m2a_balance: "SendCoinsFromModuleToAccount B b m x cs = Ok b' \<Longrightarrow>
      GetBalance B b' a d = GetBalance B b a d + moved (maddr m) x cs a d"
    and m2m_funds: "has_account m \<Longrightarrow> has_account n \<Longrightarrow> valid_denom (cDenom c) \<Longrightarrow> 0 < cAmount c \<Longrightarrow>
      cAmount c \<le> GetBalance B b (maddr m) (cDenom c) \<Longrightarrow>
      \<exists>b'. SendCoinsFromModuleToModule B b m n [c] = Ok b'"
    and m2a_funds: "has_account m \<Longrightarrow> \<not> blocked x \<Longrightarrow> valid_denom (cDenom c) \<Longrightarrow> 0 < cAmount c \<Longrightarrow>
      cAmount c \<le> GetBalance B b (maddr m) (cDenom c) \<Longrightarrow>
      \<exists>b'. SendCoinsFromModuleToAccount B b m x [c] = Ok b'"

text \<open>The environment most modules run in: decimals and a bank over the same module addresses.\<close>

locale chain_env = sdk_dec S + bank_keeper B "NewModuleAddress S" has_account "ValidateDenom S" blocked
  for S :: sdk and B :: "'b bank_ops" and has_account :: "string \<Rightarrow> bool" and blocked :: "addr \<Rightarrow> bool"

section \<open>Context and events\<close>

record ctx =
  BlockHeight :: i64

text \<open>An emitted event: its type and its attributes, with the values before they are printed.\<close>

datatype attr = AttrS string | AttrU u64 | AttrI int | AttrD dec | AttrC coin

type_synonym event = "string \<times> (string \<times> attr) list"

section \<open>Parameters\<close>

text \<open>
  A parameter validator takes an \<^verbatim>\<open>interface{}\<close> value, here the tagged union of the types that
  parameters have. \<open>SetParamSet\<close> runs the validator of every pair and panics on the first failure.
\<close>

datatype iface = IUint64 u64 | IDec dec | IString string | IBool bool | ICoin coin

type_synonym param_pair = "string \<times> iface \<times> (iface \<Rightarrow> unit res)"

fun SetParamSet :: "param_pair list \<Rightarrow> unit res" where
  "SetParamSet [] = Ok ()"
| "SetParamSet ((key, i, validate) # ps) = bind_res (panic_on_err (validate i)) (\<lambda>_. SetParamSet ps)"

section \<open>Constants of \<^verbatim>\<open>app/params\<close>\<close>

definition BaseCoinUnit :: string where "BaseCoinUnit = ''usomm''"

definition CoinExponent :: u64 where "CoinExponent = 6"

text \<open>The account of the SDK that collects fees for distribution.\<close>

definition FeeCollectorName :: string where "FeeCollectorName = ''fee_collector''"

section \<open>Errors of the SDK\<close>

abbreviation ErrUnauthorized :: error where "ErrUnauthorized \<equiv> Registered ''sdk'' 4"

abbreviation ErrUnknownRequest :: error where "ErrUnknownRequest \<equiv> Registered ''sdk'' 6"

abbreviation ErrInvalidAddress :: error where "ErrInvalidAddress \<equiv> Registered ''sdk'' 7"

abbreviation ErrNotFound :: error where "ErrNotFound \<equiv> Registered ''sdk'' 38"

section \<open>Signers\<close>

definition MustGetSigner :: "sdk \<Rightarrow> string \<Rightarrow> addr res" where
  "MustGetSigner S signer =
    (case AccAddressFromBech32 S signer of Some a \<Rightarrow> Ok a | None \<Rightarrow> Panic ''invalid signer'')"

section \<open>Reference instances\<close>

text \<open>
  \<open>ref_sdk\<close> rounds half to even, as the SDK documents; \<open>ref_bank\<close> keeps natural balances and refuses
  transfers of invalid coins, of more than the balance, or (for user accounts) to a blocked address.
\<close>

definition round_half_even :: "int \<Rightarrow> int \<Rightarrow> int" where
  "round_half_even n q =
     (let a = \<bar>n\<bar>; r = a mod q; f = a div q;
          m = (if 2 * r < q then f else if 2 * r > q then f + 1 else if even f then f else f + 1)
      in if n < 0 then - m else m)"

definition ref_quo :: "dec \<Rightarrow> dec \<Rightarrow> dec" where
  "ref_quo a b = round_half_even (sgn a * sgn b * ((\<bar>a\<bar> * dec_one * dec_one) div \<bar>b\<bar>)) dec_one"

fun ref_power :: "dec \<Rightarrow> nat \<Rightarrow> dec" where
  "ref_power a 0 = dec_one"
| "ref_power a (Suc n) = round_half_even (ref_power a n * a) dec_one"

text \<open>Decimal text: digits, a point, at most 18 more digits; signs are left out.\<close>

definition ref_NewDecFromStr :: "string \<Rightarrow> dec option" where
  "ref_NewDecFromStr s =
     (let whole = takeWhile (\<lambda>c. c \<noteq> CHR ''.'') s; fraction = drop (Suc (length whole)) s
      in if whole = [] \<or> length fraction > 18 \<or> \<not> list_all (\<lambda>c. c \<in> set ''0123456789'') (whole @ fraction) then None
         else Some (foldl (\<lambda>n c. 10 * n + (of_char c - 48)) 0 (whole @ fraction) * 10 ^ (18 - length fraction)))"

definition ref_sdk :: sdk where
  "ref_sdk = \<lparr>
     Dec_Mul = (\<lambda>a b. round_half_even (a * b) dec_one),
     Dec_Quo = ref_quo,
     Dec_Power = (\<lambda>a n. ref_power a (unat n)),
     Dec_Ceil = (\<lambda>d. - ((- d) div dec_one) * dec_one),
     Dec_TruncateInt = (\<lambda>d. sgn d * (\<bar>d\<bar> div dec_one)),
     Dec_String = (\<lambda>_. ''0''),
     NewDecFromStr = ref_NewDecFromStr,
     ValidateDenom = (\<lambda>d. 3 \<le> length d \<and> length d \<le> 128),
     NewModuleAddress = (\<lambda>m. 255 # string_bytes m),
     AccAddressFromBech32 = (\<lambda>s. if take 5 s = ''somm1'' then Some (string_bytes (drop 5 s)) else None),
     AccAddress_String = (\<lambda>a. ''somm1'' @ map (\<lambda>b. char_of (unat b)) a),
     ValAddressFromBech32 =
       (\<lambda>s. if take 12 s = ''sommvaloper1'' then Some (string_bytes (drop 12 s)) else None),
     ValAddressFromHex = (\<lambda>s. None),
     ValAddress_String = (\<lambda>a. ''sommvaloper1'' @ map (\<lambda>b. char_of (unat b)) a),
     ValidateAbstract = (\<lambda>t d. if t = [] \<or> d = [] then Err (Registered ''gov'' 5) else Ok ()),
     GravityDenomPrefix = ''gravity'' \<rparr>"

type_synonym ref_bank_state = "addr \<Rightarrow> string \<Rightarrow> nat"

definition ref_move :: "ref_bank_state \<Rightarrow> addr \<Rightarrow> addr \<Rightarrow> coin list \<Rightarrow> ref_bank_state res" where
  "ref_move b src dst cs =
     (if (\<forall>c \<in> set cs. 0 < cAmount c \<and> ValidateDenom ref_sdk (cDenom c)) \<and> distinct (map cDenom cs)
      then if \<forall>c \<in> set cs. cAmount c \<le> int (b src (cDenom c))
        then Ok (\<lambda>a d. nat (int (b a d) + moved src dst cs a d))
        else Err (Registered ''sdk'' 5)
      else Err (Registered ''sdk'' 10))"

definition ref_blocked :: "addr \<Rightarrow> bool" where
  "ref_blocked a \<longleftrightarrow> take 1 a = [255]"

definition ref_bank :: "ref_bank_state bank_ops" where
  "ref_bank = \<lparr>
     GetBalance = (\<lambda>b a d. int (b a d)),
     SendCoinsFromModuleToModule =
       (\<lambda>b m n cs. ref_move b (NewModuleAddress ref_sdk m) (NewModuleAddress ref_sdk n) cs),
     SendCoinsFromAccountToModule = (\<lambda>b x n cs. ref_move b x (NewModuleAddress ref_sdk n) cs),
     SendCoinsFromModuleToAccount =
       (\<lambda>b m x cs. if ref_blocked x then Err (Registered ''sdk'' 4)
          else ref_move b (NewModuleAddress ref_sdk m) x cs) \<rparr>"

lemma round_half_even_bound:
  assumes "0 < q"
  shows "2 * \<bar>round_half_even n q * q - n\<bar> \<le> q"
proof -
  define a f r where "a = \<bar>n\<bar>" and "f = a div q" and "r = a mod q"
  define m where
    "m = (if 2 * r < q then f else if 2 * r > q then f + 1 else if even f then f else f + 1)"
  have "0 \<le> r" "r < q" "a = f * q + r" using assms by (simp_all add: f_def r_def)
  then have "2 * \<bar>m * q - a\<bar> \<le> q"
    by (auto simp: m_def distrib_right abs_if)
  moreover have "round_half_even n q = (if n < 0 then - m else m)"
    by (simp add: round_half_even_def Let_def m_def f_def r_def a_def)
  ultimately show ?thesis
    by (auto simp: a_def abs_if split: if_splits)
qed

lemma round_half_even_exact: "0 < q \<Longrightarrow> 0 \<le> n \<Longrightarrow> round_half_even (n * q) q = n"
  by (auto simp: round_half_even_def Let_def mult_less_0_iff)

lemma ref_power_ten: "ref_power (10 * dec_one) n = 10 ^ n * dec_one"
proof (induction n)
  case (Suc n)
  have "10 ^ n * dec_one * (10 * dec_one) = (10 ^ Suc n * dec_one) * dec_one" by simp
  then show ?case
    using Suc round_half_even_exact [OF dec_one_pos, of "10 ^ Suc n * dec_one"]
    by (simp only: ref_power.simps) (simp add: less_imp_le)
qed simp

lemma ref_quo_bounds:
  assumes "0 \<le> a" "0 < b"
  shows "2 * (ref_quo a b * b) \<le> 2 * (a * dec_one) + b"
    and "2 * (a * dec_one * dec_one) \<le> 2 * (ref_quo a b * b * dec_one) + b * dec_one + 2 * b"
proof -
  let ?P = dec_one and ?r = "ref_quo a b"
  define n where "n = a * ?P * ?P div b"
  have r: "?r = round_half_even n ?P"
    using assms by (cases "a = 0") (simp_all add: ref_quo_def n_def less_imp_le)
  have "0 \<le> a * ?P * ?P mod b" "a * ?P * ?P mod b < b" using assms(2) by simp_all
  with div_mult_mod_eq [of "a * ?P * ?P" b, folded n_def]
  have n: "n * b \<le> a * ?P * ?P" "a * ?P * ?P < n * b + b" by linarith+
  have "2 * (?r * ?P - n) \<le> ?P" "2 * (n - ?r * ?P) \<le> ?P"
    using round_half_even_bound [OF dec_one_pos, of n] abs_ge_self [of "?r * ?P - n"]
      abs_ge_minus_self [of "?r * ?P - n"] by (simp_all add: r)
  then have b: "2 * (?r * ?P - n) * b \<le> ?P * b" "2 * (n - ?r * ?P) * b \<le> ?P * b"
    using assms(2) by (simp_all only: mult_right_mono less_imp_le)
  have "(2 * (?r * b)) * ?P \<le> (2 * (a * ?P) + b) * ?P"
    using b(1) n(1) by (simp only: algebra_simps)
  then show "2 * (?r * b) \<le> 2 * (a * ?P) + b"
    by (rule mult_right_le_imp_le) simp
  show "2 * (a * ?P * ?P) \<le> 2 * (?r * b * ?P) + b * ?P + 2 * b"
    using b(2) n(2) by (simp only: algebra_simps)
qed

interpretation ref_dec: sdk_dec ref_sdk
proof
  fix a b d :: dec and n :: u64
  show "2 * \<bar>Dec_Mul ref_sdk a b * dec_one - a * b\<bar> \<le> dec_one"
    by (simp add: ref_sdk_def round_half_even_bound)
  show "Dec_Power ref_sdk (10 * dec_one) n = 10 ^ unat n * dec_one"
    by (simp add: ref_sdk_def ref_power_ten)
  show "Dec_Ceil ref_sdk d = - ((- d) div dec_one) * dec_one"
    by (simp add: ref_sdk_def)
  assume "0 \<le> d"
  then show "Dec_TruncateInt ref_sdk d = d div dec_one"
    by (cases "d = 0") (simp_all add: ref_sdk_def)
qed (simp_all add: ref_sdk_def ref_quo_bounds)

lemma ref_move_balance:
  assumes "ref_move b src dst cs = Ok b'"
  shows "int (b' a d) = int (b a d) + moved src dst cs a d"
proof -
  from assms have cs: "\<forall>c \<in> set cs. 0 < cAmount c \<and> cAmount c \<le> int (b src (cDenom c))" "distinct (map cDenom cs)"
    and b': "b' = (\<lambda>a d. nat (int (b a d) + moved src dst cs a d))"
    by (auto simp: ref_move_def split: if_splits)
  have "0 \<le> amountOf cs d \<and> amountOf cs d \<le> int (b src d)"
  proof (cases "d \<in> cDenom ` set cs")
    case True
    from cs(2) True have "\<exists>c \<in> set cs. cDenom c = d \<and> amountOf cs d = cAmount c"
    proof (induction cs)
      case (Cons x xs)
      have "amountOf xs d = 0" if "d \<notin> cDenom ` set xs"
        using that by (induction xs) auto
      with Cons show ?case by (cases "d = cDenom x") auto
    qed simp
    with cs(1) show ?thesis by force
  next
    case False
    then have "amountOf cs d = 0" by (induction cs) auto
    then show ?thesis by simp
  qed
  then show ?thesis by (simp add: b' moved_def)
qed

lemma ref_move_funds:
  "3 \<le> length (cDenom c) \<Longrightarrow> length (cDenom c) \<le> 128 \<Longrightarrow> 0 < cAmount c \<Longrightarrow>
    cAmount c \<le> int (b src (cDenom c)) \<Longrightarrow> \<exists>b'. ref_move b src dst [c] = Ok b'"
  by (simp add: ref_move_def ref_sdk_def)

interpretation ref_bk: bank_keeper ref_bank "NewModuleAddress ref_sdk" "\<lambda>_. True"
  "ValidateDenom ref_sdk" ref_blocked
  by unfold_locales
    (auto simp: ref_bank_def ref_move_balance ref_sdk_def intro!: ref_move_funds split: if_splits)

interpretation ref_env: chain_env ref_sdk ref_bank "\<lambda>_. True" ref_blocked
  by unfold_locales

end
