(* ===== verification/Auction_Types.thy ===== *)
theory Auction_Types
  imports Sdk
begin

text \<open>
  The data of the auction module (\<^verbatim>\<open>x/auction/types\<close>): auctions, bids, token prices,
  parameters, messages, proposals and genesis, with the stateless validation of each; the keys of the
  module's store; the sentinel errors. \<^verbatim>\<open>interface{}\<close> arguments of parameter validators
  are the tagged union \<open>iface\<close>.
\<close>

section \<open>Errors\<close>

abbreviation ErrCouldNotFindSaleTokenPrice :: error where
  "ErrCouldNotFindSaleTokenPrice \<equiv> Registered ''auction'' 2"

abbreviation ErrCouldNotFindSommTokenPrice :: error where
  "ErrCouldNotFindSommTokenPrice \<equiv> Registered ''auction'' 3"

abbreviation ErrLastSaleTokenPriceTooOld :: error where
  "ErrLastSaleTokenPriceTooOld \<equiv> Registered ''auction'' 4"

abbreviation ErrLastSommTokenPriceTooOld :: error where
  "ErrLastSommTokenPriceTooOld \<equiv> Registered ''auction'' 5"

abbreviation ErrAuctionStartingAmountMustBePositve :: error where
  "ErrAuctionStartingAmountMustBePositve \<equiv> Registered ''auction'' 6"

abbreviation ErrCannotAuctionUsomm :: error where
  "ErrCannotAuctionUsomm \<equiv> Registered ''auction'' 7"

abbreviation ErrInvalidInitialDecreaseRate :: error where
  "ErrInvalidInitialDecreaseRate \<equiv> Registered ''auction'' 8"

abbreviation ErrInvalidBlockDecreaseInterval :: error where
  "ErrInvalidBlockDecreaseInterval \<equiv> Registered ''auction'' 9"

abbreviation ErrUnauthorizedFundingModule :: error where
  "ErrUnauthorizedFundingModule \<equiv> Registered ''auction'' 10"

abbreviation ErrUnauthorizedProceedsModule :: error where
  "ErrUnauthorizedProceedsModule \<equiv> Registered ''auction'' 11"

abbreviation ErrCannotStartTwoAuctionsForSameDenomSimultaneously :: error where
  "ErrCannotStartTwoAuctionsForSameDenomSimultaneously \<equiv> Registered ''auction'' 12"

abbreviation ErrAuctionNotFound :: error where
  "ErrAuctionNotFound \<equiv> Registered ''auction'' 14"

abbreviation ErrBidAuctionDenomMismatch :: error where
  "ErrBidAuctionDenomMismatch \<equiv> Registered ''auction'' 15"

abbreviation ErrInsufficientBid :: error where
  "ErrInsufficientBid \<equiv> Registered ''auction'' 17"

abbreviation ErrMinimumPurchaseAmountLargerThanTokensRemaining :: error where
  "ErrMinimumPurchaseAmountLargerThanTokensRemaining \<equiv> Registered ''auction'' 18"

abbreviation ErrAuctionIDMustBeNonZero :: error where
  "ErrAuctionIDMustBeNonZero \<equiv> Registered ''auction'' 19"

abbreviation ErrInvalidStartBlock :: error where
  "ErrInvalidStartBlock \<equiv> Registered ''auction'' 20"

abbreviation ErrInvalidCurrentDecreaseRate :: error where
  "ErrInvalidCurrentDecreaseRate \<equiv> Registered ''auction'' 21"

abbreviation ErrPriceMustBePositive :: error where
  "ErrPriceMustBePositive \<equiv> Registered ''auction'' 22"

abbreviation ErrDenomCannotBeEmpty :: error where
  "ErrDenomCannotBeEmpty \<equiv> Registered ''auction'' 23"

abbreviation ErrInvalidLastUpdatedBlock :: error where
  "ErrInvalidLastUpdatedBlock \<equiv> Registered ''auction'' 24"

abbreviation ErrBidIDMustBeNonZero :: error where
  "ErrBidIDMustBeNonZero \<equiv> Registered ''auction'' 25"

abbreviation ErrBidAmountMustBePositive :: error where
  "ErrBidAmountMustBePositive \<equiv> Registered ''auction'' 26"

abbreviation ErrBidMustBeInUsomm :: error where
  "ErrBidMustBeInUsomm \<equiv> Registered ''auction'' 27"

abbreviation ErrInvalidTokenBeingBidOn :: error where
  "ErrInvalidTokenBeingBidOn \<equiv> Registered ''auction'' 28"

abbreviation ErrMinimumAmountMustBePositive :: error where
  "ErrMinimumAmountMustBePositive \<equiv> Registered ''auction'' 29"

abbreviation ErrAddressExpected :: error where
  "ErrAddressExpected \<equiv> Registered ''auction'' 30"

abbreviation ErrBidUnitPriceInUsommMustBePositive :: error where
  "ErrBidUnitPriceInUsommMustBePositive \<equiv> Registered ''auction'' 31"

abbreviation ErrInvalidTokenPriceDenom :: error where
  "ErrInvalidTokenPriceDenom \<equiv> Registered ''auction'' 32"

abbreviation ErrTokenPriceProposalAttemptsToUpdateTokenPriceMoreThanOnce :: error where
  "ErrTokenPriceProposalAttemptsToUpdateTokenPriceMoreThanOnce \<equiv> Registered ''auction'' 33"

abbreviation ErrTokenPriceMaxBlockAgeMustBePositive :: error where
  "ErrTokenPriceMaxBlockAgeMustBePositive \<equiv> Registered ''auction'' 34"

abbreviation ErrInvalidPriceMaxBlockAgeParameterType :: error where
  "ErrInvalidPriceMaxBlockAgeParameterType \<equiv> Registered ''auction'' 35"

abbreviation ErrTokenPriceProposalMustHaveAtLeastOnePrice :: error where
  "ErrTokenPriceProposalMustHaveAtLeastOnePrice \<equiv> Registered ''auction'' 36"

abbreviation ErrBidFulfilledSaleTokenAmountMustBeNonNegative :: error where
  "ErrBidFulfilledSaleTokenAmountMustBeNonNegative \<equiv> Registered ''auction'' 37"

abbreviation ErrBidPaymentCannotBeNegative :: error where
  "ErrBidPaymentCannotBeNegative \<equiv> Registered ''auction'' 38"

abbreviation ErrBidAmountIsTooSmall :: error where
  "ErrBidAmountIsTooSmall \<equiv> Registered ''auction'' 39"

abbreviation ErrMinimumBidParam :: error where
  "ErrMinimumBidParam \<equiv> Registered ''auction'' 40"

abbreviation ErrInvalidAuctionMaxBlockAgeParam :: error where
  "ErrInvalidAuctionMaxBlockAgeParam \<equiv> Registered ''auction'' 41"

abbreviation ErrInvalidAuctionPriceDecreaseAccelerationRateParam :: error where
  "ErrInvalidAuctionPriceDecreaseAccelerationRateParam \<equiv> Registered ''auction'' 42"

abbreviation ErrTokenPriceExponentTooHigh :: error where
  "ErrTokenPriceExponentTooHigh \<equiv> Registered ''auction'' 43"

abbreviation ErrInvalidMinimumSaleTokensUSDValue :: error where
  "ErrInvalidMinimumSaleTokensUSDValue \<equiv> Registered ''auction'' 44"

abbreviation ErrInvalidMinimumAuctionHeightParam :: error where
  "ErrInvalidMinimumAuctionHeightParam \<equiv> Registered ''auction'' 46"

abbreviation ErrAuctionBelowMinimumHeight :: error where
  "ErrAuctionBelowMinimumHeight \<equiv> Registered ''auction'' 47"

text \<open>Sentinels of the SDK (\<^verbatim>\<open>types/errors\<close>) that the modules wrap.\<close>

section \<open>Messages\<close>

record auction =
  a_Id :: u32
  a_StartingTokensForSale :: coin
  a_StartBlock :: u64
  a_EndBlock :: u64
  a_InitialPriceDecreaseRate :: dec
  a_CurrentPriceDecreaseRate :: dec
  a_PriceDecreaseBlockInterval :: u64
  a_InitialUnitPriceInUsomm :: dec
  a_CurrentUnitPriceInUsomm :: dec
  a_RemainingTokensForSale :: coin
  a_FundingModuleAccount :: string
  a_ProceedsModuleAccount :: string

record bid =
  b_Id :: u64
  b_AuctionId :: u32
  b_Bidder :: string
  b_MaxBidInUsomm :: coin
  b_SaleTokenMinimumAmount :: coin
  b_TotalFulfilledSaleTokens :: coin
  b_SaleTokenUnitPriceInUsomm :: dec
  b_TotalUsommPaid :: coin
  b_BlockHeight :: u64

record token_price =
  tp_Denom :: string
  tp_Exponent :: u64
  tp_UsdPrice :: dec
  tp_LastUpdatedBlock :: u64

record proposed_token_price =
  ptp_Denom :: string
  ptp_Exponent :: u64
  ptp_UsdPrice :: dec

record auction_params =
  PriceMaxBlockAge :: u64
  MinimumBidInUsomm :: u64
  MinimumSaleTokensUsdValue :: dec
  AuctionMaxBlockAge :: u64
  AuctionPriceDecreaseAccelerationRate :: dec
  MinimumAuctionHeight :: u64

record auction_genesis =
  ag_Params :: auction_params
  ag_Auctions :: "auction list"
  ag_Bids :: "bid list"
  ag_TokenPrices :: "token_price list"
  ag_LastAuctionId :: u32
  ag_LastBidId :: u64

record msg_submit_bid =
  mb_AuctionId :: u32
  mb_MaxBidInUsomm :: coin
  mb_SaleTokenMinimumAmount :: coin
  mb_Signer :: string

record set_token_prices_proposal =
  stp_Title :: string
  stp_Description :: string
  stp_TokenPrices :: "proposed_token_price list"

section \<open>Stateless validation\<close>

definition Auction_ValidateBasic :: "sdk \<Rightarrow> auction \<Rightarrow> unit res" where
  "Auction_ValidateBasic S a =
    (if a_Id a = 0 then Err (Wrapped ErrAuctionIDMustBeNonZero)
     else if \<not> Coin_IsValid S (a_StartingTokensForSale a) \<or> \<not> Coin_IsPositive (a_StartingTokensForSale a)
       then Err (Wrapped ErrAuctionStartingAmountMustBePositve)
     else if cDenom (a_StartingTokensForSale a) = BaseCoinUnit then Err (Wrapped ErrCannotAuctionUsomm)
     else if a_StartBlock a = 0 then Err (Wrapped ErrInvalidStartBlock)
     else if a_InitialPriceDecreaseRate a \<le> 0 \<or> dec_one \<le> a_InitialPriceDecreaseRate a
       then Err (Wrapped ErrInvalidInitialDecreaseRate)
     else if a_CurrentPriceDecreaseRate a \<le> 0 \<or> dec_one \<le> a_CurrentPriceDecreaseRate a
       then Err (Wrapped ErrInvalidCurrentDecreaseRate)
     else if a_PriceDecreaseBlockInterval a = 0 then Err (Wrapped ErrInvalidBlockDecreaseInterval)
     else if \<not> 0 < a_InitialUnitPriceInUsomm a then Err (Wrapped ErrPriceMustBePositive)
     else if \<not> 0 < a_CurrentUnitPriceInUsomm a then Err (Wrapped ErrPriceMustBePositive)
     else if a_FundingModuleAccount a = '''' then Err (Wrapped ErrUnauthorizedFundingModule)
     else if a_ProceedsModuleAccount a = '''' then Err (Wrapped ErrUnauthorizedFundingModule)
     else Ok ())"

definition Bid_ValidateBasic :: "sdk \<Rightarrow> bid \<Rightarrow> unit res" where
  "Bid_ValidateBasic S b =
    (if b_Id b = 0 then Err (Wrapped ErrBidIDMustBeNonZero)
     else if b_AuctionId b = 0 then Err (Wrapped ErrAuctionIDMustBeNonZero)
     else if b_Bidder b = '''' then Err (Wrapped ErrAddressExpected)
     else if AccAddressFromBech32 S (b_Bidder b) = None then Err (Wrapped ErrInvalidAddress)
     else if \<not> Coin_IsValid S (b_MaxBidInUsomm b) \<or> \<not> Coin_IsPositive (b_MaxBidInUsomm b)
       then Err (Wrapped ErrBidAmountMustBePositive)
     else if cDenom (b_MaxBidInUsomm b) \<noteq> BaseCoinUnit then Err (Wrapped ErrBidMustBeInUsomm)
     else if \<not> prefix (GravityDenomPrefix S) (cDenom (b_SaleTokenMinimumAmount b))
       then Err (Wrapped ErrInvalidTokenBeingBidOn)
     else if \<not> Coin_IsValid S (b_SaleTokenMinimumAmount b) \<or> \<not> Coin_IsPositive (b_SaleTokenMinimumAmount b)
       then Err (Wrapped ErrMinimumAmountMustBePositive)
     else if \<not> Coin_IsValid S (b_TotalFulfilledSaleTokens b)
       then Err (Wrapped ErrBidFulfilledSaleTokenAmountMustBeNonNegative)
     else if \<not> 0 < b_SaleTokenUnitPriceInUsomm b then Err (Wrapped ErrBidUnitPriceInUsommMustBePositive)
     else if cAmount (b_TotalUsommPaid b) < 0 then Err (Wrapped ErrBidPaymentCannotBeNegative)
     else if cDenom (b_TotalUsommPaid b) \<noteq> BaseCoinUnit then Err (Wrapped ErrBidMustBeInUsomm)
     else Ok ())"

definition TokenPrice_ValidateBasic :: "sdk \<Rightarrow> token_price \<Rightarrow> unit res" where
  "TokenPrice_ValidateBasic S t =
    (if tp_Denom t = '''' then Err (Wrapped ErrDenomCannotBeEmpty)
     else if \<not> 0 < tp_UsdPrice t then Err (Wrapped ErrPriceMustBePositive)
     else if tp_LastUpdatedBlock t = 0 then Err (Wrapped ErrInvalidLastUpdatedBlock)
     else if \<not> prefix (GravityDenomPrefix S) (tp_Denom t) \<and> tp_Denom t \<noteq> BaseCoinUnit
       then Err (Wrapped ErrInvalidTokenPriceDenom)
     else if tp_Exponent t > 18 then Err (Wrapped ErrTokenPriceExponentTooHigh)
     else Ok ())"

definition ProposedTokenPrice_ValidateBasic :: "sdk \<Rightarrow> proposed_token_price \<Rightarrow> unit res" where
  "ProposedTokenPrice_ValidateBasic S t =
    (if ptp_Denom t = '''' then Err (Wrapped ErrDenomCannotBeEmpty)
     else if \<not> 0 < ptp_UsdPrice t then Err (Wrapped ErrPriceMustBePositive)
     else if \<not> prefix (GravityDenomPrefix S) (ptp_Denom t) \<and> ptp_Denom t \<noteq> BaseCoinUnit
       then Err (Wrapped ErrInvalidTokenPriceDenom)
     else if ptp_Exponent t > 18 then Err (Wrapped ErrTokenPriceExponentTooHigh)
     else Ok ())"

definition MsgSubmitBid_ValidateBasic :: "sdk \<Rightarrow> msg_submit_bid \<Rightarrow> unit res" where
  "MsgSubmitBid_ValidateBasic S m =
    (if mb_AuctionId m = 0 then Err (Wrapped ErrAuctionIDMustBeNonZero)
     else if cDenom (mb_MaxBidInUsomm m) \<noteq> BaseCoinUnit then Err (Wrapped ErrBidMustBeInUsomm)
     else if \<not> Coin_IsValid S (mb_MaxBidInUsomm m) \<or> \<not> Coin_IsPositive (mb_MaxBidInUsomm m)
       then Err (Wrapped ErrBidAmountMustBePositive)
     else if \<not> Coin_IsValid S (mb_SaleTokenMinimumAmount m) \<or> \<not> Coin_IsPositive (mb_SaleTokenMinimumAmount m)
       then Err (Wrapped ErrMinimumAmountMustBePositive)
     else if \<not> prefix ''gravity0x'' (cDenom (mb_SaleTokenMinimumAmount m))
       then Err (Wrapped ErrInvalidTokenBeingBidOn)
     else if AccAddressFromBech32 S (mb_Signer m) = None then Err (Wrapped ErrInvalidAddress)
     else Ok ())"

definition NewMsgSubmitBidRequest :: "sdk \<Rightarrow> u32 \<Rightarrow> coin \<Rightarrow> coin \<Rightarrow> addr \<Rightarrow> msg_submit_bid" where
  "NewMsgSubmitBidRequest S auctionID maxBid saleMin signer =
    \<lparr>mb_AuctionId = auctionID, mb_MaxBidInUsomm = maxBid, mb_SaleTokenMinimumAmount = saleMin,
     mb_Signer = AccAddress_String S signer\<rparr>"

fun check_token_prices :: "sdk \<Rightarrow> string list \<Rightarrow> proposed_token_price list \<Rightarrow> unit res" where
  "check_token_prices S seen [] = Ok ()"
| "check_token_prices S seen (t # ts) =
    (if ptp_Denom t \<in> set seen
       then Err (Wrapped ErrTokenPriceProposalAttemptsToUpdateTokenPriceMoreThanOnce)
     else bind_res (ProposedTokenPrice_ValidateBasic S t)
            (\<lambda>_. check_token_prices S (seen @ [ptp_Denom t]) ts))"

definition SetTokenPricesProposal_ValidateBasic :: "sdk \<Rightarrow> set_token_prices_proposal \<Rightarrow> unit res" where
  "SetTokenPricesProposal_ValidateBasic S m =
    bind_res (ValidateAbstract S (stp_Title m) (stp_Description m)) (\<lambda>_.
    if stp_TokenPrices m = [] then Err (Wrapped ErrTokenPriceProposalMustHaveAtLeastOnePrice)
    else check_token_prices S [] (stp_TokenPrices m))"

section \<open>Parameters\<close>

definition validatePriceMaxBlockAge :: "iface \<Rightarrow> unit res" where
  "validatePriceMaxBlockAge i = (case i of
      IUint64 v \<Rightarrow> if v = 0 then Err (Wrapped ErrTokenPriceMaxBlockAgeMustBePositive) else Ok ()
    | _ \<Rightarrow> Err (Wrapped ErrInvalidPriceMaxBlockAgeParameterType))"

definition validateMinimumBidInUsomm :: "iface \<Rightarrow> unit res" where
  "validateMinimumBidInUsomm i = (case i of IUint64 _ \<Rightarrow> Ok () | _ \<Rightarrow> Err (Wrapped ErrMinimumBidParam))"

definition validateMinimumSaleTokensUSDValue :: "iface \<Rightarrow> unit res" where
  "validateMinimumSaleTokensUSDValue i = (case i of
      IDec v \<Rightarrow> if v < dec_one then Err (Wrapped ErrInvalidMinimumSaleTokensUSDValue) else Ok ()
    | _ \<Rightarrow> Err (Wrapped ErrInvalidMinimumSaleTokensUSDValue))"

definition validateAuctionMaxBlockAge :: "iface \<Rightarrow> unit res" where
  "validateAuctionMaxBlockAge i =
    (case i of IUint64 _ \<Rightarrow> Ok () | _ \<Rightarrow> Err (Wrapped ErrInvalidAuctionMaxBlockAgeParam))"

definition validateAuctionPriceDecreaseAccelerationRate :: "iface \<Rightarrow> unit res" where
  "validateAuctionPriceDecreaseAccelerationRate i = (case i of
      IDec v \<Rightarrow> if v < 0 \<or> v > dec_one
        then Err (Wrapped ErrInvalidAuctionPriceDecreaseAccelerationRateParam) else Ok ()
    | _ \<Rightarrow> Err (Wrapped ErrInvalidAuctionPriceDecreaseAccelerationRateParam))"

definition validateMinimumAuctionHeight :: "iface \<Rightarrow> unit res" where
  "validateMinimumAuctionHeight i =
    (case i of IUint64 _ \<Rightarrow> Ok () | _ \<Rightarrow> Err (Wrapped ErrInvalidMinimumAuctionHeightParam))"

definition auction_DefaultParams :: auction_params where
  "auction_DefaultParams = \<lparr>PriceMaxBlockAge = 806400, MinimumBidInUsomm = 1000000,
     MinimumSaleTokensUsdValue = dec_one, AuctionMaxBlockAge = 864000,
     AuctionPriceDecreaseAccelerationRate = dec_one div 1000, MinimumAuctionHeight = 0\<rparr>"

definition auction_ParamSetPairs :: "auction_params \<Rightarrow> param_pair list" where
  "auction_ParamSetPairs p =
    [(''PriceMaxBlockAge'', IUint64 (PriceMaxBlockAge p), validatePriceMaxBlockAge),
     (''MinimumBidInUsomm'', IUint64 (MinimumBidInUsomm p), validateMinimumBidInUsomm),
     (''MinimumSaleTokensUSDValue'', IDec (MinimumSaleTokensUsdValue p), validateMinimumSaleTokensUSDValue),
     (''AuctionMaxBlockAge'', IUint64 (AuctionMaxBlockAge p), validateAuctionMaxBlockAge),
     (''AuctionPriceDecreaseAccelerationRate'', IDec (AuctionPriceDecreaseAccelerationRate p),
        validateAuctionPriceDecreaseAccelerationRate),
     (''MinimumAuctionHeight'', IUint64 (MinimumAuctionHeight p), validateMinimumAuctionHeight)]"

definition auction_Params_ValidateBasic :: "auction_params \<Rightarrow> unit res" where
  "auction_Params_ValidateBasic p =
    bind_res (validatePriceMaxBlockAge (IUint64 (PriceMaxBlockAge p))) (\<lambda>_.
    bind_res (validateMinimumBidInUsomm (IUint64 (MinimumBidInUsomm p))) (\<lambda>_.
    bind_res (validateMinimumSaleTokensUSDValue (IDec (MinimumSaleTokensUsdValue p))) (\<lambda>_.
    bind_res (validateAuctionMaxBlockAge (IUint64 (AuctionMaxBlockAge p))) (\<lambda>_.
    validateAuctionPriceDecreaseAccelerationRate (IDec (AuctionPriceDecreaseAccelerationRate p))))))"

section \<open>Genesis\<close>

definition auction_DefaultGenesisState :: auction_genesis where
  "auction_DefaultGenesisState = \<lparr>ag_Params = auction_DefaultParams, ag_Auctions = [], ag_Bids = [],
     ag_TokenPrices = [], ag_LastAuctionId = 0, ag_LastBidId = 0\<rparr>"

definition auction_Genesis_Validate :: "sdk \<Rightarrow> auction_genesis \<Rightarrow> unit res" where
  "auction_Genesis_Validate S gs =
    bind_res (auction_Params_ValidateBasic (ag_Params gs)) (\<lambda>_.
    bind_res (fold_res (\<lambda>a _. Auction_ValidateBasic S a) (ag_Auctions gs) ()) (\<lambda>_.
    bind_res (fold_res (\<lambda>b _. Bid_ValidateBasic S b) (ag_Bids gs) ()) (\<lambda>_.
    fold_res (\<lambda>t _. TokenPrice_ValidateBasic S t) (ag_TokenPrices gs) ())))"

section \<open>Keys\<close>

definition GetActiveAuctionsPrefix :: bytes where "GetActiveAuctionsPrefix = [1]"

definition GetActiveAuctionKey :: "u32 \<Rightarrow> bytes" where
  "GetActiveAuctionKey auctionID = GetActiveAuctionsPrefix @ PutUint32 auctionID"

definition GetEndedAuctionsPrefix :: bytes where "GetEndedAuctionsPrefix = [2]"

definition GetEndedAuctionKey :: "u32 \<Rightarrow> bytes" where
  "GetEndedAuctionKey auctionID = GetEndedAuctionsPrefix @ PutUint32 auctionID"

definition GetBidsByAuctionPrefix :: bytes where "GetBidsByAuctionPrefix = [3]"

definition GetBidsByAuctionIDPrefix :: "u32 \<Rightarrow> bytes" where
  "GetBidsByAuctionIDPrefix auctionID = GetBidsByAuctionPrefix @ PutUint32 auctionID"

definition GetBidKey :: "u32 \<Rightarrow> u64 \<Rightarrow> bytes" where
  "GetBidKey auctionID bidID = GetBidsByAuctionIDPrefix auctionID @ PutUint64 bidID"

definition GetTokenPricesPrefix :: bytes where "GetTokenPricesPrefix = [4]"

definition GetTokenPriceKey :: "string \<Rightarrow> bytes" where
  "GetTokenPriceKey denom = GetTokenPricesPrefix @ string_bytes denom"

definition GetLastAuctionIDKey :: bytes where "GetLastAuctionIDKey = [5]"

definition GetLastBidIDKey :: bytes where "GetLastBidIDKey = [6]"

subsection \<open>How the keys compare\<close>

lemmas auction_key_defs = GetActiveAuctionsPrefix_def GetActiveAuctionKey_def GetEndedAuctionsPrefix_def
  GetEndedAuctionKey_def GetBidsByAuctionPrefix_def GetBidsByAuctionIDPrefix_def GetBidKey_def
  GetTokenPricesPrefix_def GetTokenPriceKey_def GetLastAuctionIDKey_def GetLastBidIDKey_def

lemma auction_keys_inject [simp, key_simps]:
  "GetActiveAuctionKey i = GetActiveAuctionKey j \<longleftrightarrow> i = j"
  "GetEndedAuctionKey i = GetEndedAuctionKey j \<longleftrightarrow> i = j"
  "GetBidKey i m = GetBidKey j n \<longleftrightarrow> i = j \<and> m = n"
  "GetTokenPriceKey d = GetTokenPriceKey e \<longleftrightarrow> d = e"
  "GetActiveAuctionKey i \<noteq> GetEndedAuctionKey j"
  "GetEndedAuctionKey j \<noteq> GetActiveAuctionKey i"
  "GetLastAuctionIDKey \<noteq> GetLastBidIDKey"
  "GetLastBidIDKey \<noteq> GetLastAuctionIDKey"
  by (simp_all add: auction_key_defs)

lemma auction_key_prefixes [simp, key_simps]:
  "prefix GetActiveAuctionsPrefix (GetActiveAuctionKey i)"
  "\<not> prefix GetActiveAuctionsPrefix (GetEndedAuctionKey i)"
  "prefix GetEndedAuctionsPrefix (GetEndedAuctionKey i)"
  "\<not> prefix GetEndedAuctionsPrefix (GetActiveAuctionKey i)"
  "prefix GetBidsByAuctionPrefix (GetBidKey i n)"
  "prefix (GetBidsByAuctionIDPrefix i) (GetBidKey j n) \<longleftrightarrow> i = j"
  "prefix GetTokenPricesPrefix (GetTokenPriceKey d)"
  by (simp_all add: auction_key_defs)

lemma auction_keys_less [simp]:
  "GetActiveAuctionKey i < GetActiveAuctionKey j \<longleftrightarrow> i < j"
  "GetEndedAuctionKey i < GetEndedAuctionKey j \<longleftrightarrow> i < j"
  "GetBidKey i m < GetBidKey i n \<longleftrightarrow> m < n"
  by (simp_all add: auction_key_defs append_less_append_iff)

section \<open>What validation establishes\<close>

lemma Auction_ValidateBasic_Ok:
  "Auction_ValidateBasic S a = Ok () \<longleftrightarrow>
    a_Id a \<noteq> 0 \<and> ValidateDenom S (cDenom (a_StartingTokensForSale a)) \<and>
    0 < cAmount (a_StartingTokensForSale a) \<and> cDenom (a_StartingTokensForSale a) \<noteq> BaseCoinUnit \<and>
    a_StartBlock a \<noteq> 0 \<and> 0 < a_InitialPriceDecreaseRate a \<and> a_InitialPriceDecreaseRate a < dec_one \<and>
    0 < a_CurrentPriceDecreaseRate a \<and> a_CurrentPriceDecreaseRate a < dec_one \<and>
    a_PriceDecreaseBlockInterval a \<noteq> 0 \<and> 0 < a_InitialUnitPriceInUsomm a \<and>
    0 < a_CurrentUnitPriceInUsomm a \<and> a_FundingModuleAccount a \<noteq> '''' \<and> a_ProceedsModuleAccount a \<noteq> ''''"
  by (auto simp: Auction_ValidateBasic_def Coin_IsValid_def Coin_IsPositive_def)

lemma Bid_ValidateBasic_Ok:
  "Bid_ValidateBasic S b = Ok () \<longleftrightarrow>
    b_Id b \<noteq> 0 \<and> b_AuctionId b \<noteq> 0 \<and> b_Bidder b \<noteq> '''' \<and> AccAddressFromBech32 S (b_Bidder b) \<noteq> None \<and>
    ValidateDenom S (cDenom (b_MaxBidInUsomm b)) \<and> 0 < cAmount (b_MaxBidInUsomm b) \<and>
    cDenom (b_MaxBidInUsomm b) = BaseCoinUnit \<and>
    prefix (GravityDenomPrefix S) (cDenom (b_SaleTokenMinimumAmount b)) \<and>
    ValidateDenom S (cDenom (b_SaleTokenMinimumAmount b)) \<and> 0 < cAmount (b_SaleTokenMinimumAmount b) \<and>
    ValidateDenom S (cDenom (b_TotalFulfilledSaleTokens b)) \<and> 0 \<le> cAmount (b_TotalFulfilledSaleTokens b) \<and>
    0 < b_SaleTokenUnitPriceInUsomm b \<and> 0 \<le> cAmount (b_TotalUsommPaid b) \<and>
    cDenom (b_TotalUsommPaid b) = BaseCoinUnit"
  by (auto simp: Bid_ValidateBasic_def Coin_IsValid_def Coin_IsPositive_def)

lemma MsgSubmitBid_ValidateBasic_Ok:
  "MsgSubmitBid_ValidateBasic S m = Ok () \<longleftrightarrow>
    mb_AuctionId m \<noteq> 0 \<and> cDenom (mb_MaxBidInUsomm m) = BaseCoinUnit \<and>
    ValidateDenom S BaseCoinUnit \<and> 0 < cAmount (mb_MaxBidInUsomm m) \<and>
    ValidateDenom S (cDenom (mb_SaleTokenMinimumAmount m)) \<and> 0 < cAmount (mb_SaleTokenMinimumAmount m) \<and>
    prefix ''gravity0x'' (cDenom (mb_SaleTokenMinimumAmount m)) \<and> AccAddressFromBech32 S (mb_Signer m) \<noteq> None"
  by (auto simp: MsgSubmitBid_ValidateBasic_def Coin_IsValid_def Coin_IsPositive_def)

lemma TokenPrice_ValidateBasic_Ok:
  "TokenPrice_ValidateBasic S t = Ok () \<longleftrightarrow>
    tp_Denom t \<noteq> '''' \<and> 0 < tp_UsdPrice t \<and> tp_LastUpdatedBlock t \<noteq> 0 \<and>
    (prefix (GravityDenomPrefix S) (tp_Denom t) \<or> tp_Denom t = BaseCoinUnit) \<and> tp_Exponent t \<le> 18"
  by (auto simp: TokenPrice_ValidateBasic_def not_less)

lemma ProposedTokenPrice_ValidateBasic_Ok:
  "ProposedTokenPrice_ValidateBasic S t = Ok () \<longleftrightarrow>
    ptp_Denom t \<noteq> '''' \<and> 0 < ptp_UsdPrice t \<and>
    (prefix (GravityDenomPrefix S) (ptp_Denom t) \<or> ptp_Denom t = BaseCoinUnit) \<and> ptp_Exponent t \<le> 18"
  by (auto simp: ProposedTokenPrice_ValidateBasic_def not_less)

lemma check_token_prices_Ok:
  "check_token_prices S seen ts = Ok () \<longleftrightarrow>
    distinct (map ptp_Denom ts) \<and> set seen \<inter> ptp_Denom ` set ts = {} \<and>
    (\<forall>t \<in> set ts. ProposedTokenPrice_ValidateBasic S t = Ok ())"
  by (induction S seen ts rule: check_token_prices.induct) auto

definition auction_params_ok :: "auction_params \<Rightarrow> bool" where
  "auction_params_ok p \<longleftrightarrow> PriceMaxBlockAge p \<noteq> 0 \<and> dec_one \<le> MinimumSaleTokensUsdValue p \<and>
    0 \<le> AuctionPriceDecreaseAccelerationRate p \<and> AuctionPriceDecreaseAccelerationRate p \<le> dec_one"

lemmas auction_validators = validatePriceMaxBlockAge_def validateMinimumBidInUsomm_def
  validateMinimumSaleTokensUSDValue_def validateAuctionMaxBlockAge_def
  validateAuctionPriceDecreaseAccelerationRate_def validateMinimumAuctionHeight_def

lemma auction_Params_ValidateBasic_Ok: "auction_Params_ValidateBasic p = Ok () \<longleftrightarrow> auction_params_ok p"
  by (auto simp: auction_Params_ValidateBasic_def auction_validators auction_params_ok_def)

lemma auction_SetParamSet_Ok: "SetParamSet (auction_ParamSetPairs p) = Ok u \<longleftrightarrow> auction_params_ok p"
  by (auto simp: auction_ParamSetPairs_def auction_validators auction_params_ok_def)

lemma fold_res_unit_Ok: "fold_res (\<lambda>x _. f x) xs () = Ok () \<longleftrightarrow> (\<forall>x \<in> set xs. f x = Ok ())"
  by (induction xs) auto

end
