(* ===== verification/Auction_Keeper.thy ===== *)
theory Auction_Keeper
  imports Auction_Types
begin

text \<open>
  The keeper of the auction module (\<^verbatim>\<open>x/auction/keeper\<close>, \<^verbatim>\<open>x/auction/handler.go\<close>): its state
  and its operations. The state \<open>auction_state\<close> holds the parameters, the typed parts of the
  module's store, the bank and the events emitted so far; the keeper \<open>auction_keeper\<close> holds what the Go
  struct holds besides store keys and codec. Operations take the keeper, the context and the state,
  and return the new state, an error or a panic. A returned error carries no state: the callers
  either revert (messages, proposals) or the error precedes every write. Slices collected by an
  iterator before a loop are snapshots, as in the code.
\<close>

section \<open>Keeper and state\<close>

record 'b auction_keeper =
  ak_sdk :: sdk
  ak_bank :: "'b bank_ops"
  ak_GetModuleAccount :: "string \<Rightarrow> addr option"
  fundingModuleAccounts :: "string \<rightharpoonup> bool"
  proceedsModuleAccounts :: "string \<rightharpoonup> bool"

record 'b auction_state =
  st_params :: auction_params
  st_auctions :: "auction kvstore"
  st_bids :: "bid kvstore"
  st_prices :: "token_price kvstore"
  st_ids :: "bytes kvstore"
  st_bank :: 'b
  st_events :: "event list"

definition auction_ModuleName :: string where "auction_ModuleName = ''auction''"

definition auction_emit :: "event \<Rightarrow> 'b auction_state \<Rightarrow> 'b auction_state" where
  "auction_emit e st = st\<lparr>st_events := st_events st @ [e]\<rparr>"

definition auction_setParams :: "'b auction_state \<Rightarrow> auction_params \<Rightarrow> 'b auction_state res" where
  "auction_setParams st p = bind_res (SetParamSet (auction_ParamSetPairs p)) (\<lambda>_. Ok (st\<lparr>st_params := p\<rparr>))"

section \<open>Auctions, bids, prices and ids in the store\<close>

definition GetActiveAuctionByID :: "'b auction_state \<Rightarrow> u32 \<Rightarrow> auction option" where
  "GetActiveAuctionByID st i = kv_get (st_auctions st) (GetActiveAuctionKey i)"

definition deleteActiveAuction :: "'b auction_state \<Rightarrow> u32 \<Rightarrow> 'b auction_state" where
  "deleteActiveAuction st i = st\<lparr>st_auctions := kv_del (st_auctions st) (GetActiveAuctionKey i)\<rparr>"

definition deleteEndedAuction :: "'b auction_state \<Rightarrow> u32 \<Rightarrow> 'b auction_state" where
  "deleteEndedAuction st i = st\<lparr>st_auctions := kv_del (st_auctions st) (GetEndedAuctionKey i)\<rparr>"

definition deleteBid :: "'b auction_state \<Rightarrow> u32 \<Rightarrow> u64 \<Rightarrow> 'b auction_state" where
  "deleteBid st auctionID bidID = st\<lparr>st_bids := kv_del (st_bids st) (GetBidKey auctionID bidID)\<rparr>"

definition GetEndedAuctionByID :: "'b auction_state \<Rightarrow> u32 \<Rightarrow> auction option" where
  "GetEndedAuctionByID st i = kv_get (st_auctions st) (GetEndedAuctionKey i)"

definition IterateAuctions ::
  "'b auction_state \<Rightarrow> bytes \<Rightarrow> (u32 \<times> auction \<Rightarrow> 's \<Rightarrow> 's \<times> bool) \<Rightarrow> 's \<Rightarrow> 's" where
  "IterateAuctions st auctionTypePrefix handler =
    iterate handler (map (\<lambda>(key, a). (Uint32 (drop 1 key), a)) (kv_iter (st_auctions st) auctionTypePrefix))"

definition GetActiveAuctions :: "'b auction_state \<Rightarrow> auction list" where
  "GetActiveAuctions st =
    IterateAuctions st GetActiveAuctionsPrefix (\<lambda>e auctions. (auctions @ [snd e], False)) []"

definition GetEndedAuctions :: "'b auction_state \<Rightarrow> auction list" where
  "GetEndedAuctions st =
    IterateAuctions st GetEndedAuctionsPrefix (\<lambda>e auctions. (auctions @ [snd e], False)) []"

definition setActiveAuction :: "'b auction_state \<Rightarrow> auction \<Rightarrow> 'b auction_state" where
  "setActiveAuction st a = st\<lparr>st_auctions := kv_set (st_auctions st) (GetActiveAuctionKey (a_Id a)) a\<rparr>"

definition setEndedAuction :: "'b auction_state \<Rightarrow> auction \<Rightarrow> 'b auction_state" where
  "setEndedAuction st a = st\<lparr>st_auctions := kv_set (st_auctions st) (GetEndedAuctionKey (a_Id a)) a\<rparr>"

definition IterateBids ::
  "'b auction_state \<Rightarrow> (u32 \<times> u64 \<times> bid \<Rightarrow> 's \<Rightarrow> 's \<times> bool) \<Rightarrow> 's \<Rightarrow> 's" where
  "IterateBids st handler =
    iterate handler (map (\<lambda>(key, b). (Uint32 (take 4 (drop 1 key)), Uint64 (drop 5 key), b))
      (kv_iter (st_bids st) GetBidsByAuctionPrefix))"

definition IterateBidsByAuction ::
  "'b auction_state \<Rightarrow> u32 \<Rightarrow> (u32 \<times> u64 \<times> bid \<Rightarrow> 's \<Rightarrow> 's \<times> bool) \<Rightarrow> 's \<Rightarrow> 's" where
  "IterateBidsByAuction st auctionID handler =
    iterate handler (map (\<lambda>(key, b). (Uint32 (take 4 (drop 1 key)), Uint64 (drop 5 key), b))
      (kv_iter (st_bids st) (GetBidsByAuctionIDPrefix auctionID)))"

definition GetBids :: "'b auction_state \<Rightarrow> bid list" where
  "GetBids st = IterateBids st (\<lambda>e bids. (bids @ [snd (snd e)], False)) []"

definition GetBidsByAuctionID :: "'b auction_state \<Rightarrow> u32 \<Rightarrow> bid list" where
  "GetBidsByAuctionID st auctionID =
    IterateBidsByAuction st auctionID (\<lambda>e bids. (bids @ [snd (snd e)], False)) []"

definition GetBid :: "'b auction_state \<Rightarrow> u32 \<Rightarrow> u64 \<Rightarrow> bid option" where
  "GetBid st auctionID bidID = kv_get (st_bids st) (GetBidKey auctionID bidID)"

definition setBid :: "'b auction_state \<Rightarrow> bid \<Rightarrow> 'b auction_state" where
  "setBid st b = st\<lparr>st_bids := kv_set (st_bids st) (GetBidKey (b_AuctionId b) (b_Id b)) b\<rparr>"

definition IterateTokenPrices ::
  "'b auction_state \<Rightarrow> (bytes \<times> token_price \<Rightarrow> 's \<Rightarrow> 's \<times> bool) \<Rightarrow> 's \<Rightarrow> 's" where
  "IterateTokenPrices st handler =
    iterate handler (map (\<lambda>(key, p). (drop 1 key, p)) (kv_iter (st_prices st) GetTokenPricesPrefix))"

definition GetTokenPrices :: "'b auction_state \<Rightarrow> token_price list" where
  "GetTokenPrices st = IterateTokenPrices st (\<lambda>e prices. (prices @ [snd e], False)) []"

definition GetTokenPrice :: "'b auction_state \<Rightarrow> string \<Rightarrow> token_price option" where
  "GetTokenPrice st denom = kv_get (st_prices st) (GetTokenPriceKey denom)"

definition setTokenPrice :: "'b auction_state \<Rightarrow> token_price \<Rightarrow> 'b auction_state" where
  "setTokenPrice st t = st\<lparr>st_prices := kv_set (st_prices st) (GetTokenPriceKey (tp_Denom t)) t\<rparr>"

definition setLastAuctionID :: "'b auction_state \<Rightarrow> u32 \<Rightarrow> 'b auction_state" where
  "setLastAuctionID st i = st\<lparr>st_ids := kv_set (st_ids st) GetLastAuctionIDKey (PutUint32 i)\<rparr>"

definition setLastBidID :: "'b auction_state \<Rightarrow> u64 \<Rightarrow> 'b auction_state" where
  "setLastBidID st i = st\<lparr>st_ids := kv_set (st_ids st) GetLastBidIDKey (PutUint64 i)\<rparr>"

definition GetLastAuctionID :: "'b auction_state \<Rightarrow> u32" where
  "GetLastAuctionID st = (case kv_get (st_ids st) GetLastAuctionIDKey of
      None \<Rightarrow> 0 | Some bz \<Rightarrow> if bz = [] then 0 else Uint32 bz)"

definition GetLastBidID :: "'b auction_state \<Rightarrow> u64" where
  "GetLastBidID st = (case kv_get (st_ids st) GetLastBidIDKey of
      None \<Rightarrow> 0 | Some bz \<Rightarrow> if bz = [] then 0 else Uint64 bz)"

definition GetAuctionAccount :: "'b auction_keeper \<Rightarrow> addr option" where
  "GetAuctionAccount k = ak_GetModuleAccount k auction_ModuleName"

section \<open>Starting an auction\<close>

definition tokenPriceTooOld :: "ctx \<Rightarrow> 'b auction_state \<Rightarrow> token_price \<Rightarrow> bool" where
  "tokenPriceTooOld ctx st t \<longleftrightarrow> BlockHeight ctx - tp_LastUpdatedBlock t > PriceMaxBlockAge (st_params st)"

text \<open>How many usomm one minimal unit of the sale token costs, from the two USD prices.\<close>

definition saleTokenPriceInUsomm :: "sdk \<Rightarrow> token_price \<Rightarrow> token_price \<Rightarrow> dec res" where
  "saleTokenPriceInUsomm S sale usomm =
    bind_res (Quo S (tp_UsdPrice sale) (Dec_Power S (10 * dec_one) (tp_Exponent sale))) (\<lambda>saleTokenMinUnitValue.
    bind_res (Quo S (tp_UsdPrice usomm) (Dec_Power S (10 * dec_one) CoinExponent)) (\<lambda>usommMinUnitValue.
    Quo S saleTokenMinUnitValue usommMinUnitValue))"

definition new_auction ::
  "ctx \<Rightarrow> 'b auction_state \<Rightarrow> coin \<Rightarrow> dec \<Rightarrow> u64 \<Rightarrow> dec \<Rightarrow> string \<Rightarrow> string \<Rightarrow> auction" where
  "new_auction ctx st startingTokensForSale initialPriceDecreaseRate priceDecreaseBlockInterval price
      fundingModuleAccount proceedsModuleAccount =
    \<lparr>a_Id = GetLastAuctionID st + 1, a_StartingTokensForSale = startingTokensForSale,
     a_StartBlock = BlockHeight ctx, a_EndBlock = 0,
     a_InitialPriceDecreaseRate = initialPriceDecreaseRate,
     a_CurrentPriceDecreaseRate = initialPriceDecreaseRate,
     a_PriceDecreaseBlockInterval = priceDecreaseBlockInterval,
     a_InitialUnitPriceInUsomm = price, a_CurrentUnitPriceInUsomm = price,
     a_RemainingTokensForSale = startingTokensForSale,
     a_FundingModuleAccount = fundingModuleAccount, a_ProceedsModuleAccount = proceedsModuleAccount\<rparr>"

definition open_auction ::
  "'b auction_keeper \<Rightarrow> ctx \<Rightarrow> 'b auction_state \<Rightarrow> auction \<Rightarrow> 'b auction_state res" where
  "open_auction k ctx st auction =
    bind_res (panic_on_err (Auction_ValidateBasic (ak_sdk k) auction)) (\<lambda>_.
    if IterateAuctions st GetActiveAuctionsPrefix
        (\<lambda>e ongoing. if cDenom (a_StartingTokensForSale (snd e)) = cDenom (a_StartingTokensForSale auction)
           then (True, True) else (ongoing, False)) False
      then Err (Wrapped ErrCannotStartTwoAuctionsForSameDenomSimultaneously)
    else
    bind_res (SendCoinsFromModuleToModule (ak_bank k) (st_bank st) (a_FundingModuleAccount auction)
        auction_ModuleName [a_StartingTokensForSale auction]) (\<lambda>bank.
    let st1 = setActiveAuction (st\<lparr>st_bank := bank\<rparr>) auction;
        st2 = setLastAuctionID st1 (a_Id auction)
    in Ok (auction_emit (''new_auction'',
         [(''auction_id'', AttrU (ucast (GetLastAuctionID st2))), (''start_block'', AttrU (BlockHeight ctx)),
          (''initial_decrease_rate'', AttrD (a_InitialPriceDecreaseRate auction)),
          (''block_decrease_interval'', AttrU (a_PriceDecreaseBlockInterval auction)),
          (''starting_denom'', AttrS (cDenom (a_StartingTokensForSale auction))),
          (''starting_amount_of_sale_token'', AttrI (cAmount (a_StartingTokensForSale auction))),
          (''starting_price_in_usomm'', AttrD (a_InitialUnitPriceInUsomm auction))]) st2)))"

definition BeginAuction ::
  "'b auction_keeper \<Rightarrow> ctx \<Rightarrow> 'b auction_state \<Rightarrow> coin \<Rightarrow> dec \<Rightarrow> u64 \<Rightarrow> string \<Rightarrow> string
    \<Rightarrow> 'b auction_state res" where
  "BeginAuction k ctx st startingTokensForSale initialPriceDecreaseRate priceDecreaseBlockInterval
      fundingModuleAccount proceedsModuleAccount =
    (if BlockHeight ctx \<le> MinimumAuctionHeight (st_params st) then Err (Wrapped ErrAuctionBelowMinimumHeight)
     else if \<not> Coin_IsPositive startingTokensForSale then Err (Wrapped ErrAuctionStartingAmountMustBePositve)
     else if fundingModuleAccounts k fundingModuleAccount = None then Err (Wrapped ErrUnauthorizedFundingModule)
     else if proceedsModuleAccounts k proceedsModuleAccount = None then Err (Wrapped ErrUnauthorizedProceedsModule)
     else case GetTokenPrice st (cDenom startingTokensForSale) of
       None \<Rightarrow> Err (Wrapped ErrCouldNotFindSaleTokenPrice)
     | Some lastSaleTokenPrice \<Rightarrow>
       if tokenPriceTooOld ctx st lastSaleTokenPrice then Err (Wrapped ErrLastSaleTokenPriceTooOld)
       else case GetTokenPrice st BaseCoinUnit of
         None \<Rightarrow> Err (Wrapped ErrCouldNotFindSommTokenPrice)
       | Some lastUsommTokenPrice \<Rightarrow>
         if tokenPriceTooOld ctx st lastUsommTokenPrice then Err (Wrapped ErrLastSommTokenPriceTooOld)
         else bind_res (saleTokenPriceInUsomm (ak_sdk k) lastSaleTokenPrice lastUsommTokenPrice) (\<lambda>price.
           open_auction k ctx st (new_auction ctx st startingTokensForSale initialPriceDecreaseRate
             priceDecreaseBlockInterval price fundingModuleAccount proceedsModuleAccount)))"

section \<open>Finishing an auction\<close>

definition return_unsold ::
  "'b auction_keeper \<Rightarrow> 'b auction_state \<Rightarrow> auction \<Rightarrow> 'b auction_state res" where
  "return_unsold k st auction =
    (let denom = cDenom (a_StartingTokensForSale auction);
         saleTokenBalance = GetBalance (ak_bank k) (st_bank st) (NewModuleAddress (ak_sdk k) auction_ModuleName) denom
     in if 0 < saleTokenBalance
        then bind_res (SendCoinsFromModuleToModule (ak_bank k) (st_bank st) auction_ModuleName
               (a_FundingModuleAccount auction) [mk_coin denom saleTokenBalance])
               (\<lambda>bank. Ok (st\<lparr>st_bank := bank\<rparr>))
        else Ok st)"

definition pay_proceeds ::
  "'b auction_keeper \<Rightarrow> 'b auction_state \<Rightarrow> auction \<Rightarrow> 'b auction_state res" where
  "pay_proceeds k st auction =
    (let usommProceeds = foldl (\<lambda>acc b. acc + cAmount (b_TotalUsommPaid b)) 0 (GetBidsByAuctionID st (a_Id auction))
     in bind_res (NewCoin (ak_sdk k) BaseCoinUnit usommProceeds) (\<lambda>usommProceedsCoin.
        if 0 < usommProceeds
        then bind_res (SendCoinsFromModuleToModule (ak_bank k) (st_bank st) auction_ModuleName
               (a_ProceedsModuleAccount auction) [usommProceedsCoin])
               (\<lambda>bank. Ok (st\<lparr>st_bank := bank\<rparr>))
        else Ok st))"

definition close_auction :: "ctx \<Rightarrow> 'b auction_state \<Rightarrow> auction \<Rightarrow> 'b auction_state" where
  "close_auction ctx st auction =
    (let ended = auction\<lparr>a_EndBlock := BlockHeight ctx\<rparr>
     in auction_emit (''auction_finished'',
          [(''auction_id'', AttrU (ucast (a_Id ended))), (''start_block'', AttrU (a_StartBlock ended)),
           (''end_block'', AttrU (a_EndBlock ended)),
           (''initial_decrease_rate'', AttrD (a_InitialPriceDecreaseRate ended)),
           (''current_decrease_rate'', AttrD (a_CurrentPriceDecreaseRate ended)),
           (''block_decrease_interval'', AttrU (a_PriceDecreaseBlockInterval ended)),
           (''starting_denom'', AttrS (cDenom (a_StartingTokensForSale ended))),
           (''starting_amount_of_sale_token'', AttrI (cAmount (a_StartingTokensForSale ended))),
           (''amount_remaining'', AttrC (a_RemainingTokensForSale ended))])
        (setEndedAuction (deleteActiveAuction st (a_Id auction)) ended))"

definition FinishAuction ::
  "'b auction_keeper \<Rightarrow> ctx \<Rightarrow> 'b auction_state \<Rightarrow> auction \<Rightarrow> 'b auction_state res" where
  "FinishAuction k ctx st auction =
    bind_res (return_unsold k st auction) (\<lambda>st1.
    bind_res (pay_proceeds k st1 auction) (\<lambda>st2.
    Ok (close_auction ctx st2 auction)))"

section \<open>Bidding\<close>

text \<open>The least bid accepted, in usomm: the parameter, or all that is left when that is worth less.\<close>

definition minUsommBid :: "sdk \<Rightarrow> 'b auction_state \<Rightarrow> auction \<Rightarrow> int \<Rightarrow> int res" where
  "minUsommBid S st auction saleBalance =
    (let least = uint (MinimumBidInUsomm (st_params st));
         valueRemaining = Dec_Mul S (NewDecFromInt saleBalance) (a_CurrentUnitPriceInUsomm auction)
     in if valueRemaining < NewDecFromInt least then TruncateInt64 S valueRemaining else Ok least)"

definition minimumPurchasePriceInUsomm :: "sdk \<Rightarrow> auction \<Rightarrow> int \<Rightarrow> int res" where
  "minimumPurchasePriceInUsomm S auction minimum =
    TruncateInt64 S (Dec_Ceil S (Dec_Mul S (a_CurrentUnitPriceInUsomm auction) (NewDecFromInt minimum)))"

definition fulfilledSaleTokens :: "sdk \<Rightarrow> auction \<Rightarrow> int \<Rightarrow> int \<Rightarrow> int \<Rightarrow> int res" where
  "fulfilledSaleTokens S auction saleBalance maxBid minimum =
    bind_res (Quo S (NewDecFromInt maxBid) (a_CurrentUnitPriceInUsomm auction)) (\<lambda>q.
    let saleTokensToPurchase = Dec_TruncateInt S q
    in if saleTokensToPurchase \<le> saleBalance then Ok saleTokensToPurchase
       else if minimum \<le> saleBalance then Ok saleBalance
       else Err (Wrapped ErrMinimumPurchaseAmountLargerThanTokensRemaining))"

definition usommAmount :: "sdk \<Rightarrow> auction \<Rightarrow> int \<Rightarrow> int res" where
  "usommAmount S auction fulfilled =
    TruncateInt64 S (Dec_Ceil S (Dec_Mul S (NewDecFromInt fulfilled) (a_CurrentUnitPriceInUsomm auction)))"

text \<open>The checks of a bid, up to the bid record it makes.\<close>

definition price_bid ::
  "'b auction_keeper \<Rightarrow> ctx \<Rightarrow> 'b auction_state \<Rightarrow> msg_submit_bid \<Rightarrow> addr \<Rightarrow> auction \<Rightarrow> int \<Rightarrow> bid res" where
  "price_bid k ctx st msg signer auction saleBalance =
    (let S = ak_sdk k; denom = cDenom (a_StartingTokensForSale auction);
         minimum = cAmount (mb_SaleTokenMinimumAmount msg); maxBid = cAmount (mb_MaxBidInUsomm msg) in
     bind_res (minUsommBid S st auction saleBalance) (\<lambda>least.
     if maxBid < least then Err (Wrapped ErrBidAmountIsTooSmall) else
     bind_res (minimumPurchasePriceInUsomm S auction minimum) (\<lambda>minPrice.
     if maxBid < minPrice then Err (Wrapped ErrInsufficientBid) else
     bind_res (NewCoin S denom 0) (\<lambda>zero.
     bind_res (fulfilledSaleTokens S auction saleBalance maxBid minimum) (\<lambda>fulfilled.
     bind_res (usommAmount S auction fulfilled) (\<lambda>paid.
     bind_res (NewCoin S BaseCoinUnit paid) (\<lambda>totalUsommPaid.
     let bid = \<lparr>b_Id = GetLastBidID st + 1, b_AuctionId = mb_AuctionId msg,
                b_Bidder = AccAddress_String S signer, b_MaxBidInUsomm = mb_MaxBidInUsomm msg,
                b_SaleTokenMinimumAmount = mb_SaleTokenMinimumAmount msg,
                b_TotalFulfilledSaleTokens = zero\<lparr>cAmount := fulfilled\<rparr>,
                b_SaleTokenUnitPriceInUsomm = a_CurrentUnitPriceInUsomm auction,
                b_TotalUsommPaid = totalUsommPaid, b_BlockHeight = BlockHeight ctx\<rparr>
     in bind_res (Bid_ValidateBasic S bid) (\<lambda>_. Ok bid))))))))"

text \<open>The two transfers: the payment is taken first, then the purchase is handed over.\<close>

definition transfer_bid ::
  "'b auction_keeper \<Rightarrow> 'b \<Rightarrow> addr \<Rightarrow> bid \<Rightarrow> 'b res" where
  "transfer_bid k bank signer bid =
    bind_res (NewCoins (ak_sdk k) (b_TotalUsommPaid bid)) (\<lambda>payment.
    bind_res (SendCoinsFromAccountToModule (ak_bank k) bank signer auction_ModuleName payment) (\<lambda>bank1.
    bind_res (NewCoins (ak_sdk k) (b_TotalFulfilledSaleTokens bid)) (\<lambda>purchase.
    panic_on_err (SendCoinsFromModuleToAccount (ak_bank k) bank1 auction_ModuleName signer purchase))))"

definition record_bid :: "'b auction_state \<Rightarrow> auction \<Rightarrow> bid \<Rightarrow> 'b auction_state" where
  "record_bid st auction bid = setLastBidID (setBid (setActiveAuction st auction) bid) (b_Id bid)"

definition settle_bid :: "'b auction_keeper \<Rightarrow> ctx \<Rightarrow> 'b auction_state \<Rightarrow> auction \<Rightarrow> 'b auction_state res" where
  "settle_bid k ctx st a =
    (if cAmount (a_RemainingTokensForSale a) = 0 then panic_on_err (FinishAuction k ctx st a) else Ok st)"

definition SubmitBid ::
  "'b auction_keeper \<Rightarrow> ctx \<Rightarrow> 'b auction_state \<Rightarrow> msg_submit_bid \<Rightarrow> ('b auction_state \<times> bid) res" where
  "SubmitBid k ctx st msg =
    bind_res (MustGetSigner (ak_sdk k) (mb_Signer msg)) (\<lambda>signer.
    case GetActiveAuctionByID st (mb_AuctionId msg) of
      None \<Rightarrow> Err (Wrapped ErrAuctionNotFound)
    | Some auction \<Rightarrow>
      if cDenom (a_StartingTokensForSale auction) \<noteq> cDenom (mb_SaleTokenMinimumAmount msg)
        then Err (Wrapped ErrBidAuctionDenomMismatch)
      else case GetAuctionAccount k of
        None \<Rightarrow> Panic ''nil module account''
      | Some acc \<Rightarrow>
        let denom = cDenom (a_StartingTokensForSale auction);
            saleBalance = GetBalance (ak_bank k) (st_bank st) acc denom in
        bind_res (price_bid k ctx st msg signer auction saleBalance) (\<lambda>bid.
        bind_res (transfer_bid k (st_bank st) signer bid) (\<lambda>bank.
        bind_res (Coin_Sub (mk_coin denom saleBalance) (b_TotalFulfilledSaleTokens bid)) (\<lambda>remaining.
        let auction' = auction\<lparr>a_RemainingTokensForSale := remaining\<rparr>;
            st2 = record_bid (st\<lparr>st_bank := bank\<rparr>) auction' bid in
        bind_res (settle_bid k ctx st2 auction') (\<lambda>st3.
        Ok (auction_emit (''bid'',
              [(''auction_id'', AttrU (ucast (mb_AuctionId msg))), (''bid_id'', AttrU (b_Id bid)),
               (''max_bid'', AttrS (AccAddress_String (ak_sdk k) signer)),
               (''minimum_amount'', AttrC (mb_SaleTokenMinimumAmount msg)),
               (''fulfilled_price_of_sale_token_in_usomm'', AttrD (a_CurrentUnitPriceInUsomm auction')),
               (''total_payment_in_usomm'', AttrC (b_TotalUsommPaid bid)),
               (''total_sale_token_fulfilled_amount'', AttrC (b_TotalFulfilledSaleTokens bid))]) st3, bid))))))"

section \<open>The end of a block\<close>

text \<open>Whether the price of an auction changes in this block.\<close>

definition price_decrease_due :: "ctx \<Rightarrow> auction \<Rightarrow> bool res" where
  "price_decrease_due ctx auction =
    (if BlockHeight ctx = a_StartBlock auction then Ok False
     else bind_res (rem_i64 (BlockHeight ctx - a_StartBlock auction) (a_PriceDecreaseBlockInterval auction))
            (\<lambda>r. Ok (r = 0)))"

definition next_decrease_rate :: "'b auction_keeper \<Rightarrow> ctx \<Rightarrow> 'b auction_state \<Rightarrow> auction \<Rightarrow> dec" where
  "next_decrease_rate k ctx st auction =
    (let bids = GetBidsByAuctionID st (a_Id auction)
     in if bids \<noteq> [] \<and> b_BlockHeight (last bids) \<ge> BlockHeight ctx - a_PriceDecreaseBlockInterval auction
        then a_InitialPriceDecreaseRate auction
        else Dec_Mul (ak_sdk k) (a_CurrentPriceDecreaseRate auction)
               (dec_one + AuctionPriceDecreaseAccelerationRate (st_params st)))"

definition update_auction_price ::
  "'b auction_keeper \<Rightarrow> ctx \<Rightarrow> auction \<Rightarrow> 'b auction_state \<Rightarrow> 'b auction_state res" where
  "update_auction_price k ctx auction st =
    bind_res (price_decrease_due ctx auction) (\<lambda>due.
    if \<not> due then Ok st else
    let auction' = auction\<lparr>a_CurrentPriceDecreaseRate := next_decrease_rate k ctx st auction\<rparr>;
        decrease = Dec_Mul (ak_sdk k) (a_InitialUnitPriceInUsomm auction') (a_CurrentPriceDecreaseRate auction');
        newPrice = a_CurrentUnitPriceInUsomm auction' - decrease
    in if newPrice \<le> 0 then panic_on_err (FinishAuction k ctx st auction')
       else let auction'' = auction'\<lparr>a_CurrentUnitPriceInUsomm := newPrice\<rparr>
       in Ok (auction_emit (''auction_updated'',
            [(''auction_id'', AttrU (ucast (a_Id auction''))),
             (''last_price'', AttrD (a_CurrentUnitPriceInUsomm auction)),
             (''new_price'', AttrD (a_CurrentUnitPriceInUsomm auction'')),
             (''current_decrease_rate'', AttrD (a_CurrentPriceDecreaseRate auction'')),
             (''block_decrease_interval'', AttrU (a_PriceDecreaseBlockInterval auction''))])
          (setActiveAuction st auction'')))"

text \<open>Pruning visits the ended auctions from the newest to the oldest.\<close>

definition prune_auction ::
  "ctx \<Rightarrow> u64 \<Rightarrow> auction \<Rightarrow> 'b auction_state \<times> string set \<Rightarrow> 'b auction_state \<times> string set" where
  "prune_auction ctx maxAge auction s =
    (case s of (st, denomsFound) \<Rightarrow>
      let denom = cDenom (a_StartingTokensForSale auction)
      in if denom \<in> denomsFound \<and> a_EndBlock auction < BlockHeight ctx - maxAge
         then (deleteEndedAuction
                 (foldl (\<lambda>s bid. deleteBid s (a_Id auction) (b_Id bid)) st (GetBidsByAuctionID st (a_Id auction)))
                 (a_Id auction), denomsFound)
         else (st, insert denom denomsFound))"

definition prune_auctions :: "ctx \<Rightarrow> 'b auction_state \<Rightarrow> 'b auction_state" where
  "prune_auctions ctx st =
    (let maxAge = AuctionMaxBlockAge (st_params st)
     in if maxAge = 0 then st
        else fst (fold (prune_auction ctx maxAge) (rev (GetEndedAuctions st)) (st, {})))"

definition auction_EndBlocker :: "'b auction_keeper \<Rightarrow> ctx \<Rightarrow> 'b auction_state \<Rightarrow> 'b auction_state res" where
  "auction_EndBlocker k ctx st =
    bind_res (fold_res (update_auction_price k ctx) (GetActiveAuctions st) st) (\<lambda>st1.
    Ok (prune_auctions ctx st1))"

definition auction_BeginBlocker :: "'b auction_keeper \<Rightarrow> ctx \<Rightarrow> 'b auction_state \<Rightarrow> 'b auction_state" where
  "auction_BeginBlocker k ctx st = st"

section \<open>Genesis, proposals, handlers and queries\<close>

definition auction_InitGenesis ::
  "'b auction_keeper \<Rightarrow> 'b auction_state \<Rightarrow> auction_genesis \<Rightarrow> 'b auction_state res" where
  "auction_InitGenesis k st gs =
    bind_res (auction_setParams st (ag_Params gs)) (\<lambda>st0.
    if GetAuctionAccount k = None then Panic ''auction module account has not been set'' else
    let st1 = foldl (\<lambda>s a. if a_EndBlock a > 0 then setEndedAuction s a else setActiveAuction s a) st0 (ag_Auctions gs);
        st2 = foldl setBid st1 (ag_Bids gs);
        st3 = foldl setTokenPrice st2 (ag_TokenPrices gs)
    in Ok (setLastBidID (setLastAuctionID st3 (ag_LastAuctionId gs)) (ag_LastBidId gs)))"

definition auction_ExportGenesis :: "'b auction_state \<Rightarrow> auction_genesis" where
  "auction_ExportGenesis st =
    \<lparr>ag_Params = st_params st, ag_Auctions = GetActiveAuctions st @ GetEndedAuctions st, ag_Bids = GetBids st,
     ag_TokenPrices = GetTokenPrices st, ag_LastAuctionId = GetLastAuctionID st, ag_LastBidId = GetLastBidID st\<rparr>"

text \<open>The handler builds the stored price from the proposal's denomination and USD price only; Go
  leaves the exponent at its zero value.\<close>

definition HandleSetTokenPricesProposal ::
  "'b auction_keeper \<Rightarrow> ctx \<Rightarrow> 'b auction_state \<Rightarrow> set_token_prices_proposal \<Rightarrow> 'b auction_state res" where
  "HandleSetTokenPricesProposal k ctx st p =
    bind_res (SetTokenPricesProposal_ValidateBasic (ak_sdk k) p) (\<lambda>_.
    Ok (foldl (\<lambda>s t. setTokenPrice s \<lparr>tp_Denom = ptp_Denom t, tp_Exponent = 0, tp_UsdPrice = ptp_UsdPrice t,
          tp_LastUpdatedBlock = BlockHeight ctx\<rparr>) st (stp_TokenPrices p)))"

datatype auction_msg = MsgSubmitBidRequest msg_submit_bid | OtherMsg string

definition auction_NewHandler ::
  "'b auction_keeper \<Rightarrow> ctx \<Rightarrow> 'b auction_state \<Rightarrow> auction_msg \<Rightarrow> ('b auction_state \<times> bid) res" where
  "auction_NewHandler k ctx st msg = (case msg of
      MsgSubmitBidRequest m \<Rightarrow> SubmitBid k ctx (st\<lparr>st_events := []\<rparr>) m
    | OtherMsg _ \<Rightarrow> Err (Wrapped ErrUnknownRequest))"

datatype auction_content = SetTokenPricesContent set_token_prices_proposal | OtherContent string

definition NewSetTokenPricesProposalHandler ::
  "'b auction_keeper \<Rightarrow> ctx \<Rightarrow> 'b auction_state \<Rightarrow> auction_content \<Rightarrow> 'b auction_state res" where
  "NewSetTokenPricesProposalHandler k ctx st content = (case content of
      SetTokenPricesContent p \<Rightarrow> HandleSetTokenPricesProposal k ctx st p
    | OtherContent _ \<Rightarrow> Err (Wrapped ErrUnknownRequest))"

definition auction_QueryParams :: "'b auction_state \<Rightarrow> auction_params" where
  "auction_QueryParams st = st_params st"

definition QueryActiveAuction :: "'b auction_state \<Rightarrow> u32 \<Rightarrow> auction res" where
  "QueryActiveAuction st i = (case GetActiveAuctionByID st i of
      Some a \<Rightarrow> Ok a | None \<Rightarrow> Err (Errorf ''NotFound''))"

definition QueryEndedAuction :: "'b auction_state \<Rightarrow> u32 \<Rightarrow> auction res" where
  "QueryEndedAuction st i = (case GetEndedAuctionByID st i of
      Some a \<Rightarrow> Ok a | None \<Rightarrow> Err (Errorf ''NotFound''))"

definition QueryActiveAuctions :: "'b auction_state \<Rightarrow> auction list" where
  "QueryActiveAuctions st = GetActiveAuctions st"

definition QueryBid :: "'b auction_state \<Rightarrow> u32 \<Rightarrow> u64 \<Rightarrow> bid res" where
  "QueryBid st auctionID bidID = (case GetBid st auctionID bidID of
      Some b \<Rightarrow> Ok b | None \<Rightarrow> Err (Errorf ''NotFound''))"

end
