(* ===== verification/Auction_Invariants.thy ===== *)
theory Auction_Invariants
  imports Auction_Keeper
begin

text \<open>
  The state invariant of the auction module and its preservation. \<open>store_wf\<close> ties every entry of the
  store to its key, bounds all ids by the counters, keeps at most one active auction per denomination
  and no id both active and ended. \<open>solvent\<close> says that the module account holds at least the usomm
  paid for auctions that are still active, which is what finishing them pays out. Under the laws of
  the SDK the invariant makes \<open>FinishAuction\<close>, hence \<open>EndBlocker\<close>, return: neither can panic.
\<close>

section \<open>The invariant\<close>

abbreviation sale_denom :: "auction \<Rightarrow> string" where
  "sale_denom a \<equiv> cDenom (a_StartingTokensForSale a)"

abbreviation paid :: "bid \<Rightarrow> int" where
  "paid b \<equiv> cAmount (b_TotalUsommPaid b)"

definition active_ok :: "'b auction_keeper \<Rightarrow> 'b auction_state \<Rightarrow> auction \<Rightarrow> bool" where
  "active_ok k st a \<longleftrightarrow> a_Id a \<noteq> 0 \<and> a_Id a \<le> GetLastAuctionID st \<and> a_EndBlock a = 0 \<and>
    ValidateDenom (ak_sdk k) (sale_denom a) \<and> sale_denom a \<noteq> BaseCoinUnit \<and>
    0 < a_InitialPriceDecreaseRate a \<and> a_InitialPriceDecreaseRate a \<le> a_CurrentPriceDecreaseRate a \<and>
    a_PriceDecreaseBlockInterval a \<noteq> 0 \<and>
    0 < a_InitialUnitPriceInUsomm a \<and> 0 < a_CurrentUnitPriceInUsomm a \<and>
    a_CurrentUnitPriceInUsomm a \<le> a_InitialUnitPriceInUsomm a \<and>
    fundingModuleAccounts k (a_FundingModuleAccount a) \<noteq> None \<and>
    proceedsModuleAccounts k (a_ProceedsModuleAccount a) \<noteq> None"

definition ended_ok :: "'b auction_state \<Rightarrow> auction \<Rightarrow> bool" where
  "ended_ok st a \<longleftrightarrow> a_Id a \<noteq> 0 \<and> a_Id a \<le> GetLastAuctionID st \<and> a_EndBlock a \<noteq> 0"

definition bid_ok :: "'b auction_state \<Rightarrow> bid \<Rightarrow> bool" where
  "bid_ok st b \<longleftrightarrow> b_Id b \<noteq> 0 \<and> b_Id b \<le> GetLastBidID st \<and> b_AuctionId b \<le> GetLastAuctionID st \<and> 0 \<le> paid b"

definition auctions_wf :: "'b auction_keeper \<Rightarrow> 'b auction_state \<Rightarrow> bool" where
  "auctions_wf k st \<longleftrightarrow> kv_all (\<lambda>key a.
      key = GetActiveAuctionKey (a_Id a) \<and> active_ok k st a \<and> GetEndedAuctionByID st (a_Id a) = None \<or>
      key = GetEndedAuctionKey (a_Id a) \<and> ended_ok st a) (st_auctions st)"

definition one_per_denom :: "'b auction_state \<Rightarrow> bool" where
  "one_per_denom st \<longleftrightarrow> kv_all (\<lambda>key a. kv_all (\<lambda>key' a'.
      key = GetActiveAuctionKey (a_Id a) \<and> key' = GetActiveAuctionKey (a_Id a') \<and> sale_denom a = sale_denom a'
        \<longrightarrow> key = key') (st_auctions st)) (st_auctions st)"

definition bids_wf :: "'b auction_state \<Rightarrow> bool" where
  "bids_wf st \<longleftrightarrow> kv_all (\<lambda>key b. key = GetBidKey (b_AuctionId b) (b_Id b) \<and> bid_ok st b) (st_bids st)"

definition prices_wf :: "'b auction_keeper \<Rightarrow> 'b auction_state \<Rightarrow> bool" where
  "prices_wf k st \<longleftrightarrow> kv_all (\<lambda>key t. key = GetTokenPriceKey (tp_Denom t)
      \<and> TokenPrice_ValidateBasic (ak_sdk k) t = Ok ()) (st_prices st)"

definition store_wf :: "'b auction_keeper \<Rightarrow> 'b auction_state \<Rightarrow> bool" where
  "store_wf k st \<longleftrightarrow> auction_params_ok (st_params st) \<and> auctions_wf k st \<and> one_per_denom st \<and>
    bids_wf st \<and> prices_wf k st"

text \<open>The usomm that bidders paid for auctions still active.\<close>

definition owed :: "'b auction_state \<Rightarrow> int" where
  "owed st = (\<Sum>b\<leftarrow>kv_values (st_bids st) GetBidsByAuctionPrefix.
     if GetActiveAuctionByID st (b_AuctionId b) \<noteq> None then paid b else 0)"

abbreviation module_balance :: "'b auction_keeper \<Rightarrow> 'b auction_state \<Rightarrow> string \<Rightarrow> int" where
  "module_balance k st d \<equiv>
    GetBalance (ak_bank k) (st_bank st) (NewModuleAddress (ak_sdk k) auction_ModuleName) d"

definition solvent :: "'b auction_keeper \<Rightarrow> 'b auction_state \<Rightarrow> bool" where
  "solvent k st \<longleftrightarrow> owed st \<le> module_balance k st BaseCoinUnit"

definition auction_inv :: "'b auction_keeper \<Rightarrow> 'b auction_state \<Rightarrow> bool" where
  "auction_inv k st \<longleftrightarrow> store_wf k st \<and> solvent k st"

text \<open>What the application's wiring provides: the modules an auction may name have accounts.\<close>

definition keeper_ok :: "'b auction_keeper \<Rightarrow> (string \<Rightarrow> bool) \<Rightarrow> bool" where
  "keeper_ok k has_account \<longleftrightarrow> ValidateDenom (ak_sdk k) BaseCoinUnit \<and> has_account auction_ModuleName \<and>
    GetAuctionAccount k = Some (NewModuleAddress (ak_sdk k) auction_ModuleName) \<and>
    (\<forall>m. fundingModuleAccounts k m \<noteq> None \<or> proceedsModuleAccounts k m \<noteq> None \<longrightarrow> has_account m)"

section \<open>Reads after writes\<close>

lemmas auction_writes [state_simps] = setActiveAuction_def setEndedAuction_def deleteActiveAuction_def
  deleteEndedAuction_def setBid_def deleteBid_def setTokenPrice_def setLastAuctionID_def setLastBidID_def
  auction_emit_def

lemmas auction_reads [state_simps] = GetActiveAuctionByID_def GetEndedAuctionByID_def GetBid_def
  GetTokenPrice_def GetLastAuctionID_def GetLastBidID_def

lemma GetActiveAuctions_values: "GetActiveAuctions st = kv_values (st_auctions st) GetActiveAuctionsPrefix"
  by (simp add: GetActiveAuctions_def IterateAuctions_def kv_values_def comp_def split_beta)

lemma GetEndedAuctions_values: "GetEndedAuctions st = kv_values (st_auctions st) GetEndedAuctionsPrefix"
  by (simp add: GetEndedAuctions_def IterateAuctions_def kv_values_def comp_def split_beta)

lemma GetBids_values: "GetBids st = kv_values (st_bids st) GetBidsByAuctionPrefix"
  by (simp add: GetBids_def IterateBids_def kv_values_def comp_def split_beta)

lemma GetBidsByAuctionID_values:
  "GetBidsByAuctionID st i = kv_values (st_bids st) (GetBidsByAuctionIDPrefix i)"
  by (simp add: GetBidsByAuctionID_def IterateBidsByAuction_def kv_values_def comp_def split_beta)

lemma GetTokenPrices_values: "GetTokenPrices st = kv_values (st_prices st) GetTokenPricesPrefix"
  by (simp add: GetTokenPrices_def IterateTokenPrices_def kv_values_def comp_def split_beta)

lemma last_ids_simps [simp]:
  "GetLastAuctionID (setLastAuctionID st i) = i" "GetLastBidID (setLastBidID st j) = j"
  "GetLastAuctionID (setLastBidID st j) = GetLastAuctionID st"
  "GetLastBidID (setLastAuctionID st i) = GetLastBidID st"
proof -
  have "PutUint32 i \<noteq> []" "PutUint64 j \<noteq> []"
    using length_PutUint32 [of i] length_PutUint64 [of j] by (auto simp del: length_PutUint32 length_PutUint64)
  then show "GetLastAuctionID (setLastAuctionID st i) = i" "GetLastBidID (setLastBidID st j) = j"
    "GetLastAuctionID (setLastBidID st j) = GetLastAuctionID st"
    "GetLastBidID (setLastAuctionID st i) = GetLastBidID st"
    by (simp_all add: state_simps)
qed

lemma last_ids_cong: "st_ids s = st_ids t \<Longrightarrow> GetLastAuctionID s = GetLastAuctionID t"
  "st_ids s = st_ids t \<Longrightarrow> GetLastBidID s = GetLastBidID t"
  by (simp_all add: state_simps)

lemma auction_ongoing_iff:
  "IterateAuctions st GetActiveAuctionsPrefix
      (\<lambda>e ongoing. if cDenom (a_StartingTokensForSale (snd e)) = d then (True, True) else (ongoing, False)) False
    \<longleftrightarrow> d \<in> sale_denom ` set (GetActiveAuctions st)"
  unfolding IterateAuctions_def iterate_any GetActiveAuctions_values kv_values_def list_ex_iff set_map bex_simps
  by (auto simp: image_image split_beta)

section \<open>Consequences of the invariant\<close>

lemma store_wf_entry:
  assumes "store_wf k st" "kv_get (st_auctions st) key = Some a"
  shows "key = GetActiveAuctionKey (a_Id a) \<and> active_ok k st a \<and> GetEndedAuctionByID st (a_Id a) = None \<or>
    key = GetEndedAuctionKey (a_Id a) \<and> ended_ok st a"
  using assms kv_allD [of _ "st_auctions st" key a] unfolding store_wf_def auctions_wf_def by blast

lemma store_wf_active:
  assumes "store_wf k st" "GetActiveAuctionByID st i = Some a"
  shows "a_Id a = i" "active_ok k st a" "GetEndedAuctionByID st i = None"
  using store_wf_entry [OF assms(1) assms(2) [unfolded GetActiveAuctionByID_def]] by auto

lemma store_wf_ended:
  assumes "store_wf k st" "GetEndedAuctionByID st i = Some a"
  shows "a_Id a = i" "ended_ok st a" "GetActiveAuctionByID st i = None"
proof -
  show "a_Id a = i" "ended_ok st a"
    using store_wf_entry [OF assms(1) assms(2) [unfolded GetEndedAuctionByID_def]] by auto
  show "GetActiveAuctionByID st i = None"
    using store_wf_active(3) [OF assms(1), of i] assms(2) by (cases "GetActiveAuctionByID st i") auto
qed

lemma store_wf_active_mem:
  assumes "store_wf k st"
  shows "a \<in> set (GetActiveAuctions st) \<longleftrightarrow> GetActiveAuctionByID st (a_Id a) = Some a"
proof
  assume "a \<in> set (GetActiveAuctions st)"
  then obtain key where *: "kv_get (st_auctions st) key = Some a" "prefix GetActiveAuctionsPrefix key"
    by (auto simp: GetActiveAuctions_values kv_values_mem)
  with store_wf_entry [OF assms *(1)] show "GetActiveAuctionByID st (a_Id a) = Some a"
    by (auto simp: GetActiveAuctionByID_def)
next
  assume "GetActiveAuctionByID st (a_Id a) = Some a"
  then show "a \<in> set (GetActiveAuctions st)"
    unfolding GetActiveAuctions_values kv_values_mem GetActiveAuctionByID_def
    by (intro exI [of _ "GetActiveAuctionKey (a_Id a)"]) simp
qed

lemma store_wf_bid:
  assumes "store_wf k st" "kv_get (st_bids st) key = Some b"
  shows "key = GetBidKey (b_AuctionId b) (b_Id b)" "bid_ok st b"
  using assms kv_allD [of _ "st_bids st" key b] by (auto simp: store_wf_def bids_wf_def)

text \<open>The proceeds of an auction: the sum over its own bids is its share of the sum over all bids.\<close>

lemma proceeds_share:
  assumes "store_wf k st"
  shows "(\<Sum>b\<leftarrow>GetBidsByAuctionID st i. paid b)
    = (\<Sum>b\<leftarrow>kv_values (st_bids st) GetBidsByAuctionPrefix. if b_AuctionId b = i then paid b else 0)"
  unfolding GetBidsByAuctionID_values
proof (rule kv_values_narrow)
  show "prefix GetBidsByAuctionPrefix key" if "prefix (GetBidsByAuctionIDPrefix i) key" for key
    using that by (auto simp: GetBidsByAuctionIDPrefix_def prefix_def)
  show "prefix (GetBidsByAuctionIDPrefix i) key \<longleftrightarrow> b_AuctionId b = i"
    if "kv_get (st_bids st) key = Some b" for key b
    using store_wf_bid(1) [OF assms that] by auto
qed

lemma bids_paid_nonneg:
  "store_wf k st \<Longrightarrow> b \<in> set (kv_values (st_bids st) p) \<Longrightarrow> 0 \<le> paid b"
  by (auto simp: kv_values_mem bid_ok_def dest: store_wf_bid(2))

lemma proceeds_nonneg: "store_wf k st \<Longrightarrow> 0 \<le> (\<Sum>b\<leftarrow>GetBidsByAuctionID st i. paid b)"
  unfolding GetBidsByAuctionID_values by (rule sum_list_nonneg) (auto intro: bids_paid_nonneg)

lemma proceeds_le_owed:
  assumes "store_wf k st" "GetActiveAuctionByID st i \<noteq> None"
  shows "(\<Sum>b\<leftarrow>GetBidsByAuctionID st i. paid b) \<le> owed st"
  unfolding proceeds_share [OF assms(1)] owed_def
  by (rule sum_list_mono) (use assms in \<open>auto intro: bids_paid_nonneg\<close>)

text \<open>A key that no entry has yet.\<close>

lemma store_wf_fresh:
  assumes "store_wf k st" "GetLastAuctionID st < i"
  shows "GetActiveAuctionByID st i = None" "GetEndedAuctionByID st i = None" "GetBidsByAuctionID st i = []"
proof -
  show "GetActiveAuctionByID st i = None"
    using assms store_wf_active [OF assms(1), of i] by (cases "GetActiveAuctionByID st i") (auto simp: active_ok_def)
  show "GetEndedAuctionByID st i = None"
    using assms store_wf_ended [OF assms(1), of i] by (cases "GetEndedAuctionByID st i") (auto simp: ended_ok_def)
  have "b \<notin> set (GetBidsByAuctionID st i)" for b
    using assms store_wf_bid [OF assms(1)]
    by (fastforce simp: GetBidsByAuctionID_values kv_values_mem bid_ok_def)
  then show "GetBidsByAuctionID st i = []" by (cases "GetBidsByAuctionID st i") auto
qed

section \<open>Preservation by the setters\<close>

lemma store_wfI:
  assumes "auction_params_ok (st_params st)"
    and "\<And>key a. kv_get (st_auctions st) key = Some a \<Longrightarrow>
      key = GetActiveAuctionKey (a_Id a) \<and> active_ok k st a \<and> GetEndedAuctionByID st (a_Id a) = None \<or>
      key = GetEndedAuctionKey (a_Id a) \<and> ended_ok st a"
    and "\<And>i j a b. GetActiveAuctionByID st i = Some a \<Longrightarrow> GetActiveAuctionByID st j = Some b \<Longrightarrow>
      sale_denom a = sale_denom b \<Longrightarrow> i = j"
    and "\<And>key b. kv_get (st_bids st) key = Some b \<Longrightarrow> key = GetBidKey (b_AuctionId b) (b_Id b) \<and> bid_ok st b"
    and "\<And>key t. kv_get (st_prices st) key = Some t \<Longrightarrow>
      key = GetTokenPriceKey (tp_Denom t) \<and> TokenPrice_ValidateBasic (ak_sdk k) t = Ok ()"
  shows "store_wf k st"
  using assms unfolding store_wf_def auctions_wf_def one_per_denom_def bids_wf_def prices_wf_def kv_all_iff
    GetActiveAuctionByID_def by (auto 0 3)

lemma store_wf_denom:
  assumes "store_wf k st" "GetActiveAuctionByID st i = Some a" "GetActiveAuctionByID st j = Some b"
    "sale_denom a = sale_denom b"
  shows "i = j"
  using assms store_wf_active(1) [OF assms(1,2)] store_wf_active(1) [OF assms(1,3)]
  unfolding store_wf_def one_per_denom_def kv_all_iff GetActiveAuctionByID_def
  by (metis auction_keys_inject(1))

lemma store_wf_price:
  "store_wf k st \<Longrightarrow> kv_get (st_prices st) key = Some t \<Longrightarrow>
    key = GetTokenPriceKey (tp_Denom t) \<and> TokenPrice_ValidateBasic (ak_sdk k) t = Ok ()"
  by (simp add: store_wf_def prices_wf_def kv_all_iff)

lemma store_wf_params: "store_wf k st \<Longrightarrow> auction_params_ok (st_params st)"
  by (simp add: store_wf_def)

lemma ids_frame [simp]:
  "GetLastAuctionID (st\<lparr>st_params := x_st_params\<rparr>) = GetLastAuctionID st" "GetLastBidID (st\<lparr>st_params := x_st_params\<rparr>) = GetLastBidID st"
  "active_ok k (st\<lparr>st_params := x_st_params\<rparr>) a = active_ok k st a" "ended_ok (st\<lparr>st_params := x_st_params\<rparr>) a = ended_ok st a" "bid_ok (st\<lparr>st_params := x_st_params\<rparr>) b = bid_ok st b"
  "GetLastAuctionID (st\<lparr>st_auctions := x_st_auctions\<rparr>) = GetLastAuctionID st" "GetLastBidID (st\<lparr>st_auctions := x_st_auctions\<rparr>) = GetLastBidID st"
  "active_ok k (st\<lparr>st_auctions := x_st_auctions\<rparr>) a = active_ok k st a" "ended_ok (st\<lparr>st_auctions := x_st_auctions\<rparr>) a = ended_ok st a" "bid_ok (st\<lparr>st_auctions := x_st_auctions\<rparr>) b = bid_ok st b"
  "GetLastAuctionID (st\<lparr>st_bids := x_st_bids\<rparr>) = GetLastAuctionID st" "GetLastBidID (st\<lparr>st_bids := x_st_bids\<rparr>) = GetLastBidID st"
  "active_ok k (st\<lparr>st_bids := x_st_bids\<rparr>) a = active_ok k st a" "ended_ok (st\<lparr>st_bids := x_st_bids\<rparr>) a = ended_ok st a" "bid_ok (st\<lparr>st_bids := x_st_bids\<rparr>) b = bid_ok st b"
  "GetLastAuctionID (st\<lparr>st_prices := x_st_prices\<rparr>) = GetLastAuctionID st" "GetLastBidID (st\<lparr>st_prices := x_st_prices\<rparr>) = GetLastBidID st"
  "active_ok k (st\<lparr>st_prices := x_st_prices\<rparr>) a = active_ok k st a" "ended_ok (st\<lparr>st_prices := x_st_prices\<rparr>) a = ended_ok st a" "bid_ok (st\<lparr>st_prices := x_st_prices\<rparr>) b = bid_ok st b"
  "GetLastAuctionID (st\<lparr>st_bank := x_st_bank\<rparr>) = GetLastAuctionID st" "GetLastBidID (st\<lparr>st_bank := x_st_bank\<rparr>) = GetLastBidID st"
  "active_ok k (st\<lparr>st_bank := x_st_bank\<rparr>) a = active_ok k st a" "ended_ok (st\<lparr>st_bank := x_st_bank\<rparr>) a = ended_ok st a" "bid_ok (st\<lparr>st_bank := x_st_bank\<rparr>) b = bid_ok st b"
  "GetLastAuctionID (st\<lparr>st_events := x_st_events\<rparr>) = GetLastAuctionID st" "GetLastBidID (st\<lparr>st_events := x_st_events\<rparr>) = GetLastBidID st"
  "active_ok k (st\<lparr>st_events := x_st_events\<rparr>) a = active_ok k st a" "ended_ok (st\<lparr>st_events := x_st_events\<rparr>) a = ended_ok st a" "bid_ok (st\<lparr>st_events := x_st_events\<rparr>) b = bid_ok st b"
  by (simp_all add: active_ok_def ended_ok_def bid_ok_def GetLastAuctionID_def GetLastBidID_def)

lemma ok_cong:
  "st_ids s = st_ids t \<Longrightarrow> active_ok k s a = active_ok k t a"
  "st_ids s = st_ids t \<Longrightarrow> ended_ok s a = ended_ok t a"
  "st_ids s = st_ids t \<Longrightarrow> bid_ok s b = bid_ok t b"
  by (simp_all add: active_ok_def ended_ok_def bid_ok_def last_ids_cong [of s t])

lemma store_wf_cong:
  assumes "st_params s = st_params t" "st_auctions s = st_auctions t" "st_bids s = st_bids t"
    "st_prices s = st_prices t" "st_ids s = st_ids t"
  shows "store_wf k s = store_wf k t"
  using assms by (simp add: store_wf_def auctions_wf_def one_per_denom_def bids_wf_def prices_wf_def
      ok_cong [of s t] GetEndedAuctionByID_def)

lemma owed_cong: "st_auctions s = st_auctions t \<Longrightarrow> st_bids s = st_bids t \<Longrightarrow> owed s = owed t"
  by (simp add: owed_def GetActiveAuctionByID_def)

lemma frame_simps [simp]:
  "store_wf k (st\<lparr>st_bank := b\<rparr>) = store_wf k st" "owed (st\<lparr>st_bank := b\<rparr>) = owed st"
  "store_wf k (auction_emit e st) = store_wf k st" "owed (auction_emit e st) = owed st"
  unfolding auction_emit_def by (rule store_wf_cong owed_cong; simp)+

text \<open>Rewriting an active auction.\<close>

lemma store_wf_setActive:
  assumes "store_wf k st" "GetActiveAuctionByID st (a_Id a) = Some a0" "sale_denom a = sale_denom a0"
    "active_ok k st a"
  shows "store_wf k (setActiveAuction st a)"
proof (rule store_wfI)
  let ?s = "setActiveAuction st a"
  note wf = assms(1)
  show "auction_params_ok (st_params ?s)" using store_wf_params [OF wf] by (simp add: state_simps)
  show "key = GetActiveAuctionKey (a_Id x) \<and> active_ok k ?s x \<and> GetEndedAuctionByID ?s (a_Id x) = None \<or>
      key = GetEndedAuctionKey (a_Id x) \<and> ended_ok ?s x" if "kv_get (st_auctions ?s) key = Some x" for key x
    using that store_wf_entry [OF wf, of key x] store_wf_active [OF wf assms(2)] assms(4)
    by (auto simp: setActiveAuction_def GetEndedAuctionByID_def split: if_splits)
  show "i = j" if "GetActiveAuctionByID ?s i = Some x" "GetActiveAuctionByID ?s j = Some y"
    "sale_denom x = sale_denom y" for i j x y
    using that assms(2,3) store_wf_denom [OF wf, of i _ j]
    by (auto simp: setActiveAuction_def GetActiveAuctionByID_def split: if_splits)
  show "key = GetBidKey (b_AuctionId b) (b_Id b) \<and> bid_ok ?s b" if "kv_get (st_bids ?s) key = Some b" for key b
    using that store_wf_bid [OF wf, of key b] by (simp add: setActiveAuction_def)
  show "key = GetTokenPriceKey (tp_Denom p) \<and> TokenPrice_ValidateBasic (ak_sdk k) p = Ok ()"
    if "kv_get (st_prices ?s) key = Some p" for key p
    using that store_wf_price [OF wf] by (simp add: setActiveAuction_def)
qed

lemma owed_setActive:
  "GetActiveAuctionByID st (a_Id a) \<noteq> None \<Longrightarrow> owed (setActiveAuction st a) = owed st"
  by (auto simp: owed_def setActiveAuction_def GetActiveAuctionByID_def intro!: arg_cong [where f = sum_list] map_cong)

text \<open>Moving an active auction to the ended ones.\<close>

lemma store_wf_close:
  assumes "store_wf k st" "GetActiveAuctionByID st (a_Id a) = Some a0" "BlockHeight ctx \<noteq> 0"
  shows "store_wf k (close_auction ctx st a)"
proof -
  let ?e = "a\<lparr>a_EndBlock := BlockHeight ctx\<rparr>"
  let ?s = "setEndedAuction (deleteActiveAuction st (a_Id a)) ?e"
  note wf = assms(1)
  have i: "a_Id a0 = a_Id a" "active_ok k st a0" "GetEndedAuctionByID st (a_Id a) = None"
    using store_wf_active [OF wf assms(2)] by auto
  have "store_wf k ?s"
  proof (rule store_wfI)
    show "auction_params_ok (st_params ?s)" using store_wf_params [OF wf] by (simp add: state_simps)
    show "key = GetActiveAuctionKey (a_Id x) \<and> active_ok k ?s x \<and> GetEndedAuctionByID ?s (a_Id x) = None \<or>
        key = GetEndedAuctionKey (a_Id x) \<and> ended_ok ?s x" if "kv_get (st_auctions ?s) key = Some x" for key x
      using that store_wf_entry [OF wf, of key x] i assms(3)
      by (auto simp: setEndedAuction_def deleteActiveAuction_def GetEndedAuctionByID_def ended_ok_def active_ok_def
          split: if_splits)
    show "i = j" if "GetActiveAuctionByID ?s i = Some x" "GetActiveAuctionByID ?s j = Some y"
      "sale_denom x = sale_denom y" for i j x y
      using that store_wf_denom [OF wf, of i _ j]
      by (auto simp: setEndedAuction_def deleteActiveAuction_def GetActiveAuctionByID_def split: if_splits)
    show "key = GetBidKey (b_AuctionId b) (b_Id b) \<and> bid_ok ?s b" if "kv_get (st_bids ?s) key = Some b" for key b
      using that store_wf_bid [OF wf, of key b]
      by (simp add: setEndedAuction_def deleteActiveAuction_def)
    show "key = GetTokenPriceKey (tp_Denom p) \<and> TokenPrice_ValidateBasic (ak_sdk k) p = Ok ()"
      if "kv_get (st_prices ?s) key = Some p" for key p
      using that store_wf_price [OF wf] by (simp add: setEndedAuction_def deleteActiveAuction_def)
  qed
  then show ?thesis by (simp add: close_auction_def Let_def)
qed

lemma owed_close:
  assumes "store_wf k st" "GetActiveAuctionByID st (a_Id a) \<noteq> None"
  shows "owed (close_auction ctx st a) = owed st - (\<Sum>b\<leftarrow>GetBidsByAuctionID st (a_Id a). paid b)"
proof -
  have "owed (close_auction ctx st a) + (\<Sum>b\<leftarrow>GetBidsByAuctionID st (a_Id a). paid b) = owed st"
    unfolding proceeds_share [OF assms(1)] owed_def using assms(2)
    by (auto simp: close_auction_def Let_def state_simps simp flip: sum_list_addf
        intro!: arg_cong [where f = sum_list] map_cong)
  then show ?thesis by simp
qed

text \<open>Storing a new auction under the next id.\<close>

lemma set_id_fields [simp]:
  "st_params (setLastAuctionID st i) = st_params st" "st_params (setLastBidID st j) = st_params st"
  "st_auctions (setLastAuctionID st i) = st_auctions st" "st_auctions (setLastBidID st j) = st_auctions st"
  "st_bids (setLastAuctionID st i) = st_bids st" "st_bids (setLastBidID st j) = st_bids st"
  "st_prices (setLastAuctionID st i) = st_prices st" "st_prices (setLastBidID st j) = st_prices st"
  "st_bank (setLastAuctionID st i) = st_bank st" "st_bank (setLastBidID st j) = st_bank st"
  by (simp_all add: setLastAuctionID_def setLastBidID_def)

lemma ids_ok_mono:
  assumes "GetLastAuctionID s \<le> GetLastAuctionID t" "GetLastBidID s \<le> GetLastBidID t"
  shows "active_ok k s a \<Longrightarrow> active_ok k t a" "ended_ok s a \<Longrightarrow> ended_ok t a" "bid_ok s b \<Longrightarrow> bid_ok t b"
  using assms by (auto simp: active_ok_def ended_ok_def bid_ok_def)

lemma store_wf_open:
  assumes "store_wf k st" "a_Id a = GetLastAuctionID st + 1" "sale_denom a \<notin> sale_denom ` set (GetActiveAuctions st)"
    "active_ok k (setLastAuctionID st (a_Id a)) a"
  shows "store_wf k (setLastAuctionID (setActiveAuction st a) (a_Id a))"
proof (rule store_wfI)
  let ?s = "setLastAuctionID (setActiveAuction st a) (a_Id a)"
  note wf = assms(1)
  have lt: "GetLastAuctionID st < a_Id a"
    using assms(2,4) word_less_Suc [of "GetLastAuctionID st"] by (auto simp: active_ok_def)
  have ids: "GetLastAuctionID st \<le> GetLastAuctionID ?s" "GetLastBidID st \<le> GetLastBidID ?s"
    using lt by (simp_all add: setActiveAuction_def)
  note mono = ids_ok_mono [OF ids]
  note fresh = store_wf_fresh [OF wf lt]
  have a: "active_ok k ?s a" using assms(4) by (simp add: active_ok_def)
  show "auction_params_ok (st_params ?s)" using store_wf_params [OF wf] by (simp add: setActiveAuction_def)
  show "key = GetActiveAuctionKey (a_Id x) \<and> active_ok k ?s x \<and> GetEndedAuctionByID ?s (a_Id x) = None \<or>
      key = GetEndedAuctionKey (a_Id x) \<and> ended_ok ?s x" if "kv_get (st_auctions ?s) key = Some x" for key x
  proof (cases "key = GetActiveAuctionKey (a_Id a)")
    case True
    with that a fresh show ?thesis by (simp add: setActiveAuction_def GetEndedAuctionByID_def)
  next
    case False
    with that have "kv_get (st_auctions st) key = Some x" by (simp add: setActiveAuction_def)
    from store_wf_entry [OF wf this] mono(1,2) show ?thesis
      by (auto simp: setActiveAuction_def GetEndedAuctionByID_def)
  qed
  have other: "sale_denom x \<noteq> sale_denom a" if "GetActiveAuctionByID st i = Some x" for i x
  proof -
    have "GetActiveAuctionByID st (a_Id x) = Some x" using that store_wf_active(1) [OF wf that] by simp
    with assms(3) store_wf_active_mem [OF wf, of x] show ?thesis by (metis imageI)
  qed
  show "i = j" if "GetActiveAuctionByID ?s i = Some x" "GetActiveAuctionByID ?s j = Some y"
    "sale_denom x = sale_denom y" for i j x y
    using that other [of i x] other [of j y] store_wf_denom [OF wf, of i x j y]
    by (auto simp: setActiveAuction_def GetActiveAuctionByID_def split: if_splits)
  show "key = GetBidKey (b_AuctionId b) (b_Id b) \<and> bid_ok ?s b" if "kv_get (st_bids ?s) key = Some b" for key b
    using that store_wf_bid [OF wf, of key b] mono(3) by (simp add: setActiveAuction_def)
  show "key = GetTokenPriceKey (tp_Denom p) \<and> TokenPrice_ValidateBasic (ak_sdk k) p = Ok ()"
    if "kv_get (st_prices ?s) key = Some p" for key p
    using that store_wf_price [OF wf] by (simp add: setActiveAuction_def)
qed

lemma owed_open:
  assumes "store_wf k st" "GetLastAuctionID st < a_Id a"
  shows "owed (setLastAuctionID (setActiveAuction st a) (a_Id a)) = owed st"
proof -
  have "b_AuctionId b \<noteq> a_Id a" if "b \<in> set (kv_values (st_bids st) p)" for b p
    using that assms(2) by (auto simp: kv_values_mem bid_ok_def dest!: store_wf_bid(2) [OF assms(1)])
  then show ?thesis
    by (auto simp: owed_def setActiveAuction_def GetActiveAuctionByID_def
        intro!: arg_cong [where f = sum_list] map_cong)
qed

text \<open>Storing a new bid under the next bid id, for an active auction.\<close>

lemma store_wf_setBid:
  assumes "store_wf k st" "b_Id b = GetLastBidID st + 1" "b_Id b \<noteq> 0" "0 \<le> paid b"
    "GetActiveAuctionByID st (b_AuctionId b) \<noteq> None"
  shows "store_wf k (setLastBidID (setBid st b) (b_Id b))"
    and "owed (setLastBidID (setBid st b) (b_Id b)) = owed st + paid b"
proof -
  let ?s = "setLastBidID (setBid st b) (b_Id b)"
  note wf = assms(1)
  have lt: "GetLastBidID st < b_Id b"
    using assms(2,3) word_less_Suc [of "GetLastBidID st"] by auto
  have ids: "GetLastAuctionID st \<le> GetLastAuctionID ?s" "GetLastBidID st \<le> GetLastBidID ?s"
    using lt by (simp_all add: setBid_def)
  note mono = ids_ok_mono [OF ids]
  have "b_AuctionId b \<le> GetLastAuctionID st"
    using assms(5) store_wf_active [OF wf, of "b_AuctionId b"] by (auto simp: active_ok_def)
  then have b: "bid_ok ?s b" using assms(3,4) by (simp add: bid_ok_def setBid_def)
  show "store_wf k ?s"
  proof (rule store_wfI)
    show "auction_params_ok (st_params ?s)" using store_wf_params [OF wf] by (simp add: setBid_def)
    show "key = GetActiveAuctionKey (a_Id x) \<and> active_ok k ?s x \<and> GetEndedAuctionByID ?s (a_Id x) = None \<or>
        key = GetEndedAuctionKey (a_Id x) \<and> ended_ok ?s x" if "kv_get (st_auctions ?s) key = Some x" for key x
      using that store_wf_entry [OF wf, of key x] mono(1,2) by (auto simp: setBid_def GetEndedAuctionByID_def)
    show "i = j" if "GetActiveAuctionByID ?s i = Some x" "GetActiveAuctionByID ?s j = Some y"
      "sale_denom x = sale_denom y" for i j x y
      using that store_wf_denom [OF wf, of i x j y] by (simp add: setBid_def GetActiveAuctionByID_def)
    show "key = GetBidKey (b_AuctionId x) (b_Id x) \<and> bid_ok ?s x" if "kv_get (st_bids ?s) key = Some x" for key x
    proof (cases "key = GetBidKey (b_AuctionId b) (b_Id b)")
      case True
      with that b show ?thesis by (simp add: setBid_def)
    next
      case False
      with that have "kv_get (st_bids st) key = Some x" by (simp add: setBid_def)
      with store_wf_bid [OF wf this] mono(3) show ?thesis by simp
    qed
    show "key = GetTokenPriceKey (tp_Denom p) \<and> TokenPrice_ValidateBasic (ak_sdk k) p = Ok ()"
      if "kv_get (st_prices ?s) key = Some p" for key p
      using that store_wf_price [OF wf] by (simp add: setBid_def)
  qed
  have "kv_get (st_bids st) (GetBidKey (b_AuctionId b) (b_Id b)) = None"
    using store_wf_bid(2) [OF wf, of "GetBidKey (b_AuctionId b) (b_Id b)"]
      store_wf_bid(1) [OF wf, of "GetBidKey (b_AuctionId b) (b_Id b)"] lt
    by (cases "kv_get (st_bids st) (GetBidKey (b_AuctionId b) (b_Id b))") (auto simp: bid_ok_def)
  with assms(5) show "owed ?s = owed st + paid b"
    by (simp add: owed_def setBid_def GetActiveAuctionByID_def sum_kv_values_set)
qed

text \<open>Deleting ended auctions and bids.\<close>

lemma store_wf_deletes:
  assumes "store_wf k st"
  shows "store_wf k (deleteEndedAuction st i)" "store_wf k (deleteBid st i n)"
  using assms
  by (auto simp: store_wf_def auctions_wf_def one_per_denom_def bids_wf_def prices_wf_def kv_all_iff
      deleteEndedAuction_def deleteBid_def GetEndedAuctionByID_def)

lemma owed_deletes:
  assumes "store_wf k st"
  shows "owed (deleteEndedAuction st i) = owed st" "owed (deleteBid st i n) \<le> owed st"
proof -
  show "owed (deleteEndedAuction st i) = owed st"
    by (simp add: owed_def deleteEndedAuction_def GetActiveAuctionByID_def)
  show "owed (deleteBid st i n) \<le> owed st"
    using store_wf_bid(2) [OF assms]
    by (auto simp: owed_def deleteBid_def GetActiveAuctionByID_def sum_kv_values_del bid_ok_def split: option.splits)
qed

lemma store_wf_distinct_ids:
  assumes "store_wf k st"
  shows "distinct (map a_Id (GetActiveAuctions st))"
proof -
  let ?es = "kv_iter (st_auctions st) GetActiveAuctionsPrefix"
  have "map fst ?es = map GetActiveAuctionKey (map a_Id (map snd ?es))"
    unfolding map_map
  proof (rule map_cong [OF refl])
    fix e assume "e \<in> set ?es"
    then have "kv_get (st_auctions st) (fst e) = Some (snd e)" "prefix GetActiveAuctionsPrefix (fst e)"
      using kv_iter_mem [of "fst e" "snd e"] by simp_all
    with store_wf_entry [OF assms, of "fst e" "snd e"]
    show "fst e = (GetActiveAuctionKey \<circ> (a_Id \<circ> snd)) e" by auto
  qed
  then have "distinct (map GetActiveAuctionKey (map a_Id (map snd ?es)))"
    using kvs.iter_distinct [of "st_auctions st" GetActiveAuctionsPrefix] by (simp del: map_map)
  then show ?thesis
    by (simp add: GetActiveAuctions_values kv_values_def distinct_map del: map_map)
qed

text \<open>Pruning touches only ended auctions and bids.\<close>

definition prune_inv :: "'b auction_keeper \<Rightarrow> 'b auction_state \<Rightarrow> 'b auction_state \<Rightarrow> bool" where
  "prune_inv k st s \<longleftrightarrow> store_wf k s \<and> owed s \<le> owed st \<and> st_bank s = st_bank st \<and> st_params s = st_params st \<and>
    st_ids s = st_ids st \<and> GetActiveAuctionByID s = GetActiveAuctionByID st"

lemma prune_inv_refl: "store_wf k st \<Longrightarrow> prune_inv k st st"
  by (simp add: prune_inv_def)

lemma prune_inv_deletes:
  assumes "prune_inv k st s"
  shows "prune_inv k st (deleteEndedAuction s i)" "prune_inv k st (deleteBid s i n)"
  using assms store_wf_deletes [of k s i] owed_deletes(1) [of k s i]
    order_trans [OF owed_deletes(2) [of k s i n], of "owed st"]
  by (simp_all add: prune_inv_def deleteEndedAuction_def deleteBid_def GetActiveAuctionByID_def fun_eq_iff)

lemma prune_inv_foldl:
  "prune_inv k st s \<Longrightarrow> prune_inv k st (foldl (\<lambda>s b. deleteBid s i (b_Id b)) s bs)"
  by (induction bs arbitrary: s) (simp_all add: prune_inv_deletes)

lemma prune_inv_auctions:
  "prune_inv k st (fst s) \<Longrightarrow> prune_inv k st (fst (fold (prune_auction ctx maxAge) xs s))"
proof (induction xs arbitrary: s)
  case (Cons a xs)
  from Cons.prems have "prune_inv k st (fst (prune_auction ctx maxAge a s))"
    by (cases s) (simp add: prune_auction_def Let_def prune_inv_deletes(1) prune_inv_foldl)
  with Cons.IH show ?case by simp
qed simp

lemma prune_auctions_inv: "store_wf k st \<Longrightarrow> prune_inv k st (prune_auctions ctx st)"
  by (simp add: prune_auctions_def Let_def prune_inv_refl prune_inv_auctions)

end
