(* ===== verification/Auction_Safety.thy ===== *)
theory Auction_Safety
  imports Auction_Invariants
begin

text \<open>
  The operations of the auction module under the laws of the SDK. The locale \<open>auction_env\<close> is the
  environment of the keeper: a bank and decimals that satisfy their laws and a keeper whose module
  accounts exist. In it, finishing an auction returns and settles exactly (unsold tokens back to the
  funding module, the sum of all payments to the proceeds module), the end of a block returns, and
  every operation keeps the invariant \<open>auction_inv\<close>.
\<close>

text \<open>The balances after an auction is settled: what the bank holds, and the two transfers.\<close>

abbreviation module_addr :: "'b auction_keeper \<Rightarrow> string \<Rightarrow> addr" where
  "module_addr k m \<equiv> NewModuleAddress (ak_sdk k) m"

definition settled_balance :: "'b auction_keeper \<Rightarrow> 'b auction_state \<Rightarrow> auction \<Rightarrow> addr \<Rightarrow> string \<Rightarrow> int" where
  "settled_balance k st a x d = GetBalance (ak_bank k) (st_bank st) x d +
    moved (module_addr k auction_ModuleName) (module_addr k (a_FundingModuleAccount a))
      [mk_coin (sale_denom a) (module_balance k st (sale_denom a))] x d +
    moved (module_addr k auction_ModuleName) (module_addr k (a_ProceedsModuleAccount a))
      [mk_coin BaseCoinUnit (\<Sum>b\<leftarrow>GetBidsByAuctionID st (a_Id a). paid b)] x d"

text \<open>The auction after it sold to a bid.\<close>

definition sell_to :: "'b auction_keeper \<Rightarrow> 'b auction_state \<Rightarrow> auction \<Rightarrow> bid \<Rightarrow> auction" where
  "sell_to k st a bid = a\<lparr>a_RemainingTokensForSale := mk_coin (sale_denom a)
     (module_balance k st (sale_denom a) - cAmount (b_TotalFulfilledSaleTokens bid))\<rparr>"

text \<open>
  What the end of a block does to the price of an active auction: nothing when no decrease is due;
  otherwise it falls by at least \<open>least_decrease\<close>, or the auction ends. The terms of the sale stay.
\<close>

definition least_decrease :: "auction \<Rightarrow> int" where
  "least_decrease a = a_InitialUnitPriceInUsomm a * a_InitialPriceDecreaseRate a div dec_one"

lemma least_decrease_simps [simp]:
  "least_decrease (a\<lparr>a_CurrentPriceDecreaseRate := r\<rparr>) = least_decrease a"
  "least_decrease (a\<lparr>a_CurrentUnitPriceInUsomm := p\<rparr>) = least_decrease a"
  "least_decrease (a\<lparr>a_RemainingTokensForSale := c\<rparr>) = least_decrease a"
  by (simp_all add: least_decrease_def)

definition price_lowered :: "ctx \<Rightarrow> auction \<Rightarrow> auction option \<Rightarrow> bool" where
  "price_lowered ctx a r \<longleftrightarrow> (case r of None \<Rightarrow> price_decrease_due ctx a = Ok True
     | Some a' \<Rightarrow> a_StartBlock a' = a_StartBlock a \<and> a_StartingTokensForSale a' = a_StartingTokensForSale a \<and>
         a_PriceDecreaseBlockInterval a' = a_PriceDecreaseBlockInterval a \<and> least_decrease a' = least_decrease a \<and>
         a_CurrentUnitPriceInUsomm a' \<le> a_CurrentUnitPriceInUsomm a -
           (if price_decrease_due ctx a = Ok True then least_decrease a else 0))"

locale auction_env = chain_env "ak_sdk k" "ak_bank k" has_account blocked
  for k :: "'b auction_keeper" and has_account :: "string \<Rightarrow> bool" and blocked :: "addr \<Rightarrow> bool" +
  assumes keeper: "keeper_ok k has_account"
begin

abbreviation maddr :: addr where
  "maddr \<equiv> NewModuleAddress (ak_sdk k) auction_ModuleName"

lemma has_accounts:
  "has_account auction_ModuleName"
  "fundingModuleAccounts k m \<noteq> None \<Longrightarrow> has_account m"
  "proceedsModuleAccounts k m \<noteq> None \<Longrightarrow> has_account m"
  using keeper by (auto simp: keeper_ok_def)

lemma usomm_valid: "ValidateDenom (ak_sdk k) BaseCoinUnit"
  using keeper by (simp add: keeper_ok_def)

lemma auction_account: "GetAuctionAccount k = Some maddr"
  using keeper by (simp add: keeper_ok_def)

lemma moved_none [simp]: "moved x y [mk_coin d 0] a e = 0"
  by (simp add: moved_def)

section \<open>Finishing\<close>

lemma return_unsold_total:
  assumes "active_ok k st a0" "sale_denom a = sale_denom a0" "a_FundingModuleAccount a = a_FundingModuleAccount a0"
  shows "\<exists>b. return_unsold k st a = Ok (st\<lparr>st_bank := b\<rparr>) \<and>
    (\<forall>x d. GetBalance (ak_bank k) b x d = GetBalance (ak_bank k) (st_bank st) x d +
      moved maddr (NewModuleAddress (ak_sdk k) (a_FundingModuleAccount a))
        [mk_coin (sale_denom a) (module_balance k st (sale_denom a))] x d)"
proof (cases "0 < module_balance k st (sale_denom a)")
  case True
  let ?c = "mk_coin (sale_denom a) (module_balance k st (sale_denom a))"
  from True assms have "\<exists>b. SendCoinsFromModuleToModule (ak_bank k) (st_bank st) auction_ModuleName
      (a_FundingModuleAccount a) [?c] = Ok b"
    by (intro m2m_funds) (auto simp: active_ok_def intro: has_accounts)
  then obtain b where "SendCoinsFromModuleToModule (ak_bank k) (st_bank st) auction_ModuleName
      (a_FundingModuleAccount a) [?c] = Ok b" by blast
  with True m2m_balance [OF this] show ?thesis
    by (intro exI [of _ b]) (simp add: return_unsold_def)
next
  case False
  then have "module_balance k st (sale_denom a) = 0"
    using balance_nonneg [of "st_bank st" maddr "sale_denom a"] by simp
  then show ?thesis
    by (intro exI [of _ "st_bank st"]) (simp add: return_unsold_def)
qed

lemma pay_proceeds_total:
  assumes "store_wf k st" "active_ok k st a0" "a_ProceedsModuleAccount a = a_ProceedsModuleAccount a0"
    "(\<Sum>b\<leftarrow>GetBidsByAuctionID st (a_Id a). paid b) \<le> module_balance k st BaseCoinUnit"
  shows "\<exists>b. pay_proceeds k st a = Ok (st\<lparr>st_bank := b\<rparr>) \<and>
    (\<forall>x d. GetBalance (ak_bank k) b x d = GetBalance (ak_bank k) (st_bank st) x d +
      moved maddr (NewModuleAddress (ak_sdk k) (a_ProceedsModuleAccount a))
        [mk_coin BaseCoinUnit (\<Sum>b\<leftarrow>GetBidsByAuctionID st (a_Id a). paid b)] x d)"
proof -
  let ?p = "\<Sum>b\<leftarrow>GetBidsByAuctionID st (a_Id a). paid b"
  have coin: "NewCoin (ak_sdk k) BaseCoinUnit ?p = Ok (mk_coin BaseCoinUnit ?p)"
    using usomm_valid proceeds_nonneg [OF assms(1)] by (simp add: NewCoin_def Coin_IsValid_def)
  show ?thesis
  proof (cases "0 < ?p")
    case True
    with assms usomm_valid
    have "\<exists>b. SendCoinsFromModuleToModule (ak_bank k) (st_bank st) auction_ModuleName
        (a_ProceedsModuleAccount a) [mk_coin BaseCoinUnit ?p] = Ok b"
      by (intro m2m_funds) (auto simp: active_ok_def intro: has_accounts)
    then obtain b where "SendCoinsFromModuleToModule (ak_bank k) (st_bank st) auction_ModuleName
        (a_ProceedsModuleAccount a) [mk_coin BaseCoinUnit ?p] = Ok b" by blast
    with True coin m2m_balance [OF this] show ?thesis
      by (intro exI [of _ b]) (simp add: pay_proceeds_def foldl_sum)
  next
    case False
    then have "?p = 0" using proceeds_nonneg [OF assms(1), of "a_Id a"] by simp
    with coin show ?thesis
      by (intro exI [of _ "st_bank st"]) (simp add: pay_proceeds_def foldl_sum)
  qed
qed

lemma FinishAuction_total:
  assumes inv: "auction_inv k st" and a0: "GetActiveAuctionByID st (a_Id a) = Some a0"
    and same: "sale_denom a = sale_denom a0" "a_FundingModuleAccount a = a_FundingModuleAccount a0"
      "a_ProceedsModuleAccount a = a_ProceedsModuleAccount a0"
    and height: "BlockHeight ctx \<noteq> 0"
  shows "\<exists>b. FinishAuction k ctx st a = Ok (close_auction ctx (st\<lparr>st_bank := b\<rparr>) a) \<and>
    auction_inv k (close_auction ctx (st\<lparr>st_bank := b\<rparr>) a) \<and>
    (\<forall>x d. GetBalance (ak_bank k) b x d = settled_balance k st a x d)"
proof -
  let ?p = "\<Sum>b\<leftarrow>GetBidsByAuctionID st (a_Id a). paid b"
  have wf: "store_wf k st" and sol: "owed st \<le> module_balance k st BaseCoinUnit"
    using inv by (simp_all add: auction_inv_def solvent_def)
  have ok: "active_ok k st a0" by (rule store_wf_active [OF wf a0])
  have p: "?p \<le> owed st" using proceeds_le_owed [OF wf, of "a_Id a"] a0 by simp
  from return_unsold_total [OF ok same(1,2)] obtain b1 where
    b1: "return_unsold k st a = Ok (st\<lparr>st_bank := b1\<rparr>)" and
    bal1: "GetBalance (ak_bank k) b1 x d = GetBalance (ak_bank k) (st_bank st) x d +
      moved maddr (NewModuleAddress (ak_sdk k) (a_FundingModuleAccount a))
        [mk_coin (sale_denom a) (module_balance k st (sale_denom a))] x d" for x d
    by blast
  let ?s = "st\<lparr>st_bank := b1\<rparr>"
  have bids: "GetBidsByAuctionID ?s (a_Id a) = GetBidsByAuctionID st (a_Id a)"
    by (simp add: GetBidsByAuctionID_values)
  have usomm: "module_balance k ?s BaseCoinUnit = module_balance k st BaseCoinUnit"
    using ok same(1) by (simp add: bal1 moved_def active_ok_def)
  have "\<exists>b. pay_proceeds k ?s a = Ok (?s\<lparr>st_bank := b\<rparr>) \<and>
    (\<forall>x d. GetBalance (ak_bank k) b x d = GetBalance (ak_bank k) (st_bank ?s) x d +
      moved maddr (NewModuleAddress (ak_sdk k) (a_ProceedsModuleAccount a))
        [mk_coin BaseCoinUnit (\<Sum>b\<leftarrow>GetBidsByAuctionID ?s (a_Id a). paid b)] x d)"
    using wf ok same p sol by (intro pay_proceeds_total [of _ a0]) (simp_all add: bids usomm [simplified])
  then obtain b2 where b2: "pay_proceeds k ?s a = Ok (st\<lparr>st_bank := b2\<rparr>)" and
    bal2: "GetBalance (ak_bank k) b2 x d = settled_balance k st a x d" for x d
    by (auto simp: bids bal1 settled_balance_def)
  let ?t = "close_auction ctx (st\<lparr>st_bank := b2\<rparr>) a"
  have "module_balance k (st\<lparr>st_bank := b2\<rparr>) BaseCoinUnit \<ge> module_balance k st BaseCoinUnit - ?p"
    using ok same(1) proceeds_nonneg [OF wf, of "a_Id a"]
    by (simp add: bal2 settled_balance_def moved_def active_ok_def)
  moreover have "module_balance k ?t BaseCoinUnit = module_balance k (st\<lparr>st_bank := b2\<rparr>) BaseCoinUnit"
    by (simp add: close_auction_def Let_def state_simps)
  moreover have "owed ?t = owed st - ?p"
    using owed_close [of k "st\<lparr>st_bank := b2\<rparr>" a ctx] wf a0
    by (simp add: GetActiveAuctionByID_def GetBidsByAuctionID_values)
  ultimately have "solvent k ?t" using sol by (simp add: solvent_def)
  moreover have "store_wf k ?t"
    using wf a0 height by (intro store_wf_close) (simp_all add: GetActiveAuctionByID_def)
  ultimately show ?thesis
    using b1 b2 bal2 by (auto simp: FinishAuction_def auction_inv_def)
qed

section \<open>The end of a block\<close>

lemma next_decrease_rate_ge:
  assumes "active_ok k st a" "auction_params_ok (st_params st)"
  shows "a_InitialPriceDecreaseRate a \<le> next_decrease_rate k ctx st a"
proof -
  let ?m = "Dec_Mul (ak_sdk k) (a_CurrentPriceDecreaseRate a)
    (dec_one + AuctionPriceDecreaseAccelerationRate (st_params st))"
  have "a_CurrentPriceDecreaseRate a \<le> ?m"
    using assms by (intro mul_mono) (simp_all add: active_ok_def auction_params_ok_def)
  then show ?thesis
    using assms by (simp add: next_decrease_rate_def Let_def active_ok_def)
qed

lemma price_decrease_due_total:
  "a_PriceDecreaseBlockInterval a \<noteq> 0 \<Longrightarrow> \<exists>due. price_decrease_due ctx a = Ok due"
  by (cases "BlockHeight ctx = a_StartBlock a") (auto simp: price_decrease_due_def rem_i64_def)

lemma update_auction_price_total:
  assumes inv: "auction_inv k st" and a: "GetActiveAuctionByID st (a_Id a) = Some a"
    and height: "BlockHeight ctx \<noteq> 0"
  shows "\<exists>st'. update_auction_price k ctx a st = Ok st' \<and> auction_inv k st' \<and>
    (\<forall>i. i \<noteq> a_Id a \<longrightarrow> GetActiveAuctionByID st' i = GetActiveAuctionByID st i) \<and>
    price_lowered ctx a (GetActiveAuctionByID st' (a_Id a))"
proof -
  have wf: "store_wf k st" using inv by (simp add: auction_inv_def)
  have ok: "active_ok k st a" by (rule store_wf_active [OF wf a])
  let ?r = "next_decrease_rate k ctx st a"
  let ?a = "a\<lparr>a_CurrentPriceDecreaseRate := ?r\<rparr>"
  let ?dec = "Dec_Mul (ak_sdk k) (a_InitialUnitPriceInUsomm a) ?r"
  let ?b = "?a\<lparr>a_CurrentUnitPriceInUsomm := a_CurrentUnitPriceInUsomm a - ?dec\<rparr>"
  have rate: "a_InitialPriceDecreaseRate a \<le> ?r"
    by (rule next_decrease_rate_ge [OF ok store_wf_params [OF wf]])
  have "least_decrease a * dec_one \<le> a_InitialUnitPriceInUsomm a * a_InitialPriceDecreaseRate a"
    by (simp add: least_decrease_def minus_mod_eq_div_mult [symmetric])
  also have "\<dots> \<le> a_InitialUnitPriceInUsomm a * ?r"
    using ok rate by (intro mult_left_mono) (simp_all add: active_ok_def)
  finally have dec: "least_decrease a \<le> ?dec" by (rule mul_ge)
  have least: "0 \<le> least_decrease a"
    using ok by (simp add: least_decrease_def active_ok_def pos_imp_zdiv_nonneg_iff)
  obtain due where due: "price_decrease_due ctx a = Ok due"
    using price_decrease_due_total [of a ctx] ok by (auto simp: active_ok_def)
  consider (idle) "\<not> due" | (finish) "due" "a_CurrentUnitPriceInUsomm a - ?dec \<le> 0"
    | (lower) "due" "0 < a_CurrentUnitPriceInUsomm a - ?dec" by linarith
  then show ?thesis
  proof cases
    case idle
    then show ?thesis using inv a due by (simp add: update_auction_price_def price_lowered_def)
  next
    case finish
    obtain b where "FinishAuction k ctx st ?a = Ok (close_auction ctx (st\<lparr>st_bank := b\<rparr>) ?a)"
      "auction_inv k (close_auction ctx (st\<lparr>st_bank := b\<rparr>) ?a)"
      using FinishAuction_total [OF inv _ _ _ _ height, of ?a a] a by auto
    then show ?thesis
      using finish due a
      by (auto simp: update_auction_price_def price_lowered_def Let_def close_auction_def state_simps)
  next
    case lower
    have "active_ok k st ?b" using ok rate lower(2) dec least by (simp add: active_ok_def)
    then have "store_wf k (setActiveAuction st ?b)" using a by (intro store_wf_setActive [OF wf]) auto
    moreover have "owed (setActiveAuction st ?b) = owed st" using a by (intro owed_setActive) simp
    ultimately have "auction_inv k (setActiveAuction st ?b)"
      using inv by (simp add: auction_inv_def solvent_def setActiveAuction_def)
    then show ?thesis
      using lower due dec
      by (auto simp: update_auction_price_def Let_def auction_inv_def solvent_def)
        (auto simp: state_simps price_lowered_def)
  qed
qed

lemma auction_EndBlocker_total:
  assumes inv: "auction_inv k st" and height: "BlockHeight ctx \<noteq> 0"
  shows "\<exists>st'. auction_EndBlocker k ctx st = Ok st' \<and> auction_inv k st' \<and>
    (\<forall>i. GetActiveAuctionByID st i = None \<longrightarrow> GetActiveAuctionByID st' i = None) \<and>
    (\<forall>i a. GetActiveAuctionByID st i = Some a \<longrightarrow> price_lowered ctx a (GetActiveAuctionByID st' i))"
proof -
  define I where "I xs s \<longleftrightarrow> auction_inv k s \<and> distinct (map a_Id xs) \<and>
    (\<forall>a \<in> set xs. GetActiveAuctionByID s (a_Id a) = Some a \<and> GetActiveAuctionByID st (a_Id a) = Some a) \<and>
    (\<forall>i. GetActiveAuctionByID st i = None \<longrightarrow> GetActiveAuctionByID s i = None) \<and>
    (\<forall>i a. GetActiveAuctionByID st i = Some a \<longrightarrow> a \<in> set xs \<or> price_lowered ctx a (GetActiveAuctionByID s i))" for xs s
  have wf: "store_wf k st" using inv by (simp add: auction_inv_def)
  have "\<exists>s'. fold_res (update_auction_price k ctx) (GetActiveAuctions st) st = Ok s' \<and> I [] s'"
  proof (rule fold_res_total)
    have "a \<in> set (GetActiveAuctions st)" if "GetActiveAuctionByID st i = Some a" for i a
      using that store_wf_active(1) [OF wf that] store_wf_active_mem [OF wf, of a] by simp
    then show "I (GetActiveAuctions st) st"
      using inv store_wf_distinct_ids [OF wf] store_wf_active_mem [OF wf] by (simp add: I_def)
    fix a xs s assume I: "I (a # xs) s"
    then have s: "auction_inv k s" "GetActiveAuctionByID s (a_Id a) = Some a" "a_Id a \<notin> a_Id ` set xs"
      "distinct (map a_Id xs)" "\<forall>x \<in> set xs. GetActiveAuctionByID s (a_Id x) = Some x" by (auto simp: I_def)
    from update_auction_price_total [OF s(1,2) height] obtain s' where
      s': "update_auction_price k ctx a s = Ok s'" "auction_inv k s'"
      "\<And>i. i \<noteq> a_Id a \<Longrightarrow> GetActiveAuctionByID s' i = GetActiveAuctionByID s i"
      "price_lowered ctx a (GetActiveAuctionByID s' (a_Id a))" by blast
    have "GetActiveAuctionByID s' (a_Id x) = Some x" if "x \<in> set xs" for x
      using s(3,5) s'(3) [of "a_Id x"] that by (metis imageI)
    moreover have "GetActiveAuctionByID s' i = None" if "GetActiveAuctionByID st i = None" for i
      using I s(2) s'(3) [of i] that by (cases "i = a_Id a") (auto simp: I_def)
    moreover have "x \<in> set xs \<or> price_lowered ctx x (GetActiveAuctionByID s' i)"
      if "GetActiveAuctionByID st i = Some x" for i x
      using I s'(3) [of i] s'(4) that store_wf_active(1) [OF wf that] by (cases "i = a_Id a") (auto simp: I_def)
    ultimately show "\<exists>s'. update_auction_price k ctx a s = Ok s' \<and> I xs s'"
      using s(4) s'(1,2) I by (auto simp: I_def)
  qed
  then obtain s where s: "fold_res (update_auction_price k ctx) (GetActiveAuctions st) st = Ok s" "I [] s" by blast
  have pr: "prune_inv k s (prune_auctions ctx s)"
    using s(2) by (intro prune_auctions_inv) (simp add: I_def auction_inv_def)
  with s(2) have "auction_inv k (prune_auctions ctx s)"
    by (auto simp: I_def auction_inv_def solvent_def prune_inv_def)
  with s pr show ?thesis by (auto simp: auction_EndBlocker_def I_def prune_inv_def)
qed

section \<open>Starting an auction\<close>

lemma BeginAuction_cases:
  assumes "BeginAuction k ctx st c rate interval fund proc = Ok st'"
  obtains sale usomm price b e where
    "MinimumAuctionHeight (st_params st) < BlockHeight ctx" "0 < cAmount c"
    "fundingModuleAccounts k fund \<noteq> None" "proceedsModuleAccounts k proc \<noteq> None"
    "GetTokenPrice st (cDenom c) = Some sale" "\<not> tokenPriceTooOld ctx st sale"
    "GetTokenPrice st BaseCoinUnit = Some usomm" "\<not> tokenPriceTooOld ctx st usomm"
    "saleTokenPriceInUsomm (ak_sdk k) sale usomm = Ok price"
    "Auction_ValidateBasic (ak_sdk k) (new_auction ctx st c rate interval price fund proc) = Ok ()"
    "cDenom c \<notin> sale_denom ` set (GetActiveAuctions st)"
    "SendCoinsFromModuleToModule (ak_bank k) (st_bank st) fund auction_ModuleName [c] = Ok b"
    "st' = auction_emit e (setLastAuctionID (setActiveAuction (st\<lparr>st_bank := b\<rparr>)
       (new_auction ctx st c rate interval price fund proc)) (GetLastAuctionID st + 1))"
  using assms
  by (auto simp: BeginAuction_def open_auction_def Let_def auction_ongoing_iff Coin_IsPositive_def new_auction_def
      not_le split: if_splits option.splits)

lemma BeginAuction_inv:
  assumes inv: "auction_inv k st" and ok: "BeginAuction k ctx st c rate interval fund proc = Ok st'"
  shows "auction_inv k st'"
proof -
  from ok obtain price b e where *: "fundingModuleAccounts k fund \<noteq> None" "proceedsModuleAccounts k proc \<noteq> None"
    "Auction_ValidateBasic (ak_sdk k) (new_auction ctx st c rate interval price fund proc) = Ok ()"
    "cDenom c \<notin> sale_denom ` set (GetActiveAuctions st)"
    "SendCoinsFromModuleToModule (ak_bank k) (st_bank st) fund auction_ModuleName [c] = Ok b"
    "st' = auction_emit e (setLastAuctionID (setActiveAuction (st\<lparr>st_bank := b\<rparr>)
       (new_auction ctx st c rate interval price fund proc)) (GetLastAuctionID st + 1))"
    by (rule BeginAuction_cases)
  let ?a = "new_auction ctx st c rate interval price fund proc" and ?s = "st\<lparr>st_bank := b\<rparr>"
  have wf: "store_wf k ?s" using inv by (simp add: auction_inv_def)
  have i: "a_Id ?a = GetLastAuctionID ?s + 1" and d: "sale_denom ?a = cDenom c"
    and r: "a_StartingTokensForSale ?a = c"
    by (simp_all add: new_auction_def)
  have nz: "GetLastAuctionID st + 1 \<noteq> 0" "cDenom c \<noteq> BaseCoinUnit"
    using *(3) by (auto simp: Auction_ValidateBasic_Ok new_auction_def)
  have lt: "GetLastAuctionID ?s < a_Id ?a" using word_less_Suc [OF nz(1)] i by simp
  have "active_ok k (setLastAuctionID ?s (a_Id ?a)) ?a"
    using *(1-3) by (auto simp: Auction_ValidateBasic_Ok active_ok_def new_auction_def)
  then have "store_wf k (setLastAuctionID (setActiveAuction ?s ?a) (a_Id ?a))"
    using *(4) by (intro store_wf_open [OF wf i]) (simp_all add: d GetActiveAuctions_values)
  moreover have "owed (setLastAuctionID (setActiveAuction ?s ?a) (a_Id ?a)) = owed st"
    using owed_open [OF wf lt] by simp
  moreover have "GetBalance (ak_bank k) b maddr BaseCoinUnit = module_balance k st BaseCoinUnit"
    using m2m_balance [OF *(5)] nz(2) by (simp add: moved_def)
  ultimately show ?thesis
    using inv i by (simp add: *(6) auction_inv_def solvent_def) (simp add: setActiveAuction_def auction_emit_def)
qed

section \<open>Bidding\<close>

text \<open>The whole number of usomm that covers a price: the least integer above.\<close>

lemma ceil_div_bounds: "n \<le> - ((- n) div dec_one) * dec_one" "- ((- n) div dec_one) * dec_one < n + dec_one"
proof -
  have "(- n) div dec_one * dec_one + (- n) mod dec_one = - n" by simp
  moreover have "0 \<le> (- n) mod dec_one" "(- n) mod dec_one < dec_one" by simp_all
  ultimately show "n \<le> - ((- n) div dec_one) * dec_one" "- ((- n) div dec_one) * dec_one < n + dec_one"
    by (simp_all only: mult_minus_left)
qed

lemma usomm_cost_Ok:
  assumes "TruncateInt64 (ak_sdk k) (Dec_Ceil (ak_sdk k) (n * price)) = Ok c" "0 \<le> n" "0 < price"
  shows "n * price \<le> c * dec_one" "c * dec_one < n * price + dec_one"
proof -
  have "c = - ((- (n * price)) div dec_one)"
    using assms trunc_ceil [of "n * price"] by (simp add: TruncateInt64_def Let_def split: if_splits)
  then show "n * price \<le> c * dec_one" "c * dec_one < n * price + dec_one"
    using ceil_div_bounds [of "n * price"] by simp_all
qed

lemma price_bid_Ok:
  assumes ok: "price_bid k ctx st msg signer auction bal = Ok bid"
    and price: "0 < a_CurrentUnitPriceInUsomm auction"
    and msg: "0 < cAmount (mb_SaleTokenMinimumAmount msg)" "0 < cAmount (mb_MaxBidInUsomm msg)" "0 \<le> bal"
  defines "n \<equiv> cAmount (b_TotalFulfilledSaleTokens bid)" and "p \<equiv> a_CurrentUnitPriceInUsomm auction"
  shows "cAmount (mb_SaleTokenMinimumAmount msg) \<le> n" "n \<le> bal"
    "n * p \<le> paid bid * dec_one" "paid bid * dec_one < n * p + dec_one"
    "2 * (n * p * dec_one) \<le> 2 * (cAmount (mb_MaxBidInUsomm msg) * dec_one * dec_one) + p"
proof -
  let ?S = "ak_sdk k" and ?min = "cAmount (mb_SaleTokenMinimumAmount msg)"
  define m where "m = cAmount (mb_MaxBidInUsomm msg)"
  define q where "q = Dec_Quo ?S (NewDecFromInt m) p"
  from ok obtain cost where
    cost: "minimumPurchasePriceInUsomm ?S auction ?min = Ok cost" "cost \<le> m" and
    n: "fulfilledSaleTokens ?S auction bal m ?min = Ok n" and
    pd: "usommAmount ?S auction n = Ok (paid bid)"
    by (auto simp: price_bid_def Let_def n_def m_def NewCoin_def not_less split: if_splits)
  have "?min * p \<le> cost * dec_one"
    using cost(1) price msg(1)
    by (intro usomm_cost_Ok(1) [of ?min p cost]) (simp_all add: minimumPurchasePriceInUsomm_def p_def)
  also have "\<dots> \<le> m * dec_one" using cost(2) by (intro mult_right_mono) (simp_all add: less_imp_le)
  finally have "(?min * p) * dec_one \<le> (m * dec_one) * dec_one"
    by (intro mult_right_mono) (simp_all add: less_imp_le)
  then have "?min * dec_one \<le> q"
    using price msg(2) unfolding q_def p_def m_def
    by (intro quo_ge) (simp_all add: NewDecFromInt_def less_imp_le ac_simps)
  then have minq: "?min \<le> q div dec_one" 
    using zdiv_mono1 [of "?min * dec_one" q dec_one] by (simp add: dec_one_def)
  have q0: "0 \<le> q" using price msg(2) unfolding q_def p_def m_def
    by (intro quo_nonneg) (simp_all add: NewDecFromInt_def less_imp_le)
  have tr: "Dec_TruncateInt ?S q = q div dec_one" by (rule trunc_eq [OF q0])
  have nmin: "n = min (q div dec_one) bal \<and> ?min \<le> n"
    using n minq price by (auto simp: fulfilledSaleTokens_def Quo_def Let_def tr [unfolded q_def p_def] q_def p_def
        split: if_splits)
  then show "?min \<le> n" "n \<le> bal" by linarith+
  then have "0 \<le> n" using msg(1) by simp
  then show "n * p \<le> paid bid * dec_one" "paid bid * dec_one < n * p + dec_one"
    using usomm_cost_Ok [of n p "paid bid"] pd price by (simp_all add: usommAmount_def p_def)
  have "n * dec_one \<le> q div dec_one * dec_one" using nmin by (intro mult_right_mono) (simp_all add: less_imp_le)
  also have "\<dots> \<le> q" using pos_mod_sign [OF dec_one_pos, of q] div_mult_mod_eq [of q dec_one] by linarith
  finally have "n * dec_one * p \<le> q * p" using price by (intro mult_right_mono) (simp_all add: p_def)
  moreover have "2 * (q * p) \<le> 2 * (m * dec_one * dec_one) + p"
    using quo_upper [of "NewDecFromInt m" p] price msg(2)
    by (simp add: q_def p_def m_def NewDecFromInt_def less_imp_le)
  ultimately show "2 * (n * p * dec_one) \<le> 2 * (cAmount (mb_MaxBidInUsomm msg) * dec_one * dec_one) + p"
    by (simp add: m_def ac_simps)
qed

lemma price_bid_fields:
  assumes "price_bid k ctx st msg signer auction bal = Ok bid"
  shows "Bid_ValidateBasic (ak_sdk k) bid = Ok ()" "b_Id bid = GetLastBidID st + 1" "b_AuctionId bid = mb_AuctionId msg"
    "b_Bidder bid = AccAddress_String (ak_sdk k) signer" "b_MaxBidInUsomm bid = mb_MaxBidInUsomm msg"
    "b_SaleTokenMinimumAmount bid = mb_SaleTokenMinimumAmount msg" "b_BlockHeight bid = BlockHeight ctx"
    "b_SaleTokenUnitPriceInUsomm bid = a_CurrentUnitPriceInUsomm auction"
    "cDenom (b_TotalFulfilledSaleTokens bid) = sale_denom auction" "cDenom (b_TotalUsommPaid bid) = BaseCoinUnit"
  using assms by (auto simp: price_bid_def Let_def NewCoin_def split: if_splits)

lemma NewCoins_amount: "NewCoins S c = Ok cs \<Longrightarrow> amountOf cs d = amountOf [c] d"
  by (auto simp: NewCoins_def split: if_splits)

lemma transfer_bid_balance:
  assumes "transfer_bid k b signer bid = Ok b'"
  shows "GetBalance (ak_bank k) b' x d = GetBalance (ak_bank k) b x d +
    moved signer maddr [b_TotalUsommPaid bid] x d + moved maddr signer [b_TotalFulfilledSaleTokens bid] x d"
proof -
  from assms obtain cs b1 cs' where
    "NewCoins (ak_sdk k) (b_TotalUsommPaid bid) = Ok cs"
    "SendCoinsFromAccountToModule (ak_bank k) b signer auction_ModuleName cs = Ok b1"
    "NewCoins (ak_sdk k) (b_TotalFulfilledSaleTokens bid) = Ok cs'"
    "SendCoinsFromModuleToAccount (ak_bank k) b1 auction_ModuleName signer cs' = Ok b'"
    by (auto simp: transfer_bid_def)
  with a2m_balance [OF this(2)] m2a_balance [OF this(4)] show ?thesis
    by (simp add: moved_def NewCoins_amount del: amountOf_simps)
qed

lemma SubmitBid_cases:
  assumes "SubmitBid k ctx st msg = Ok (st', bid)"
  obtains signer a b st3 e where
    "AccAddressFromBech32 (ak_sdk k) (mb_Signer msg) = Some signer"
    "GetActiveAuctionByID st (mb_AuctionId msg) = Some a" "sale_denom a = cDenom (mb_SaleTokenMinimumAmount msg)"
    "price_bid k ctx st msg signer a (module_balance k st (sale_denom a)) = Ok bid"
    "transfer_bid k (st_bank st) signer bid = Ok b"
    "settle_bid k ctx (record_bid (st\<lparr>st_bank := b\<rparr>) (sell_to k st a bid) bid) (sell_to k st a bid) = Ok st3"
    "st' = auction_emit e st3"
proof (cases "AccAddressFromBech32 (ak_sdk k) (mb_Signer msg)")
  case None
  with assms show ?thesis by (simp add: SubmitBid_def MustGetSigner_def)
next
  case signer: (Some signer)
  show ?thesis
  proof (cases "GetActiveAuctionByID st (mb_AuctionId msg)")
    case None
    with assms signer show ?thesis by (simp add: SubmitBid_def MustGetSigner_def)
  next
    case a: (Some a)
    have d: "sale_denom a = cDenom (mb_SaleTokenMinimumAmount msg)"
      using assms signer a by (simp add: SubmitBid_def MustGetSigner_def split: if_splits)
    from assms signer a d obtain bid' b r st3 where
      "price_bid k ctx st msg signer a (module_balance k st (sale_denom a)) = Ok bid'"
      "transfer_bid k (st_bank st) signer bid' = Ok b"
      "Coin_Sub (mk_coin (sale_denom a) (module_balance k st (sale_denom a))) (b_TotalFulfilledSaleTokens bid') = Ok r"
      "settle_bid k ctx (record_bid (st\<lparr>st_bank := b\<rparr>) (a\<lparr>a_RemainingTokensForSale := r\<rparr>) bid')
        (a\<lparr>a_RemainingTokensForSale := r\<rparr>) = Ok st3" "bid' = bid" "\<exists>e. st' = auction_emit e st3"
      by (simp add: SubmitBid_def MustGetSigner_def auction_account Let_def) blast
    moreover from this have "a\<lparr>a_RemainingTokensForSale := r\<rparr> = sell_to k st a bid"
      by (simp add: sell_to_def Coin_Sub_def split: if_splits)
    ultimately show ?thesis using that signer a d by auto
  qed
qed

lemma record_bid_inv:
  assumes inv: "auction_inv k st" and a: "GetActiveAuctionByID st (mb_AuctionId msg) = Some a"
    and bid: "price_bid k ctx st msg signer a (module_balance k st (sale_denom a)) = Ok bid"
    and tr: "transfer_bid k (st_bank st) signer bid = Ok b" and user: "signer \<noteq> maddr"
  shows "auction_inv k (record_bid (st\<lparr>st_bank := b\<rparr>) (sell_to k st a bid) bid)"
    and "GetActiveAuctionByID (record_bid (st\<lparr>st_bank := b\<rparr>) (sell_to k st a bid) bid) (mb_AuctionId msg)
      = Some (sell_to k st a bid)"
proof -
  let ?a = "sell_to k st a bid" and ?s = "st\<lparr>st_bank := b\<rparr>"
  let ?s1 = "setActiveAuction ?s ?a" and ?s2 = "record_bid ?s ?a bid"
  note fields = price_bid_fields [OF bid]
  have wf: "store_wf k ?s" and sol: "owed st \<le> module_balance k st BaseCoinUnit"
    using inv by (simp_all add: auction_inv_def solvent_def)
  have a': "GetActiveAuctionByID ?s (mb_AuctionId msg) = Some a" using a by (simp add: GetActiveAuctionByID_def)
  note act = store_wf_active [OF wf a']
  have ida: "a_Id ?a = mb_AuctionId msg" using act(1) by (simp add: sell_to_def)
  have wf1: "store_wf k ?s1"
    using a' act(2) ida by (intro store_wf_setActive [OF wf]) (simp_all add: sell_to_def active_ok_def)
  have bid': "b_Id bid \<noteq> 0" "0 \<le> paid bid" "GetActiveAuctionByID ?s1 (b_AuctionId bid) = Some ?a"
    using fields ida by (auto simp: Bid_ValidateBasic_Ok setActiveAuction_def GetActiveAuctionByID_def)
  have wf2: "store_wf k ?s2" and owed2: "owed ?s2 = owed st + paid bid"
    using store_wf_setBid [OF wf1, of bid] bid' fields(2) owed_setActive [of ?s ?a] a' ida
    by (simp_all add: record_bid_def) (simp_all add: setActiveAuction_def)
  have "module_balance k ?s2 BaseCoinUnit = module_balance k st BaseCoinUnit + paid bid"
    using transfer_bid_balance [OF tr, of maddr BaseCoinUnit] act(2) fields(9,10) user
    by (simp add: record_bid_def setBid_def setActiveAuction_def moved_def active_ok_def)
  then show "auction_inv k ?s2" using wf2 owed2 sol by (simp add: auction_inv_def solvent_def)
  show "GetActiveAuctionByID ?s2 (mb_AuctionId msg) = Some ?a"
    using bid'(3) fields(3) by (simp add: record_bid_def setBid_def GetActiveAuctionByID_def)
qed

lemma SubmitBid_inv:
  assumes inv: "auction_inv k st"
    and user: "AccAddressFromBech32 (ak_sdk k) (mb_Signer msg) \<noteq> Some maddr"
    and height: "BlockHeight ctx \<noteq> 0" and ok: "SubmitBid k ctx st msg = Ok (st', bid)"
  shows "auction_inv k st'"
proof -
  from ok obtain signer a b st3 e where *:
    "AccAddressFromBech32 (ak_sdk k) (mb_Signer msg) = Some signer"
    "GetActiveAuctionByID st (mb_AuctionId msg) = Some a" "sale_denom a = cDenom (mb_SaleTokenMinimumAmount msg)"
    "price_bid k ctx st msg signer a (module_balance k st (sale_denom a)) = Ok bid"
    "transfer_bid k (st_bank st) signer bid = Ok b"
    "settle_bid k ctx (record_bid (st\<lparr>st_bank := b\<rparr>) (sell_to k st a bid) bid) (sell_to k st a bid) = Ok st3"
    "st' = auction_emit e st3" by (rule SubmitBid_cases)
  let ?a = "sell_to k st a bid"
  have "signer \<noteq> maddr" using *(1) user by simp
  note rec = record_bid_inv [OF inv *(2,4,5) this]
  have "a_Id ?a = mb_AuctionId msg"
    using store_wf_active(1) [OF _ *(2), of k] inv by (simp add: sell_to_def auction_inv_def)
  then have "auction_inv k st3"
    using *(6) rec FinishAuction_total [OF rec(1) _ _ _ _ height, of ?a ?a]
    by (auto simp: settle_bid_def split: if_splits)
  then show ?thesis by (simp add: *(7) auction_inv_def solvent_def) (simp add: auction_emit_def)
qed

end

end
