(* ===== verification/Auction_Genesis.thy ===== *)
theory Auction_Genesis
  imports Auction_Safety
begin

text \<open>
  Genesis of the auction module, governance proposals, and the histories of the module: the step
  relation \<open>auction_step\<close> has one rule per way the module's state changes, and \<open>auction_reachable\<close>
  are the states that steps lead to from the default genesis. Exporting a well-formed state and
  importing it again gives the same state.
\<close>

section \<open>Import and export\<close>

definition empty_auction_state :: "'b \<Rightarrow> 'b auction_state" where
  "empty_auction_state bank = \<lparr>st_params = auction_DefaultParams, st_auctions = kv_empty, st_bids = kv_empty,
     st_prices = kv_empty, st_ids = kv_empty, st_bank = bank, st_events = []\<rparr>"

definition auction_genesis_key :: "auction \<Rightarrow> bytes" where
  "auction_genesis_key a = (if a_EndBlock a > 0 then GetEndedAuctionKey (a_Id a) else GetActiveAuctionKey (a_Id a))"

lemma foldl_auctions:
  "foldl (\<lambda>s a. if a_EndBlock a > 0 then setEndedAuction s a else setActiveAuction s a) st as =
    st\<lparr>st_auctions := foldl (\<lambda>s a. kv_set s (auction_genesis_key a) a) (st_auctions st) as\<rparr>"
  by (induction as arbitrary: st) (simp_all add: setEndedAuction_def setActiveAuction_def auction_genesis_key_def)

lemma foldl_bids:
  "foldl setBid st bs = st\<lparr>st_bids := foldl (\<lambda>s b. kv_set s (GetBidKey (b_AuctionId b) (b_Id b)) b) (st_bids st) bs\<rparr>"
  by (induction bs arbitrary: st) (simp_all add: setBid_def)

lemma foldl_prices:
  "foldl setTokenPrice st ps = st\<lparr>st_prices := foldl (\<lambda>s t. kv_set s (GetTokenPriceKey (tp_Denom t)) t) (st_prices st) ps\<rparr>"
  by (induction ps arbitrary: st) (simp_all add: setTokenPrice_def)

lemma rebuild_auctions:
  assumes "store_wf k st"
  shows "foldl (\<lambda>s a. kv_set s (auction_genesis_key a) a) kv_empty (GetActiveAuctions st @ GetEndedAuctions st)
    = st_auctions st"
proof -
  let ?A = "kv_iter (st_auctions st) GetActiveAuctionsPrefix" and ?E = "kv_iter (st_auctions st) GetEndedAuctionsPrefix"
  have wf: "key = GetActiveAuctionKey (a_Id a) \<and> a_EndBlock a = 0 \<or> key = GetEndedAuctionKey (a_Id a) \<and> a_EndBlock a \<noteq> 0"
    if "kv_get (st_auctions st) key = Some a" for key a
    using store_wf_entry [OF assms that] by (auto simp: active_ok_def ended_ok_def)
  have "foldl (\<lambda>s a. kv_set s (auction_genesis_key a) a) kv_empty (map snd (?A @ ?E)) = st_auctions st"
  proof (rule kv_rebuild)
    show "auction_genesis_key (snd e) = fst e" if "e \<in> set (?A @ ?E)" for e
      using that wf [of "fst e" "snd e"] kv_iter_mem [of "fst e" "snd e"]
      by (auto simp: auction_genesis_key_def word_neq_0_conv)
    have "prefix GetActiveAuctionsPrefix key \<Longrightarrow> \<not> prefix GetEndedAuctionsPrefix key" for key
      by (auto simp: auction_key_defs prefix_def)
    then show "distinct (map fst (?A @ ?E))"
      using kvs.iter_distinct [of "st_auctions st"] by (force simp: kv_iter_mem)
    show "(key, a) \<in> set (?A @ ?E) \<longleftrightarrow> kv_get (st_auctions st) key = Some a" for key a
      using wf [of key a] by (auto simp: kv_iter_mem)
  qed
  then show ?thesis by (simp add: GetActiveAuctions_values GetEndedAuctions_values kv_values_def)
qed

lemma rebuild_bids:
  "store_wf k st \<Longrightarrow> foldl (\<lambda>s b. kv_set s (GetBidKey (b_AuctionId b) (b_Id b)) b) kv_empty (GetBids st) = st_bids st"
  unfolding GetBids_values by (rule kv_rebuild_values) (auto dest: store_wf_bid(1))

lemma rebuild_prices:
  "store_wf k st \<Longrightarrow> foldl (\<lambda>s t. kv_set s (GetTokenPriceKey (tp_Denom t)) t) kv_empty (GetTokenPrices st) = st_prices st"
  unfolding GetTokenPrices_values by (rule kv_rebuild_values) (auto dest: store_wf_price)

lemma InitGenesis_ExportGenesis:
  assumes "store_wf k st" "GetAuctionAccount k \<noteq> None"
  shows "auction_InitGenesis k (empty_auction_state bank) (auction_ExportGenesis st) =
    Ok (setLastBidID (setLastAuctionID ((empty_auction_state bank)\<lparr>st_params := st_params st,
      st_auctions := st_auctions st, st_bids := st_bids st, st_prices := st_prices st\<rparr>)
      (GetLastAuctionID st)) (GetLastBidID st))"
proof -
  have "SetParamSet (auction_ParamSetPairs (st_params st)) = Ok ()"
    using store_wf_params [OF assms(1)] auction_SetParamSet_Ok by simp
  then show ?thesis
    using rebuild_auctions [OF assms(1)] rebuild_bids [OF assms(1)] rebuild_prices [OF assms(1)] assms(2)
    by (simp add: auction_InitGenesis_def auction_ExportGenesis_def auction_setParams_def Let_def
        empty_auction_state_def foldl_auctions foldl_bids foldl_prices del: foldl_append)
qed

section \<open>Proposals and parameters\<close>

definition proposed_price :: "ctx \<Rightarrow> proposed_token_price \<Rightarrow> token_price" where
  "proposed_price ctx t = \<lparr>tp_Denom = ptp_Denom t, tp_Exponent = 0, tp_UsdPrice = ptp_UsdPrice t,
     tp_LastUpdatedBlock = BlockHeight ctx\<rparr>"

lemma store_wf_setTokenPrice:
  "store_wf k st \<Longrightarrow> TokenPrice_ValidateBasic (ak_sdk k) t = Ok () \<Longrightarrow> store_wf k (setTokenPrice st t)"
  by (auto simp: store_wf_def auctions_wf_def one_per_denom_def bids_wf_def prices_wf_def setTokenPrice_def
      kv_all_iff GetEndedAuctionByID_def)

lemma store_wf_foldl_prices:
  assumes "store_wf k st" "\<forall>t \<in> set ts. ProposedTokenPrice_ValidateBasic (ak_sdk k) t = Ok ()" "BlockHeight ctx \<noteq> 0"
  shows "store_wf k (foldl (\<lambda>s t. setTokenPrice s (proposed_price ctx t)) st ts)"
  using assms
proof (induction ts arbitrary: st)
  case (Cons t ts)
  then have "TokenPrice_ValidateBasic (ak_sdk k) (proposed_price ctx t) = Ok ()"
    by (simp add: TokenPrice_ValidateBasic_Ok ProposedTokenPrice_ValidateBasic_Ok proposed_price_def)
  with Cons show ?case by (simp add: store_wf_setTokenPrice)
qed simp

lemma HandleSetTokenPricesProposal_Ok:
  "HandleSetTokenPricesProposal k ctx st p = Ok st' \<longleftrightarrow>
    SetTokenPricesProposal_ValidateBasic (ak_sdk k) p = Ok () \<and>
    st' = foldl (\<lambda>s t. setTokenPrice s (proposed_price ctx t)) st (stp_TokenPrices p)"
  by (auto simp: HandleSetTokenPricesProposal_def proposed_price_def)

lemma SetTokenPricesProposal_ValidateBasic_Ok:
  "SetTokenPricesProposal_ValidateBasic S p = Ok () \<Longrightarrow>
    stp_TokenPrices p \<noteq> [] \<and> distinct (map ptp_Denom (stp_TokenPrices p)) \<and>
    (\<forall>t \<in> set (stp_TokenPrices p). ProposedTokenPrice_ValidateBasic S t = Ok ())"
  by (auto simp: SetTokenPricesProposal_ValidateBasic_def check_token_prices_Ok split: if_splits)

lemma HandleSetTokenPricesProposal_inv:
  assumes inv: "auction_inv k st" and height: "BlockHeight ctx \<noteq> 0"
    and ok: "HandleSetTokenPricesProposal k ctx st p = Ok st'"
  shows "auction_inv k st'"
proof -
  have v: "\<forall>t \<in> set (stp_TokenPrices p). ProposedTokenPrice_ValidateBasic (ak_sdk k) t = Ok ()"
    and st': "st' = foldl (\<lambda>s t. setTokenPrice s (proposed_price ctx t)) st (stp_TokenPrices p)"
    using ok SetTokenPricesProposal_ValidateBasic_Ok by (auto simp: HandleSetTokenPricesProposal_Ok)
  have "owed (foldl (\<lambda>s t. setTokenPrice s (proposed_price ctx t)) st ts) = owed st \<and>
      st_bank (foldl (\<lambda>s t. setTokenPrice s (proposed_price ctx t)) st ts) = st_bank st" for ts
    by (induction ts arbitrary: st) (auto simp: setTokenPrice_def owed_def GetActiveAuctionByID_def)
  with store_wf_foldl_prices [OF _ v height, of st] inv show ?thesis
    by (simp add: st' auction_inv_def solvent_def)
qed

lemma auction_setParams_inv: "auction_inv k st \<Longrightarrow> auction_setParams st p = Ok st' \<Longrightarrow> auction_inv k st'"
  by (auto simp: auction_setParams_def auction_SetParamSet_Ok auction_inv_def solvent_def)
    (simp_all add: store_wf_def auctions_wf_def one_per_denom_def bids_wf_def prices_wf_def owed_def
      GetActiveAuctionByID_def GetEndedAuctionByID_def)

lemma default_genesis_inv:
  assumes "auction_InitGenesis k (empty_auction_state bank) auction_DefaultGenesisState = Ok st"
    and "\<And>a d. 0 \<le> GetBalance (ak_bank k) bank a d"
  shows "auction_inv k st"
proof -
  have st: "st = setLastBidID (setLastAuctionID (empty_auction_state bank) 0) 0"
    using assms(1) by (auto simp: auction_InitGenesis_def auction_DefaultGenesisState_def auction_setParams_def
        Let_def empty_auction_state_def split: if_splits)
  have "auction_params_ok auction_DefaultParams"
    by (simp add: auction_params_ok_def auction_DefaultParams_def dec_one_def)
  then show ?thesis
    using assms(2) by (simp add: st auction_inv_def solvent_def store_wf_def auctions_wf_def one_per_denom_def
        bids_wf_def prices_wf_def owed_def empty_auction_state_def kv_values_def kv_iter_def)
qed

section \<open>Histories\<close>

text \<open>
  One step of the module: a bid message that passed its stateless checks and succeeded (signed by a
  user, module accounts have no key), an auction started by another module, the end of a block, a
  passed proposal, a parameter change, or activity of other modules that does not spend the auction
  module's coins.
\<close>

inductive auction_step :: "'b auction_keeper \<Rightarrow> 'b auction_state \<Rightarrow> 'b auction_state \<Rightarrow> bool"
  for k :: "'b auction_keeper" where
  bid: "MsgSubmitBid_ValidateBasic (ak_sdk k) msg = Ok () \<Longrightarrow>
    AccAddressFromBech32 (ak_sdk k) (mb_Signer msg) \<noteq> Some (NewModuleAddress (ak_sdk k) auction_ModuleName) \<Longrightarrow>
    BlockHeight ctx \<noteq> 0 \<Longrightarrow> SubmitBid k ctx st msg = Ok (st', b) \<Longrightarrow> auction_step k st st'"
| start: "BeginAuction k ctx st c rate interval fund proc = Ok st' \<Longrightarrow> auction_step k st st'"
| end_block: "BlockHeight ctx \<noteq> 0 \<Longrightarrow> auction_EndBlocker k ctx st = Ok st' \<Longrightarrow> auction_step k st st'"
| prices: "BlockHeight ctx \<noteq> 0 \<Longrightarrow> HandleSetTokenPricesProposal k ctx st p = Ok st' \<Longrightarrow> auction_step k st st'"
| params: "auction_setParams st ps = Ok st' \<Longrightarrow> auction_step k st st'"
| others: "GetBalance (ak_bank k) (st_bank st) (NewModuleAddress (ak_sdk k) auction_ModuleName) BaseCoinUnit
      \<le> GetBalance (ak_bank k) bank (NewModuleAddress (ak_sdk k) auction_ModuleName) BaseCoinUnit \<Longrightarrow>
    auction_step k st (st\<lparr>st_bank := bank\<rparr>)"

inductive auction_reachable :: "'b auction_keeper \<Rightarrow> 'b auction_state \<Rightarrow> bool"
  for k :: "'b auction_keeper" where
  genesis: "auction_InitGenesis k (empty_auction_state bank) auction_DefaultGenesisState = Ok st \<Longrightarrow>
    auction_reachable k st"
| step: "auction_reachable k st \<Longrightarrow> auction_step k st st' \<Longrightarrow> auction_reachable k st'"

context auction_env begin

lemma auction_step_inv: "auction_step k st st' \<Longrightarrow> auction_inv k st \<Longrightarrow> auction_inv k st'"
proof (induction rule: auction_step.induct)
  case (bid msg ctx st st' b)
  then show ?case using SubmitBid_inv by blast
next
  case (start ctx st c rate interval fund proc st')
  then show ?case using BeginAuction_inv by blast
next
  case (end_block ctx st st')
  then show ?case using auction_EndBlocker_total [of st ctx] by auto
next
  case (prices ctx st p st')
  then show ?case using HandleSetTokenPricesProposal_inv by blast
next
  case (params st ps st')
  then show ?case using auction_setParams_inv by blast
next
  case (others st bank)
  then show ?case by (auto simp: auction_inv_def solvent_def)
qed

lemma auction_reachable_inv: "auction_reachable k st \<Longrightarrow> auction_inv k st"
proof (induction rule: auction_reachable.induct)
  case (genesis bank st)
  then show ?case by (rule default_genesis_inv) (rule balance_nonneg)
next
  case (step st st')
  then show ?case using auction_step_inv by blast
qed

end

end
