(* ===== verification/Auction_Liveness.thy ===== *)
theory Auction_Liveness
  imports Auction_Genesis
begin

text \<open>
  Every auction ends. The price of an active auction falls at least once per interval by at least
  \<open>least_decrease\<close>, so after enough consecutive blocks it is no longer active, whether or not anybody
  bids. Block heights are natural numbers below \<open>2\<^sup>6\<^sup>3\<close> here, where the 64-bit arithmetic of the code
  agrees with that of the naturals.
\<close>

definition at_height :: "nat \<Rightarrow> ctx" where
  "at_height h = \<lparr>BlockHeight = word_of_nat h\<rparr>"

text \<open>The ends of \<open>n\<close> consecutive blocks, the first of height \<open>h\<close>.\<close>

fun run_EndBlockers :: "'b auction_keeper \<Rightarrow> nat \<Rightarrow> nat \<Rightarrow> 'b auction_state \<Rightarrow> 'b auction_state res" where
  "run_EndBlockers k h 0 st = Ok st"
| "run_EndBlockers k h (Suc n) st = bind_res (auction_EndBlocker k (at_height h) st) (run_EndBlockers k (Suc h) n)"

section \<open>When a decrease is due\<close>

lemma sint_word_of_nat: "n < 2 ^ 63 \<Longrightarrow> sint (word_of_nat n :: i64) = int n"
  by (simp add: signed_of_nat signed_take_bit_eq_if_positive bit_iff_odd take_bit_eq_mod of_nat_less_iff
      flip: of_nat_mod) 

lemma word_of_nat_eq_0: "n < 2 ^ 64 \<Longrightarrow> (word_of_nat n :: u64) = 0 \<longleftrightarrow> n = 0"
  by (simp add: word_of_nat_eq_0_iff nat_dvd_not_less) (auto dest: dvd_imp_le)

lemma rem_i64_nat:
  assumes "x < 2 ^ 63" "0 < y" "y < 2 ^ 63"
  shows "rem_i64 (word_of_nat x) (word_of_nat y) = Ok (word_of_nat (x mod y))"
proof -
  have "int x smod int y = int (x mod y)"
    by (cases "x = 0") (simp_all add: smod_int_alt_def zmod_int)
  then show ?thesis
    using assms by (simp add: rem_i64_def sint_word_of_nat word_of_nat_eq_0)
qed

lemma price_decrease_due_nat:
  assumes "unat (a_StartBlock a) < h" "h < 2 ^ 63"
    and "a_PriceDecreaseBlockInterval a \<noteq> 0" "unat (a_PriceDecreaseBlockInterval a) < 2 ^ 63"
  shows "price_decrease_due (at_height h) a =
    Ok ((h - unat (a_StartBlock a)) mod unat (a_PriceDecreaseBlockInterval a) = 0)"
proof -
  let ?s = "unat (a_StartBlock a)" and ?i = "unat (a_PriceDecreaseBlockInterval a)"
  have "word_of_nat h - a_StartBlock a = word_of_nat (h - ?s)" using assms(1) by (simp add: of_nat_diff)
  moreover have "word_of_nat h \<noteq> a_StartBlock a"
  proof
    assume "word_of_nat h = a_StartBlock a"
    then have "unat (word_of_nat h :: u64) = ?s" by simp
    with assms(1,2) show False by (simp add: unat_of_nat)
  qed
  moreover have "0 < ?i" using assms(3) by (simp add: unat_gt_0)
  moreover have "(h - ?s) mod ?i < 2 ^ 64" using assms(2) by (auto intro: le_less_trans [OF mod_less_eq_dividend])
  ultimately show ?thesis
    using rem_i64_nat [of "h - ?s" ?i] assms word_of_nat_eq_0 [of "(h - ?s) mod ?i"]
    by (simp add: price_decrease_due_def at_height_def)
qed

text \<open>How many of the \<open>n\<close> numbers from \<open>y\<close> on are multiples of \<open>m\<close>.\<close>

fun dues :: "nat \<Rightarrow> nat \<Rightarrow> nat \<Rightarrow> nat" where
  "dues m y 0 = 0"
| "dues m y (Suc n) = (if y mod m = 0 then 1 else 0) + dues m (Suc y) n"

lemma dues_eq: "dues m (Suc y) n + y div m = (y + n) div m"
proof (induction n arbitrary: y)
  case (Suc n)
  from Suc [of "Suc y"] show ?case by (simp add: div_Suc [of y m] split: if_splits)
qed simp

lemma dues_periods: "0 < m \<Longrightarrow> dues m (Suc y) (N * m) = N"
  using dues_eq [of m y "N * m"] by simp

section \<open>Consecutive blocks\<close>

context auction_env begin

lemma at_height_nz: "0 < h \<Longrightarrow> h < 2 ^ 63 \<Longrightarrow> BlockHeight (at_height h) \<noteq> 0"
  by (simp add: at_height_def word_of_nat_eq_0)

text \<open>After \<open>n\<close> blocks an auction has ended, or its price has fallen once for every block that was due.\<close>

lemma run_EndBlockers_price:
  assumes "auction_inv k st" "GetActiveAuctionByID st i = None \<or>
      (\<exists>a. GetActiveAuctionByID st i = Some a \<and>
        unat (a_PriceDecreaseBlockInterval a) = m \<and> unat (a_StartBlock a) = s \<and> least_decrease a = f \<and>
        a_CurrentUnitPriceInUsomm a \<le> p)"
    and "s < h" "h + n < 2 ^ 63" "m < 2 ^ 63"
  shows "\<exists>st'. run_EndBlockers k h n st = Ok st' \<and> auction_inv k st' \<and> (GetActiveAuctionByID st' i = None \<or>
      (\<exists>a. GetActiveAuctionByID st' i = Some a \<and> a_CurrentUnitPriceInUsomm a \<le> p - f * int (dues m (h - s) n)))"
  using assms
proof (induction n arbitrary: st h p)
  case 0
  then show ?case by auto
next
  case (Suc n)
  from auction_EndBlocker_total [OF Suc.prems(1) at_height_nz [of h]] Suc.prems obtain st1 where
    st1: "auction_EndBlocker k (at_height h) st = Ok st1" "auction_inv k st1"
    "GetActiveAuctionByID st i = None \<Longrightarrow> GetActiveAuctionByID st1 i = None"
    "\<And>a. GetActiveAuctionByID st i = Some a \<Longrightarrow> price_lowered (at_height h) a (GetActiveAuctionByID st1 i)"
    by auto
  let ?p = "p - (if (h - s) mod m = 0 then f else 0)"
  have "GetActiveAuctionByID st1 i = None \<or>
      (\<exists>a. GetActiveAuctionByID st1 i = Some a \<and>
        unat (a_PriceDecreaseBlockInterval a) = m \<and> unat (a_StartBlock a) = s \<and> least_decrease a = f \<and>
        a_CurrentUnitPriceInUsomm a \<le> ?p)"
  proof (cases "GetActiveAuctionByID st i")
    case None
    then show ?thesis using st1(3) by simp
  next
    case (Some a)
    have ok: "active_ok k st a"
      using store_wf_active(2) [OF _ Some, of k] Suc.prems(1) by (simp add: auction_inv_def)
    from Some Suc.prems(2) have a: "unat (a_PriceDecreaseBlockInterval a) = m"
      "unat (a_StartBlock a) = s" "least_decrease a = f" "a_CurrentUnitPriceInUsomm a \<le> p" by auto
    have "price_decrease_due (at_height h) a = Ok ((h - s) mod m = 0)"
      using price_decrease_due_nat [of a h] a ok Suc.prems(3-5) by (simp add: active_ok_def)
    with st1(4) [OF Some] a show ?thesis
      by (cases "GetActiveAuctionByID st1 i") (auto simp: price_lowered_def)
  qed
  from Suc.IH [OF st1(2) this, of "Suc h"] Suc.prems(3-5) obtain st' where
    "run_EndBlockers k (Suc h) n st1 = Ok st'" "auction_inv k st'"
    "GetActiveAuctionByID st' i = None \<or>
      (\<exists>a. GetActiveAuctionByID st' i = Some a \<and> a_CurrentUnitPriceInUsomm a \<le> ?p - f * int (dues m (Suc h - s) n))"
    by auto
  moreover have "?p - f * int (dues m (Suc h - s) n) = p - f * int (dues m (h - s) (Suc n))"
    using Suc.prems(3) by (simp add: Suc_diff_le algebra_simps)
  ultimately show ?case using st1(1) by simp
qed

lemma auction_ends:
  assumes inv: "auction_inv k st" and a: "GetActiveAuctionByID st i = Some a"
    and h: "unat (a_StartBlock a) < h" "h + N * unat (a_PriceDecreaseBlockInterval a) < 2 ^ 63"
    and f: "a_CurrentUnitPriceInUsomm a \<le> least_decrease a * int N"
  shows "\<exists>st'. run_EndBlockers k h (N * unat (a_PriceDecreaseBlockInterval a)) st = Ok st' \<and>
    auction_inv k st' \<and> GetActiveAuctionByID st' i = None"
proof -
  let ?s = "unat (a_StartBlock a)" and ?m = "unat (a_PriceDecreaseBlockInterval a)"
  have wf: "store_wf k st" using inv by (simp add: auction_inv_def)
  have ok: "active_ok k st a" by (rule store_wf_active [OF wf a])
  have m: "0 < ?m" using ok by (simp add: active_ok_def unat_gt_0)
  have "N \<noteq> 0" using f ok by (intro notI) (simp add: active_ok_def)
  then have "?m \<le> N * ?m" by simp
  with h(2) have m63: "?m < 2 ^ 63" by linarith
  have N: "dues ?m (h - ?s) (N * ?m) = N" 
    using dues_periods [OF m, of "h - ?s - 1" N] h(1) by (simp add: Suc_diff_Suc)
  obtain st' where st': "run_EndBlockers k h (N * ?m) st = Ok st'" "auction_inv k st'"
    "GetActiveAuctionByID st' i = None \<or> (\<exists>a'. GetActiveAuctionByID st' i = Some a' \<and>
      a_CurrentUnitPriceInUsomm a' \<le> a_CurrentUnitPriceInUsomm a - least_decrease a * int N)"
    using run_EndBlockers_price [of st i ?m ?s "least_decrease a" "a_CurrentUnitPriceInUsomm a" h "N * ?m"]
      inv a h m63 by (auto simp: N)
  have "GetActiveAuctionByID st' i = None"
  proof (rule ccontr)
    assume "GetActiveAuctionByID st' i \<noteq> None"
    then obtain a' where a': "GetActiveAuctionByID st' i = Some a'" by auto
    with st'(3) f have "a_CurrentUnitPriceInUsomm a' \<le> 0" by auto
    moreover have "active_ok k st' a'"
      using store_wf_active(2) [OF _ a', of k] st'(2) by (simp add: auction_inv_def)
    ultimately show False by (simp add: active_ok_def)
  qed
  with st' show ?thesis by blast
qed

end

end
