(* ===== verification/Auction_Prune.thy ===== *)
theory Auction_Prune
  imports Auction_Liveness
begin

text \<open>
  Pruning of ended auctions at the end of a block. The loop visits the ended auctions from the newest
  to the oldest; the invariant \<open>pruned\<close> describes what the visited part has deleted, so that the result
  can be stated per auction: it is kept with all its bids, or it is gone with all its bids, was old
  enough, and a newer auction of the same denomination was kept.
\<close>

section \<open>Deleting the bids of an auction\<close>

lemma foldl_deleteBid_get:
  "kv_get (st_bids (foldl (\<lambda>s b. deleteBid s i (b_Id b)) st bs)) key =
    (if key \<in> (\<lambda>b. GetBidKey i (b_Id b)) ` set bs then None else kv_get (st_bids st) key)"
  by (induction bs arbitrary: st) (auto simp: deleteBid_def)

lemma foldl_deleteBid_auctions:
  "st_auctions (foldl (\<lambda>s b. deleteBid s i (b_Id b)) st bs) = st_auctions st"
  by (induction bs arbitrary: st) (auto simp: deleteBid_def)

lemma delete_bids_of:
  assumes "store_wf k st"
  shows "kv_get (st_bids (foldl (\<lambda>s b. deleteBid s i (b_Id b)) st (GetBidsByAuctionID st i))) key =
    (if prefix (GetBidsByAuctionIDPrefix i) key then None else kv_get (st_bids st) key)"
proof -
  have "key \<in> (\<lambda>b. GetBidKey i (b_Id b)) ` set (GetBidsByAuctionID st i) \<longleftrightarrow>
      prefix (GetBidsByAuctionIDPrefix i) key \<and> kv_get (st_bids st) key \<noteq> None" (is "?L \<longleftrightarrow> ?R")
  proof
    assume ?L
    then obtain b key' where b: "key = GetBidKey i (b_Id b)" "kv_get (st_bids st) key' = Some b"
      "prefix (GetBidsByAuctionIDPrefix i) key'"
      by (auto simp: GetBidsByAuctionID_values kv_values_mem)
    with store_wf_bid(1) [OF assms b(2)] show ?R by auto
  next
    assume R: ?R
    then obtain b where b: "kv_get (st_bids st) key = Some b" by auto
    with R store_wf_bid(1) [OF assms b] have "key = GetBidKey i (b_Id b)" by auto
    moreover have "b \<in> set (GetBidsByAuctionID st i)"
      using R b by (auto simp: GetBidsByAuctionID_values kv_values_mem)
    ultimately show ?L by blast
  qed
  then show ?thesis by (auto simp: foldl_deleteBid_get)
qed

section \<open>The pruning loop\<close>

definition pruned ::
  "ctx \<Rightarrow> u64 \<Rightarrow> 'b auction_state \<Rightarrow> auction set \<Rightarrow> auction set \<Rightarrow> 'b auction_state \<times> string set \<Rightarrow> bool" where
  "pruned ctx maxAge st seen gone s \<longleftrightarrow> gone \<subseteq> seen \<and>
    (\<forall>i. GetEndedAuctionByID (fst s) i = (if i \<in> a_Id ` gone then None else GetEndedAuctionByID st i)) \<and>
    (\<forall>key. kv_get (st_bids (fst s)) key =
      (if \<exists>a \<in> gone. prefix (GetBidsByAuctionIDPrefix (a_Id a)) key then None else kv_get (st_bids st) key)) \<and>
    snd s \<subseteq> sale_denom ` (seen - gone) \<and>
    (\<forall>a \<in> gone. a_EndBlock a < BlockHeight ctx - maxAge \<and>
      (\<exists>a' \<in> seen - gone. sale_denom a' = sale_denom a \<and> a_Id a < a_Id a'))"

lemma pruned_step:
  assumes pr: "pruned ctx maxAge st seen gone s" and wf: "store_wf k (fst s)"
    and newer: "\<forall>x \<in> seen. a_Id a < a_Id x"
  shows "\<exists>gone'. pruned ctx maxAge st (insert a seen) gone' (prune_auction ctx maxAge a s)"
proof (cases "sale_denom a \<in> snd s \<and> a_EndBlock a < BlockHeight ctx - maxAge")
  case False
  then have step: "prune_auction ctx maxAge a s = (fst s, insert (sale_denom a) (snd s))"
    by (cases s) (auto simp: prune_auction_def Let_def)
  have "a \<notin> gone" using pr newer by (auto simp: pruned_def)
  then have "pruned ctx maxAge st (insert a seen) gone (prune_auction ctx maxAge a s)"
    using pr unfolding step pruned_def by auto
  then show ?thesis by blast
next
  case True
  let ?t = "foldl (\<lambda>s b. deleteBid s (a_Id a) (b_Id b)) (fst s) (GetBidsByAuctionID (fst s) (a_Id a))"
  have step: "prune_auction ctx maxAge a s = (deleteEndedAuction ?t (a_Id a), snd s)"
    using True by (cases s) (auto simp: prune_auction_def Let_def)
  have out: "a \<notin> seen" using newer by auto
  obtain a' where a': "a' \<in> seen - gone" "sale_denom a' = sale_denom a" "a_Id a < a_Id a'"
  proof -
    have "snd s \<subseteq> sale_denom ` (seen - gone)" using pr by (simp add: pruned_def)
    with True obtain a' where "a' \<in> seen - gone" "sale_denom a' = sale_denom a" by auto
    with newer that show thesis by blast
  qed
  have rest: "insert a seen - insert a gone = seen - gone" "gone \<subseteq> seen" "snd s \<subseteq> sale_denom ` (seen - gone)"
    "\<forall>a \<in> gone. a_EndBlock a < BlockHeight ctx - maxAge \<and>
      (\<exists>a' \<in> seen - gone. sale_denom a' = sale_denom a \<and> a_Id a < a_Id a')"
    using pr out by (auto simp: pruned_def)
  have "pruned ctx maxAge st (insert a seen) (insert a gone) (prune_auction ctx maxAge a s)"
    unfolding step pruned_def fst_conv snd_conv rest(1)
  proof (intro conjI allI)
    show "insert a gone \<subseteq> insert a seen" using rest(2) by blast
    show "snd s \<subseteq> sale_denom ` (seen - gone)" by (rule rest(3))
    show "\<forall>a \<in> insert a gone. a_EndBlock a < BlockHeight ctx - maxAge \<and>
        (\<exists>a' \<in> seen - gone. sale_denom a' = sale_denom a \<and> a_Id a < a_Id a')"
      using rest(4) True a' by blast
    fix i key
    show "GetEndedAuctionByID (deleteEndedAuction ?t (a_Id a)) i =
        (if i \<in> a_Id ` insert a gone then None else GetEndedAuctionByID st i)"
      using pr by (auto simp: pruned_def deleteEndedAuction_def GetEndedAuctionByID_def foldl_deleteBid_auctions)
    show "kv_get (st_bids (deleteEndedAuction ?t (a_Id a))) key =
        (if \<exists>a \<in> insert a gone. prefix (GetBidsByAuctionIDPrefix (a_Id a)) key then None else kv_get (st_bids st) key)"
      using pr by (auto simp: pruned_def deleteEndedAuction_def delete_bids_of [OF wf])
  qed
  then show ?thesis by blast
qed

lemma pruned_loop:
  assumes "pruned ctx maxAge st seen gone s" "store_wf k st0" "prune_inv k st0 (fst s)"
    and "sorted_wrt (\<lambda>x y. a_Id y < a_Id x) xs" "\<forall>x \<in> seen. \<forall>y \<in> set xs. a_Id y < a_Id x"
  shows "\<exists>gone'. pruned ctx maxAge st (seen \<union> set xs) gone' (fold (prune_auction ctx maxAge) xs s)"
  using assms
proof (induction xs arbitrary: seen gone s)
  case (Cons a xs)
  from Cons.prems(3) have "store_wf k (fst s)" by (simp add: prune_inv_def)
  with pruned_step [OF Cons.prems(1), of k a] Cons.prems(5) obtain gone' where
    "pruned ctx maxAge st (insert a seen) gone' (prune_auction ctx maxAge a s)" by auto
  moreover have "prune_inv k st0 (fst (prune_auction ctx maxAge a s))"
    using prune_inv_auctions [OF Cons.prems(3), of ctx maxAge "[a]"] by simp
  ultimately show ?case
    using Cons.IH [of "insert a seen" gone' "prune_auction ctx maxAge a s"] Cons.prems by auto
qed auto

section \<open>Iteration order\<close>

text \<open>Auctions and bids are visited in the order of their ids.\<close>

lemma sorted_map_key:
  assumes "sorted_wrt (<) (map fst es)" "\<And>e. e \<in> set es \<Longrightarrow> fst e = K (f (snd e))" "\<And>x y. K x < K y \<longleftrightarrow> x < y"
  shows "sorted_wrt (<) (map f (map snd es))"
  using assms(1,2) by (induction es) (auto simp: assms(3) [symmetric])

lemma sorted_last_max:
  "sorted_wrt (<) (map f xs) \<Longrightarrow> x \<in> set xs \<Longrightarrow> f x \<le> (f (last xs) :: 'a :: order)"
  by (induction xs rule: rev_induct) (auto simp: sorted_wrt_append less_imp_le)

lemma ended_sorted:
  assumes "store_wf k st"
  shows "sorted_wrt (<) (map a_Id (GetEndedAuctions st))"
  unfolding GetEndedAuctions_values kv_values_def
proof (rule sorted_map_key [OF kv_iter_sorted, where K = GetEndedAuctionKey])
  fix e assume "e \<in> set (kv_iter (st_auctions st) GetEndedAuctionsPrefix)"
  then have "kv_get (st_auctions st) (fst e) = Some (snd e)" "prefix GetEndedAuctionsPrefix (fst e)"
    using kv_iter_mem [of "fst e" "snd e"] by simp_all
  with store_wf_entry [OF assms, of "fst e" "snd e"] show "fst e = GetEndedAuctionKey (a_Id (snd e))" by auto
qed simp

lemma bids_sorted:
  assumes "store_wf k st"
  shows "sorted_wrt (<) (map b_Id (GetBidsByAuctionID st i))"
  unfolding GetBidsByAuctionID_values kv_values_def
proof (rule sorted_map_key [OF kv_iter_sorted, where K = "GetBidKey i"])
  fix e assume "e \<in> set (kv_iter (st_bids st) (GetBidsByAuctionIDPrefix i))"
  then have "kv_get (st_bids st) (fst e) = Some (snd e)" "prefix (GetBidsByAuctionIDPrefix i) (fst e)"
    using kv_iter_mem [of "fst e" "snd e"] by simp_all
  with store_wf_bid(1) [OF assms, of "fst e" "snd e"] show "fst e = GetBidKey i (b_Id (snd e))" by auto
qed simp

lemma ended_mem:
  assumes "store_wf k st"
  shows "a \<in> set (GetEndedAuctions st) \<longleftrightarrow> GetEndedAuctionByID st (a_Id a) = Some a"
proof
  assume "a \<in> set (GetEndedAuctions st)"
  then obtain key where *: "kv_get (st_auctions st) key = Some a" "prefix GetEndedAuctionsPrefix key"
    by (auto simp: GetEndedAuctions_values kv_values_mem)
  with store_wf_entry [OF assms *(1)] show "GetEndedAuctionByID st (a_Id a) = Some a"
    by (auto simp: GetEndedAuctionByID_def)
next
  assume "GetEndedAuctionByID st (a_Id a) = Some a"
  then show "a \<in> set (GetEndedAuctions st)"
    unfolding GetEndedAuctions_values kv_values_mem GetEndedAuctionByID_def
    by (intro exI [of _ "GetEndedAuctionKey (a_Id a)"]) simp
qed

lemma prune_auctions_pruned:
  assumes wf: "store_wf k st" and age: "AuctionMaxBlockAge (st_params st) \<noteq> 0"
  shows "\<exists>gone D. pruned ctx (AuctionMaxBlockAge (st_params st)) st (set (GetEndedAuctions st)) gone
    (prune_auctions ctx st, D)"
proof -
  let ?m = "AuctionMaxBlockAge (st_params st)" and ?xs = "rev (GetEndedAuctions st)"
  have "pruned ctx ?m st {} {} (st, {})" by (simp add: pruned_def)
  moreover have "sorted_wrt (\<lambda>x y. a_Id y < a_Id x) ?xs"
    using ended_sorted [OF wf] by (simp add: sorted_wrt_rev sorted_wrt_map)
  ultimately obtain gone where "pruned ctx ?m st ({} \<union> set ?xs) gone (fold (prune_auction ctx ?m) ?xs (st, {}))"
    using pruned_loop [of ctx ?m st "{}" "{}" "(st, {})" k st ?xs] wf prune_inv_refl [OF wf] by auto
  with age show ?thesis
    by (cases "fold (prune_auction ctx ?m) ?xs (st, {})") (auto simp: prune_auctions_def Let_def)
qed

text \<open>What is not removed keeps its bids.\<close>

lemma pruned_kept:
  assumes wf: "store_wf k st" and pr: "pruned ctx m st (set (GetEndedAuctions st)) gone (s, D)"
    and out: "\<And>a. GetEndedAuctionByID st i = Some a \<Longrightarrow> a \<notin> gone"
  shows "i \<notin> a_Id ` gone" "GetEndedAuctionByID s i = GetEndedAuctionByID st i" "GetBid s i n = GetBid st i n"
proof -
  have "GetEndedAuctionByID st (a_Id x) = Some x" if "x \<in> gone" for x
    using that pr ended_mem [OF wf] by (auto simp: pruned_def)
  then show i: "i \<notin> a_Id ` gone" using out by auto
  then show "GetEndedAuctionByID s i = GetEndedAuctionByID st i" "GetBid s i n = GetBid st i n"
    using pr by (auto simp: pruned_def GetBid_def)
qed

text \<open>What is removed goes with its bids, and leaves a newer auction of its denomination.\<close>

lemma pruned_gone:
  assumes wf: "store_wf k st" and pr: "pruned ctx m st (set (GetEndedAuctions st)) gone (s, D)" and a: "a \<in> gone"
  shows "GetEndedAuctionByID s (a_Id a) = None" "GetBid s (a_Id a) n = None" "a_EndBlock a < BlockHeight ctx - m"
    "\<exists>j a'. a_Id a < j \<and> GetEndedAuctionByID s j = Some a' \<and> sale_denom a' = sale_denom a"
proof -
  show "GetEndedAuctionByID s (a_Id a) = None" "a_EndBlock a < BlockHeight ctx - m"
    using pr imageI [OF a, of a_Id] a by (simp_all add: pruned_def)
  have "\<exists>x \<in> gone. prefix (GetBidsByAuctionIDPrefix (a_Id x)) (GetBidKey (a_Id a) n)" using a by (intro bexI [of _ a]) simp_all
  with pr show "GetBid s (a_Id a) n = None" unfolding pruned_def GetBid_def fst_conv by simp
  obtain a' where a': "a' \<in> set (GetEndedAuctions st)" "a' \<notin> gone" "sale_denom a' = sale_denom a" "a_Id a < a_Id a'"
    using pr a by (auto simp: pruned_def)
  then have "GetEndedAuctionByID st (a_Id a') = Some a'" using ended_mem [OF wf] by simp
  with pruned_kept(2) [OF wf pr, of "a_Id a'"] a' show
    "\<exists>j a'. a_Id a < j \<and> GetEndedAuctionByID s j = Some a' \<and> sale_denom a' = sale_denom a" by auto
qed

end
