(* ===== verification/Auction_Properties.thy ===== *)
theory Auction_Properties
  imports Auction_Prune
begin

text \<open>
  The properties of the auction module: what an accepted bid does, what it may cost, how auctions
  start, lose price, end and are pruned, and that the end of a block cannot halt the chain. The
  concrete keeper and states on which the properties are instantiated come first.
\<close>

section \<open>Consequences used by the properties\<close>

lemma record_bid_reads:
  "GetBid (record_bid st a bid) (b_AuctionId bid) (b_Id bid) = Some bid"
  "GetLastBidID (record_bid st a bid) = b_Id bid"
  "GetActiveAuctionByID (record_bid st a bid) (a_Id a) = Some a"
  "GetEndedAuctionByID (record_bid st a bid) i = GetEndedAuctionByID st i"
  "st_bank (record_bid st a bid) = st_bank st"
  by (simp_all add: record_bid_def setBid_def setActiveAuction_def GetBid_def GetActiveAuctionByID_def
      GetEndedAuctionByID_def)

lemma close_auction_reads:
  "GetBid (close_auction ctx st a) i n = GetBid st i n"
  "GetLastBidID (close_auction ctx st a) = GetLastBidID st"
  "GetLastAuctionID (close_auction ctx st a) = GetLastAuctionID st"
  "GetActiveAuctionByID (close_auction ctx st a) (a_Id a) = None"
  "GetEndedAuctionByID (close_auction ctx st a) (a_Id a) = Some (a\<lparr>a_EndBlock := BlockHeight ctx\<rparr>)"
  "st_bank (close_auction ctx st a) = st_bank st"
  "st_bids (close_auction ctx st a) = st_bids st"
  by (simp_all add: close_auction_def Let_def auction_emit_def setEndedAuction_def deleteActiveAuction_def
      GetBid_def GetActiveAuctionByID_def GetEndedAuctionByID_def)

lemma emit_reads [simp]:
  "GetBid (auction_emit e st) i n = GetBid st i n" "GetLastBidID (auction_emit e st) = GetLastBidID st"
  "GetLastAuctionID (auction_emit e st) = GetLastAuctionID st"
  "GetActiveAuctionByID (auction_emit e st) i = GetActiveAuctionByID st i"
  "GetEndedAuctionByID (auction_emit e st) i = GetEndedAuctionByID st i"
  "st_bank (auction_emit e st) = st_bank st" "st_bids (auction_emit e st) = st_bids st"
  "GetBidsByAuctionID (auction_emit e st) i = GetBidsByAuctionID st i"
  by (simp_all add: auction_emit_def GetBid_def GetActiveAuctionByID_def GetEndedAuctionByID_def GetBidsByAuctionID_values)

lemma payment_bound:
  fixes p m n c :: int
  assumes "c * dec_one < n * p + dec_one" "2 * (n * p * dec_one) \<le> 2 * (m * dec_one * dec_one) + p"
  shows "(p < 2 * dec_one \<longrightarrow> c \<le> m) \<and> (p < 2 * dec_one * dec_one \<longrightarrow> c \<le> m + 1)"
proof (intro conjI impI)
  let ?P = dec_one
  assume "p < 2 * ?P"
  with assms(2) have "(2 * ?P) * (n * p) < (2 * ?P) * (m * ?P + 1)" by (simp add: algebra_simps)
  then have "n * p < m * ?P + 1" by (rule mult_left_less_imp_less) (simp add: less_imp_le)
  with assms(1) have "c * ?P < (m + 1) * ?P" by (simp add: distrib_right)
  then show "c \<le> m" by (simp add: mult_less_cancel_right_pos)
next
  let ?P = dec_one
  assume "p < 2 * ?P * ?P"
  with assms(2) have "(2 * ?P) * (n * p) < (2 * ?P) * (m * ?P + ?P)" by (simp add: algebra_simps)
  then have "n * p < m * ?P + ?P" by (rule mult_left_less_imp_less) (simp add: less_imp_le)
  with assms(1) have "c * ?P < (m + 2) * ?P" by (simp add: distrib_right)
  then show "c \<le> m + 1" by (simp add: mult_less_cancel_right_pos)
qed

context auction_env begin

lemma settle_bid_result:
  assumes inv: "auction_inv k st" and a: "GetActiveAuctionByID st (a_Id a) = Some a"
    and height: "BlockHeight ctx \<noteq> 0" and ok: "settle_bid k ctx st a = Ok st'"
    and bal: "cAmount (a_RemainingTokensForSale a) = module_balance k st (sale_denom a)"
  shows "st_bids st' = st_bids st" "GetLastBidID st' = GetLastBidID st"
    "GetActiveAuctionByID st' (a_Id a) = (if cAmount (a_RemainingTokensForSale a) = 0 then None else Some a)"
    "GetEndedAuctionByID st' (a_Id a) =
      (if cAmount (a_RemainingTokensForSale a) = 0 then Some (a\<lparr>a_EndBlock := BlockHeight ctx\<rparr>) else None)"
    "GetBalance (ak_bank k) (st_bank st') x d = GetBalance (ak_bank k) (st_bank st) x d +
      (if cAmount (a_RemainingTokensForSale a) = 0
       then moved maddr (NewModuleAddress (ak_sdk k) (a_ProceedsModuleAccount a))
         [mk_coin BaseCoinUnit (\<Sum>b\<leftarrow>GetBidsByAuctionID st (a_Id a). paid b)] x d else 0)"
proof -
  have wf: "store_wf k st" using inv by (simp add: auction_inv_def)
  obtain b where b: "FinishAuction k ctx st a = Ok (close_auction ctx (st\<lparr>st_bank := b\<rparr>) a)"
    "\<And>x d. GetBalance (ak_bank k) b x d = settled_balance k st a x d"
    using FinishAuction_total [OF inv a refl refl refl height] by blast
  note store_wf_active(3) [OF wf a]
  then show "st_bids st' = st_bids st" "GetLastBidID st' = GetLastBidID st"
    "GetActiveAuctionByID st' (a_Id a) = (if cAmount (a_RemainingTokensForSale a) = 0 then None else Some a)"
    "GetEndedAuctionByID st' (a_Id a) =
      (if cAmount (a_RemainingTokensForSale a) = 0 then Some (a\<lparr>a_EndBlock := BlockHeight ctx\<rparr>) else None)"
    "GetBalance (ak_bank k) (st_bank st') x d = GetBalance (ak_bank k) (st_bank st) x d +
      (if cAmount (a_RemainingTokensForSale a) = 0
       then moved maddr (NewModuleAddress (ak_sdk k) (a_ProceedsModuleAccount a))
         [mk_coin BaseCoinUnit (\<Sum>b\<leftarrow>GetBidsByAuctionID st (a_Id a). paid b)] x d else 0)"
    using ok a b bal by (auto simp: settle_bid_def close_auction_reads settled_balance_def split: if_splits)
qed

lemma SubmitBid_result:
  assumes inv: "auction_inv k st" and msg: "MsgSubmitBid_ValidateBasic (ak_sdk k) msg = Ok ()"
    and user: "AccAddressFromBech32 (ak_sdk k) (mb_Signer msg) = Some signer" "signer \<noteq> maddr"
    and height: "BlockHeight ctx \<noteq> 0" and ok: "SubmitBid k ctx st msg = Ok (st', bid)"
    and a: "GetActiveAuctionByID st (mb_AuctionId msg) = Some a"
  defines "n \<equiv> cAmount (b_TotalFulfilledSaleTokens bid)" and "p \<equiv> a_CurrentUnitPriceInUsomm a"
    and "bal \<equiv> module_balance k st (sale_denom a)" and "i \<equiv> mb_AuctionId msg"
  shows "cAmount (mb_SaleTokenMinimumAmount msg) \<le> n" "n \<le> bal" "n * p \<le> paid bid * dec_one"
    "paid bid * dec_one < n * p + dec_one"
    "2 * (n * p * dec_one) \<le> 2 * (cAmount (mb_MaxBidInUsomm msg) * dec_one * dec_one) + p"
    "GetBid st' i (GetLastBidID st + 1) = Some bid" "GetLastBidID st' = GetLastBidID st + 1"
    "GetActiveAuctionByID st' i = (if n < bal then Some (sell_to k st a bid) else None)"
    "GetEndedAuctionByID st' i = (if n < bal then None else Some ((sell_to k st a bid)\<lparr>a_EndBlock := BlockHeight ctx\<rparr>))"
    "GetBalance (ak_bank k) (st_bank st') x d = GetBalance (ak_bank k) (st_bank st) x d +
      moved signer maddr [b_TotalUsommPaid bid] x d + moved maddr signer [b_TotalFulfilledSaleTokens bid] x d +
      (if n < bal then 0 else moved maddr (NewModuleAddress (ak_sdk k) (a_ProceedsModuleAccount a))
         [mk_coin BaseCoinUnit (\<Sum>b\<leftarrow>GetBidsByAuctionID st' i. paid b)] x d)"
proof -
  from ok obtain b st3 e where *:
    "sale_denom a = cDenom (mb_SaleTokenMinimumAmount msg)"
    "price_bid k ctx st msg signer a bal = Ok bid" "transfer_bid k (st_bank st) signer bid = Ok b"
    "settle_bid k ctx (record_bid (st\<lparr>st_bank := b\<rparr>) (sell_to k st a bid) bid) (sell_to k st a bid) = Ok st3"
    "st' = auction_emit e st3"
    using SubmitBid_cases [OF ok] user a unfolding bal_def by (metis option.inject)
  let ?a = "sell_to k st a bid"
  let ?s = "record_bid (st\<lparr>st_bank := b\<rparr>) ?a bid"
  have wf: "store_wf k st" using inv by (simp add: auction_inv_def)
  note act = store_wf_active [OF wf a]
  have ida: "a_Id ?a = i" "sale_denom ?a = sale_denom a" using act(1) by (simp_all add: sell_to_def i_def)
  note fields = price_bid_fields [OF *(2)]
  have nonneg: "0 \<le> bal" by (simp add: bal_def balance_nonneg)
  have pos: "0 < cAmount (mb_SaleTokenMinimumAmount msg)" "0 < cAmount (mb_MaxBidInUsomm msg)"
    using msg by (auto simp: MsgSubmitBid_ValidateBasic_Ok)
  have "0 < a_CurrentUnitPriceInUsomm a" using act(2) by (simp add: active_ok_def)
  note price_bid_Ok [OF *(2) this pos nonneg]
  then show ineqs: "cAmount (mb_SaleTokenMinimumAmount msg) \<le> n" "n \<le> bal" "n * p \<le> paid bid * dec_one"
    "paid bid * dec_one < n * p + dec_one"
    "2 * (n * p * dec_one) \<le> 2 * (cAmount (mb_MaxBidInUsomm msg) * dec_one * dec_one) + p"
    by (simp_all add: n_def p_def)
  note rec = record_bid_inv [OF inv a *(2) [unfolded bal_def] *(3) user(2)]
  have rest: "cAmount (a_RemainingTokensForSale ?a) = bal - n" by (simp add: sell_to_def bal_def n_def)
  have "module_balance k ?s (sale_denom ?a) = bal - n"
    using transfer_bid_balance [OF *(3), of maddr "sale_denom a"] user(2) fields(9,10) act(2)
    by (auto simp: record_bid_reads moved_def ida bal_def n_def active_ok_def)
  with rest rec(2) ida have "cAmount (a_RemainingTokensForSale ?a) = module_balance k ?s (sale_denom ?a)"
    "GetActiveAuctionByID ?s (a_Id ?a) = Some ?a" by (simp_all add: i_def)
  note settle = settle_bid_result [OF rec(1) this(2) height *(4) this(1)]
  have key: "b_AuctionId bid = i" "b_Id bid = GetLastBidID st + 1" using fields by (simp_all add: i_def)
  show "GetBid st' i (GetLastBidID st + 1) = Some bid" "GetLastBidID st' = GetLastBidID st + 1"
    using settle(1,2) record_bid_reads(1,2) [of "st\<lparr>st_bank := b\<rparr>" ?a bid] key by (simp_all add: *(5) GetBid_def)
  show "GetActiveAuctionByID st' i = (if n < bal then Some ?a else None)"
    "GetEndedAuctionByID st' i = (if n < bal then None else Some (?a\<lparr>a_EndBlock := BlockHeight ctx\<rparr>))"
    using settle(3,4) rest ineqs(2) by (simp_all add: *(5) ida)
  have "GetBidsByAuctionID st' i = GetBidsByAuctionID ?s i"
    using settle(1) by (simp add: *(5) GetBidsByAuctionID_values)
  moreover have "a_ProceedsModuleAccount ?a = a_ProceedsModuleAccount a" by (simp add: sell_to_def)
  ultimately show "GetBalance (ak_bank k) (st_bank st') x d = GetBalance (ak_bank k) (st_bank st) x d +
      moved signer maddr [b_TotalUsommPaid bid] x d + moved maddr signer [b_TotalFulfilledSaleTokens bid] x d +
      (if n < bal then 0 else moved maddr (NewModuleAddress (ak_sdk k) (a_ProceedsModuleAccount a))
         [mk_coin BaseCoinUnit (\<Sum>b\<leftarrow>GetBidsByAuctionID st' i. paid b)] x d)"
    using settle(5) [of x d] transfer_bid_balance [OF *(3), of x d] rest ineqs(2)
    by (simp add: *(5) record_bid_reads ida)
qed

end

section \<open>Concrete instances\<close>

text \<open>A keeper over the reference decimals and bank, and a state with one active auction: auction 1
  offers 100 units of a bridged token at \<open>4.5 + 10\<^sup>-\<^sup>1\<^sup>8\<close> usomm each.\<close>

definition ex_keeper :: "ref_bank_state auction_keeper" where
  "ex_keeper = \<lparr>ak_sdk = ref_sdk, ak_bank = ref_bank,
     ak_GetModuleAccount = (\<lambda>m. Some (NewModuleAddress ref_sdk m)),
     fundingModuleAccounts = [''cellarfees'' \<mapsto> True], proceedsModuleAccounts = [''cellarfees'' \<mapsto> True]\<rparr>"

definition ex_denom :: string where "ex_denom = ''gravity0xaa''"

definition ex_auction :: auction where
  "ex_auction = \<lparr>a_Id = 1, a_StartingTokensForSale = mk_coin ex_denom 100, a_StartBlock = 5, a_EndBlock = 0,
     a_InitialPriceDecreaseRate = dec_one div 10, a_CurrentPriceDecreaseRate = dec_one div 10,
     a_PriceDecreaseBlockInterval = 10, a_InitialUnitPriceInUsomm = 5 * dec_one,
     a_CurrentUnitPriceInUsomm = 4500000000000000001, a_RemainingTokensForSale = mk_coin ex_denom 100,
     a_FundingModuleAccount = ''cellarfees'', a_ProceedsModuleAccount = ''cellarfees''\<rparr>"

definition ex_bank :: ref_bank_state where
  "ex_bank = (\<lambda>a d. if a = NewModuleAddress ref_sdk ''auction'' \<and> d = ex_denom then 100
     else if a = NewModuleAddress ref_sdk ''cellarfees'' \<and> d = ex_denom then 500
     else if a = string_bytes ''bob'' \<and> d = BaseCoinUnit then 60 else 0)"

definition ex_price :: "string \<Rightarrow> u64 \<Rightarrow> dec \<Rightarrow> token_price" where
  "ex_price d e p = \<lparr>tp_Denom = d, tp_Exponent = e, tp_UsdPrice = p, tp_LastUpdatedBlock = 4\<rparr>"

definition ex_state :: "ref_bank_state auction_state" where
  "ex_state = \<lparr>st_params = auction_DefaultParams\<lparr>MinimumBidInUsomm := 1\<rparr>,
     st_auctions = kv_set kv_empty (GetActiveAuctionKey 1) ex_auction, st_bids = kv_empty,
     st_prices = kv_set (kv_set kv_empty (GetTokenPriceKey BaseCoinUnit) (ex_price BaseCoinUnit 6 (dec_one div 10)))
       (GetTokenPriceKey ''gravity0xbb'') (ex_price ''gravity0xbb'' 6 (2 * dec_one)),
     st_ids = kv_set kv_empty GetLastAuctionIDKey (PutUint32 1), st_bank = ex_bank, st_events = []\<rparr>"

definition ex_msg :: "int \<Rightarrow> int \<Rightarrow> msg_submit_bid" where
  "ex_msg maxBid minimum = \<lparr>mb_AuctionId = 1, mb_MaxBidInUsomm = mk_coin BaseCoinUnit maxBid,
     mb_SaleTokenMinimumAmount = mk_coin ex_denom minimum, mb_Signer = ''somm1bob''\<rparr>"

definition ex_ctx :: "i64 \<Rightarrow> ctx" where "ex_ctx h = \<lparr>BlockHeight = h\<rparr>"

interpretation ex_env: auction_env ex_keeper "\<lambda>_. True" ref_blocked
  by (intro auction_env.intro auction_env_axioms.intro)
    (simp_all add: ex_keeper_def keeper_ok_def GetAuctionAccount_def ref_env.chain_env_axioms,
     simp add: ref_sdk_def BaseCoinUnit_def)

lemma ex_state_inv: "auction_inv ex_keeper ex_state"
  by code_simp

lemmas ex_env_ax = ex_env.auction_env_axioms

section \<open>Block processing and the invariant\<close>

text \<open>
  C1. The end of a block never panics in a reachable state: whatever history of bids, new auctions,
  proposals and blocks led to the state, \<^verbatim>\<open>EndBlocker\<close> returns. The module account can always pay
  out the auctions that end in the block, so the two \<^verbatim>\<open>panic(err)\<close> calls are dead code.
\<close>

theorem auction_EndBlocker_never_panics:
  assumes "auction_env k has_account blocked" "auction_reachable k st" "BlockHeight ctx \<noteq> 0"
  shows "\<exists>st'. auction_EndBlocker k ctx st = Ok st' \<and> auction_reachable k st'"
proof -
  obtain st' where st': "auction_EndBlocker k ctx st = Ok st'"
    using auction_env.auction_EndBlocker_total [OF assms(1) auction_env.auction_reachable_inv [OF assms(1,2)] assms(3)]
    by blast
  with assms(2,3) have "auction_reachable k st'" by (blast intro: auction_reachable.step auction_step.end_block)
  with st' show ?thesis by blast
qed

definition ex_genesis :: "ref_bank_state auction_state" where
  "ex_genesis = ok_val (auction_InitGenesis ex_keeper (empty_auction_state ex_bank) auction_DefaultGenesisState)"

lemma ex_genesis_reachable: "auction_reachable ex_keeper ex_genesis"
  unfolding ex_genesis_def
  by (rule auction_reachable.genesis [of _ ex_bank], rule is_ok_val) code_simp

theorem auction_EndBlocker_never_panics_witness:
  "\<exists>st'. auction_EndBlocker ex_keeper (ex_ctx 7) ex_genesis = Ok st' \<and> auction_reachable ex_keeper st'"
  by (rule auction_EndBlocker_never_panics [OF ex_env_ax ex_genesis_reachable]) (simp add: ex_ctx_def)

text \<open>
  C2. The invariant of the module holds in every reachable state: every entry sits under the key of
  its own id, ids never exceed the counters, an auction is never both active and ended, at most one
  active auction sells a denomination, active auctions have positive prices and rates, and the module
  account holds at least all usomm paid for auctions still active.
\<close>

theorem auction_invariant_reachable:
  assumes "auction_env k has_account blocked" "auction_reachable k st"
  shows "store_wf k st \<and> owed st \<le> module_balance k st BaseCoinUnit"
  using auction_env.auction_reachable_inv [OF assms] by (simp add: auction_inv_def solvent_def)

theorem auction_invariant_reachable_witness:
  "store_wf ex_keeper ex_genesis \<and> owed ex_genesis \<le> module_balance ex_keeper ex_genesis BaseCoinUnit"
  by (rule auction_invariant_reachable [OF ex_env_ax ex_genesis_reachable])

section \<open>Bids\<close>

text \<open>
  C3. What an accepted bid does. The bidder receives \<open>n\<close> tokens, at least the minimum asked for and at
  most what is left, and pays their cost rounded up to a whole usomm; the bid is stored under the next
  bid id; the auction keeps the rest for sale or, when nothing is left, is moved to the ended auctions
  and its proceeds, this payment included, are paid to the proceeds module. No other balance changes.
\<close>

theorem SubmitBid_settles:
  assumes "auction_env k has_account blocked" "auction_inv k st"
    and "MsgSubmitBid_ValidateBasic (ak_sdk k) msg = Ok ()"
    and "AccAddressFromBech32 (ak_sdk k) (mb_Signer msg) = Some signer" "signer \<noteq> module_addr k auction_ModuleName"
    and "BlockHeight ctx \<noteq> 0" and "SubmitBid k ctx st msg = Ok (st', bid)"
    and "GetActiveAuctionByID st (mb_AuctionId msg) = Some a"
    and n: "n = cAmount (b_TotalFulfilledSaleTokens bid)" and bal: "bal = module_balance k st (sale_denom a)"
  shows "cAmount (mb_SaleTokenMinimumAmount msg) \<le> n \<and> n \<le> bal \<and>
    n * a_CurrentUnitPriceInUsomm a \<le> paid bid * dec_one \<and>
    paid bid * dec_one < n * a_CurrentUnitPriceInUsomm a + dec_one \<and>
    GetBid st' (mb_AuctionId msg) (GetLastBidID st + 1) = Some bid \<and> GetLastBidID st' = GetLastBidID st + 1 \<and>
    GetActiveAuctionByID st' (mb_AuctionId msg) = (if n < bal then Some (sell_to k st a bid) else None) \<and>
    GetEndedAuctionByID st' (mb_AuctionId msg) =
      (if n < bal then None else Some ((sell_to k st a bid)\<lparr>a_EndBlock := BlockHeight ctx\<rparr>)) \<and>
    (\<forall>x d. GetBalance (ak_bank k) (st_bank st') x d = GetBalance (ak_bank k) (st_bank st) x d +
      moved signer (module_addr k auction_ModuleName) [b_TotalUsommPaid bid] x d +
      moved (module_addr k auction_ModuleName) signer [b_TotalFulfilledSaleTokens bid] x d +
      (if n < bal then 0 else moved (module_addr k auction_ModuleName) (module_addr k (a_ProceedsModuleAccount a))
         [mk_coin BaseCoinUnit (\<Sum>b\<leftarrow>GetBidsByAuctionID st' (mb_AuctionId msg). paid b)] x d))"
  using auction_env.SubmitBid_result [OF assms(1-8)] unfolding n bal by (intro conjI allI)

definition ex_bid_result :: "int \<Rightarrow> int \<Rightarrow> ref_bank_state auction_state \<times> bid" where
  "ex_bid_result maxBid minimum = ok_val (SubmitBid ex_keeper (ex_ctx 7) ex_state (ex_msg maxBid minimum))"

lemma ex_bid_run:
  "case SubmitBid ex_keeper (ex_ctx 7) ex_state (ex_msg 9 1) of
     Ok r \<Rightarrow> cAmount (b_MaxBidInUsomm (snd r)) = 9 \<and> paid (snd r) = 10 | _ \<Rightarrow> False"
  by code_simp

lemma ex_bid_ok:
  "SubmitBid ex_keeper (ex_ctx 7) ex_state (ex_msg 9 1) = Ok (fst (ex_bid_result 9 1), snd (ex_bid_result 9 1))"
  using ex_bid_run unfolding ex_bid_result_def prod.collapse
  by (intro is_ok_val) (simp split: res.splits)

lemma ex_msg_facts:
  "MsgSubmitBid_ValidateBasic (ak_sdk ex_keeper) (ex_msg 9 1) = Ok ()"
  "AccAddressFromBech32 (ak_sdk ex_keeper) (mb_Signer (ex_msg 9 1)) = Some (string_bytes ''bob'')"
  "string_bytes ''bob'' \<noteq> module_addr ex_keeper auction_ModuleName"
  "BlockHeight (ex_ctx 7) \<noteq> 0" "GetActiveAuctionByID ex_state (mb_AuctionId (ex_msg 9 1)) = Some ex_auction"
  by code_simp+

theorem SubmitBid_settles_witness:
  "cAmount (mb_SaleTokenMinimumAmount (ex_msg 9 1)) \<le> cAmount (b_TotalFulfilledSaleTokens (snd (ex_bid_result 9 1))) \<and>
   GetBid (fst (ex_bid_result 9 1)) 1 (GetLastBidID ex_state + 1) = Some (snd (ex_bid_result 9 1))"
  using SubmitBid_settles [OF ex_env_ax ex_state_inv ex_msg_facts(1-4) ex_bid_ok ex_msg_facts(5) refl refl]
  by (simp add: ex_msg_def)

text \<open>
  C4. How far a payment can exceed the offer. The number of tokens is a quotient rounded to the
  nearest \<open>10\<^sup>-\<^sup>1\<^sup>8\<close> before it is truncated, and the payment is rounded up, so the payment can exceed
  \<^verbatim>\<open>MaxBidInUsomm\<close>; below a unit price of 2 usomm it never does, and below \<open>2 * 10\<^sup>1\<^sup>8\<close> usomm by one
  usomm at most.
\<close>

theorem SubmitBid_payment_bound:
  assumes "auction_env k has_account blocked" "auction_inv k st"
    and "MsgSubmitBid_ValidateBasic (ak_sdk k) msg = Ok ()"
    and "AccAddressFromBech32 (ak_sdk k) (mb_Signer msg) = Some signer" "signer \<noteq> module_addr k auction_ModuleName"
    and "BlockHeight ctx \<noteq> 0" and "SubmitBid k ctx st msg = Ok (st', bid)"
    and "GetActiveAuctionByID st (mb_AuctionId msg) = Some a"
  shows "(a_CurrentUnitPriceInUsomm a < 2 * dec_one \<longrightarrow> paid bid \<le> cAmount (mb_MaxBidInUsomm msg)) \<and>
    (a_CurrentUnitPriceInUsomm a < 2 * dec_one * dec_one \<longrightarrow> paid bid \<le> cAmount (mb_MaxBidInUsomm msg) + 1)"
  using auction_env.SubmitBid_result(4,5) [OF assms] by (intro payment_bound)

theorem SubmitBid_payment_bound_witness:
  "paid (snd (ex_bid_result 9 1)) \<le> 9 + 1"
  using SubmitBid_payment_bound [OF ex_env_ax ex_state_inv ex_msg_facts(1-4) ex_bid_ok ex_msg_facts(5)]
  by (simp add: ex_auction_def ex_msg_def dec_one_def)

text \<open>
  The overcharge is real: at a unit price of \<open>4.5 + 10\<^sup>-\<^sup>1\<^sup>8\<close> usomm, a bid of at most 9 usomm for at
  least one token is accepted, fulfilled with two tokens and charged 10 usomm.
\<close>

lemma SubmitBid_can_overcharge:
  "SubmitBid ex_keeper (ex_ctx 7) ex_state (ex_msg 9 1) = Ok (ex_bid_result 9 1) \<and>
   cAmount (b_MaxBidInUsomm (snd (ex_bid_result 9 1))) = 9 \<and> paid (snd (ex_bid_result 9 1)) = 10"
  using ex_bid_ok ex_bid_run by simp

section \<open>Starting and finishing\<close>

text \<open>
  C6. Finishing an active auction always succeeds and settles it: the whole balance of the sale token
  goes back to the funding module, the sum of all payments of the auction's bids goes to the proceeds
  module, and the auction moves from the active to the ended ones with the current height as its end.
\<close>

theorem FinishAuction_settles:
  assumes "auction_env k has_account blocked" "auction_inv k st"
    and "GetActiveAuctionByID st (a_Id a) = Some a" "BlockHeight ctx \<noteq> 0"
  shows "\<exists>st'. FinishAuction k ctx st a = Ok st' \<and> GetActiveAuctionByID st' (a_Id a) = None \<and>
    GetEndedAuctionByID st' (a_Id a) = Some (a\<lparr>a_EndBlock := BlockHeight ctx\<rparr>) \<and>
    (\<forall>x d. GetBalance (ak_bank k) (st_bank st') x d = GetBalance (ak_bank k) (st_bank st) x d +
      moved (module_addr k auction_ModuleName) (module_addr k (a_FundingModuleAccount a))
        [mk_coin (sale_denom a) (module_balance k st (sale_denom a))] x d +
      moved (module_addr k auction_ModuleName) (module_addr k (a_ProceedsModuleAccount a))
        [mk_coin BaseCoinUnit (\<Sum>b\<leftarrow>GetBidsByAuctionID st (a_Id a). paid b)] x d)"
proof -
  obtain b where "FinishAuction k ctx st a = Ok (close_auction ctx (st\<lparr>st_bank := b\<rparr>) a)"
    "\<forall>x d. GetBalance (ak_bank k) b x d = settled_balance k st a x d"
    using auction_env.FinishAuction_total [OF assms(1-3) refl refl refl assms(4)] by blast
  then show ?thesis by (simp add: close_auction_reads settled_balance_def)
qed

theorem FinishAuction_settles_witness:
  "\<exists>st'. FinishAuction ex_keeper (ex_ctx 7) ex_state ex_auction = Ok st' \<and>
    GetEndedAuctionByID st' (a_Id ex_auction) = Some (ex_auction\<lparr>a_EndBlock := 7\<rparr>)"
proof -
  have "GetActiveAuctionByID ex_state (a_Id ex_auction) = Some ex_auction" by code_simp
  from FinishAuction_settles [OF ex_env_ax ex_state_inv this ex_msg_facts(4)]
  show ?thesis by (auto simp: ex_ctx_def)
qed

text \<open>
  C7. What a started auction looks like. The auction gets the id after the last one, sells the given
  coin at a positive unit price derived from the two stored USD prices, both younger than the
  allowed age, and is the only active one of its denomination; the coins move from the funding module
  to the auction module; every other auction stays as it was.
\<close>

theorem BeginAuction_effect:
  assumes env: "auction_env k has_account blocked" and inv: "auction_inv k st"
    and ok: "BeginAuction k ctx st c rate interval fund proc = Ok st'"
  shows "\<exists>price sale usomm. saleTokenPriceInUsomm (ak_sdk k) sale usomm = Ok price \<and> 0 < price \<and>
    GetTokenPrice st (cDenom c) = Some sale \<and> GetTokenPrice st BaseCoinUnit = Some usomm \<and>
    BlockHeight ctx - tp_LastUpdatedBlock sale \<le> PriceMaxBlockAge (st_params st) \<and>
    BlockHeight ctx - tp_LastUpdatedBlock usomm \<le> PriceMaxBlockAge (st_params st) \<and>
    GetLastAuctionID st' = GetLastAuctionID st + 1 \<and>
    (\<forall>i. GetActiveAuctionByID st' i = (if i = GetLastAuctionID st + 1
       then Some (new_auction ctx st c rate interval price fund proc) else GetActiveAuctionByID st i)) \<and>
    (\<forall>i a. GetActiveAuctionByID st i = Some a \<longrightarrow> sale_denom a \<noteq> cDenom c) \<and>
    (\<forall>x d. GetBalance (ak_bank k) (st_bank st') x d = GetBalance (ak_bank k) (st_bank st) x d +
      moved (module_addr k fund) (module_addr k auction_ModuleName) [c] x d)"
proof -
  obtain sale usomm price b e where *:
    "GetTokenPrice st (cDenom c) = Some sale" "\<not> tokenPriceTooOld ctx st sale"
    "GetTokenPrice st BaseCoinUnit = Some usomm" "\<not> tokenPriceTooOld ctx st usomm"
    "saleTokenPriceInUsomm (ak_sdk k) sale usomm = Ok price"
    "Auction_ValidateBasic (ak_sdk k) (new_auction ctx st c rate interval price fund proc) = Ok ()"
    "cDenom c \<notin> sale_denom ` set (GetActiveAuctions st)"
    "SendCoinsFromModuleToModule (ak_bank k) (st_bank st) fund auction_ModuleName [c] = Ok b"
    "st' = auction_emit e (setLastAuctionID (setActiveAuction (st\<lparr>st_bank := b\<rparr>)
       (new_auction ctx st c rate interval price fund proc)) (GetLastAuctionID st + 1))"
    using auction_env.BeginAuction_cases [OF env ok] by metis
  have bal: "GetBalance (ak_bank k) b x d = GetBalance (ak_bank k) (st_bank st) x d +
      moved (module_addr k fund) (module_addr k auction_ModuleName) [c] x d" for x d
    using bank_keeper.m2m_balance [OF chain_env.axioms(2) [OF auction_env.axioms(1) [OF env]] *(8)] .
  have "store_wf k st" using inv by (simp add: auction_inv_def)
  then have "sale_denom a \<noteq> cDenom c" if "GetActiveAuctionByID st i = Some a" for i a
    using *(7) that store_wf_active_mem [of k st a] store_wf_active(1) [of k st i a] by (metis imageI)
  moreover have "0 < price" using *(6) by (simp add: Auction_ValidateBasic_Ok new_auction_def)
  moreover have "a_Id (new_auction ctx st c rate interval price fund proc) = GetLastAuctionID st + 1"
    by (simp add: new_auction_def)
  ultimately show ?thesis
    using *(1-5) bal
    by (intro exI [of _ price] exI [of _ sale] exI [of _ usomm])
      (auto simp: *(9) tokenPriceTooOld_def not_less setActiveAuction_def GetActiveAuctionByID_def auction_emit_def)
qed

definition ex_begin :: "ref_bank_state auction_state res" where
  "ex_begin = BeginAuction ex_keeper (ex_ctx 7) (ex_state\<lparr>st_bank := (\<lambda>a d. 500)\<rparr>) (mk_coin ''gravity0xbb'' 50)
     (dec_one div 10) 10 ''cellarfees'' ''cellarfees''"

lemma ex_begin_ok: "ex_begin = Ok (ok_val ex_begin)"
  by (rule is_ok_val) code_simp

lemma ex_state_inv_rich: "auction_inv ex_keeper (ex_state\<lparr>st_bank := (\<lambda>a d. 500)\<rparr>)"
  by code_simp

theorem BeginAuction_effect_witness: "GetLastAuctionID (ok_val ex_begin) = GetLastAuctionID ex_state + 1"
  using BeginAuction_effect [OF ex_env_ax ex_state_inv_rich ex_begin_ok [unfolded ex_begin_def]]
  by (auto simp: ex_begin_def)

text \<open>
  A second auction of a denomination that is on sale is refused with
  \<^verbatim>\<open>ErrCannotStartTwoAuctionsForSameDenomSimultaneously\<close> once all other checks pass, and no coin moves.
\<close>

lemma BeginAuction_refuses_second:
  assumes "store_wf k st" "GetActiveAuctionByID st i = Some a" "sale_denom a = cDenom c"
    and "MinimumAuctionHeight (st_params st) < BlockHeight ctx" "0 < cAmount c"
    and "fundingModuleAccounts k fund \<noteq> None" "proceedsModuleAccounts k proc \<noteq> None"
    and "GetTokenPrice st (cDenom c) = Some sale" "\<not> tokenPriceTooOld ctx st sale"
    and "GetTokenPrice st BaseCoinUnit = Some usomm" "\<not> tokenPriceTooOld ctx st usomm"
    and "saleTokenPriceInUsomm (ak_sdk k) sale usomm = Ok price"
    and "Auction_ValidateBasic (ak_sdk k) (new_auction ctx st c rate interval price fund proc) = Ok ()"
  shows "BeginAuction k ctx st c rate interval fund proc =
    Err (Wrapped ErrCannotStartTwoAuctionsForSameDenomSimultaneously)"
proof -
  have "a \<in> set (GetActiveAuctions st)"
    using store_wf_active_mem [OF assms(1), of a] store_wf_active(1) [OF assms(1,2)] assms(2) by simp
  then have "cDenom c \<in> sale_denom ` set (GetActiveAuctions st)" using assms(3) by (metis imageI)
  moreover have "sale_denom (new_auction ctx st c rate interval price fund proc) = cDenom c"
    by (simp add: new_auction_def)
  ultimately show ?thesis
    using assms(4-13)
    by (simp add: BeginAuction_def open_auction_def auction_ongoing_iff Coin_IsPositive_def not_le)
qed

text \<open>
  \<^verbatim>\<open>BeginAuction\<close> panics, instead of returning an error, when the USD price of one minimal unit of
  the sale token is below half of \<open>10\<^sup>-\<^sup>1\<^sup>8\<close>: the unit price rounds to zero and the new auction fails its
  own validation. The caller runs it in \<^verbatim>\<open>BeginBlocker\<close>.
\<close>

lemma BeginAuction_panics_on_zero_price:
  assumes env: "auction_env k has_account blocked" and inv: "auction_inv k st"
    and "MinimumAuctionHeight (st_params st) < BlockHeight ctx" "0 < cAmount c"
    and "fundingModuleAccounts k fund \<noteq> None" "proceedsModuleAccounts k proc \<noteq> None"
    and sale: "GetTokenPrice st (cDenom c) = Some sale" "\<not> tokenPriceTooOld ctx st sale"
    and usomm: "GetTokenPrice st BaseCoinUnit = Some usomm" "\<not> tokenPriceTooOld ctx st usomm"
    and tiny: "2 * tp_UsdPrice sale < 10 ^ unat (tp_Exponent sale)"
  shows "is_panic (BeginAuction k ctx st c rate interval fund proc)"
proof -
  have dec: "sdk_dec (ak_sdk k)"
    using env by (intro chain_env.axioms(1) [where B = "ak_bank k"] auction_env.axioms(1))
  have wf: "store_wf k st" using inv by (simp add: auction_inv_def)
  have "0 < tp_UsdPrice sale" "tp_Exponent sale \<le> 18" "0 < tp_UsdPrice usomm"
    using store_wf_price [OF wf sale(1) [unfolded GetTokenPrice_def]]
      store_wf_price [OF wf usomm(1) [unfolded GetTokenPrice_def]]
    by (simp_all add: TokenPrice_ValidateBasic_Ok)
  note prices = this
  have "Dec_Quo (ak_sdk k) (tp_UsdPrice sale) (10 ^ unat (tp_Exponent sale) * dec_one) = 0"
  proof (rule sdk_dec.quo_zero [OF dec])
    show "2 * (tp_UsdPrice sale * dec_one) < 10 ^ unat (tp_Exponent sale) * dec_one"
      using mult_strict_right_mono [OF tiny dec_one_pos] by simp
  qed (use prices in simp_all)
  then have sale0: "Quo (ak_sdk k) (tp_UsdPrice sale) (Dec_Power (ak_sdk k) (10 * dec_one) (tp_Exponent sale)) = Ok 0"
    using sdk_dec.power_ten [OF dec prices(2)] dec_one_pos by (simp add: Quo_def del: dec_one_pos)
  have "is_panic (bind_res (saleTokenPriceInUsomm (ak_sdk k) sale usomm) (\<lambda>price.
      open_auction k ctx st (new_auction ctx st c rate interval price fund proc)))"
  proof -
    have "Dec_Quo (ak_sdk k) 0 u = 0" if "0 < u" for u
      using sdk_dec.quo_exact [OF dec, of 0 u 0] that by simp
    moreover have "0 \<le> Dec_Quo (ak_sdk k) (tp_UsdPrice usomm) (10 ^ 6 * dec_one)"
      by (rule sdk_dec.quo_nonneg [OF dec]) (use prices in simp_all)
    moreover have "Dec_Power (ak_sdk k) (10 * dec_one) CoinExponent = 10 ^ 6 * dec_one"
      using sdk_dec.power_ten [OF dec, of CoinExponent] by (simp add: CoinExponent_def)
    ultimately have "is_panic (saleTokenPriceInUsomm (ak_sdk k) sale usomm) \<or>
        saleTokenPriceInUsomm (ak_sdk k) sale usomm = Ok 0"
      unfolding saleTokenPriceInUsomm_def sale0 bind_res.simps by (auto simp: Quo_def less_le)
    moreover have "is_panic (open_auction k ctx st (new_auction ctx st c rate interval 0 fund proc))"
    proof -
      have "Auction_ValidateBasic (ak_sdk k) (new_auction ctx st c rate interval 0 fund proc) \<noteq> Ok ()"
        by (simp add: Auction_ValidateBasic_Ok new_auction_def)
      then show ?thesis
        by (auto simp: open_auction_def Auction_ValidateBasic_def split: if_splits)
    qed
    ultimately show ?thesis by (auto simp: is_panic_bind)
  qed
  then show ?thesis
    using assms(3-6) sale usomm by (simp add: BeginAuction_def Coin_IsPositive_def not_le)
qed

section \<open>Prices, ageing and pruning\<close>



text \<open>
  The end of a block never raises the price of an active auction, changes none of its terms, and
  starts no auction: an auction that is active afterwards was active before.
\<close>

lemma auction_EndBlocker_prices:
  assumes "auction_env k has_account blocked" "auction_inv k st" "BlockHeight ctx \<noteq> 0"
    and "auction_EndBlocker k ctx st = Ok st'" "GetActiveAuctionByID st' i = Some a'"
  shows "\<exists>a. GetActiveAuctionByID st i = Some a \<and> a_StartingTokensForSale a' = a_StartingTokensForSale a \<and>
    a_StartBlock a' = a_StartBlock a \<and> a_PriceDecreaseBlockInterval a' = a_PriceDecreaseBlockInterval a \<and>
    0 < a_CurrentUnitPriceInUsomm a' \<and> a_CurrentUnitPriceInUsomm a' \<le> a_CurrentUnitPriceInUsomm a -
      (if price_decrease_due ctx a = Ok True then least_decrease a else 0)"
proof -
  obtain s where s: "auction_EndBlocker k ctx st = Ok s" "auction_inv k s"
    "\<forall>i. GetActiveAuctionByID st i = None \<longrightarrow> GetActiveAuctionByID s i = None"
    "\<forall>i a. GetActiveAuctionByID st i = Some a \<longrightarrow> price_lowered ctx a (GetActiveAuctionByID s i)"
    using auction_env.auction_EndBlocker_total [OF assms(1-3)] by blast
  have "s = st'" using s(1) assms(4) by simp
  note inv = s(2) [unfolded this] and none = s(3) [unfolded this, rule_format, of i]
    and low = s(4) [unfolded this, rule_format, of i]
  have "0 < a_CurrentUnitPriceInUsomm a'"
    using store_wf_active(2) [OF _ assms(5), of k] inv by (simp add: auction_inv_def active_ok_def)
  with none low assms(5) show ?thesis by (cases "GetActiveAuctionByID st i") (auto simp: price_lowered_def)
qed




text \<open>
  The bids of an auction are iterated in ascending order of their ids, so the last one the end of
  a block looks at, to decide whether the decrease rate is reset, is the most recent bid.
\<close>

lemma bids_in_order:
  assumes "store_wf k st"
  shows "sorted_wrt (<) (map b_Id (GetBidsByAuctionID st i)) \<and>
    (\<forall>b \<in> set (GetBidsByAuctionID st i). b_AuctionId b = i \<and> b_Id b \<le> b_Id (last (GetBidsByAuctionID st i)))"
proof -
  let ?bs = "GetBidsByAuctionID st i"
  have srt: "sorted_wrt (<) (map b_Id ?bs)" by (rule bids_sorted [OF assms])
  have "b_AuctionId b = i" if "b \<in> set ?bs" for b
    using that by (auto simp: GetBidsByAuctionID_values kv_values_mem dest: store_wf_bid(1) [OF assms])
  moreover have "b_Id b \<le> b_Id (last ?bs)" if "b \<in> set ?bs" for b
    by (rule sorted_last_max [OF srt that])
  ultimately show ?thesis using srt by blast
qed

section \<open>Genesis and proposals\<close>

text \<open>
  C14. Exporting a well-formed state and importing it into an empty chain restores the parameters, all
  auctions, bids and token prices and both counters.
\<close>

theorem auction_genesis_roundtrip:
  assumes "store_wf k st" "GetAuctionAccount k \<noteq> None"
  shows "\<exists>st'. auction_InitGenesis k (empty_auction_state bank) (auction_ExportGenesis st) = Ok st' \<and>
    st_params st' = st_params st \<and> st_auctions st' = st_auctions st \<and> st_bids st' = st_bids st \<and>
    st_prices st' = st_prices st \<and> GetLastAuctionID st' = GetLastAuctionID st \<and> GetLastBidID st' = GetLastBidID st \<and>
    auction_ExportGenesis st' = auction_ExportGenesis st"
  using InitGenesis_ExportGenesis [OF assms, of bank]
  by (simp add: auction_ExportGenesis_def GetActiveAuctions_values GetEndedAuctions_values GetBids_values GetTokenPrices_values)

theorem auction_genesis_roundtrip_witness:
  "\<exists>st'. auction_InitGenesis ex_keeper (empty_auction_state ex_bank) (auction_ExportGenesis ex_state) = Ok st' \<and>
    st_auctions st' = st_auctions ex_state"
  using auction_genesis_roundtrip [of ex_keeper ex_state ex_bank] ex_state_inv
  by (auto simp: auction_inv_def ex_keeper_def GetAuctionAccount_def)

text \<open>
  C15. A passed price proposal sets exactly the proposed denominations to the proposed USD price at the
  current height, and the stored exponent is always zero: the exponent that the proposal carries, and
  that its validation bounds, is dropped.
\<close>

theorem HandleSetTokenPricesProposal_effect:
  assumes "HandleSetTokenPricesProposal k ctx st p = Ok st'"
  shows "(\<forall>t \<in> set (stp_TokenPrices p). GetTokenPrice st' (ptp_Denom t) =
      Some \<lparr>tp_Denom = ptp_Denom t, tp_Exponent = 0, tp_UsdPrice = ptp_UsdPrice t, tp_LastUpdatedBlock = BlockHeight ctx\<rparr>) \<and>
    (\<forall>d. d \<notin> ptp_Denom ` set (stp_TokenPrices p) \<longrightarrow> GetTokenPrice st' d = GetTokenPrice st d)"
proof -
  have d: "distinct (map ptp_Denom (stp_TokenPrices p))"
    and st': "st' = foldl (\<lambda>s t. setTokenPrice s (proposed_price ctx t)) st (stp_TokenPrices p)"
    using assms SetTokenPricesProposal_ValidateBasic_Ok by (auto simp: HandleSetTokenPricesProposal_Ok)
  have get: "GetTokenPrice (setTokenPrice s (proposed_price ctx t)) d =
      (if d = ptp_Denom t then Some (proposed_price ctx t) else GetTokenPrice s d)" for s t d
    by (simp add: setTokenPrice_def GetTokenPrice_def proposed_price_def)
  have other: "GetTokenPrice (foldl (\<lambda>s t. setTokenPrice s (proposed_price ctx t)) s ts) d = GetTokenPrice s d"
    if "d \<notin> ptp_Denom ` set ts" for s ts d
    using that by (induction ts arbitrary: s) (simp_all add: get)
  have "GetTokenPrice (foldl (\<lambda>s t. setTokenPrice s (proposed_price ctx t)) s ts) (ptp_Denom t) = Some (proposed_price ctx t)"
    if "t \<in> set ts" "distinct (map ptp_Denom ts)" for s ts t
    using that
  proof (induction ts arbitrary: s)
    case (Cons x ts)
    then show ?case by (cases "t = x") (simp_all add: other get)
  qed simp
  with d other show ?thesis by (auto simp: st' proposed_price_def)
qed

definition ex_proposal :: set_token_prices_proposal where
  "ex_proposal = \<lparr>stp_Title = ''t'', stp_Description = ''d'',
     stp_TokenPrices = [\<lparr>ptp_Denom = ex_denom, ptp_Exponent = 18, ptp_UsdPrice = dec_one\<rparr>]\<rparr>"

lemma ex_proposal_ok:
  "HandleSetTokenPricesProposal ex_keeper (ex_ctx 9) ex_state ex_proposal =
    Ok (ok_val (HandleSetTokenPricesProposal ex_keeper (ex_ctx 9) ex_state ex_proposal))"
  by (rule is_ok_val) code_simp

theorem HandleSetTokenPricesProposal_effect_witness:
  "map_option tp_Exponent (GetTokenPrice (ok_val (HandleSetTokenPricesProposal ex_keeper (ex_ctx 9) ex_state ex_proposal)) ex_denom)
    = Some 0"
  using HandleSetTokenPricesProposal_effect [OF ex_proposal_ok] by (simp add: ex_proposal_def)

end
