(* ===== verification/Pubsub_Types.thy ===== *)
theory Pubsub_Types
  imports Sdk
begin

text \<open>
  The data of the pubsub module (\<^verbatim>\<open>x/pubsub/types\<close>): publishers, subscribers, their intents and the
  default subscriptions, with stateless validation, messages, proposals, genesis and the keys of the
  store. Strings of variable length enter the keys through \<^verbatim>\<open>StringHash\<close> (Keccak-256, a
  parameter). \<^verbatim>\<open>url.Parse\<close>, \<^verbatim>\<open>json.Valid\<close>, \<^verbatim>\<open>pem.Decode\<close> and \<^verbatim>\<open>x509.ParseCertificate\<close>
  are parameters too (the record \<open>web\<close>): validation only asks whether they succeed and reads a
  few fields of the result.
\<close>

section \<open>Constants and errors\<close>

abbreviation ErrAlreadyExists :: error where "ErrAlreadyExists \<equiv> Registered ''pubsub'' 2"

abbreviation ErrInvalid :: error where "ErrInvalid \<equiv> Registered ''pubsub'' 3"

definition pubsub_ModuleName :: string where "pubsub_ModuleName = ''pubsub''"

definition MaxDomainLength :: nat where "MaxDomainLength = 256"

definition MaxURLLength :: nat where "MaxURLLength = 512"

definition MaxCertLength :: nat where "MaxCertLength = 4096"

definition MaxSubscriptionIDLength :: nat where "MaxSubscriptionIDLength = 128"

definition MaxAllowedSubscribers :: nat where "MaxAllowedSubscribers = 256"

section \<open>Parsers of the standard library\<close>

record pem_block =
  pem_Type :: string
  pem_Bytes :: bytes

record certificate =
  cert_IsCA :: bool
  cert_IsECDSA :: bool

record web =
  url_Parse :: "string \<Rightarrow> bool"
  pem_Decode :: "bytes \<Rightarrow> pem_block option \<times> bytes"
  x509_ParseCertificate :: "bytes \<Rightarrow> certificate option"
  json_Valid :: "string \<Rightarrow> bool"

section \<open>Entities\<close>

record publisher =
  pub_Address :: string
  pub_Domain :: string
  pub_CaCert :: string

record subscriber =
  sub_Address :: string
  sub_CaCert :: string
  sub_PushUrl :: string

text \<open>The two enumerations are open in protobuf 3: any other number can be received.\<close>

datatype publish_method = PublishMethod_PULL | PublishMethod_PUSH | PublishMethod_other int

datatype allowed_subscribers =
  AllowedSubscribers_ANY | AllowedSubscribers_VALIDATORS | AllowedSubscribers_LIST | AllowedSubscribers_other int

record publisher_intent =
  pi_SubscriptionId :: string
  pi_PublisherDomain :: string
  pi_Method :: publish_method
  pi_PullUrl :: string
  pi_AllowedSubscribers :: allowed_subscribers
  pi_AllowedAddresses :: "string list"

record subscriber_intent =
  si_SubscriptionId :: string
  si_SubscriberAddress :: string
  si_PublisherDomain :: string

record default_subscription =
  ds_SubscriptionId :: string
  ds_PublisherDomain :: string

section \<open>Field validation\<close>

definition ValidateDomain :: "web \<Rightarrow> string \<Rightarrow> unit res" where
  "ValidateDomain W domain =
    (if domain = [] then Err (Errorf ''empty domain'')
     else if length domain > MaxDomainLength then Err (Errorf ''domain over max length'')
     else if \<not> url_Parse W (''https://'' @ domain) then Err (Errorf ''invalid URL format'')
     else Ok ())"

definition ValidateAddress :: "sdk \<Rightarrow> string \<Rightarrow> unit res" where
  "ValidateAddress S address =
    (if address = [] then Err (Errorf ''empty address'')
     else if AccAddressFromBech32 S address = None then Err (Wrapped ErrInvalidAddress)
     else Ok ())"

definition ValidateCaCertificate :: "web \<Rightarrow> string \<Rightarrow> unit res" where
  "ValidateCaCertificate W certPem =
    (if certPem = [] then Err (Errorf ''empty CA certificate'')
     else if length certPem > MaxCertLength then Err (Errorf ''CA cert over max length'')
     else case pem_Decode W (string_bytes certPem) of
       (None, _) \<Rightarrow> Err (Errorf ''invalid PEM formating, expecting only certificate block'')
     | (Some block, rest) \<Rightarrow>
       if length rest > 0 then Err (Errorf ''invalid PEM formating, expecting only certificate block'')
       else if pem_Type block \<noteq> ''CERTIFICATE'' then Err (Errorf ''invalid PEM certificate block, must be CERTIFICATE'')
       else case x509_ParseCertificate W (pem_Bytes block) of
         None \<Rightarrow> Err (Errorf ''could not parse x509 certificate'')
       | Some cert \<Rightarrow>
         if \<not> cert_IsCA cert then Err (Errorf ''must be a CA cert'')
         else if \<not> cert_IsECDSA cert then Err (Errorf ''must be an ECDSA cert'')
         else Ok ())"

definition ValidateSubscriptionID :: "string \<Rightarrow> unit res" where
  "ValidateSubscriptionID subscriptionID =
    (if subscriptionID = [] then Err (Errorf ''empty subscription ID'')
     else if length subscriptionID > MaxSubscriptionIDLength then Err (Errorf ''subscription ID over max length'')
     else Ok ())"

definition ValidateGenericURL :: "web \<Rightarrow> string \<Rightarrow> unit res" where
  "ValidateGenericURL W urlString =
    (if urlString = [] then Err (Errorf ''empty URL'')
     else if length urlString > MaxURLLength then Err (Errorf ''URL over max length'')
     else if \<not> url_Parse W urlString then Err (Errorf ''invalid URL format'')
     else Ok ())"

definition ValidateProofURL :: "web \<Rightarrow> string \<Rightarrow> string \<Rightarrow> string \<Rightarrow> unit res" where
  "ValidateProofURL W proofURL domain address =
    (if proofURL = [] then Err (Errorf ''empty proof URL'')
     else bind_res (ValidateGenericURL W proofURL) (\<lambda>_.
       let validProofURL = domain @ ''/'' @ address @ ''/cacert.pem'';
           validProofURLWithHTTPS = ''https://'' @ validProofURL
       in if proofURL \<noteq> validProofURL \<and> proofURL \<noteq> validProofURLWithHTTPS
          then Err (Errorf ''invalid proof URL format'') else Ok ()))"

section \<open>Validation of entities\<close>

definition Publisher_ValidateBasic :: "sdk \<Rightarrow> web \<Rightarrow> publisher \<Rightarrow> unit res" where
  "Publisher_ValidateBasic S W p =
    bind_res (or_err (ValidateDomain W (pub_Domain p)) (Errorf ''invalid domain'')) (\<lambda>_.
    bind_res (or_err (ValidateAddress S (pub_Address p)) (Errorf ''invalid address'')) (\<lambda>_.
    or_err (ValidateCaCertificate W (pub_CaCert p)) (Errorf ''invalid CA certificate'')))"

definition Subscriber_ValidateBasic :: "sdk \<Rightarrow> web \<Rightarrow> subscriber \<Rightarrow> unit res" where
  "Subscriber_ValidateBasic S W s =
    bind_res (or_err (ValidateAddress S (sub_Address s)) (Errorf ''invalid address'')) (\<lambda>_.
    bind_res (if sub_CaCert s \<noteq> []
      then or_err (ValidateCaCertificate W (sub_CaCert s)) (Errorf ''invalid CA certificate'') else Ok ()) (\<lambda>_.
    if sub_PushUrl s \<noteq> [] then or_err (ValidateGenericURL W (sub_PushUrl s)) (Errorf ''invalid push URL'')
    else Ok ()))"

text \<open>The loop over the allowed addresses.\<close>

definition validate_allowed :: "sdk \<Rightarrow> string list \<Rightarrow> unit res" where
  "validate_allowed S addresses =
    fold_res (\<lambda>a _. or_err (ValidateAddress S a) (Wrapped ErrInvalidAddress)) addresses ()"

definition PublisherIntent_ValidateBasic :: "sdk \<Rightarrow> web \<Rightarrow> publisher_intent \<Rightarrow> unit res" where
  "PublisherIntent_ValidateBasic S W p =
    bind_res (or_err (ValidateSubscriptionID (pi_SubscriptionId p)) (Errorf ''invalid subscription ID'')) (\<lambda>_.
    bind_res (or_err (ValidateDomain W (pi_PublisherDomain p)) (Errorf ''invalid publisher domain'')) (\<lambda>_.
    bind_res (check (pi_Method p = PublishMethod_PULL \<or> pi_Method p = PublishMethod_PUSH)
      (Errorf ''invalid enum value for method'')) (\<lambda>_.
    bind_res (if pi_Method p = PublishMethod_PULL then
        if pi_PullUrl p = [] then Err (Errorf ''empty pull URL when it is required by the PULL method'')
        else or_err (ValidateGenericURL W (pi_PullUrl p)) (Errorf ''invalid pull URL'')
      else Ok ()) (\<lambda>_.
    bind_res (check (pi_AllowedSubscribers p = AllowedSubscribers_ANY \<or>
        pi_AllowedSubscribers p = AllowedSubscribers_VALIDATORS \<or>
        pi_AllowedSubscribers p = AllowedSubscribers_LIST)
      (Errorf ''invalid enum value for allowed subscribers'')) (\<lambda>_.
    if pi_AllowedSubscribers p = AllowedSubscribers_LIST then
      if pi_AllowedAddresses p = [] then Err (Errorf ''empty list of allowed addresses'')
      else if length (pi_AllowedAddresses p) > MaxAllowedSubscribers then Err (Errorf ''allowed address list over maximum length'')
      else validate_allowed S (pi_AllowedAddresses p)
    else Ok ())))))"

definition SubscriberIntent_ValidateBasic :: "sdk \<Rightarrow> web \<Rightarrow> subscriber_intent \<Rightarrow> unit res" where
  "SubscriberIntent_ValidateBasic S W s =
    bind_res (or_err (ValidateSubscriptionID (si_SubscriptionId s)) (Errorf ''invalid subscription ID'')) (\<lambda>_.
    bind_res (or_err (ValidateAddress S (si_SubscriberAddress s)) (Errorf ''invalid subscriber address'')) (\<lambda>_.
    or_err (ValidateDomain W (si_PublisherDomain s)) (Errorf ''invalid publisher domain'')))"

definition DefaultSubscription_ValidateBasic :: "web \<Rightarrow> default_subscription \<Rightarrow> unit res" where
  "DefaultSubscription_ValidateBasic W d =
    bind_res (or_err (ValidateSubscriptionID (ds_SubscriptionId d)) (Errorf ''invalid subscription ID'')) (\<lambda>_.
    or_err (ValidateDomain W (ds_PublisherDomain d)) (Errorf ''invalid publisher domain''))"

section \<open>Messages\<close>

text \<open>A nil pointer to the carried entity is \<open>None\<close>.\<close>

record msg_add_publisher_intent =
  mapi_PublisherIntent :: "publisher_intent option"
  mapi_Signer :: string

record msg_add_subscriber_intent =
  masi_SubscriberIntent :: "subscriber_intent option"
  masi_Signer :: string

record msg_add_subscriber =
  mas_Subscriber :: "subscriber option"
  mas_Signer :: string

record msg_remove_publisher_intent =
  mrpi_SubscriptionId :: string
  mrpi_PublisherDomain :: string
  mrpi_Signer :: string

record msg_remove_subscriber_intent =
  mrsi_SubscriptionId :: string
  mrsi_SubscriberAddress :: string
  mrsi_Signer :: string

record msg_remove_subscriber =
  mrs_SubscriberAddress :: string
  mrs_Signer :: string

record msg_remove_publisher =
  mrp_PublisherDomain :: string
  mrp_Signer :: string

definition check_signer :: "sdk \<Rightarrow> string \<Rightarrow> unit res" where
  "check_signer S signer = check (AccAddressFromBech32 S signer \<noteq> None) (Wrapped ErrInvalidAddress)"

definition MsgAddPublisherIntent_ValidateBasic :: "sdk \<Rightarrow> web \<Rightarrow> msg_add_publisher_intent \<Rightarrow> unit res" where
  "MsgAddPublisherIntent_ValidateBasic S W m =
    bind_res (check_signer S (mapi_Signer m)) (\<lambda>_.
    case mapi_PublisherIntent m of None \<Rightarrow> Err (Errorf ''empty PublisherIntent'')
    | Some p \<Rightarrow> PublisherIntent_ValidateBasic S W p)"

definition MsgAddSubscriberIntent_ValidateBasic :: "sdk \<Rightarrow> web \<Rightarrow> msg_add_subscriber_intent \<Rightarrow> unit res" where
  "MsgAddSubscriberIntent_ValidateBasic S W m =
    bind_res (check_signer S (masi_Signer m)) (\<lambda>_.
    case masi_SubscriberIntent m of None \<Rightarrow> Err (Errorf ''empty SubscriberIntent'')
    | Some s \<Rightarrow> SubscriberIntent_ValidateBasic S W s)"

definition MsgAddSubscriber_ValidateBasic :: "sdk \<Rightarrow> web \<Rightarrow> msg_add_subscriber \<Rightarrow> unit res" where
  "MsgAddSubscriber_ValidateBasic S W m =
    bind_res (check_signer S (mas_Signer m)) (\<lambda>_.
    case mas_Subscriber m of None \<Rightarrow> Err (Errorf ''empty Subscriber'')
    | Some s \<Rightarrow> Subscriber_ValidateBasic S W s)"

definition MsgRemovePublisherIntent_ValidateBasic :: "sdk \<Rightarrow> web \<Rightarrow> msg_remove_publisher_intent \<Rightarrow> unit res" where
  "MsgRemovePublisherIntent_ValidateBasic S W m =
    bind_res (check_signer S (mrpi_Signer m)) (\<lambda>_.
    bind_res (or_err (ValidateSubscriptionID (mrpi_SubscriptionId m)) (Errorf ''invalid subscription ID'')) (\<lambda>_.
    or_err (ValidateDomain W (mrpi_PublisherDomain m)) (Errorf ''invalid publisher domain'')))"

definition MsgRemoveSubscriberIntent_ValidateBasic :: "sdk \<Rightarrow> msg_remove_subscriber_intent \<Rightarrow> unit res" where
  "MsgRemoveSubscriberIntent_ValidateBasic S m =
    bind_res (check_signer S (mrsi_Signer m)) (\<lambda>_.
    bind_res (or_err (ValidateSubscriptionID (mrsi_SubscriptionId m)) (Errorf ''invalid subscription ID'')) (\<lambda>_.
    check (AccAddressFromBech32 S (mrsi_SubscriberAddress m) \<noteq> None) (Wrapped ErrInvalidAddress)))"

definition MsgRemoveSubscriber_ValidateBasic :: "sdk \<Rightarrow> msg_remove_subscriber \<Rightarrow> unit res" where
  "MsgRemoveSubscriber_ValidateBasic S m =
    bind_res (check_signer S (mrs_Signer m)) (\<lambda>_.
    check (AccAddressFromBech32 S (mrs_SubscriberAddress m) \<noteq> None) (Wrapped ErrInvalidAddress))"

definition MsgRemovePublisher_ValidateBasic :: "sdk \<Rightarrow> web \<Rightarrow> msg_remove_publisher \<Rightarrow> unit res" where
  "MsgRemovePublisher_ValidateBasic S W m =
    bind_res (check_signer S (mrp_Signer m)) (\<lambda>_.
    or_err (ValidateDomain W (mrp_PublisherDomain m)) (Errorf ''invalid publisher domain''))"

section \<open>Proposals\<close>

record add_publisher_proposal =
  app_Title :: string
  app_Description :: string
  app_Domain :: string
  app_Address :: string
  app_ProofUrl :: string
  app_CaCert :: string

record remove_publisher_proposal =
  rpp_Title :: string
  rpp_Description :: string
  rpp_Domain :: string

record add_default_subscription_proposal =
  adp_Title :: string
  adp_Description :: string
  adp_SubscriptionId :: string
  adp_PublisherDomain :: string

record remove_default_subscription_proposal =
  rdp_Title :: string
  rdp_Description :: string
  rdp_SubscriptionId :: string

definition proposed_publisher :: "add_publisher_proposal \<Rightarrow> publisher" where
  "proposed_publisher p = \<lparr>pub_Address = app_Address p, pub_Domain = app_Domain p, pub_CaCert = app_CaCert p\<rparr>"

definition AddPublisherProposal_ValidateBasic :: "sdk \<Rightarrow> web \<Rightarrow> add_publisher_proposal \<Rightarrow> unit res" where
  "AddPublisherProposal_ValidateBasic S W p =
    bind_res (ValidateAbstract S (app_Title p) (app_Description p)) (\<lambda>_.
    bind_res (Publisher_ValidateBasic S W (proposed_publisher p)) (\<lambda>_.
    ValidateProofURL W (app_ProofUrl p) (app_Domain p) (app_Address p)))"

definition RemovePublisherProposal_ValidateBasic :: "sdk \<Rightarrow> web \<Rightarrow> remove_publisher_proposal \<Rightarrow> unit res" where
  "RemovePublisherProposal_ValidateBasic S W p =
    bind_res (ValidateAbstract S (rpp_Title p) (rpp_Description p)) (\<lambda>_. ValidateDomain W (rpp_Domain p))"

definition AddDefaultSubscriptionProposal_ValidateBasic ::
  "sdk \<Rightarrow> web \<Rightarrow> add_default_subscription_proposal \<Rightarrow> unit res" where
  "AddDefaultSubscriptionProposal_ValidateBasic S W p =
    bind_res (ValidateAbstract S (adp_Title p) (adp_Description p)) (\<lambda>_.
    DefaultSubscription_ValidateBasic W
      \<lparr>ds_SubscriptionId = adp_SubscriptionId p, ds_PublisherDomain = adp_PublisherDomain p\<rparr>)"

definition RemoveDefaultSubscriptionProposal_ValidateBasic ::
  "sdk \<Rightarrow> remove_default_subscription_proposal \<Rightarrow> unit res" where
  "RemoveDefaultSubscriptionProposal_ValidateBasic S p =
    bind_res (ValidateAbstract S (rdp_Title p) (rdp_Description p)) (\<lambda>_.
    ValidateSubscriptionID (rdp_SubscriptionId p))"

section \<open>Genesis\<close>

text \<open>The module has no parameters: its parameter set is empty.\<close>

record pubsub_genesis =
  pg_Publishers :: "publisher list"
  pg_Subscribers :: "subscriber list"
  pg_PublisherIntents :: "publisher_intent list"
  pg_SubscriberIntents :: "subscriber_intent list"
  pg_DefaultSubscriptions :: "default_subscription list"

definition pubsub_DefaultGenesisState :: pubsub_genesis where
  "pubsub_DefaultGenesisState = \<lparr>pg_Publishers = [], pg_Subscribers = [], pg_PublisherIntents = [],
     pg_SubscriberIntents = [], pg_DefaultSubscriptions = []\<rparr>"

definition pubsub_Genesis_Validate :: "sdk \<Rightarrow> web \<Rightarrow> pubsub_genesis \<Rightarrow> unit res" where
  "pubsub_Genesis_Validate S W gs =
    bind_res (fold_res (\<lambda>p _. Publisher_ValidateBasic S W p) (pg_Publishers gs) ()) (\<lambda>_.
    bind_res (fold_res (\<lambda>s _. Subscriber_ValidateBasic S W s) (pg_Subscribers gs) ()) (\<lambda>_.
    bind_res (fold_res (\<lambda>p _. PublisherIntent_ValidateBasic S W p) (pg_PublisherIntents gs) ()) (\<lambda>_.
    bind_res (fold_res (\<lambda>s _. SubscriberIntent_ValidateBasic S W s) (pg_SubscriberIntents gs) ()) (\<lambda>_.
    fold_res (\<lambda>d _. DefaultSubscription_ValidateBasic W d) (pg_DefaultSubscriptions gs) ()))))"

section \<open>Keys\<close>

definition StringHash :: "eth \<Rightarrow> string \<Rightarrow> bytes" where
  "StringHash E s = Keccak256Hash E (string_bytes s)"

definition GetPublishersPrefix :: bytes where "GetPublishersPrefix = [1]"

definition GetPublisherKey :: "eth \<Rightarrow> string \<Rightarrow> bytes" where
  "GetPublisherKey E publisherDomain = [1] @ StringHash E publisherDomain"

definition GetSubscribersPrefix :: bytes where "GetSubscribersPrefix = [2]"

definition GetSubscriberKey :: "addr \<Rightarrow> bytes" where
  "GetSubscriberKey subscriberAddress = [2] @ subscriberAddress"

definition GetPublisherIntentsPrefix :: bytes where "GetPublisherIntentsPrefix = [3]"

definition GetPublisherIntentsByPublisherDomainPrefix :: "eth \<Rightarrow> string \<Rightarrow> bytes" where
  "GetPublisherIntentsByPublisherDomainPrefix E publisherDomain = [3] @ StringHash E publisherDomain"

definition GetPublisherIntentsBySubscriptionIDPrefix :: "eth \<Rightarrow> string \<Rightarrow> bytes" where
  "GetPublisherIntentsBySubscriptionIDPrefix E subscriptionID = [4] @ StringHash E subscriptionID"

definition GetPublisherIntentByPublisherDomainKey :: "eth \<Rightarrow> string \<Rightarrow> string \<Rightarrow> bytes" where
  "GetPublisherIntentByPublisherDomainKey E publisherDomain subscriptionID =
    [3] @ StringHash E publisherDomain @ StringHash E subscriptionID"

definition GetPublisherIntentBySubscriptionIDKey :: "eth \<Rightarrow> string \<Rightarrow> string \<Rightarrow> bytes" where
  "GetPublisherIntentBySubscriptionIDKey E subscriptionID publisherDomain =
    [4] @ StringHash E subscriptionID @ StringHash E publisherDomain"

definition GetSubscriberIntentsPrefix :: bytes where "GetSubscriberIntentsPrefix = [5]"

definition GetSubscriberIntentsBySubscriberAddressPrefix :: "addr \<Rightarrow> bytes" where
  "GetSubscriberIntentsBySubscriberAddressPrefix subscriberAddress = [5] @ subscriberAddress"

definition GetSubscriberIntentsBySubscriptionIDPrefix :: "eth \<Rightarrow> string \<Rightarrow> bytes" where
  "GetSubscriberIntentsBySubscriptionIDPrefix E subscriptionID = [6] @ StringHash E subscriptionID"

definition GetSubscriberIntentsByPublisherDomainPrefix :: "eth \<Rightarrow> string \<Rightarrow> bytes" where
  "GetSubscriberIntentsByPublisherDomainPrefix E publisherDomain = [7] @ StringHash E publisherDomain"

definition GetSubscriberIntentBySubscriberAddressKey :: "eth \<Rightarrow> addr \<Rightarrow> string \<Rightarrow> bytes" where
  "GetSubscriberIntentBySubscriberAddressKey E subscriberAddress subscriptionID =
    [5] @ subscriberAddress @ StringHash E subscriptionID"

definition GetSubscriberIntentBySubscriptionIDKey :: "eth \<Rightarrow> string \<Rightarrow> addr \<Rightarrow> bytes" where
  "GetSubscriberIntentBySubscriptionIDKey E subscriptionID subscriberAddress =
    [6] @ StringHash E subscriptionID @ subscriberAddress"

definition GetSubscriberIntentByPublisherDomainKey :: "eth \<Rightarrow> string \<Rightarrow> addr \<Rightarrow> string \<Rightarrow> bytes" where
  "GetSubscriberIntentByPublisherDomainKey E publisherDomain subscriberAddress subscriptionID =
    [7] @ StringHash E publisherDomain @ subscriberAddress @ StringHash E subscriptionID"

definition GetDefaultSubscriptionPrefix :: bytes where "GetDefaultSubscriptionPrefix = [8]"

definition GetDefaultSubscriptionKey :: "eth \<Rightarrow> string \<Rightarrow> bytes" where
  "GetDefaultSubscriptionKey E subscriptionID = [8] @ StringHash E subscriptionID"

end
