(* ===== verification/Pubsub_Keeper.thy ===== *)
theory Pubsub_Keeper
  imports Pubsub_Types
begin

text \<open>
  The keeper of the pubsub module (\<^verbatim>\<open>x/pubsub/keeper\<close>, \<^verbatim>\<open>x/pubsub/handler.go\<close>). The state has one
  typed store per kind of entity; an intent is stored under several keys of its store, one per
  index. Deleting a publisher or an intent cascades to what depends on it.
\<close>

record pubsub_keeper =
  pk_sdk :: sdk
  pk_eth :: eth
  pk_web :: web
  pk_GetOrchestratorValidatorAddress :: "addr \<Rightarrow> addr option"
  pk_Validator :: "addr \<Rightarrow> bool"

record pubsub_state =
  ps_publishers :: "publisher kvstore"
  ps_subscribers :: "subscriber kvstore"
  ps_pintents :: "publisher_intent kvstore"
  ps_sintents :: "subscriber_intent kvstore"
  ps_defaults :: "default_subscription kvstore"
  ps_events :: "event list"

section \<open>Subscriber intents\<close>

definition SetSubscriberIntent ::
  "pubsub_keeper \<Rightarrow> pubsub_state \<Rightarrow> addr \<Rightarrow> subscriber_intent \<Rightarrow> pubsub_state" where
  "SetSubscriberIntent k st subscriberAddress s = (let E = pk_eth k in
    st\<lparr>ps_sintents := kv_set (kv_set (kv_set (ps_sintents st)
      (GetSubscriberIntentBySubscriberAddressKey E subscriberAddress (si_SubscriptionId s)) s)
      (GetSubscriberIntentBySubscriptionIDKey E (si_SubscriptionId s) subscriberAddress) s)
      (GetSubscriberIntentByPublisherDomainKey E (si_PublisherDomain s) subscriberAddress (si_SubscriptionId s)) s\<rparr>)"

definition GetSubscriberIntent ::
  "pubsub_keeper \<Rightarrow> pubsub_state \<Rightarrow> string \<Rightarrow> addr \<Rightarrow> subscriber_intent option" where
  "GetSubscriberIntent k st subscriptionID subscriberAddress =
    kv_get (ps_sintents st) (GetSubscriberIntentBySubscriberAddressKey (pk_eth k) subscriberAddress subscriptionID)"

definition getSubscriberIntentsByKeyPrefix :: "pubsub_state \<Rightarrow> bytes \<Rightarrow> subscriber_intent list" where
  "getSubscriberIntentsByKeyPrefix st keyPrefix =
    iterate (\<lambda>e acc. (acc @ [snd e], False)) (kv_iter (ps_sintents st) keyPrefix) []"

definition IterateSubscriberIntents ::
  "pubsub_state \<Rightarrow> (addr \<times> subscriber_intent \<Rightarrow> 's \<Rightarrow> 's \<times> bool) \<Rightarrow> 's \<Rightarrow> 's" where
  "IterateSubscriberIntents st handler =
    iterate handler (map (\<lambda>(key, s). (take 20 (drop 1 key), s)) (kv_iter (ps_sintents st) GetSubscriberIntentsPrefix))"

definition GetSubscriberIntents :: "pubsub_state \<Rightarrow> subscriber_intent list" where
  "GetSubscriberIntents st = getSubscriberIntentsByKeyPrefix st GetSubscriberIntentsPrefix"

definition GetSubscriberIntentsBySubscriberAddress :: "pubsub_state \<Rightarrow> addr \<Rightarrow> subscriber_intent list" where
  "GetSubscriberIntentsBySubscriberAddress st subscriberAddress =
    getSubscriberIntentsByKeyPrefix st (GetSubscriberIntentsBySubscriberAddressPrefix subscriberAddress)"

definition GetSubscriberIntentsBySubscriptionID ::
  "pubsub_keeper \<Rightarrow> pubsub_state \<Rightarrow> string \<Rightarrow> subscriber_intent list" where
  "GetSubscriberIntentsBySubscriptionID k st subscriptionID =
    getSubscriberIntentsByKeyPrefix st (GetSubscriberIntentsBySubscriptionIDPrefix (pk_eth k) subscriptionID)"

definition GetSubscriberIntentsByPublisherDomain ::
  "pubsub_keeper \<Rightarrow> pubsub_state \<Rightarrow> string \<Rightarrow> subscriber_intent list" where
  "GetSubscriberIntentsByPublisherDomain k st publisherDomain =
    getSubscriberIntentsByKeyPrefix st (GetSubscriberIntentsByPublisherDomainPrefix (pk_eth k) publisherDomain)"

definition DeleteSubscriberIntent ::
  "pubsub_keeper \<Rightarrow> pubsub_state \<Rightarrow> string \<Rightarrow> addr \<Rightarrow> string \<Rightarrow> pubsub_state" where
  "DeleteSubscriberIntent k st subscriptionID subscriberAddress publisherDomain = (let E = pk_eth k in
    st\<lparr>ps_sintents := kv_del (kv_del (kv_del (ps_sintents st)
      (GetSubscriberIntentBySubscriberAddressKey E subscriberAddress subscriptionID))
      (GetSubscriberIntentBySubscriptionIDKey E subscriptionID subscriberAddress))
      (GetSubscriberIntentByPublisherDomainKey E publisherDomain subscriberAddress subscriptionID)\<rparr>)"

section \<open>Publisher intents\<close>

definition SetPublisherIntent :: "pubsub_keeper \<Rightarrow> pubsub_state \<Rightarrow> publisher_intent \<Rightarrow> pubsub_state" where
  "SetPublisherIntent k st p = (let E = pk_eth k in
    st\<lparr>ps_pintents := kv_set (kv_set (ps_pintents st)
      (GetPublisherIntentByPublisherDomainKey E (pi_PublisherDomain p) (pi_SubscriptionId p)) p)
      (GetPublisherIntentBySubscriptionIDKey E (pi_SubscriptionId p) (pi_PublisherDomain p)) p\<rparr>)"

definition GetPublisherIntent ::
  "pubsub_keeper \<Rightarrow> pubsub_state \<Rightarrow> string \<Rightarrow> string \<Rightarrow> publisher_intent option" where
  "GetPublisherIntent k st subscriptionID publisherDomain =
    kv_get (ps_pintents st) (GetPublisherIntentByPublisherDomainKey (pk_eth k) publisherDomain subscriptionID)"

definition getPublisherIntentsByKeyPrefix :: "pubsub_state \<Rightarrow> bytes \<Rightarrow> publisher_intent list" where
  "getPublisherIntentsByKeyPrefix st keyPrefix =
    iterate (\<lambda>e acc. (acc @ [snd e], False)) (kv_iter (ps_pintents st) keyPrefix) []"

definition IteratePublisherIntents ::
  "pubsub_state \<Rightarrow> (publisher_intent \<Rightarrow> 's \<Rightarrow> 's \<times> bool) \<Rightarrow> 's \<Rightarrow> 's" where
  "IteratePublisherIntents st handler =
    iterate handler (map snd (kv_iter (ps_pintents st) GetPublisherIntentsPrefix))"

definition GetPublisherIntents :: "pubsub_state \<Rightarrow> publisher_intent list" where
  "GetPublisherIntents st = getPublisherIntentsByKeyPrefix st GetPublisherIntentsPrefix"

definition GetPublisherIntentsByPublisherDomain ::
  "pubsub_keeper \<Rightarrow> pubsub_state \<Rightarrow> string \<Rightarrow> publisher_intent list" where
  "GetPublisherIntentsByPublisherDomain k st publisherDomain =
    getPublisherIntentsByKeyPrefix st (GetPublisherIntentsByPublisherDomainPrefix (pk_eth k) publisherDomain)"

definition GetPublisherIntentsBySubscriptionID ::
  "pubsub_keeper \<Rightarrow> pubsub_state \<Rightarrow> string \<Rightarrow> publisher_intent list" where
  "GetPublisherIntentsBySubscriptionID k st subscriptionID =
    getPublisherIntentsByKeyPrefix st (GetPublisherIntentsBySubscriptionIDPrefix (pk_eth k) subscriptionID)"

text \<open>
  The subscriber intents to delete are collected before the loop. Where the stored address does
  not parse, the code goes on with a nil address, here \<open>[]\<close>.
\<close>

definition DeletePublisherIntent :: "pubsub_keeper \<Rightarrow> pubsub_state \<Rightarrow> string \<Rightarrow> string \<Rightarrow> pubsub_state" where
  "DeletePublisherIntent k st subscriptionID publisherDomain = (let E = pk_eth k;
    st1 = st\<lparr>ps_pintents := kv_del (kv_del (ps_pintents st)
      (GetPublisherIntentByPublisherDomainKey E publisherDomain subscriptionID))
      (GetPublisherIntentBySubscriptionIDKey E subscriptionID publisherDomain)\<rparr>
    in foldl (\<lambda>s i. if subscriptionID = si_SubscriptionId i
        then DeleteSubscriberIntent k s (si_SubscriptionId i)
          (case AccAddressFromBech32 (pk_sdk k) (si_SubscriberAddress i) of Some a \<Rightarrow> a | None \<Rightarrow> [])
          (si_PublisherDomain i)
        else s) st1 (GetSubscriberIntentsByPublisherDomain k st1 publisherDomain))"

section \<open>Default subscriptions\<close>

definition SetDefaultSubscription :: "pubsub_keeper \<Rightarrow> pubsub_state \<Rightarrow> default_subscription \<Rightarrow> pubsub_state" where
  "SetDefaultSubscription k st d =
    st\<lparr>ps_defaults := kv_set (ps_defaults st) (GetDefaultSubscriptionKey (pk_eth k) (ds_SubscriptionId d)) d\<rparr>"

definition GetDefaultSubscription :: "pubsub_keeper \<Rightarrow> pubsub_state \<Rightarrow> string \<Rightarrow> default_subscription option" where
  "GetDefaultSubscription k st subscriptionID =
    kv_get (ps_defaults st) (GetDefaultSubscriptionKey (pk_eth k) subscriptionID)"

definition IterateDefaultSubscriptions ::
  "pubsub_state \<Rightarrow> (default_subscription \<Rightarrow> 's \<Rightarrow> 's \<times> bool) \<Rightarrow> 's \<Rightarrow> 's" where
  "IterateDefaultSubscriptions st handler =
    iterate handler (map snd (kv_iter (ps_defaults st) GetDefaultSubscriptionPrefix))"

definition GetDefaultSubscriptions :: "pubsub_state \<Rightarrow> default_subscription list" where
  "GetDefaultSubscriptions st = IterateDefaultSubscriptions st (\<lambda>d acc. (acc @ [d], False)) []"

definition DeleteDefaultSubscription :: "pubsub_keeper \<Rightarrow> pubsub_state \<Rightarrow> string \<Rightarrow> pubsub_state" where
  "DeleteDefaultSubscription k st subscriptionID =
    st\<lparr>ps_defaults := kv_del (ps_defaults st) (GetDefaultSubscriptionKey (pk_eth k) subscriptionID)\<rparr>"

section \<open>Publishers and subscribers\<close>

definition SetPublisher :: "pubsub_keeper \<Rightarrow> pubsub_state \<Rightarrow> publisher \<Rightarrow> pubsub_state" where
  "SetPublisher k st p = st\<lparr>ps_publishers := kv_set (ps_publishers st) (GetPublisherKey (pk_eth k) (pub_Domain p)) p\<rparr>"

definition GetPublisher :: "pubsub_keeper \<Rightarrow> pubsub_state \<Rightarrow> string \<Rightarrow> publisher option" where
  "GetPublisher k st publisherDomain = kv_get (ps_publishers st) (GetPublisherKey (pk_eth k) publisherDomain)"

definition IteratePublishers :: "pubsub_state \<Rightarrow> (publisher \<Rightarrow> 's \<Rightarrow> 's \<times> bool) \<Rightarrow> 's \<Rightarrow> 's" where
  "IteratePublishers st handler = iterate handler (map snd (kv_iter (ps_publishers st) GetPublishersPrefix))"

definition GetPublishers :: "pubsub_state \<Rightarrow> publisher list" where
  "GetPublishers st = IteratePublishers st (\<lambda>p acc. (acc @ [p], False)) []"

definition DeletePublisher :: "pubsub_keeper \<Rightarrow> pubsub_state \<Rightarrow> string \<Rightarrow> pubsub_state" where
  "DeletePublisher k st publisherDomain =
    (let st1 = st\<lparr>ps_publishers := kv_del (ps_publishers st) (GetPublisherKey (pk_eth k) publisherDomain)\<rparr>;
         st2 = foldl (\<lambda>s p. DeletePublisherIntent k s (pi_SubscriptionId p) (pi_PublisherDomain p)) st1
           (GetPublisherIntentsByPublisherDomain k st1 publisherDomain)
     in foldl (\<lambda>s d. if ds_PublisherDomain d = publisherDomain
           then DeleteDefaultSubscription k s (ds_SubscriptionId d) else s) st2 (GetDefaultSubscriptions st2))"

definition SetSubscriber :: "pubsub_state \<Rightarrow> addr \<Rightarrow> subscriber \<Rightarrow> pubsub_state" where
  "SetSubscriber st subscriberAddress s =
    st\<lparr>ps_subscribers := kv_set (ps_subscribers st) (GetSubscriberKey subscriberAddress) s\<rparr>"

definition GetSubscriber :: "pubsub_state \<Rightarrow> addr \<Rightarrow> subscriber option" where
  "GetSubscriber st subscriberAddress = kv_get (ps_subscribers st) (GetSubscriberKey subscriberAddress)"

definition IterateSubscribers :: "pubsub_state \<Rightarrow> (addr \<times> subscriber \<Rightarrow> 's \<Rightarrow> 's \<times> bool) \<Rightarrow> 's \<Rightarrow> 's" where
  "IterateSubscribers st handler =
    iterate handler (map (\<lambda>(key, s). (drop 1 key, s)) (kv_iter (ps_subscribers st) GetSubscribersPrefix))"

definition GetSubscribers :: "pubsub_state \<Rightarrow> subscriber list" where
  "GetSubscribers st = IterateSubscribers st (\<lambda>e acc. (acc @ [snd e], False)) []"

definition DeleteSubscriber :: "pubsub_keeper \<Rightarrow> pubsub_state \<Rightarrow> addr \<Rightarrow> pubsub_state" where
  "DeleteSubscriber k st subscriberAddress =
    (let st1 = st\<lparr>ps_subscribers := kv_del (ps_subscribers st) (GetSubscriberKey subscriberAddress)\<rparr>
     in foldl (\<lambda>s i. DeleteSubscriberIntent k s (si_SubscriptionId i) subscriberAddress (si_PublisherDomain i)) st1
       (GetSubscriberIntentsBySubscriberAddress st1 subscriberAddress))"

section \<open>Messages\<close>

definition pubsub_emit :: "string \<Rightarrow> string \<Rightarrow> (string \<times> attr) list \<Rightarrow> pubsub_state \<Rightarrow> pubsub_state" where
  "pubsub_emit action sender attrs st = st\<lparr>ps_events := ps_events st @
    [(''message'', [(''module'', AttrS pubsub_ModuleName), (''action'', AttrS action), (''sender'', AttrS sender)]),
     (action, attrs)]\<rparr>"

definition AddPublisherIntent :: "pubsub_keeper \<Rightarrow> pubsub_state \<Rightarrow> msg_add_publisher_intent \<Rightarrow> pubsub_state res" where
  "AddPublisherIntent k st msg = (case mapi_PublisherIntent msg of None \<Rightarrow> Panic ''nil dereference'' | Some p \<Rightarrow>
    bind_res (or_err (PublisherIntent_ValidateBasic (pk_sdk k) (pk_web k) p) (Wrapped ErrInvalid)) (\<lambda>_.
    case GetPublisher k st (pi_PublisherDomain p) of
      None \<Rightarrow> Err (Wrapped ErrNotFound)
    | Some pub \<Rightarrow> bind_res (MustGetSigner (pk_sdk k) (mapi_Signer msg)) (\<lambda>signer.
        if AccAddress_String (pk_sdk k) signer \<noteq> pub_Address pub then Err (Wrapped ErrUnauthorized)
        else if GetPublisherIntent k st (pi_SubscriptionId p) (pi_PublisherDomain p) \<noteq> None
          then Err (Wrapped ErrAlreadyExists)
        else Ok (pubsub_emit ''add_publisher_intent'' (mapi_Signer msg)
          [(''subscription_id'', AttrS (pi_SubscriptionId p)), (''publisher_domain'', AttrS (pi_PublisherDomain p))]
          (SetPublisherIntent k st p)))))"

text \<open>Whether the publisher admits the subscriber, and the errors where it does not.\<close>

definition subscriber_allowed :: "pubsub_keeper \<Rightarrow> publisher_intent \<Rightarrow> addr \<Rightarrow> unit res" where
  "subscriber_allowed k p signer =
    (if pi_AllowedSubscribers p = AllowedSubscribers_VALIDATORS then
       check (case pk_GetOrchestratorValidatorAddress k signer of
           None \<Rightarrow> pk_Validator k signer | Some validator \<Rightarrow> pk_Validator k validator) (Wrapped ErrUnauthorized)
     else if pi_AllowedSubscribers p = AllowedSubscribers_LIST then
       check (list_ex (\<lambda>a. a = AccAddress_String (pk_sdk k) signer) (pi_AllowedAddresses p)) (Wrapped ErrUnauthorized)
     else Ok ())"

definition AddSubscriberIntent :: "pubsub_keeper \<Rightarrow> pubsub_state \<Rightarrow> msg_add_subscriber_intent \<Rightarrow> pubsub_state res" where
  "AddSubscriberIntent k st msg = (case masi_SubscriberIntent msg of None \<Rightarrow> Panic ''nil dereference'' | Some s \<Rightarrow>
    bind_res (or_err (SubscriberIntent_ValidateBasic (pk_sdk k) (pk_web k) s) (Wrapped ErrInvalid)) (\<lambda>_.
    bind_res (MustGetSigner (pk_sdk k) (masi_Signer msg)) (\<lambda>signer.
    if AccAddress_String (pk_sdk k) signer \<noteq> si_SubscriberAddress s then Err (Wrapped ErrUnauthorized)
    else
    let acc = (case AccAddressFromBech32 (pk_sdk k) (si_SubscriberAddress s) of Some a \<Rightarrow> a | None \<Rightarrow> [])
    in case GetSubscriber st acc of
      None \<Rightarrow> Err (Wrapped ErrNotFound)
    | Some sub \<Rightarrow>
      if GetSubscriberIntent k st (si_SubscriptionId s) acc \<noteq> None then Err (Wrapped ErrAlreadyExists)
      else case GetPublisherIntent k st (si_SubscriptionId s) (si_PublisherDomain s) of
        None \<Rightarrow> Err (Wrapped ErrNotFound)
      | Some p \<Rightarrow>
        if pi_Method p = PublishMethod_PUSH \<and> sub_PushUrl sub = [] then Err (Wrapped ErrInvalid)
        else bind_res (subscriber_allowed k p signer) (\<lambda>_.
          Ok (pubsub_emit ''add_subscriber_intent'' (masi_Signer msg)
            [(''subscription_id'', AttrS (si_SubscriptionId s)),
             (''subscriber_address'', AttrS (si_SubscriberAddress s)),
             (''publisher_domain'', AttrS (si_PublisherDomain s))]
            (SetSubscriberIntent k st acc s))))))"

definition AddSubscriber :: "pubsub_keeper \<Rightarrow> pubsub_state \<Rightarrow> msg_add_subscriber \<Rightarrow> pubsub_state res" where
  "AddSubscriber k st msg = (case mas_Subscriber msg of None \<Rightarrow> Panic ''nil dereference'' | Some s \<Rightarrow>
    bind_res (or_err (Subscriber_ValidateBasic (pk_sdk k) (pk_web k) s) (Wrapped ErrInvalid)) (\<lambda>_.
    bind_res (MustGetSigner (pk_sdk k) (mas_Signer msg)) (\<lambda>signer.
    if AccAddress_String (pk_sdk k) signer \<noteq> sub_Address s then Err (Wrapped ErrUnauthorized)
    else
    let acc = (case AccAddressFromBech32 (pk_sdk k) (sub_Address s) of Some a \<Rightarrow> a | None \<Rightarrow> [])
    in Ok (pubsub_emit ''add_subscriber'' (mas_Signer msg) [(''subscriber_address'', AttrS (sub_Address s))]
         (SetSubscriber st acc s)))))"

definition RemovePublisherIntent ::
  "pubsub_keeper \<Rightarrow> pubsub_state \<Rightarrow> msg_remove_publisher_intent \<Rightarrow> pubsub_state res" where
  "RemovePublisherIntent k st msg =
    bind_res (or_err (ValidateSubscriptionID (mrpi_SubscriptionId msg)) (Wrapped ErrInvalid)) (\<lambda>_.
    bind_res (or_err (ValidateDomain (pk_web k) (mrpi_PublisherDomain msg)) (Wrapped ErrInvalid)) (\<lambda>_.
    case GetPublisher k st (mrpi_PublisherDomain msg) of
      None \<Rightarrow> Err (Wrapped ErrNotFound)
    | Some pub \<Rightarrow> bind_res (MustGetSigner (pk_sdk k) (mrpi_Signer msg)) (\<lambda>signer.
        if AccAddress_String (pk_sdk k) signer \<noteq> pub_Address pub then Err (Wrapped ErrUnauthorized)
        else if GetPublisherIntent k st (mrpi_SubscriptionId msg) (mrpi_PublisherDomain msg) = None
          then Err (Wrapped ErrNotFound)
        else Ok (pubsub_emit ''remove_publisher_intent'' (mrpi_Signer msg)
          [(''subscription_id'', AttrS (mrpi_SubscriptionId msg)),
           (''publisher_domain'', AttrS (mrpi_PublisherDomain msg))]
          (DeletePublisherIntent k st (mrpi_SubscriptionId msg) (mrpi_PublisherDomain msg))))))"

definition RemoveSubscriberIntent ::
  "pubsub_keeper \<Rightarrow> pubsub_state \<Rightarrow> msg_remove_subscriber_intent \<Rightarrow> pubsub_state res" where
  "RemoveSubscriberIntent k st msg =
    bind_res (or_err (ValidateSubscriptionID (mrsi_SubscriptionId msg)) (Wrapped ErrInvalid)) (\<lambda>_.
    bind_res (or_err (ValidateAddress (pk_sdk k) (mrsi_SubscriberAddress msg)) (Wrapped ErrInvalidAddress)) (\<lambda>_.
    let acc = (case AccAddressFromBech32 (pk_sdk k) (mrsi_SubscriberAddress msg) of Some a \<Rightarrow> a | None \<Rightarrow> [])
    in case GetSubscriber st acc of
      None \<Rightarrow> Err (Wrapped ErrNotFound)
    | Some sub \<Rightarrow> bind_res (MustGetSigner (pk_sdk k) (mrsi_Signer msg)) (\<lambda>signer.
        if AccAddress_String (pk_sdk k) signer \<noteq> sub_Address sub then Err (Wrapped ErrUnauthorized)
        else case GetSubscriberIntent k st (mrsi_SubscriptionId msg) acc of
          None \<Rightarrow> Err (Wrapped ErrNotFound)
        | Some s \<Rightarrow> Ok (pubsub_emit ''remove_subscriber_intent'' (mrsi_Signer msg)
            [(''subscription_id'', AttrS (mrsi_SubscriptionId msg)),
             (''subscriber_address'', AttrS (mrsi_SubscriberAddress msg)),
             (''publisher_domain'', AttrS (si_PublisherDomain s))]
            (DeleteSubscriberIntent k st (mrsi_SubscriptionId msg) acc (si_PublisherDomain s))))))"

definition RemoveSubscriber :: "pubsub_keeper \<Rightarrow> pubsub_state \<Rightarrow> msg_remove_subscriber \<Rightarrow> pubsub_state res" where
  "RemoveSubscriber k st msg =
    bind_res (or_err (ValidateAddress (pk_sdk k) (mrs_SubscriberAddress msg)) (Wrapped ErrInvalidAddress)) (\<lambda>_.
    bind_res (MustGetSigner (pk_sdk k) (mrs_Signer msg)) (\<lambda>signer.
    if AccAddress_String (pk_sdk k) signer \<noteq> mrs_SubscriberAddress msg then Err (Wrapped ErrUnauthorized)
    else
    let acc = (case AccAddressFromBech32 (pk_sdk k) (mrs_SubscriberAddress msg) of Some a \<Rightarrow> a | None \<Rightarrow> [])
    in if GetSubscriber st acc = None then Err (Wrapped ErrNotFound)
    else Ok (pubsub_emit ''remove_subscriber'' (mrs_Signer msg)
      [(''subscription_id'', AttrS (mrs_SubscriberAddress msg))] (DeleteSubscriber k st acc))))"

definition RemovePublisher :: "pubsub_keeper \<Rightarrow> pubsub_state \<Rightarrow> msg_remove_publisher \<Rightarrow> pubsub_state res" where
  "RemovePublisher k st msg =
    bind_res (or_err (ValidateDomain (pk_web k) (mrp_PublisherDomain msg)) (Wrapped ErrInvalid)) (\<lambda>_.
    case GetPublisher k st (mrp_PublisherDomain msg) of
      None \<Rightarrow> Err (Wrapped ErrNotFound)
    | Some pub \<Rightarrow> bind_res (MustGetSigner (pk_sdk k) (mrp_Signer msg)) (\<lambda>signer.
        if AccAddress_String (pk_sdk k) signer \<noteq> pub_Address pub then Err (Wrapped ErrUnauthorized)
        else Ok (pubsub_emit ''remove_publisher'' (mrp_Signer msg)
          [(''publisher_domain'', AttrS (mrp_PublisherDomain msg))] (DeletePublisher k st (mrp_PublisherDomain msg)))))"

datatype pubsub_msg =
  MsgRemovePublisher msg_remove_publisher
| MsgAddSubscriber msg_add_subscriber
| MsgRemoveSubscriber msg_remove_subscriber
| MsgAddPublisherIntent msg_add_publisher_intent
| MsgRemovePublisherIntent msg_remove_publisher_intent
| MsgAddSubscriberIntent msg_add_subscriber_intent
| MsgRemoveSubscriberIntent msg_remove_subscriber_intent
| PubsubOtherMsg string

fun pubsub_NewHandler :: "pubsub_keeper \<Rightarrow> pubsub_state \<Rightarrow> pubsub_msg \<Rightarrow> pubsub_state res" where
  "pubsub_NewHandler k st (MsgRemovePublisher m) = RemovePublisher k (st\<lparr>ps_events := []\<rparr>) m"
| "pubsub_NewHandler k st (MsgAddSubscriber m) = AddSubscriber k (st\<lparr>ps_events := []\<rparr>) m"
| "pubsub_NewHandler k st (MsgRemoveSubscriber m) = RemoveSubscriber k (st\<lparr>ps_events := []\<rparr>) m"
| "pubsub_NewHandler k st (MsgAddPublisherIntent m) = AddPublisherIntent k (st\<lparr>ps_events := []\<rparr>) m"
| "pubsub_NewHandler k st (MsgRemovePublisherIntent m) = RemovePublisherIntent k (st\<lparr>ps_events := []\<rparr>) m"
| "pubsub_NewHandler k st (MsgAddSubscriberIntent m) = AddSubscriberIntent k (st\<lparr>ps_events := []\<rparr>) m"
| "pubsub_NewHandler k st (MsgRemoveSubscriberIntent m) = RemoveSubscriberIntent k (st\<lparr>ps_events := []\<rparr>) m"
| "pubsub_NewHandler k st (PubsubOtherMsg _) = Err (Wrapped ErrUnknownRequest)"

section \<open>Proposals\<close>

definition HandleAddPublisherProposal :: "pubsub_keeper \<Rightarrow> pubsub_state \<Rightarrow> add_publisher_proposal \<Rightarrow> pubsub_state res" where
  "HandleAddPublisherProposal k st p =
    (if GetPublisher k st (app_Domain p) \<noteq> None then Err (Wrapped ErrAlreadyExists)
     else Ok (SetPublisher k st (proposed_publisher p)))"

definition HandleRemovePublisherProposal ::
  "pubsub_keeper \<Rightarrow> pubsub_state \<Rightarrow> remove_publisher_proposal \<Rightarrow> pubsub_state res" where
  "HandleRemovePublisherProposal k st p =
    (if GetPublisher k st (rpp_Domain p) = None then Err (Wrapped ErrNotFound)
     else Ok (DeletePublisher k st (rpp_Domain p)))"

definition HandleAddDefaultSubscriptionProposal ::
  "pubsub_keeper \<Rightarrow> pubsub_state \<Rightarrow> add_default_subscription_proposal \<Rightarrow> pubsub_state res" where
  "HandleAddDefaultSubscriptionProposal k st p =
    Ok (SetDefaultSubscription k st
      \<lparr>ds_SubscriptionId = adp_SubscriptionId p, ds_PublisherDomain = adp_PublisherDomain p\<rparr>)"

definition HandleRemoveDefaultSubscriptionProposal ::
  "pubsub_keeper \<Rightarrow> pubsub_state \<Rightarrow> remove_default_subscription_proposal \<Rightarrow> pubsub_state res" where
  "HandleRemoveDefaultSubscriptionProposal k st p =
    (if GetDefaultSubscription k st (rdp_SubscriptionId p) = None then Err (Wrapped ErrNotFound)
     else Ok (DeleteDefaultSubscription k st (rdp_SubscriptionId p)))"

datatype pubsub_content =
  AddPublisherProposal add_publisher_proposal
| RemovePublisherProposal remove_publisher_proposal
| AddDefaultSubscriptionProposal add_default_subscription_proposal
| RemoveDefaultSubscriptionProposal remove_default_subscription_proposal
| PubsubOtherContent string

fun NewPubsubProposalHandler :: "pubsub_keeper \<Rightarrow> pubsub_state \<Rightarrow> pubsub_content \<Rightarrow> pubsub_state res" where
  "NewPubsubProposalHandler k st (AddPublisherProposal p) = HandleAddPublisherProposal k st p"
| "NewPubsubProposalHandler k st (RemovePublisherProposal p) = HandleRemovePublisherProposal k st p"
| "NewPubsubProposalHandler k st (AddDefaultSubscriptionProposal p) = HandleAddDefaultSubscriptionProposal k st p"
| "NewPubsubProposalHandler k st (RemoveDefaultSubscriptionProposal p) = HandleRemoveDefaultSubscriptionProposal k st p"
| "NewPubsubProposalHandler k st (PubsubOtherContent _) = Err (Wrapped ErrUnknownRequest)"

section \<open>Genesis\<close>

definition pubsub_InitGenesis :: "pubsub_keeper \<Rightarrow> pubsub_state \<Rightarrow> pubsub_genesis \<Rightarrow> pubsub_state res" where
  "pubsub_InitGenesis k st gs =
    (let S = pk_sdk k; st1 = foldl (SetPublisher k) st (pg_Publishers gs) in
    bind_res (fold_res (\<lambda>s st. case AccAddressFromBech32 S (sub_Address s) of
        None \<Rightarrow> Panic ''invalid subscriber address in genesis state''
      | Some a \<Rightarrow> Ok (SetSubscriber st a s)) (pg_Subscribers gs) st1) (\<lambda>st2.
    let st3 = foldl (SetPublisherIntent k) st2 (pg_PublisherIntents gs) in
    bind_res (fold_res (\<lambda>s st. case AccAddressFromBech32 S (si_SubscriberAddress s) of
        None \<Rightarrow> Panic ''invalid subscriber address in genesis state''
      | Some a \<Rightarrow> Ok (SetSubscriberIntent k st a s)) (pg_SubscriberIntents gs) st3) (\<lambda>st4.
    Ok (foldl (SetDefaultSubscription k) st4 (pg_DefaultSubscriptions gs)))))"

definition pubsub_ExportGenesis :: "pubsub_state \<Rightarrow> pubsub_genesis" where
  "pubsub_ExportGenesis st =
    \<lparr>pg_Publishers = GetPublishers st, pg_Subscribers = GetSubscribers st,
     pg_PublisherIntents = GetPublisherIntents st, pg_SubscriberIntents = GetSubscriberIntents st,
     pg_DefaultSubscriptions = GetDefaultSubscriptions st\<rparr>"

end
