(* ===== verification/Pubsub_Queries.thy ===== *)
theory Pubsub_Queries
  imports Pubsub_Keeper
begin

text \<open>
  The query server of the pubsub module (\<^verbatim>\<open>x/pubsub/keeper/query_server.go\<close>). A request is an option
  (\<open>None\<close> is a nil request); gRPC status errors are kept by their code.
\<close>

definition QueryPublisher :: "pubsub_keeper \<Rightarrow> pubsub_state \<Rightarrow> string option \<Rightarrow> publisher res" where
  "QueryPublisher k st req = (case req of None \<Rightarrow> Err (Errorf ''InvalidArgument'') | Some publisherDomain \<Rightarrow>
    bind_res (or_err (ValidateDomain (pk_web k) publisherDomain) (Errorf ''InvalidArgument'')) (\<lambda>_.
    case GetPublisher k st publisherDomain of None \<Rightarrow> Err (Errorf ''NotFound'') | Some p \<Rightarrow> Ok p))"

definition QueryPublishers :: "pubsub_state \<Rightarrow> publisher list" where
  "QueryPublishers st = GetPublishers st"

definition QuerySubscriber :: "pubsub_keeper \<Rightarrow> pubsub_state \<Rightarrow> string option \<Rightarrow> subscriber res" where
  "QuerySubscriber k st req = (case req of None \<Rightarrow> Err (Errorf ''InvalidArgument'') | Some subscriberAddress \<Rightarrow>
    case AccAddressFromBech32 (pk_sdk k) subscriberAddress of
      None \<Rightarrow> Err (Errorf ''InvalidArgument'')
    | Some a \<Rightarrow> (case GetSubscriber st a of None \<Rightarrow> Err (Errorf ''NotFound'') | Some s \<Rightarrow> Ok s))"

definition QuerySubscribers :: "pubsub_state \<Rightarrow> subscriber list" where
  "QuerySubscribers st = GetSubscribers st"

definition QueryPublisherIntent ::
  "pubsub_keeper \<Rightarrow> pubsub_state \<Rightarrow> (string \<times> string) option \<Rightarrow> publisher_intent res" where
  "QueryPublisherIntent k st req = (case req of None \<Rightarrow> Err (Errorf ''InvalidArgument'')
    | Some (publisherDomain, subscriptionId) \<Rightarrow>
    bind_res (or_err (ValidateDomain (pk_web k) publisherDomain) (Errorf ''InvalidArgument'')) (\<lambda>_.
    bind_res (or_err (ValidateSubscriptionID subscriptionId) (Errorf ''InvalidArgument'')) (\<lambda>_.
    case GetPublisherIntent k st subscriptionId publisherDomain of
      None \<Rightarrow> Err (Errorf ''NotFound'') | Some p \<Rightarrow> Ok p)))"

definition QueryPublisherIntents :: "pubsub_state \<Rightarrow> publisher_intent list" where
  "QueryPublisherIntents st = GetPublisherIntents st"

definition QueryPublisherIntentsByPublisherDomain ::
  "pubsub_keeper \<Rightarrow> pubsub_state \<Rightarrow> string option \<Rightarrow> publisher_intent list res" where
  "QueryPublisherIntentsByPublisherDomain k st req = (case req of None \<Rightarrow> Err (Errorf ''InvalidArgument'')
    | Some publisherDomain \<Rightarrow>
    bind_res (or_err (ValidateDomain (pk_web k) publisherDomain) (Errorf ''InvalidArgument'')) (\<lambda>_.
    Ok (GetPublisherIntentsByPublisherDomain k st publisherDomain)))"

definition QueryPublisherIntentsBySubscriptionID ::
  "pubsub_keeper \<Rightarrow> pubsub_state \<Rightarrow> string option \<Rightarrow> publisher_intent list res" where
  "QueryPublisherIntentsBySubscriptionID k st req = (case req of None \<Rightarrow> Err (Errorf ''InvalidArgument'')
    | Some subscriptionId \<Rightarrow>
    bind_res (or_err (ValidateSubscriptionID subscriptionId) (Errorf ''InvalidArgument'')) (\<lambda>_.
    Ok (GetPublisherIntentsBySubscriptionID k st subscriptionId)))"

definition QuerySubscriberIntent ::
  "pubsub_keeper \<Rightarrow> pubsub_state \<Rightarrow> (string \<times> string) option \<Rightarrow> subscriber_intent res" where
  "QuerySubscriberIntent k st req = (case req of None \<Rightarrow> Err (Errorf ''InvalidArgument'')
    | Some (subscriberAddress, subscriptionId) \<Rightarrow>
    case AccAddressFromBech32 (pk_sdk k) subscriberAddress of
      None \<Rightarrow> Err (Errorf ''InvalidArgument'')
    | Some a \<Rightarrow>
      bind_res (or_err (ValidateSubscriptionID subscriptionId) (Errorf ''InvalidArgument'')) (\<lambda>_.
      case GetSubscriberIntent k st subscriptionId a of
        None \<Rightarrow> Err (Errorf ''NotFound'') | Some s \<Rightarrow> Ok s))"

definition QuerySubscriberIntents :: "pubsub_state \<Rightarrow> subscriber_intent list" where
  "QuerySubscriberIntents st = GetSubscriberIntents st"

definition QuerySubscriberIntentsBySubscriberAddress ::
  "pubsub_keeper \<Rightarrow> pubsub_state \<Rightarrow> string option \<Rightarrow> subscriber_intent list res" where
  "QuerySubscriberIntentsBySubscriberAddress k st req = (case req of None \<Rightarrow> Err (Errorf ''InvalidArgument'')
    | Some subscriberAddress \<Rightarrow>
    case AccAddressFromBech32 (pk_sdk k) subscriberAddress of
      None \<Rightarrow> Err (Errorf ''InvalidArgument'')
    | Some a \<Rightarrow> Ok (GetSubscriberIntentsBySubscriberAddress st a))"

definition QuerySubscriberIntentsBySubscriptionID ::
  "pubsub_keeper \<Rightarrow> pubsub_state \<Rightarrow> string option \<Rightarrow> subscriber_intent list res" where
  "QuerySubscriberIntentsBySubscriptionID k st req = (case req of None \<Rightarrow> Err (Errorf ''InvalidArgument'')
    | Some subscriptionId \<Rightarrow>
    bind_res (or_err (ValidateSubscriptionID subscriptionId) (Errorf ''InvalidArgument'')) (\<lambda>_.
    Ok (GetSubscriberIntentsBySubscriptionID k st subscriptionId)))"

definition QuerySubscriberIntentsByPublisherDomain ::
  "pubsub_keeper \<Rightarrow> pubsub_state \<Rightarrow> string option \<Rightarrow> subscriber_intent list res" where
  "QuerySubscriberIntentsByPublisherDomain k st req = (case req of None \<Rightarrow> Err (Errorf ''InvalidArgument'')
    | Some publisherDomain \<Rightarrow>
    bind_res (or_err (ValidateDomain (pk_web k) publisherDomain) (Errorf ''InvalidArgument'')) (\<lambda>_.
    Ok (GetSubscriberIntentsByPublisherDomain k st publisherDomain)))"

definition QueryDefaultSubscription ::
  "pubsub_keeper \<Rightarrow> pubsub_state \<Rightarrow> string option \<Rightarrow> default_subscription res" where
  "QueryDefaultSubscription k st req = (case req of None \<Rightarrow> Err (Errorf ''InvalidArgument'')
    | Some subscriptionId \<Rightarrow>
    bind_res (or_err (ValidateSubscriptionID subscriptionId) (Errorf ''InvalidArgument'')) (\<lambda>_.
    case GetDefaultSubscription k st subscriptionId of
      None \<Rightarrow> Err (Errorf ''NotFound'') | Some d \<Rightarrow> Ok d))"

definition QueryDefaultSubscriptions :: "pubsub_state \<Rightarrow> default_subscription list" where
  "QueryDefaultSubscriptions st = GetDefaultSubscriptions st"

end
