(* ===== verification/Indexed.thy ===== *)
theory Indexed
  imports KVStore
begin

text \<open>
  Stores that keep a value under several keys, one per index. The store is \<open>indexed\<close> when every
  entry lies under a key of its value and every key of that value holds it; it is then determined by
  the set of values it stores. Putting a value under all its keys and deleting all keys of stored
  values keep the store indexed and act on that set.
\<close>

definition indexed :: "('v \<Rightarrow> bytes list) \<Rightarrow> 'v kvstore \<Rightarrow> bool" where
  "indexed keys m \<longleftrightarrow>
    kv_all (\<lambda>key v. key \<in> set (keys v) \<and> list_all (\<lambda>key'. kv_get m key' = Some v) (keys v)) m"

definition stored :: "'v kvstore \<Rightarrow> 'v set" where
  "stored m = {v. \<exists>key. kv_get m key = Some v}"

definition puts :: "('v \<Rightarrow> bytes list) \<Rightarrow> 'v kvstore \<Rightarrow> 'v \<Rightarrow> 'v kvstore" where
  "puts keys m v = foldl (\<lambda>m key. kv_set m key v) m (keys v)"

definition dels :: "('v \<Rightarrow> bytes list) \<Rightarrow> 'v kvstore \<Rightarrow> 'v list \<Rightarrow> 'v kvstore" where
  "dels keys m vs = foldl kv_del m (concat (map keys vs))"

lemma indexed_empty [simp]: "indexed keys kv_empty" "stored kv_empty = {}"
  by (simp_all add: indexed_def stored_def kv_all_iff)

lemma stored_empty: "stored m = {} \<Longrightarrow> m = kv_empty"
proof (rule kv_eqI)
  fix key assume "stored m = {}"
  then show "kv_get m key = kv_get kv_empty key" by (cases "kv_get m key") (auto simp: stored_def)
qed

lemma indexedD:
  assumes "indexed keys m" "kv_get m key = Some v"
  shows "key \<in> set (keys v)" "key' \<in> set (keys v) \<Longrightarrow> kv_get m key' = Some v"
proof -
  have *: "key \<in> set (keys v) \<and> (\<forall>key \<in> set (keys v). kv_get m key = Some v)"
    using kv_allD [OF assms(1) [unfolded indexed_def] assms(2)] unfolding list_all_iff .
  show "key \<in> set (keys v)" using * by (rule conjunct1)
  assume "key' \<in> set (keys v)"
  with * show "kv_get m key' = Some v" by simp
qed

lemma indexed_get:
  assumes "indexed keys m"
  shows "kv_get m key = Some v \<longleftrightarrow> v \<in> stored m \<and> key \<in> set (keys v)"
proof
  assume "kv_get m key = Some v"
  then show "v \<in> stored m \<and> key \<in> set (keys v)" using indexedD(1) [OF assms] by (auto simp: stored_def)
next
  assume v: "v \<in> stored m \<and> key \<in> set (keys v)"
  then obtain key' where "kv_get m key' = Some v" by (auto simp: stored_def)
  from indexedD(2) [OF assms this] v show "kv_get m key = Some v" by blast
qed

lemma indexedI:
  assumes "\<And>key v. kv_get m key = Some v \<longleftrightarrow> v \<in> V \<and> key \<in> set (keys v)" "\<And>v. v \<in> V \<Longrightarrow> keys v \<noteq> []"
  shows "indexed keys m" "stored m = V"
proof -
  show "indexed keys m" unfolding indexed_def kv_all_iff list_all_iff assms(1) by blast
  have "\<exists>key. key \<in> set (keys v)" if "v \<in> V" for v using assms(2) [OF that] by (meson ex_in_conv set_empty)
  then show "stored m = V" by (auto simp: stored_def assms(1))
qed

text \<open>Two stored values share a key only if they are equal, and the set determines the store.\<close>

lemma indexed_disjoint:
  assumes "indexed keys m" "v \<in> stored m" "w \<in> stored m" "key \<in> set (keys v)" "key \<in> set (keys w)"
  shows "v = w"
proof -
  from assms have "kv_get m key = Some v" "kv_get m key = Some w" by (simp_all add: indexed_get)
  then show ?thesis by simp
qed

lemma indexed_ext: "indexed keys m \<Longrightarrow> indexed keys m' \<Longrightarrow> stored m = stored m' \<Longrightarrow> m = m'"
proof (rule kv_eqI)
  fix key
  assume "indexed keys m" "indexed keys m'" "stored m = stored m'"
  then have "kv_get m key = Some v \<longleftrightarrow> kv_get m' key = Some v" for v by (simp add: indexed_get)
  then show "kv_get m key = kv_get m' key" by (metis option.exhaust)
qed

lemma kv_get_puts: "kv_get (foldl (\<lambda>m key. kv_set m key v) m ks) key = (if key \<in> set ks then Some v else kv_get m key)"
  by (induction ks arbitrary: m) auto

lemma kv_get_dels: "kv_get (foldl kv_del m ks) key = (if key \<in> set ks then None else kv_get m key)"
  by (induction ks arbitrary: m) auto

lemma indexed_puts:
  assumes "indexed keys m" "keys v \<noteq> []" "\<And>w. w \<in> stored m \<Longrightarrow> keys w \<noteq> []"
    and "\<And>w. w \<in> stored m \<Longrightarrow> set (keys w) \<inter> set (keys v) = {} \<or> set (keys w) = set (keys v)"
  shows "indexed keys (puts keys m v)"
    "stored (puts keys m v) = insert v {w \<in> stored m. set (keys w) \<inter> set (keys v) = {}}"
proof -
  have "kv_get (puts keys m v) key = Some w \<longleftrightarrow>
      w \<in> insert v {w \<in> stored m. set (keys w) \<inter> set (keys v) = {}} \<and> key \<in> set (keys w)" for key w
    using assms(4) [of w] by (auto simp: puts_def kv_get_puts indexed_get [OF assms(1)])
  from indexedI [of "puts keys m v", OF this] assms(2,3) show "indexed keys (puts keys m v)"
    "stored (puts keys m v) = insert v {w \<in> stored m. set (keys w) \<inter> set (keys v) = {}}"
    by auto
qed

lemma indexed_dels_meet:
  assumes "indexed keys m" "\<And>w. w \<in> stored m \<Longrightarrow> keys w \<noteq> []"
    and "\<And>v w. v \<in> set vs \<Longrightarrow> w \<in> stored m \<Longrightarrow> set (keys w) \<inter> set (keys v) = {} \<or> set (keys w) = set (keys v)"
  shows "indexed keys (dels keys m vs)"
    "stored (dels keys m vs) = {w \<in> stored m. \<forall>v \<in> set vs. set (keys w) \<inter> set (keys v) = {}}"
proof -
  let ?V = "{w \<in> stored m. \<forall>v \<in> set vs. set (keys w) \<inter> set (keys v) = {}}"
  have "kv_get (dels keys m vs) key = Some w \<longleftrightarrow> w \<in> ?V \<and> key \<in> set (keys w)" for key w
    using assms(3) [of _ w] by (auto simp: dels_def kv_get_dels indexed_get [OF assms(1)])
  from indexedI [of "dels keys m vs", OF this] assms(2) show "indexed keys (dels keys m vs)"
    "stored (dels keys m vs) = ?V"
    by auto
qed

lemma indexed_dels:
  assumes "indexed keys m" "set vs \<subseteq> stored m" "\<And>w. w \<in> stored m \<Longrightarrow> keys w \<noteq> []"
  shows "indexed keys (dels keys m vs)" "stored (dels keys m vs) = stored m - set vs"
proof -
  have eq: "set (keys w) \<inter> set (keys v) = {} \<or> w = v" if "v \<in> set vs" "w \<in> stored m" for v w
    using that assms(2) indexed_disjoint [OF assms(1)] by blast
  then have meet: "set (keys w) \<inter> set (keys v) = {} \<or> set (keys w) = set (keys v)" if "v \<in> set vs" "w \<in> stored m" for v w
    using that by blast
  show "indexed keys (dels keys m vs)" by (rule indexed_dels_meet [OF assms(1,3) meet])
  have "stored (dels keys m vs) = {w \<in> stored m. \<forall>v \<in> set vs. set (keys w) \<inter> set (keys v) = {}}"
    by (rule indexed_dels_meet [OF assms(1,3) meet])
  moreover have "set (keys w) \<inter> set (keys w) \<noteq> {}" if "w \<in> stored m" for w using assms(3) [OF that] by simp
  ultimately show "stored (dels keys m vs) = stored m - set vs" using eq by blast
qed

text \<open>Stores with one key per value.\<close>

lemma indexed_del1:
  assumes "indexed keys m" "\<And>v. keys v = [f v]"
  shows "indexed keys (kv_del m key)" "stored (kv_del m key) = {w \<in> stored m. f w \<noteq> key}"
proof -
  have "kv_get (kv_del m key) key' = Some w \<longleftrightarrow> w \<in> {w \<in> stored m. f w \<noteq> key} \<and> key' \<in> set (keys w)" for key' w
    by (auto simp: indexed_get [OF assms(1)] assms(2))
  moreover have "keys w \<noteq> []" for w by (simp add: assms(2))
  ultimately show "indexed keys (kv_del m key)" "stored (kv_del m key) = {w \<in> stored m. f w \<noteq> key}"
    using indexedI [of "kv_del m key" "{w \<in> stored m. f w \<noteq> key}" keys] by blast+
qed

lemma indexed_put1:
  assumes "indexed keys m" "\<And>v. keys v = [f v]"
  shows "indexed keys (puts keys m v)" "stored (puts keys m v) = insert v {w \<in> stored m. f w \<noteq> f v}"
proof -
  show "indexed keys (puts keys m v)" by (rule indexed_puts(1) [OF assms(1)]) (auto simp: assms(2))
  have "stored (puts keys m v) = insert v {w \<in> stored m. set (keys w) \<inter> set (keys v) = {}}"
    by (rule indexed_puts(2) [OF assms(1)]) (auto simp: assms(2))
  then show "stored (puts keys m v) = insert v {w \<in> stored m. f w \<noteq> f v}" by (simp add: assms(2) eq_commute)
qed

text \<open>A value whose keys meet those of no stored value is added.\<close>

lemma indexed_put_fresh:
  assumes "indexed keys m" "keys v \<noteq> []" "\<And>w. w \<in> stored m \<Longrightarrow> keys w \<noteq> []"
    and "\<And>w. w \<in> stored m \<Longrightarrow> set (keys w) \<inter> set (keys v) = {}"
  shows "indexed keys (puts keys m v)" "stored (puts keys m v) = insert v (stored m)"
proof -
  show "indexed keys (puts keys m v)" by (rule indexed_puts(1) [OF assms(1,2)]) (simp_all add: assms(3,4))
  have "stored (puts keys m v) = insert v {w \<in> stored m. set (keys w) \<inter> set (keys v) = {}}"
    by (rule indexed_puts(2) [OF assms(1,2)]) (simp_all add: assms(3,4))
  then show "stored (puts keys m v) = insert v (stored m)" using assms(4) by auto
qed

text \<open>Filling an empty store with values whose keys do not meet gives a store of just these.\<close>

lemma indexed_fill:
  assumes "\<And>v. v \<in> set vs \<Longrightarrow> keys v \<noteq> []"
    and "\<And>v w. v \<in> set vs \<Longrightarrow> w \<in> set vs \<Longrightarrow> set (keys v) \<inter> set (keys w) \<noteq> {} \<Longrightarrow> v = w"
  shows "indexed keys (foldl (puts keys) kv_empty vs)" "stored (foldl (puts keys) kv_empty vs) = set vs"
proof -
  have "indexed keys (foldl (puts keys) kv_empty vs) \<and> stored (foldl (puts keys) kv_empty vs) = set vs"
    using assms
  proof (induction vs rule: rev_induct)
    case (snoc v vs)
    let ?m = "foldl (puts keys) kv_empty vs"
    have IH: "indexed keys ?m" "stored ?m = set vs" using snoc.IH snoc.prems by simp_all
    have kv: "keys v \<noteq> []" using snoc.prems(1) by simp
    have kw: "keys w \<noteq> []" if "w \<in> stored ?m" for w using that snoc.prems(1) IH(2) by simp
    have *: "set (keys w) \<inter> set (keys v) = {} \<or> w = v" if "w \<in> stored ?m" for w
      using that snoc.prems(2) [of w v] IH(2) by auto
    then have dj: "set (keys w) \<inter> set (keys v) = {} \<or> set (keys w) = set (keys v)" if "w \<in> stored ?m" for w
      using that by blast
    have "insert v {w \<in> stored ?m. set (keys w) \<inter> set (keys v) = {}} = set (vs @ [v])"
      using * IH(2) by auto
    with indexed_puts [OF IH(1) kv kw dj] show ?case by simp
  qed simp
  then show "indexed keys (foldl (puts keys) kv_empty vs)" "stored (foldl (puts keys) kv_empty vs) = set vs" by auto
qed

lemma indexed_refill:
  assumes "indexed keys m" "set vs \<subseteq> stored m" "\<And>w. w \<in> stored m \<Longrightarrow> keys w \<noteq> []"
  shows "indexed keys (foldl (puts keys) kv_empty vs)" "stored (foldl (puts keys) kv_empty vs) = set vs"
proof -
  have ne: "keys v \<noteq> []" if "v \<in> set vs" for v using that assms(2,3) by blast
  have meet: "v = w" if "v \<in> set vs" "w \<in> set vs" "set (keys v) \<inter> set (keys w) \<noteq> {}" for v w
    using that assms(2) indexed_disjoint [OF assms(1)] by blast
  show "indexed keys (foldl (puts keys) kv_empty vs)" "stored (foldl (puts keys) kv_empty vs) = set vs"
    using indexed_fill [of vs keys, OF ne meet] by blast+
qed

text \<open>The values under a prefix that only one of the keys of a value can have.\<close>

lemma indexed_values:
  assumes "indexed keys m"
  shows "snd ` set (kv_iter m p) = {v \<in> stored m. \<exists>key \<in> set (keys v). prefix p key}"
proof -
  have "v \<in> snd ` set (kv_iter m p) \<longleftrightarrow> (\<exists>key. (key, v) \<in> set (kv_iter m p))" for v by force
  then show ?thesis by (auto simp: kv_iter_mem indexed_get [OF assms])
qed

end
