(* ===== verification/Ethereum.thy ===== *)
theory Ethereum
  imports Sdk
begin

text \<open>
  The laws of the go-ethereum functions that the cork, axelarcork and pubsub modules rely on: an
  address has 20 bytes, a hash 32, and printing an address and reading it back is the identity.
  Nothing is assumed about collisions of the hash. The reference instance at the end crops and pads
  as \<^verbatim>\<open>common.BytesToAddress\<close> documents; its hash is the identity on the first 32 bytes.
\<close>

locale eth_laws =
  fixes E :: eth
  assumes address_length [simp]: "length (HexToAddress E s) = 20"
    and hash_length [simp]: "length (Keccak256Hash E bs) = 32"
    and bytes_address [simp]: "length bs = 20 \<Longrightarrow> BytesToAddress E bs = bs"
    and hex_address [simp]: "length bs = 20 \<Longrightarrow> HexToAddress E (Address_Hex E bs) = bs"

section \<open>A reference instance\<close>

definition ref_BytesToAddress :: "bytes \<Rightarrow> addr" where
  "ref_BytesToAddress bs = (let b = drop (length bs - 20) bs in replicate (20 - length b) 0 @ b)"

text \<open>The text of an address keeps its bytes as characters, which is quicker to evaluate than hexadecimal.\<close>

definition ref_HexToAddress :: "string \<Rightarrow> addr" where
  "ref_HexToAddress s = ref_BytesToAddress (string_bytes (drop 2 s))"

definition ref_eth :: eth where
  "ref_eth = \<lparr>HexToAddress = ref_HexToAddress, IsHexAddress = (\<lambda>s. take 2 s = ''0x'' \<and> length s = 22),
    Address_Hex = (\<lambda>a. ''0x'' @ map (\<lambda>b. char_of (unat b)) a), BytesToAddress = ref_BytesToAddress,
    Keccak256Hash = (\<lambda>bs. take 32 (bs @ replicate 32 0))\<rparr>"

lemma string_bytes_chars [simp]: "string_bytes (map (\<lambda>b. char_of (unat b)) bs) = bs"
proof -
  have "word_of_nat (of_char (char_of (unat b) :: char)) = b" for b :: byte
    using unsigned_less [of b, where ?'a = nat] by (simp add: of_char_of)
  then show ?thesis by (simp add: string_bytes_def comp_def)
qed

interpretation ref_eth: eth_laws ref_eth
  by unfold_locales
    (simp_all add: ref_eth_def ref_HexToAddress_def ref_BytesToAddress_def Let_def)

end
