(* ===== verification/Pubsub_Safety.thy ===== *)
theory Pubsub_Safety
  imports Pubsub_Keeper Indexed Ethereum
begin

text \<open>
  The pubsub module against its specification: five sets of records. Publisher and subscriber
  intents are kept under several hashed keys, so the abstraction needs that the hash separates the
  strings in use: the locale \<open>pubsub_env\<close> fixes a universe \<open>U\<close> of domains and subscription ids on which
  it is injective, and that account addresses have 20 bytes. Under the invariant \<open>pubsub_inv\<close> the
  stores are indexed, every intent's publisher, publisher intent and subscriber exist, and the
  cascading deletions are deletions from the sets.
\<close>

section \<open>Specification\<close>

record pubsub_spec =
  sp_publishers :: "publisher set"
  sp_subscribers :: "subscriber set"
  sp_pintents :: "publisher_intent set"
  sp_sintents :: "subscriber_intent set"
  sp_defaults :: "default_subscription set"

definition pubsub_abs :: "pubsub_state \<Rightarrow> pubsub_spec" where
  "pubsub_abs st = \<lparr>sp_publishers = stored (ps_publishers st), sp_subscribers = stored (ps_subscribers st),
     sp_pintents = stored (ps_pintents st), sp_sintents = stored (ps_sintents st), sp_defaults = stored (ps_defaults st)\<rparr>"

definition spec_delete_pintent :: "string \<Rightarrow> string \<Rightarrow> pubsub_spec \<Rightarrow> pubsub_spec" where
  "spec_delete_pintent sid domain s = s\<lparr>
     sp_pintents := {p \<in> sp_pintents s. \<not> (pi_SubscriptionId p = sid \<and> pi_PublisherDomain p = domain)},
     sp_sintents := {i \<in> sp_sintents s. \<not> (si_SubscriptionId i = sid \<and> si_PublisherDomain i = domain)}\<rparr>"

definition spec_delete_publisher :: "string \<Rightarrow> pubsub_spec \<Rightarrow> pubsub_spec" where
  "spec_delete_publisher domain s = s\<lparr>
     sp_publishers := {p \<in> sp_publishers s. pub_Domain p \<noteq> domain},
     sp_pintents := {p \<in> sp_pintents s. pi_PublisherDomain p \<noteq> domain},
     sp_sintents := {i \<in> sp_sintents s. si_PublisherDomain i \<noteq> domain},
     sp_defaults := {d \<in> sp_defaults s. ds_PublisherDomain d \<noteq> domain}\<rparr>"

section \<open>Keys of the stored records\<close>

definition acc_of :: "pubsub_keeper \<Rightarrow> string \<Rightarrow> addr" where
  "acc_of k s = (case AccAddressFromBech32 (pk_sdk k) s of Some a \<Rightarrow> a | None \<Rightarrow> [])"

definition pub_keys :: "pubsub_keeper \<Rightarrow> publisher \<Rightarrow> bytes list" where
  "pub_keys k p = [GetPublisherKey (pk_eth k) (pub_Domain p)]"

definition sub_keys :: "pubsub_keeper \<Rightarrow> subscriber \<Rightarrow> bytes list" where
  "sub_keys k s = [GetSubscriberKey (acc_of k (sub_Address s))]"

definition pi_keys :: "pubsub_keeper \<Rightarrow> publisher_intent \<Rightarrow> bytes list" where
  "pi_keys k p = [GetPublisherIntentByPublisherDomainKey (pk_eth k) (pi_PublisherDomain p) (pi_SubscriptionId p),
     GetPublisherIntentBySubscriptionIDKey (pk_eth k) (pi_SubscriptionId p) (pi_PublisherDomain p)]"

definition si_keys :: "pubsub_keeper \<Rightarrow> subscriber_intent \<Rightarrow> bytes list" where
  "si_keys k s = (let a = acc_of k (si_SubscriberAddress s) in
    [GetSubscriberIntentBySubscriberAddressKey (pk_eth k) a (si_SubscriptionId s),
     GetSubscriberIntentBySubscriptionIDKey (pk_eth k) (si_SubscriptionId s) a,
     GetSubscriberIntentByPublisherDomainKey (pk_eth k) (si_PublisherDomain s) a (si_SubscriptionId s)])"

definition def_keys :: "pubsub_keeper \<Rightarrow> default_subscription \<Rightarrow> bytes list" where
  "def_keys k d = [GetDefaultSubscriptionKey (pk_eth k) (ds_SubscriptionId d)]"

lemmas keys_defs = pub_keys_def sub_keys_def pi_keys_def si_keys_def def_keys_def

lemma keys_not_Nil [simp]: "pub_keys k p \<noteq> []" "sub_keys k s \<noteq> []" "pi_keys k q \<noteq> []" "si_keys k i \<noteq> []" "def_keys k d \<noteq> []"
  by (simp_all add: keys_defs Let_def)

text \<open>The setters put a record under all its keys.\<close>

lemma setters_puts:
  "SetPublisher k st p = st\<lparr>ps_publishers := puts (pub_keys k) (ps_publishers st) p\<rparr>"
  "SetSubscriber st (acc_of k (sub_Address s)) s = st\<lparr>ps_subscribers := puts (sub_keys k) (ps_subscribers st) s\<rparr>"
  "SetPublisherIntent k st q = st\<lparr>ps_pintents := puts (pi_keys k) (ps_pintents st) q\<rparr>"
  "SetSubscriberIntent k st (acc_of k (si_SubscriberAddress i)) i = st\<lparr>ps_sintents := puts (si_keys k) (ps_sintents st) i\<rparr>"
  "SetDefaultSubscription k st d = st\<lparr>ps_defaults := puts (def_keys k) (ps_defaults st) d\<rparr>"
  by (simp_all add: SetPublisher_def SetSubscriber_def SetPublisherIntent_def SetSubscriberIntent_def
      SetDefaultSubscription_def puts_def keys_defs Let_def)

lemma DeleteSubscriberIntent_dels:
  "DeleteSubscriberIntent k st (si_SubscriptionId i) (acc_of k (si_SubscriberAddress i)) (si_PublisherDomain i) =
    st\<lparr>ps_sintents := dels (si_keys k) (ps_sintents st) [i]\<rparr>"
  by (simp add: DeleteSubscriberIntent_def dels_def si_keys_def Let_def)

lemma dels_Cons: "dels keys (dels keys m [v]) vs = dels keys m (v # vs)"
  by (simp add: dels_def)

lemma dels_Nil [simp]: "dels keys m [] = m"
  by (simp add: dels_def)

lemma delete_sintents:
  "foldl (\<lambda>s i. if P i then DeleteSubscriberIntent k s (si_SubscriptionId i) (acc_of k (si_SubscriberAddress i))
      (si_PublisherDomain i) else s) st is =
    st\<lparr>ps_sintents := dels (si_keys k) (ps_sintents st) (filter P is)\<rparr>"
  by (induction "is" arbitrary: st) (simp_all add: DeleteSubscriberIntent_dels dels_Cons)

lemma delete_defaults:
  "foldl (\<lambda>s d. if P d then DeleteDefaultSubscription k s (ds_SubscriptionId d) else s) st ds =
    st\<lparr>ps_defaults := dels (def_keys k) (ps_defaults st) (filter P ds)\<rparr>"
proof (induction ds arbitrary: st)
  case (Cons d ds)
  have "DeleteDefaultSubscription k st (ds_SubscriptionId d) = st\<lparr>ps_defaults := dels (def_keys k) (ps_defaults st) [d]\<rparr>"
    by (simp add: DeleteDefaultSubscription_def dels_def def_keys_def)
  with Cons show ?case by (simp add: dels_Cons)
qed simp

section \<open>The invariant\<close>

definition stores_indexed :: "pubsub_keeper \<Rightarrow> pubsub_state \<Rightarrow> bool" where
  "stores_indexed k st \<longleftrightarrow> indexed (pub_keys k) (ps_publishers st) \<and> indexed (sub_keys k) (ps_subscribers st) \<and>
     indexed (pi_keys k) (ps_pintents st) \<and> indexed (si_keys k) (ps_sintents st) \<and> indexed (def_keys k) (ps_defaults st)"

text \<open>Domains and ids come from the universe and addresses parse.\<close>

definition spec_strings :: "string set \<Rightarrow> pubsub_keeper \<Rightarrow> pubsub_spec \<Rightarrow> bool" where
  "spec_strings U k s \<longleftrightarrow>
    (\<forall>p \<in> sp_publishers s. pub_Domain p \<in> U) \<and>
    (\<forall>x \<in> sp_subscribers s. AccAddressFromBech32 (pk_sdk k) (sub_Address x) \<noteq> None) \<and>
    (\<forall>p \<in> sp_pintents s. pi_PublisherDomain p \<in> U \<and> pi_SubscriptionId p \<in> U) \<and>
    (\<forall>i \<in> sp_sintents s. si_PublisherDomain i \<in> U \<and> si_SubscriptionId i \<in> U \<and>
      AccAddressFromBech32 (pk_sdk k) (si_SubscriberAddress i) \<noteq> None) \<and>
    (\<forall>d \<in> sp_defaults s. ds_SubscriptionId d \<in> U \<and> ds_PublisherDomain d \<in> U)"

text \<open>A publisher intent has its publisher, a subscriber intent its publisher intent and its subscriber.\<close>

definition spec_refs :: "pubsub_keeper \<Rightarrow> pubsub_spec \<Rightarrow> bool" where
  "spec_refs k s \<longleftrightarrow>
    (\<forall>p \<in> sp_pintents s. \<exists>q \<in> sp_publishers s. pub_Domain q = pi_PublisherDomain p) \<and>
    (\<forall>i \<in> sp_sintents s.
      (\<exists>p \<in> sp_pintents s. pi_PublisherDomain p = si_PublisherDomain i \<and> pi_SubscriptionId p = si_SubscriptionId i) \<and>
      (\<exists>x \<in> sp_subscribers s. acc_of k (sub_Address x) = acc_of k (si_SubscriberAddress i)))"

definition pubsub_inv :: "string set \<Rightarrow> pubsub_keeper \<Rightarrow> pubsub_state \<Rightarrow> bool" where
  "pubsub_inv U k st \<longleftrightarrow> stores_indexed k st \<and> spec_strings U k (pubsub_abs st) \<and> spec_refs k (pubsub_abs st)"

text \<open>The domains and subscription ids of messages and proposals, and the steps of the module.\<close>

fun msg_strings :: "pubsub_msg \<Rightarrow> string set" where
  "msg_strings (MsgRemovePublisher m) = {mrp_PublisherDomain m}"
| "msg_strings (MsgAddPublisherIntent m) = (case mapi_PublisherIntent m of None \<Rightarrow> {}
     | Some p \<Rightarrow> {pi_PublisherDomain p, pi_SubscriptionId p})"
| "msg_strings (MsgRemovePublisherIntent m) = {mrpi_SubscriptionId m, mrpi_PublisherDomain m}"
| "msg_strings (MsgAddSubscriberIntent m) = (case masi_SubscriberIntent m of None \<Rightarrow> {}
     | Some i \<Rightarrow> {si_PublisherDomain i, si_SubscriptionId i})"
| "msg_strings (MsgRemoveSubscriberIntent m) = {mrsi_SubscriptionId m}"
| "msg_strings _ = {}"

fun content_strings :: "pubsub_content \<Rightarrow> string set" where
  "content_strings (AddPublisherProposal p) = {app_Domain p}"
| "content_strings (RemovePublisherProposal p) = {rpp_Domain p}"
| "content_strings (AddDefaultSubscriptionProposal p) = {adp_SubscriptionId p, adp_PublisherDomain p}"
| "content_strings (RemoveDefaultSubscriptionProposal p) = {rdp_SubscriptionId p}"
| "content_strings (PubsubOtherContent _) = {}"

inductive pubsub_reachable :: "string set \<Rightarrow> pubsub_keeper \<Rightarrow> pubsub_state \<Rightarrow> bool" for U k where
  empty: "ps_publishers st = kv_empty \<Longrightarrow> ps_subscribers st = kv_empty \<Longrightarrow> ps_pintents st = kv_empty \<Longrightarrow>
    ps_sintents st = kv_empty \<Longrightarrow> ps_defaults st = kv_empty \<Longrightarrow> pubsub_reachable U k st"
| msg: "pubsub_reachable U k st \<Longrightarrow> msg_strings m \<subseteq> U \<Longrightarrow> pubsub_NewHandler k st m = Ok st' \<Longrightarrow> pubsub_reachable U k st'"
| proposal: "pubsub_reachable U k st \<Longrightarrow> content_strings c \<subseteq> U \<Longrightarrow> NewPubsubProposalHandler k st c = Ok st' \<Longrightarrow>
    pubsub_reachable U k st'"

locale pubsub_env = eth_laws "pk_eth k"
  for k :: pubsub_keeper +
  fixes U :: "string set"
  assumes hash_inj: "inj_on (StringHash (pk_eth k)) U"
    and address_bytes: "AccAddressFromBech32 (pk_sdk k) s = Some a \<Longrightarrow> length a = 20"
begin

lemma StringHash_length [simp]: "length (StringHash (pk_eth k) s) = 32"
  by (simp add: StringHash_def)

lemma hash_eq [simp]: "s \<in> U \<Longrightarrow> t \<in> U \<Longrightarrow> StringHash (pk_eth k) s = StringHash (pk_eth k) t \<longleftrightarrow> s = t"
  using hash_inj by (auto dest: inj_onD)

lemma acc_of_length: "AccAddressFromBech32 (pk_sdk k) s \<noteq> None \<Longrightarrow> length (acc_of k s) = 20"
  by (auto simp: acc_of_def address_bytes)

text \<open>Two records share a key only if they agree on what the index is about.\<close>

lemma pi_keys_meet:
  "set (pi_keys k p) \<inter> set (pi_keys k q) \<noteq> {} \<longleftrightarrow>
    StringHash (pk_eth k) (pi_PublisherDomain p) = StringHash (pk_eth k) (pi_PublisherDomain q) \<and>
    StringHash (pk_eth k) (pi_SubscriptionId p) = StringHash (pk_eth k) (pi_SubscriptionId q)"
  by (auto simp: pi_keys_def GetPublisherIntentByPublisherDomainKey_def GetPublisherIntentBySubscriptionIDKey_def)

lemma si_keys_meet:
  assumes "AccAddressFromBech32 (pk_sdk k) (si_SubscriberAddress i) \<noteq> None"
    "AccAddressFromBech32 (pk_sdk k) (si_SubscriberAddress j) \<noteq> None"
  shows "set (si_keys k i) \<inter> set (si_keys k j) \<noteq> {} \<longleftrightarrow>
    acc_of k (si_SubscriberAddress i) = acc_of k (si_SubscriberAddress j) \<and>
    StringHash (pk_eth k) (si_SubscriptionId i) = StringHash (pk_eth k) (si_SubscriptionId j)"
  using acc_of_length [OF assms(1)] acc_of_length [OF assms(2)]
  by (auto simp: si_keys_def Let_def GetSubscriberIntentBySubscriberAddressKey_def
      GetSubscriberIntentBySubscriptionIDKey_def GetSubscriberIntentByPublisherDomainKey_def)

section \<open>Deletions refine the specification\<close>

lemma sintents_of_domain:
  assumes "stores_indexed k st" "spec_strings U k (pubsub_abs st)" "d \<in> U"
  shows "set (GetSubscriberIntentsByPublisherDomain k st d) = {i \<in> stored (ps_sintents st). si_PublisherDomain i = d}"
proof -
  have "prefix (GetSubscriberIntentsByPublisherDomainPrefix (pk_eth k) d) key \<longleftrightarrow>
      key = si_keys k i ! 2 \<and> si_PublisherDomain i = d"
    if "i \<in> stored (ps_sintents st)" "key \<in> set (si_keys k i)" for i key
    using that assms(2,3)
    by (auto simp: si_keys_def Let_def spec_strings_def pubsub_abs_def GetSubscriberIntentsByPublisherDomainPrefix_def
        GetSubscriberIntentBySubscriberAddressKey_def GetSubscriberIntentBySubscriptionIDKey_def
        GetSubscriberIntentByPublisherDomainKey_def)
  moreover have "si_keys k i ! 2 \<in> set (si_keys k i)" for i by (simp add: si_keys_def Let_def)
  moreover have "set (GetSubscriberIntentsByPublisherDomain k st d) = {i \<in> stored (ps_sintents st).
      \<exists>key \<in> set (si_keys k i). prefix (GetSubscriberIntentsByPublisherDomainPrefix (pk_eth k) d) key}"
    using assms(1) indexed_values [of "si_keys k" "ps_sintents st"]
    by (simp add: GetSubscriberIntentsByPublisherDomain_def getSubscriberIntentsByKeyPrefix_def stores_indexed_def)
  ultimately show ?thesis by blast
qed

lemma pintents_of_domain:
  assumes "stores_indexed k st" "spec_strings U k (pubsub_abs st)" "d \<in> U"
  shows "set (GetPublisherIntentsByPublisherDomain k st d) = {p \<in> stored (ps_pintents st). pi_PublisherDomain p = d}"
proof -
  have u: "pi_PublisherDomain p \<in> U" if "p \<in> stored (ps_pintents st)" for p
    using that assms(2) by (simp add: spec_strings_def pubsub_abs_def)
  have "prefix (GetPublisherIntentsByPublisherDomainPrefix (pk_eth k) d) key \<longleftrightarrow>
      key = pi_keys k p ! 0 \<and> pi_PublisherDomain p = d"
    if "p \<in> stored (ps_pintents st)" "key \<in> set (pi_keys k p)" for p key
  proof -
    from that(2) consider "key = GetPublisherIntentByPublisherDomainKey (pk_eth k) (pi_PublisherDomain p) (pi_SubscriptionId p)"
      | "key = GetPublisherIntentBySubscriptionIDKey (pk_eth k) (pi_SubscriptionId p) (pi_PublisherDomain p)"
      by (auto simp: pi_keys_def)
    then show ?thesis
      using u [OF that(1)] assms(3)
      by cases (auto simp: pi_keys_def GetPublisherIntentsByPublisherDomainPrefix_def
          GetPublisherIntentByPublisherDomainKey_def GetPublisherIntentBySubscriptionIDKey_def)
  qed
  moreover have "pi_keys k p ! 0 \<in> set (pi_keys k p)" for p by (simp add: pi_keys_def)
  moreover have "set (GetPublisherIntentsByPublisherDomain k st d) = {p \<in> stored (ps_pintents st).
      \<exists>key \<in> set (pi_keys k p). prefix (GetPublisherIntentsByPublisherDomainPrefix (pk_eth k) d) key}"
    using assms(1) indexed_values [of "pi_keys k" "ps_pintents st"]
    by (simp add: GetPublisherIntentsByPublisherDomain_def getPublisherIntentsByKeyPrefix_def stores_indexed_def)
  ultimately show ?thesis by blast
qed

lemma DeletePublisherIntent_refines:
  assumes "stores_indexed k st" "spec_strings U k (pubsub_abs st)" "sid \<in> U" "d \<in> U"
  shows "stores_indexed k (DeletePublisherIntent k st sid d)"
    "pubsub_abs (DeletePublisherIntent k st sid d) = spec_delete_pintent sid d (pubsub_abs st)"
proof -
  define p0 :: publisher_intent where "p0 = \<lparr>pi_SubscriptionId = sid, pi_PublisherDomain = d, pi_Method = undefined,
    pi_PullUrl = [], pi_AllowedSubscribers = undefined, pi_AllowedAddresses = []\<rparr>"
  have f: "pi_SubscriptionId p0 = sid" "pi_PublisherDomain p0 = d" by (simp_all add: p0_def)
  let ?is = "filter (\<lambda>i. sid = si_SubscriptionId i) (GetSubscriberIntentsByPublisherDomain k st d)"
  let ?pm = "dels (pi_keys k) (ps_pintents st) [p0]" and ?sm = "dels (si_keys k) (ps_sintents st) ?is"
  have eq: "DeletePublisherIntent k st sid d = st\<lparr>ps_pintents := ?pm, ps_sintents := ?sm\<rparr>"
    by (simp add: DeletePublisherIntent_def Let_def delete_sintents [unfolded acc_of_def])
      (simp add: dels_def pi_keys_def f GetSubscriberIntentsByPublisherDomain_def getSubscriberIntentsByKeyPrefix_def)
  have ix: "indexed (pi_keys k) (ps_pintents st)" "indexed (si_keys k) (ps_sintents st)"
    using assms(1) by (simp_all add: stores_indexed_def)
  have meet: "set (pi_keys k w) \<inter> set (pi_keys k p0) = {} \<longleftrightarrow> \<not> (pi_SubscriptionId w = sid \<and> pi_PublisherDomain w = d)"
    if "w \<in> stored (ps_pintents st)" for w
    using pi_keys_meet [of w p0] that assms(2-4) by (auto simp: f spec_strings_def pubsub_abs_def)
  have same: "set (pi_keys k w) \<inter> set (pi_keys k v) = {} \<or> set (pi_keys k w) = set (pi_keys k v)"
    if "v \<in> set [p0]" "w \<in> stored (ps_pintents st)" for v w
    using meet [OF that(2)] that(1) by (auto simp: pi_keys_def f)
  have pm: "indexed (pi_keys k) ?pm" "stored ?pm = {w \<in> stored (ps_pintents st). set (pi_keys k w) \<inter> set (pi_keys k p0) = {}}"
    using indexed_dels_meet [where vs = "[p0]", OF ix(1) keys_not_Nil(3) same] by simp_all
  have "set ?is \<subseteq> stored (ps_sintents st)" using sintents_of_domain [OF assms(1,2,4)] by auto
  note sm = indexed_dels [OF ix(2) this, simplified]
  show "stores_indexed k (DeletePublisherIntent k st sid d)"
    using assms(1) pm(1) sm(1) by (simp add: eq stores_indexed_def)
  show "pubsub_abs (DeletePublisherIntent k st sid d) = spec_delete_pintent sid d (pubsub_abs st)"
    using pm(2) sm(2) meet sintents_of_domain [OF assms(1,2,4)]
    by (auto simp: eq pubsub_abs_def spec_delete_pintent_def)
qed

text \<open>Deleting keeps the strings; the fold over the intents of a publisher deletes each of them.\<close>

lemma spec_strings_delete: "spec_strings U k s \<Longrightarrow> spec_strings U k (spec_delete_pintent sid d s)"
  by (auto simp: spec_strings_def spec_delete_pintent_def)

lemma DeletePublisherIntent_fold:
  assumes "stores_indexed k st" "spec_strings U k (pubsub_abs st)"
    and "\<forall>p \<in> set ps. pi_SubscriptionId p \<in> U \<and> pi_PublisherDomain p \<in> U"
  defines "st' \<equiv> foldl (\<lambda>s p. DeletePublisherIntent k s (pi_SubscriptionId p) (pi_PublisherDomain p)) st ps"
  shows "stores_indexed k st' \<and> spec_strings U k (pubsub_abs st') \<and> pubsub_abs st' = (pubsub_abs st)\<lparr>
    sp_pintents := {p \<in> sp_pintents (pubsub_abs st). \<forall>q \<in> set ps.
      \<not> (pi_SubscriptionId p = pi_SubscriptionId q \<and> pi_PublisherDomain p = pi_PublisherDomain q)},
    sp_sintents := {i \<in> sp_sintents (pubsub_abs st). \<forall>q \<in> set ps.
      \<not> (si_SubscriptionId i = pi_SubscriptionId q \<and> si_PublisherDomain i = pi_PublisherDomain q)}\<rparr>"
  using assms(3) unfolding st'_def
proof (induction ps rule: rev_induct)
  case Nil
  show ?case using assms(1,2) by simp
next
  case (snoc p ps)
  let ?s = "foldl (\<lambda>s p. DeletePublisherIntent k s (pi_SubscriptionId p) (pi_PublisherDomain p)) st ps"
  have IH: "stores_indexed k ?s" "spec_strings U k (pubsub_abs ?s)" using snoc by auto
  have p: "pi_SubscriptionId p \<in> U" "pi_PublisherDomain p \<in> U" using snoc.prems by auto
  note ref = DeletePublisherIntent_refines [OF IH p]
  have "spec_strings U k (pubsub_abs (DeletePublisherIntent k ?s (pi_SubscriptionId p) (pi_PublisherDomain p)))"
    unfolding ref(2) by (rule spec_strings_delete [OF IH(2)])
  moreover have "pubsub_abs ?s = (pubsub_abs st)\<lparr>
      sp_pintents := {p \<in> sp_pintents (pubsub_abs st). \<forall>q \<in> set ps.
        \<not> (pi_SubscriptionId p = pi_SubscriptionId q \<and> pi_PublisherDomain p = pi_PublisherDomain q)},
      sp_sintents := {i \<in> sp_sintents (pubsub_abs st). \<forall>q \<in> set ps.
        \<not> (si_SubscriptionId i = pi_SubscriptionId q \<and> si_PublisherDomain i = pi_PublisherDomain q)}\<rparr>"
    using snoc by auto
  ultimately show ?case using ref by (simp add: spec_delete_pintent_def conj_ac)
qed

lemma DeletePublisher_refines:
  assumes "pubsub_inv U k st" "d \<in> U"
  shows "stores_indexed k (DeletePublisher k st d)"
    "pubsub_abs (DeletePublisher k st d) = spec_delete_publisher d (pubsub_abs st)"
proof -
  have inv: "stores_indexed k st" "spec_strings U k (pubsub_abs st)" "spec_refs k (pubsub_abs st)"
    using assms(1) by (simp_all add: pubsub_inv_def)
  define p0 :: publisher where "p0 = \<lparr>pub_Address = [], pub_Domain = d, pub_CaCert = []\<rparr>"
  let ?m = "dels (pub_keys k) (ps_publishers st) [p0]"
  define st1 where "st1 = st\<lparr>ps_publishers := ?m\<rparr>"
  let ?ps = "GetPublisherIntentsByPublisherDomain k st1 d"
  define st2 where "st2 = foldl (\<lambda>s p. DeletePublisherIntent k s (pi_SubscriptionId p) (pi_PublisherDomain p)) st1 ?ps"
  let ?ds = "filter (\<lambda>x. ds_PublisherDomain x = d) (GetDefaultSubscriptions st2)"
  have eq: "DeletePublisher k st d = st2\<lparr>ps_defaults := dels (def_keys k) (ps_defaults st2) ?ds\<rparr>"
    by (simp add: DeletePublisher_def Let_def delete_defaults st2_def st1_def dels_def pub_keys_def p0_def)
  have meet: "set (pub_keys k w) \<inter> set (pub_keys k p0) = {} \<longleftrightarrow> pub_Domain w \<noteq> d" if "w \<in> stored (ps_publishers st)" for w
    using that inv(2) assms(2) by (auto simp: pub_keys_def p0_def GetPublisherKey_def spec_strings_def pubsub_abs_def)
  have same: "set (pub_keys k w) \<inter> set (pub_keys k v) = {} \<or> set (pub_keys k w) = set (pub_keys k v)"
    if "v \<in> set [p0]" "w \<in> stored (ps_publishers st)" for v w
    using that by (auto simp: pub_keys_def)
  have m: "indexed (pub_keys k) ?m" "stored ?m = {w \<in> stored (ps_publishers st). pub_Domain w \<noteq> d}"
    using indexed_dels_meet [where keys = "pub_keys k" and m = "ps_publishers st" and vs = "[p0]", OF _ keys_not_Nil(1) same]
      inv(1) meet by (auto simp: stores_indexed_def)
  have st1: "stores_indexed k st1" "spec_strings U k (pubsub_abs st1)"
    using inv(1,2) m by (auto simp: stores_indexed_def st1_def spec_strings_def pubsub_abs_def)
  have ps: "set ?ps = {p \<in> stored (ps_pintents st). pi_PublisherDomain p = d}"
    using pintents_of_domain [OF st1 assms(2)] by (simp add: st1_def)
  then have "\<forall>p \<in> set ?ps. pi_SubscriptionId p \<in> U \<and> pi_PublisherDomain p \<in> U"
    using inv(2) by (auto simp: spec_strings_def pubsub_abs_def)
  note st2 = DeletePublisherIntent_fold [OF st1 this, folded st2_def]
  have "set (GetDefaultSubscriptions st2) = stored (ps_defaults st2)"
  proof -
    have "indexed (def_keys k) (ps_defaults st2)" using st2 by (simp add: stores_indexed_def)
    from indexed_values [OF this, of GetDefaultSubscriptionPrefix] show ?thesis
      by (simp add: GetDefaultSubscriptions_def IterateDefaultSubscriptions_def def_keys_def GetDefaultSubscriptionKey_def
          GetDefaultSubscriptionPrefix_def iterate_collect [of "\<lambda>x. x"])
  qed
  then have ds: "indexed (def_keys k) (dels (def_keys k) (ps_defaults st2) ?ds)"
    "stored (dels (def_keys k) (ps_defaults st2) ?ds) = stored (ps_defaults st2) - {x \<in> stored (ps_defaults st2). ds_PublisherDomain x = d}"
    using indexed_dels [where keys = "def_keys k" and vs = ?ds and m = "ps_defaults st2", OF _ _ keys_not_Nil(5)] st2 by (auto simp: stores_indexed_def)
  show "stores_indexed k (DeletePublisher k st d)" using st2 ds(1) by (simp add: eq stores_indexed_def)
  have refs: "\<exists>p \<in> stored (ps_pintents st). pi_PublisherDomain p = si_PublisherDomain i \<and> pi_SubscriptionId p = si_SubscriptionId i"
    if "i \<in> stored (ps_sintents st)" for i
    using that inv(3) by (auto simp: spec_refs_def pubsub_abs_def)
  have "pubsub_abs (DeletePublisher k st d) = (pubsub_abs st2)\<lparr>sp_defaults := {x \<in> stored (ps_defaults st2). ds_PublisherDomain x \<noteq> d}\<rparr>"
    using ds(2) by (auto simp: eq pubsub_abs_def)
  also have "stored (ps_defaults st2) = stored (ps_defaults st)"
    using arg_cong [where f = sp_defaults, OF st2 [THEN conjunct2, THEN conjunct2]] by (simp add: pubsub_abs_def st1_def)
  also have "pubsub_abs st2 = (pubsub_abs st1)\<lparr>sp_pintents := {p \<in> stored (ps_pintents st). pi_PublisherDomain p \<noteq> d},
      sp_sintents := {i \<in> stored (ps_sintents st). si_PublisherDomain i \<noteq> d}\<rparr>"
  proof -
    have "{p \<in> sp_pintents (pubsub_abs st1). \<forall>q \<in> set ?ps.
        \<not> (pi_SubscriptionId p = pi_SubscriptionId q \<and> pi_PublisherDomain p = pi_PublisherDomain q)} =
        {p \<in> stored (ps_pintents st). pi_PublisherDomain p \<noteq> d}"
      unfolding ps by (auto simp: pubsub_abs_def st1_def)
    moreover have "{i \<in> sp_sintents (pubsub_abs st1). \<forall>q \<in> set ?ps.
        \<not> (si_SubscriptionId i = pi_SubscriptionId q \<and> si_PublisherDomain i = pi_PublisherDomain q)} =
        {i \<in> stored (ps_sintents st). si_PublisherDomain i \<noteq> d}"
      unfolding ps using refs by (auto simp: pubsub_abs_def st1_def) metis
    ultimately show ?thesis using st2 by simp
  qed
  also have "\<dots>\<lparr>sp_defaults := {x \<in> stored (ps_defaults st). ds_PublisherDomain x \<noteq> d}\<rparr> = spec_delete_publisher d (pubsub_abs st)"
    using m(2) by (simp add: spec_delete_publisher_def pubsub_abs_def st1_def)
  finally show "pubsub_abs (DeletePublisher k st d) = spec_delete_publisher d (pubsub_abs st)" .
qed

lemma sintents_of_address:
  assumes "stores_indexed k st" "spec_strings U k (pubsub_abs st)" "length a = 20"
  shows "set (GetSubscriberIntentsBySubscriberAddress st a) = {i \<in> stored (ps_sintents st). acc_of k (si_SubscriberAddress i) = a}"
proof -
  have "prefix (GetSubscriberIntentsBySubscriberAddressPrefix a) key \<longleftrightarrow>
      key = si_keys k i ! 0 \<and> acc_of k (si_SubscriberAddress i) = a"
    if "i \<in> stored (ps_sintents st)" "key \<in> set (si_keys k i)" for i key
  proof -
    have "length (acc_of k (si_SubscriberAddress i)) = 20"
      using that(1) assms(2) by (intro acc_of_length) (simp add: spec_strings_def pubsub_abs_def)
    moreover from that(2) obtain r where "key = si_keys k i ! 0 \<or> key = 6 # r \<or> key = 7 # r"
      by (auto simp: si_keys_def Let_def GetSubscriberIntentBySubscriptionIDKey_def GetSubscriberIntentByPublisherDomainKey_def)
    ultimately show ?thesis
      using assms(3) by (elim disjE) (simp_all add: si_keys_def Let_def GetSubscriberIntentsBySubscriberAddressPrefix_def
          GetSubscriberIntentBySubscriberAddressKey_def eq_commute [of a])
  qed
  moreover have "si_keys k i ! 0 \<in> set (si_keys k i)" for i by (simp add: si_keys_def Let_def)
  moreover have "set (GetSubscriberIntentsBySubscriberAddress st a) = {i \<in> stored (ps_sintents st).
      \<exists>key \<in> set (si_keys k i). prefix (GetSubscriberIntentsBySubscriberAddressPrefix a) key}"
    using assms(1) indexed_values [of "si_keys k" "ps_sintents st"]
    by (simp add: GetSubscriberIntentsBySubscriberAddress_def getSubscriberIntentsByKeyPrefix_def stores_indexed_def)
  ultimately show ?thesis by blast
qed

lemma DeleteSubscriber_refines:
  assumes "stores_indexed k st" "spec_strings U k (pubsub_abs st)" "length a = 20"
  shows "stores_indexed k (DeleteSubscriber k st a)"
    "pubsub_abs (DeleteSubscriber k st a) = (pubsub_abs st)\<lparr>
      sp_subscribers := {x \<in> sp_subscribers (pubsub_abs st). acc_of k (sub_Address x) \<noteq> a},
      sp_sintents := {i \<in> sp_sintents (pubsub_abs st). acc_of k (si_SubscriberAddress i) \<noteq> a}\<rparr>"
proof -
  let ?m = "kv_del (ps_subscribers st) (GetSubscriberKey a)" and ?is = "GetSubscriberIntentsBySubscriberAddress st a"
  note ints = sintents_of_address [OF assms]
  have "foldl (\<lambda>s i. DeleteSubscriberIntent k s (si_SubscriptionId i) a (si_PublisherDomain i)) s ?is =
      foldl (\<lambda>s i. if True then DeleteSubscriberIntent k s (si_SubscriptionId i) (acc_of k (si_SubscriberAddress i))
        (si_PublisherDomain i) else s) s ?is" for s
    by (rule foldl_cong) (auto simp: ints)
  then have eq: "DeleteSubscriber k st a = st\<lparr>ps_subscribers := ?m, ps_sintents := dels (si_keys k) (ps_sintents st) ?is\<rparr>"
    unfolding delete_sintents by (simp add: DeleteSubscriber_def Let_def GetSubscriberIntentsBySubscriberAddress_def
        getSubscriberIntentsByKeyPrefix_def)
  have m: "indexed (sub_keys k) ?m" "stored ?m = {x \<in> stored (ps_subscribers st). acc_of k (sub_Address x) \<noteq> a}"
    using indexed_del1 [where keys = "sub_keys k", OF _ sub_keys_def [of k], of "ps_subscribers st" "GetSubscriberKey a"] assms(1)
    by (simp_all add: stores_indexed_def GetSubscriberKey_def)
  have sm: "indexed (si_keys k) (dels (si_keys k) (ps_sintents st) ?is)"
    "stored (dels (si_keys k) (ps_sintents st) ?is) = stored (ps_sintents st) - set ?is"
    using indexed_dels [of "si_keys k" "ps_sintents st" ?is] assms(1) by (auto simp: ints stores_indexed_def)
  show "stores_indexed k (DeleteSubscriber k st a)" using assms(1) m(1) sm(1) by (simp add: eq stores_indexed_def)
  show "pubsub_abs (DeleteSubscriber k st a) = (pubsub_abs st)\<lparr>
      sp_subscribers := {x \<in> sp_subscribers (pubsub_abs st). acc_of k (sub_Address x) \<noteq> a},
      sp_sintents := {i \<in> sp_sintents (pubsub_abs st). acc_of k (si_SubscriberAddress i) \<noteq> a}\<rparr>"
    using m(2) sm(2) by (auto simp: eq pubsub_abs_def ints)
qed

text \<open>What the lookups find.\<close>

lemma GetPublisher_Some:
  assumes "stores_indexed k st" "spec_strings U k (pubsub_abs st)" "d \<in> U"
  shows "GetPublisher k st d = Some p \<longleftrightarrow> p \<in> stored (ps_publishers st) \<and> pub_Domain p = d"
  using assms by (auto simp: stores_indexed_def GetPublisher_def indexed_get pub_keys_def GetPublisherKey_def spec_strings_def pubsub_abs_def)

lemma GetPublisherIntent_Some:
  assumes "stores_indexed k st" "spec_strings U k (pubsub_abs st)" "d \<in> U" "sid \<in> U"
  shows "GetPublisherIntent k st sid d = Some p \<longleftrightarrow>
    p \<in> stored (ps_pintents st) \<and> pi_PublisherDomain p = d \<and> pi_SubscriptionId p = sid"
proof -
  have "GetPublisherIntent k st sid d = Some p \<longleftrightarrow> p \<in> stored (ps_pintents st) \<and>
      GetPublisherIntentByPublisherDomainKey (pk_eth k) d sid \<in> set (pi_keys k p)"
    using assms(1) by (simp add: stores_indexed_def GetPublisherIntent_def indexed_get)
  then show ?thesis
    using assms(2-4) by (auto simp: pi_keys_def GetPublisherIntentByPublisherDomainKey_def
        GetPublisherIntentBySubscriptionIDKey_def spec_strings_def pubsub_abs_def)
qed

lemma GetSubscriber_Some:
  assumes "stores_indexed k st"
  shows "GetSubscriber st a = Some x \<longleftrightarrow> x \<in> stored (ps_subscribers st) \<and> acc_of k (sub_Address x) = a"
  using assms by (auto simp: stores_indexed_def GetSubscriber_def indexed_get sub_keys_def GetSubscriberKey_def)

lemma GetSubscriberIntent_Some:
  assumes "stores_indexed k st" "spec_strings U k (pubsub_abs st)" "sid \<in> U" "length a = 20"
  shows "GetSubscriberIntent k st sid a = Some i \<longleftrightarrow>
    i \<in> stored (ps_sintents st) \<and> acc_of k (si_SubscriberAddress i) = a \<and> si_SubscriptionId i = sid"
proof -
  have eq: "GetSubscriberIntent k st sid a = Some i \<longleftrightarrow> i \<in> stored (ps_sintents st) \<and>
      GetSubscriberIntentBySubscriberAddressKey (pk_eth k) a sid \<in> set (si_keys k i)"
    using assms(1) by (simp add: stores_indexed_def GetSubscriberIntent_def indexed_get)
  show ?thesis
  proof (cases "i \<in> stored (ps_sintents st)")
    case True
    then have "length (acc_of k (si_SubscriberAddress i)) = 20" "si_SubscriptionId i \<in> U"
      using assms(2) acc_of_length by (auto simp: spec_strings_def pubsub_abs_def)
    with True show ?thesis
      using assms(3,4) unfolding eq
      by (auto simp: si_keys_def Let_def GetSubscriberIntentBySubscriberAddressKey_def
          GetSubscriberIntentBySubscriptionIDKey_def GetSubscriberIntentByPublisherDomainKey_def)
  qed (simp add: eq)
qed

section \<open>Every step keeps the invariant\<close>

text \<open>Events are not part of the invariant.\<close>

lemma pubsub_inv_events [simp]: "pubsub_inv U k (st\<lparr>ps_events := es\<rparr>) \<longleftrightarrow> pubsub_inv U k st"
  "pubsub_inv U k (pubsub_emit x y z st) \<longleftrightarrow> pubsub_inv U k st"
  by (simp_all add: pubsub_inv_def stores_indexed_def pubsub_abs_def pubsub_emit_def)

lemma inv_SetPublisher:
  assumes "pubsub_inv U k st" "pub_Domain p \<in> U" "GetPublisher k st (pub_Domain p) = None"
  shows "pubsub_inv U k (SetPublisher k st p)"
proof -
  have m: "indexed (pub_keys k) (puts (pub_keys k) (ps_publishers st) p)"
    "stored (puts (pub_keys k) (ps_publishers st) p) = insert p {q \<in> stored (ps_publishers st).
      GetPublisherKey (pk_eth k) (pub_Domain q) \<noteq> GetPublisherKey (pk_eth k) (pub_Domain p)}"
    using indexed_put1 [where keys = "pub_keys k", OF _ pub_keys_def [of k], of "ps_publishers st" p] assms(1) by (simp_all add: pubsub_inv_def stores_indexed_def)
  have "GetPublisherKey (pk_eth k) (pub_Domain q) \<noteq> GetPublisherKey (pk_eth k) (pub_Domain p)"
    if "q \<in> stored (ps_publishers st)" for q
    using that assms GetPublisher_Some [of st "pub_Domain p" q]
    by (auto simp: GetPublisherKey_def pubsub_inv_def spec_strings_def pubsub_abs_def)
  then have "stored (puts (pub_keys k) (ps_publishers st) p) = insert p (stored (ps_publishers st))" using m(2) by auto
  then show ?thesis
    using assms(1,2) m(1) by (auto simp: setters_puts pubsub_inv_def stores_indexed_def spec_strings_def spec_refs_def pubsub_abs_def)
qed

lemma inv_SetSubscriber:
  assumes "pubsub_inv U k st" "AccAddressFromBech32 (pk_sdk k) (sub_Address x) \<noteq> None"
  shows "pubsub_inv U k (SetSubscriber st (acc_of k (sub_Address x)) x)"
proof -
  have m: "indexed (sub_keys k) (puts (sub_keys k) (ps_subscribers st) x)"
    "stored (puts (sub_keys k) (ps_subscribers st) x) =
      insert x {y \<in> stored (ps_subscribers st). acc_of k (sub_Address y) \<noteq> acc_of k (sub_Address x)}"
    using indexed_put1 [where keys = "sub_keys k", OF _ sub_keys_def [of k], of "ps_subscribers st" x] assms(1)
    by (simp_all add: pubsub_inv_def stores_indexed_def GetSubscriberKey_def)
  have "spec_refs k (pubsub_abs (st\<lparr>ps_subscribers := puts (sub_keys k) (ps_subscribers st) x\<rparr>))"
  proof -
    have "\<exists>y \<in> stored (puts (sub_keys k) (ps_subscribers st) x). acc_of k (sub_Address y) = a"
      if "\<exists>y \<in> stored (ps_subscribers st). acc_of k (sub_Address y) = a" for a
      using that unfolding m(2) by (cases "a = acc_of k (sub_Address x)") auto
    then show ?thesis using assms(1) by (auto simp: pubsub_inv_def spec_refs_def pubsub_abs_def)
  qed
  then show ?thesis
    using assms m by (auto simp: setters_puts pubsub_inv_def stores_indexed_def spec_strings_def pubsub_abs_def)
qed

lemma inv_SetDefaultSubscription:
  assumes "pubsub_inv U k st" "ds_SubscriptionId d \<in> U" "ds_PublisherDomain d \<in> U"
  shows "pubsub_inv U k (SetDefaultSubscription k st d)"
proof -
  have "indexed (def_keys k) (puts (def_keys k) (ps_defaults st) d)"
    "stored (puts (def_keys k) (ps_defaults st) d) = insert d {e \<in> stored (ps_defaults st).
      GetDefaultSubscriptionKey (pk_eth k) (ds_SubscriptionId e) \<noteq> GetDefaultSubscriptionKey (pk_eth k) (ds_SubscriptionId d)}"
    using indexed_put1 [where keys = "def_keys k", OF _ def_keys_def [of k], of "ps_defaults st" d] assms(1) by (simp_all add: pubsub_inv_def stores_indexed_def)
  then show ?thesis
    using assms by (auto simp: setters_puts pubsub_inv_def stores_indexed_def spec_strings_def spec_refs_def pubsub_abs_def)
qed

lemma inv_DeleteDefaultSubscription:
  assumes "pubsub_inv U k st"
  shows "pubsub_inv U k (DeleteDefaultSubscription k st sid)"
proof -
  let ?m = "kv_del (ps_defaults st) (GetDefaultSubscriptionKey (pk_eth k) sid)"
  have "indexed (def_keys k) ?m" "stored ?m \<subseteq> stored (ps_defaults st)"
    using indexed_del1 [where keys = "def_keys k", OF _ def_keys_def [of k], of "ps_defaults st" "GetDefaultSubscriptionKey (pk_eth k) sid"] assms
    by (auto simp: pubsub_inv_def stores_indexed_def)
  then show ?thesis
    using assms by (auto simp: DeleteDefaultSubscription_def pubsub_inv_def stores_indexed_def spec_strings_def spec_refs_def
        pubsub_abs_def)
qed

lemma inv_SetPublisherIntent:
  assumes "pubsub_inv U k st" "pi_PublisherDomain p \<in> U" "pi_SubscriptionId p \<in> U"
    and "GetPublisher k st (pi_PublisherDomain p) \<noteq> None" "GetPublisherIntent k st (pi_SubscriptionId p) (pi_PublisherDomain p) = None"
  shows "pubsub_inv U k (SetPublisherIntent k st p)"
proof -
  have inv: "stores_indexed k st" "spec_strings U k (pubsub_abs st)" using assms(1) by (simp_all add: pubsub_inv_def)
  have "set (pi_keys k q) \<inter> set (pi_keys k p) = {}" if "q \<in> stored (ps_pintents st)" for q
    using that pi_keys_meet [of q p] GetPublisherIntent_Some [OF inv assms(2,3), of q] assms(2,3,5) inv(2)
    by (auto simp: spec_strings_def pubsub_abs_def)
  then have "indexed (pi_keys k) (puts (pi_keys k) (ps_pintents st) p)"
    "stored (puts (pi_keys k) (ps_pintents st) p) = insert p (stored (ps_pintents st))"
    using indexed_put_fresh [of "pi_keys k" "ps_pintents st" p] inv(1) by (simp_all add: stores_indexed_def)
  moreover obtain q where "q \<in> stored (ps_publishers st)" "pub_Domain q = pi_PublisherDomain p"
    using assms(4) GetPublisher_Some [OF inv assms(2)] by blast
  ultimately show ?thesis
    using assms(1-3) by (auto simp: setters_puts pubsub_inv_def stores_indexed_def spec_strings_def spec_refs_def pubsub_abs_def)
qed

lemma inv_SetSubscriberIntent:
  assumes "pubsub_inv U k st" "si_PublisherDomain i \<in> U" "si_SubscriptionId i \<in> U"
    and "AccAddressFromBech32 (pk_sdk k) (si_SubscriberAddress i) \<noteq> None"
    and "GetSubscriber st (acc_of k (si_SubscriberAddress i)) \<noteq> None"
    and "GetPublisherIntent k st (si_SubscriptionId i) (si_PublisherDomain i) \<noteq> None"
    and "GetSubscriberIntent k st (si_SubscriptionId i) (acc_of k (si_SubscriberAddress i)) = None"
  shows "pubsub_inv U k (SetSubscriberIntent k st (acc_of k (si_SubscriberAddress i)) i)"
proof -
  have inv: "stores_indexed k st" "spec_strings U k (pubsub_abs st)" using assms(1) by (simp_all add: pubsub_inv_def)
  have "set (si_keys k j) \<inter> set (si_keys k i) = {}" if "j \<in> stored (ps_sintents st)" for j
    using that si_keys_meet [of j i] GetSubscriberIntent_Some [OF inv assms(3) acc_of_length [OF assms(4)], of j] assms(2-4,7) inv(2)
    by (auto simp: spec_strings_def pubsub_abs_def)
  then have "indexed (si_keys k) (puts (si_keys k) (ps_sintents st) i)"
    "stored (puts (si_keys k) (ps_sintents st) i) = insert i (stored (ps_sintents st))"
    using indexed_put_fresh [of "si_keys k" "ps_sintents st" i] inv(1) by (simp_all add: stores_indexed_def)
  moreover obtain p where "p \<in> stored (ps_pintents st)" "pi_PublisherDomain p = si_PublisherDomain i"
    "pi_SubscriptionId p = si_SubscriptionId i"
    using assms(6) GetPublisherIntent_Some [OF inv assms(2,3)] by blast
  moreover obtain x where "x \<in> stored (ps_subscribers st)" "acc_of k (sub_Address x) = acc_of k (si_SubscriberAddress i)"
    using assms(5) GetSubscriber_Some [OF inv(1)] by blast
  ultimately show ?thesis
    using assms(1-4) by (auto simp: setters_puts pubsub_inv_def stores_indexed_def spec_strings_def spec_refs_def pubsub_abs_def)
qed

lemma inv_DeletePublisherIntent:
  assumes "pubsub_inv U k st" "sid \<in> U" "d \<in> U"
  shows "pubsub_inv U k (DeletePublisherIntent k st sid d)"
proof -
  have inv: "stores_indexed k st" "spec_strings U k (pubsub_abs st)" "spec_refs k (pubsub_abs st)"
    using assms(1) by (simp_all add: pubsub_inv_def)
  note ref = DeletePublisherIntent_refines [OF inv(1,2) assms(2,3)]
  have "spec_refs k (spec_delete_pintent sid d (pubsub_abs st))"
    using inv(3) by (auto simp: spec_refs_def spec_delete_pintent_def) metis+
  then show ?thesis using ref spec_strings_delete [OF inv(2)] by (simp add: pubsub_inv_def)
qed

lemma inv_DeletePublisher:
  assumes "pubsub_inv U k st" "d \<in> U"
  shows "pubsub_inv U k (DeletePublisher k st d)"
  using DeletePublisher_refines [OF assms] assms(1)
  by (auto simp: pubsub_inv_def spec_delete_publisher_def spec_strings_def spec_refs_def) metis+

lemma inv_DeleteSubscriber:
  assumes "pubsub_inv U k st" "length a = 20"
  shows "pubsub_inv U k (DeleteSubscriber k st a)"
proof -
  have inv: "stores_indexed k st" "spec_strings U k (pubsub_abs st)" "spec_refs k (pubsub_abs st)"
    using assms(1) by (simp_all add: pubsub_inv_def)
  show ?thesis
    using DeleteSubscriber_refines [OF inv(1,2) assms(2)] inv(2,3)
    by (auto simp: pubsub_inv_def spec_strings_def spec_refs_def) metis
qed

lemma inv_DeleteSubscriberIntent:
  assumes "pubsub_inv U k st" "sid \<in> U" "length a = 20" "GetSubscriberIntent k st sid a = Some i"
  shows "pubsub_inv U k (DeleteSubscriberIntent k st sid a (si_PublisherDomain i))"
proof -
  have inv: "stores_indexed k st" "spec_strings U k (pubsub_abs st)" "spec_refs k (pubsub_abs st)"
    using assms(1) by (simp_all add: pubsub_inv_def)
  have i: "i \<in> stored (ps_sintents st)" "acc_of k (si_SubscriberAddress i) = a" "si_SubscriptionId i = sid"
    using assms(4) GetSubscriberIntent_Some [OF inv(1,2) assms(2,3)] by auto
  then have eq: "DeleteSubscriberIntent k st sid a (si_PublisherDomain i) =
      st\<lparr>ps_sintents := dels (si_keys k) (ps_sintents st) [i]\<rparr>"
    using DeleteSubscriberIntent_dels [of k st i] by simp
  have "indexed (si_keys k) (dels (si_keys k) (ps_sintents st) [i])"
    "stored (dels (si_keys k) (ps_sintents st) [i]) = stored (ps_sintents st) - {i}"
    using indexed_dels [of "si_keys k" "ps_sintents st" "[i]"] inv(1) i(1) by (simp_all add: stores_indexed_def)
  then show ?thesis
    using inv by (auto simp: eq pubsub_inv_def stores_indexed_def spec_strings_def spec_refs_def pubsub_abs_def)
qed

lemma acc_of_Some: "AccAddressFromBech32 (pk_sdk k) s = Some a \<Longrightarrow> acc_of k s = a"
  by (simp add: acc_of_def)

lemma inv_add_subscriber:
  "pubsub_inv U k st \<Longrightarrow> AccAddressFromBech32 (pk_sdk k) (sub_Address x) = Some a \<Longrightarrow> pubsub_inv U k (SetSubscriber st a x)"
  using inv_SetSubscriber [of st x] by (simp add: acc_of_Some)

lemma inv_add_sintent:
  "pubsub_inv U k st \<Longrightarrow> AccAddressFromBech32 (pk_sdk k) (si_SubscriberAddress i) = Some a \<Longrightarrow>
    si_PublisherDomain i \<in> U \<Longrightarrow> si_SubscriptionId i \<in> U \<Longrightarrow> GetSubscriber st a \<noteq> None \<Longrightarrow>
    GetPublisherIntent k st (si_SubscriptionId i) (si_PublisherDomain i) \<noteq> None \<Longrightarrow>
    GetSubscriberIntent k st (si_SubscriptionId i) a = None \<Longrightarrow> pubsub_inv U k (SetSubscriberIntent k st a i)"
  using inv_SetSubscriberIntent [of st i] by (simp add: acc_of_Some)

lemma valid_address: "ValidateAddress (pk_sdk k) s = Ok u \<Longrightarrow> AccAddressFromBech32 (pk_sdk k) s \<noteq> None"
  by (auto simp: ValidateAddress_def split: if_splits)

lemma pubsub_inv_msg:
  assumes "pubsub_inv U k st" "msg_strings m \<subseteq> U" "pubsub_NewHandler k st m = Ok st'"
  shows "pubsub_inv U k st'"
proof -
  define st0 where "st0 = st\<lparr>ps_events := []\<rparr>"
  have inv: "pubsub_inv U k st0" using assms(1) by (simp add: st0_def)
  show ?thesis
  proof (cases m)
    case (MsgRemovePublisher x)
    with assms(2,3) inv show ?thesis
      by (auto simp: RemovePublisher_def simp flip: st0_def split: option.splits if_splits intro: inv_DeletePublisher)
  next
    case (MsgAddSubscriber x)
    with assms(3) inv show ?thesis
      by (auto simp: AddSubscriber_def Subscriber_ValidateBasic_def Let_def simp flip: st0_def
          split: option.splits if_splits dest!: valid_address intro!: inv_add_subscriber)
  next
    case (MsgRemoveSubscriber x)
    with assms(3) inv show ?thesis
      by (auto simp: RemoveSubscriber_def Let_def simp flip: st0_def
          split: option.splits if_splits dest!: valid_address intro!: inv_DeleteSubscriber address_bytes)
  next
    case (MsgAddPublisherIntent x)
    with assms(2,3) inv show ?thesis
      by (auto simp: AddPublisherIntent_def simp flip: st0_def split: option.splits if_splits intro!: inv_SetPublisherIntent)
  next
    case (MsgRemovePublisherIntent x)
    with assms(2,3) inv show ?thesis
      by (auto simp: RemovePublisherIntent_def simp flip: st0_def split: option.splits if_splits intro!: inv_DeletePublisherIntent)
  next
    case (MsgAddSubscriberIntent x)
    with assms(2,3) inv show ?thesis
      by (auto simp: AddSubscriberIntent_def SubscriberIntent_ValidateBasic_def Let_def simp flip: st0_def
          split: option.splits if_splits dest!: valid_address intro!: inv_add_sintent)
  next
    case (MsgRemoveSubscriberIntent x)
    with assms(2,3) inv show ?thesis
      by (auto simp: RemoveSubscriberIntent_def Let_def simp flip: st0_def
          split: option.splits if_splits dest!: valid_address intro!: inv_DeleteSubscriberIntent address_bytes)
  qed (use assms(3) in simp)
qed

lemma pubsub_inv_proposal:
  assumes "pubsub_inv U k st" "content_strings c \<subseteq> U" "NewPubsubProposalHandler k st c = Ok st'"
  shows "pubsub_inv U k st'"
  using assms
  by (cases c) (auto simp: HandleAddPublisherProposal_def HandleRemovePublisherProposal_def proposed_publisher_def
      HandleAddDefaultSubscriptionProposal_def HandleRemoveDefaultSubscriptionProposal_def split: if_splits
      intro!: inv_SetPublisher inv_DeletePublisher inv_SetDefaultSubscription inv_DeleteDefaultSubscription)

lemma pubsub_reachable_inv: "pubsub_reachable U k st \<Longrightarrow> pubsub_inv U k st"
proof (induction rule: pubsub_reachable.induct)
  case (empty st)
  then show ?case by (simp add: pubsub_inv_def stores_indexed_def spec_strings_def spec_refs_def pubsub_abs_def)
qed (blast intro: pubsub_inv_msg pubsub_inv_proposal)+

section \<open>Genesis\<close>

lemma refill_all:
  assumes "indexed keys m" "set vs = stored m" "\<And>w. keys w \<noteq> []"
  shows "foldl (puts keys) kv_empty vs = m"
  using indexed_refill [of keys m vs] assms by (intro indexed_ext [of keys]) auto

lemma exported:
  assumes "stores_indexed k st"
  shows "set (GetPublishers st) = stored (ps_publishers st)" "set (GetSubscribers st) = stored (ps_subscribers st)"
    "set (GetPublisherIntents st) = stored (ps_pintents st)" "set (GetSubscriberIntents st) = stored (ps_sintents st)"
    "set (GetDefaultSubscriptions st) = stored (ps_defaults st)"
proof -
  have ix: "indexed (pub_keys k) (ps_publishers st)" "indexed (sub_keys k) (ps_subscribers st)" "indexed (pi_keys k) (ps_pintents st)"
    "indexed (si_keys k) (ps_sintents st)" "indexed (def_keys k) (ps_defaults st)"
    using assms by (simp_all add: stores_indexed_def)
  note collect = iterate_collect [of "\<lambda>x. x"] iterate_collect [of snd]
  show "set (GetPublishers st) = stored (ps_publishers st)"
    using indexed_values [OF ix(1), of GetPublishersPrefix] unfolding GetPublishers_def IteratePublishers_def collect
    by (simp add: pub_keys_def GetPublisherKey_def GetPublishersPrefix_def)
  show "set (GetSubscribers st) = stored (ps_subscribers st)"
    using indexed_values [OF ix(2), of GetSubscribersPrefix] unfolding GetSubscribers_def IterateSubscribers_def collect
    by (simp add: sub_keys_def GetSubscriberKey_def GetSubscribersPrefix_def image_image case_prod_unfold)
  show "set (GetPublisherIntents st) = stored (ps_pintents st)"
    using indexed_values [OF ix(3), of GetPublisherIntentsPrefix]
    unfolding GetPublisherIntents_def getPublisherIntentsByKeyPrefix_def collect
    by (simp add: pi_keys_def GetPublisherIntentByPublisherDomainKey_def GetPublisherIntentsPrefix_def)
  show "set (GetSubscriberIntents st) = stored (ps_sintents st)"
    using indexed_values [OF ix(4), of GetSubscriberIntentsPrefix]
    unfolding GetSubscriberIntents_def getSubscriberIntentsByKeyPrefix_def collect
    by (simp add: si_keys_def Let_def GetSubscriberIntentBySubscriberAddressKey_def GetSubscriberIntentsPrefix_def)
  show "set (GetDefaultSubscriptions st) = stored (ps_defaults st)"
    using indexed_values [OF ix(5), of GetDefaultSubscriptionPrefix]
    unfolding GetDefaultSubscriptions_def IterateDefaultSubscriptions_def collect
    by (simp add: def_keys_def GetDefaultSubscriptionKey_def GetDefaultSubscriptionPrefix_def)
qed

lemma import_folds:
  "foldl (SetPublisher k) s ps = s\<lparr>ps_publishers := foldl (puts (pub_keys k)) (ps_publishers s) ps\<rparr>"
  "foldl (SetPublisherIntent k) s qs = s\<lparr>ps_pintents := foldl (puts (pi_keys k)) (ps_pintents s) qs\<rparr>"
  "foldl (SetDefaultSubscription k) s ds = s\<lparr>ps_defaults := foldl (puts (def_keys k)) (ps_defaults s) ds\<rparr>"
proof -
  show "foldl (SetPublisher k) s ps = s\<lparr>ps_publishers := foldl (puts (pub_keys k)) (ps_publishers s) ps\<rparr>"
    by (induction ps arbitrary: s) (simp_all add: setters_puts)
  show "foldl (SetPublisherIntent k) s qs = s\<lparr>ps_pintents := foldl (puts (pi_keys k)) (ps_pintents s) qs\<rparr>"
    by (induction qs arbitrary: s) (simp_all add: setters_puts)
  show "foldl (SetDefaultSubscription k) s ds = s\<lparr>ps_defaults := foldl (puts (def_keys k)) (ps_defaults s) ds\<rparr>"
    by (induction ds arbitrary: s) (simp_all add: setters_puts)
qed

lemma import_subscribers:
  "\<forall>x \<in> set xs. AccAddressFromBech32 (pk_sdk k) (sub_Address x) \<noteq> None \<Longrightarrow>
    fold_res (\<lambda>x st. case AccAddressFromBech32 (pk_sdk k) (sub_Address x) of
      None \<Rightarrow> Panic ''invalid subscriber address in genesis state'' | Some a \<Rightarrow> Ok (SetSubscriber st a x)) xs st =
    Ok (st\<lparr>ps_subscribers := foldl (puts (sub_keys k)) (ps_subscribers st) xs\<rparr>)"
proof (induction xs arbitrary: st)
  case (Cons x xs)
  then obtain a where "AccAddressFromBech32 (pk_sdk k) (sub_Address x) = Some a" by auto
  with Cons setters_puts(2) [of st k x] show ?case by (simp add: acc_of_Some)
qed simp

lemma import_sintents:
  "\<forall>i \<in> set xs. AccAddressFromBech32 (pk_sdk k) (si_SubscriberAddress i) \<noteq> None \<Longrightarrow>
    fold_res (\<lambda>i st. case AccAddressFromBech32 (pk_sdk k) (si_SubscriberAddress i) of
      None \<Rightarrow> Panic ''invalid subscriber address in genesis state'' | Some a \<Rightarrow> Ok (SetSubscriberIntent k st a i)) xs st =
    Ok (st\<lparr>ps_sintents := foldl (puts (si_keys k)) (ps_sintents st) xs\<rparr>)"
proof (induction xs arbitrary: st)
  case (Cons i xs)
  then obtain a where "AccAddressFromBech32 (pk_sdk k) (si_SubscriberAddress i) = Some a" by auto
  with Cons setters_puts(4) [of k st i] show ?case by (simp add: acc_of_Some)
qed simp

lemma genesis_restores:
  assumes "pubsub_inv U k st" "ps_publishers s0 = kv_empty" "ps_subscribers s0 = kv_empty" "ps_pintents s0 = kv_empty"
    "ps_sintents s0 = kv_empty" "ps_defaults s0 = kv_empty"
  shows "pubsub_InitGenesis k s0 (pubsub_ExportGenesis st) = Ok (st\<lparr>ps_events := ps_events s0\<rparr>)"
proof -
  have inv: "stores_indexed k st" "spec_strings U k (pubsub_abs st)" using assms(1) by (simp_all add: pubsub_inv_def)
  note e = exported [OF inv(1)]
  have parse: "\<forall>x \<in> set (GetSubscribers st). AccAddressFromBech32 (pk_sdk k) (sub_Address x) \<noteq> None"
    "\<forall>i \<in> set (GetSubscriberIntents st). AccAddressFromBech32 (pk_sdk k) (si_SubscriberAddress i) \<noteq> None"
    using inv(2) by (auto simp: e spec_strings_def pubsub_abs_def)
  have "foldl (puts (pub_keys k)) kv_empty (GetPublishers st) = ps_publishers st"
    "foldl (puts (sub_keys k)) kv_empty (GetSubscribers st) = ps_subscribers st"
    "foldl (puts (pi_keys k)) kv_empty (GetPublisherIntents st) = ps_pintents st"
    "foldl (puts (si_keys k)) kv_empty (GetSubscriberIntents st) = ps_sintents st"
    "foldl (puts (def_keys k)) kv_empty (GetDefaultSubscriptions st) = ps_defaults st"
    using inv(1) e by (simp_all add: refill_all stores_indexed_def)
  then show ?thesis
    by (simp add: pubsub_InitGenesis_def pubsub_ExportGenesis_def import_folds import_subscribers [OF parse(1)]
        import_sintents [OF parse(2)] Let_def assms(2-6))
qed

lemma sintent_refs:
  assumes "pubsub_inv U k st" "sid \<in> U" "length a = 20" "GetSubscriberIntent k st sid a = Some i"
  shows "GetPublisherIntent k st sid (si_PublisherDomain i) \<noteq> None" "GetPublisher k st (si_PublisherDomain i) \<noteq> None"
    "GetSubscriber st a \<noteq> None"
proof -
  have inv: "stores_indexed k st" "spec_strings U k (pubsub_abs st)" "spec_refs k (pubsub_abs st)"
    using assms(1) by (simp_all add: pubsub_inv_def)
  have i: "i \<in> stored (ps_sintents st)" "acc_of k (si_SubscriberAddress i) = a" "si_SubscriptionId i = sid"
    using assms(4) GetSubscriberIntent_Some [OF inv(1,2) assms(2,3)] by auto
  then obtain p x where p: "p \<in> stored (ps_pintents st)" "pi_PublisherDomain p = si_PublisherDomain i" "pi_SubscriptionId p = sid"
    and x: "x \<in> stored (ps_subscribers st)" "acc_of k (sub_Address x) = a"
    using inv(3) by (fastforce simp: spec_refs_def pubsub_abs_def)
  then obtain q where q: "q \<in> stored (ps_publishers st)" "pub_Domain q = si_PublisherDomain i"
    using inv(3) by (fastforce simp: spec_refs_def pubsub_abs_def)
  have d: "si_PublisherDomain i \<in> U" using inv(2) i(1) by (simp add: spec_strings_def pubsub_abs_def)
  show "GetPublisherIntent k st sid (si_PublisherDomain i) \<noteq> None"
    using GetPublisherIntent_Some [OF inv(1,2) d assms(2), of p] p by simp
  show "GetPublisher k st (si_PublisherDomain i) \<noteq> None" using GetPublisher_Some [OF inv(1,2) d, of q] q by simp
  show "GetSubscriber st a \<noteq> None" using GetSubscriber_Some [OF inv(1), of a x] x by simp
qed

end

end
