(* ===== verification/Pubsub_Properties.thy ===== *)
theory Pubsub_Properties
  imports Pubsub_Safety
begin

text \<open>
  The properties of the pubsub module. The concrete instance has two strings in use and accepts
  account addresses of 20 characters.
\<close>

section \<open>Concrete instances\<close>


definition ex_registry :: pubsub_keeper where
  "ex_registry = \<lparr>pk_sdk = ref_sdk\<lparr>AccAddressFromBech32 := (\<lambda>s. if take 5 s = ''somm1'' \<and> length s = 25
       then Some (string_bytes (drop 5 s)) else None)\<rparr>, pk_eth = ref_eth,
     pk_web = \<lparr>url_Parse = (\<lambda>_. True), pem_Decode = (\<lambda>b. (Some \<lparr>pem_Type = ''CERTIFICATE'', pem_Bytes = b\<rparr>, [])),
       x509_ParseCertificate = (\<lambda>_. Some \<lparr>cert_IsCA = True, cert_IsECDSA = True\<rparr>), json_Valid = (\<lambda>_. True)\<rparr>,
     pk_GetOrchestratorValidatorAddress = (\<lambda>_. None), pk_Validator = (\<lambda>_. True)\<rparr>"

definition ex_registry_empty :: pubsub_state where
  "ex_registry_empty = \<lparr>ps_publishers = kv_empty, ps_subscribers = kv_empty, ps_pintents = kv_empty, ps_sintents = kv_empty,
     ps_defaults = kv_empty, ps_events = []\<rparr>"

definition ex_publisher_proposal :: add_publisher_proposal where
  "ex_publisher_proposal = \<lparr>app_Title = ''t'', app_Description = ''d'', app_Domain = ''example.com'',
     app_Address = ''somm1publisherpublisher1'', app_ProofUrl = ''https://example.com'', app_CaCert = ''cert''\<rparr>"

definition ex_registered :: pubsub_state where
  "ex_registered = SetPublisher ex_registry ex_registry_empty (proposed_publisher ex_publisher_proposal)"

lemma ex_registry_eth [simp]: "pk_eth ex_registry = ref_eth"
  by (simp add: ex_registry_def)




section \<open>Integrity\<close>







section \<open>Authorization\<close>

text \<open>
  C32. Who may subscribe: an accepted message to add a subscriber intent is signed by the subscriber
  itself, who is registered, has not subscribed to that id before, and for a pushed subscription has
  a push URL; the publisher intent exists and admits the signer (any account, a validator or its
  orchestrator, or a listed address). The intent is then found under its id and address.
\<close>

theorem AddSubscriberIntent_authorized:
  assumes "AddSubscriberIntent k st msg = Ok st'"
  shows "\<exists>i signer sub p a. masi_SubscriberIntent msg = Some i \<and> MustGetSigner (pk_sdk k) (masi_Signer msg) = Ok signer \<and>
    AccAddress_String (pk_sdk k) signer = si_SubscriberAddress i \<and>
    AccAddressFromBech32 (pk_sdk k) (si_SubscriberAddress i) = Some a \<and> GetSubscriber st a = Some sub \<and>
    GetSubscriberIntent k st (si_SubscriptionId i) a = None \<and>
    GetPublisherIntent k st (si_SubscriptionId i) (si_PublisherDomain i) = Some p \<and>
    (pi_Method p = PublishMethod_PUSH \<longrightarrow> sub_PushUrl sub \<noteq> []) \<and>
    (pi_AllowedSubscribers p = AllowedSubscribers_VALIDATORS \<longrightarrow>
      (case pk_GetOrchestratorValidatorAddress k signer of None \<Rightarrow> pk_Validator k signer | Some v \<Rightarrow> pk_Validator k v)) \<and>
    (pi_AllowedSubscribers p = AllowedSubscribers_LIST \<longrightarrow> si_SubscriberAddress i \<in> set (pi_AllowedAddresses p)) \<and>
    GetSubscriberIntent k st' (si_SubscriptionId i) a = Some i"
proof -
  obtain i signer where i: "masi_SubscriberIntent msg = Some i" "MustGetSigner (pk_sdk k) (masi_Signer msg) = Ok signer"
    "AccAddress_String (pk_sdk k) signer = si_SubscriberAddress i"
    "SubscriberIntent_ValidateBasic (pk_sdk k) (pk_web k) i = Ok ()"
    using assms by (auto simp: AddSubscriberIntent_def split: option.splits if_splits)
  then obtain a where a: "AccAddressFromBech32 (pk_sdk k) (si_SubscriberAddress i) = Some a"
    by (auto simp: SubscriberIntent_ValidateBasic_def ValidateAddress_def split: if_splits)
  with i assms obtain sub p where p: "GetSubscriber st a = Some sub" "GetSubscriberIntent k st (si_SubscriptionId i) a = None"
    "GetPublisherIntent k st (si_SubscriptionId i) (si_PublisherDomain i) = Some p"
    "\<not> (pi_Method p = PublishMethod_PUSH \<and> sub_PushUrl sub = [])" "subscriber_allowed k p signer = Ok ()"
    "st' = pubsub_emit ''add_subscriber_intent'' (masi_Signer msg) [(''subscription_id'', AttrS (si_SubscriptionId i)),
       (''subscriber_address'', AttrS (si_SubscriberAddress i)), (''publisher_domain'', AttrS (si_PublisherDomain i))]
       (SetSubscriberIntent k st a i)"
    by (auto simp: AddSubscriberIntent_def split: option.splits if_splits)
  then have "GetSubscriberIntent k st' (si_SubscriptionId i) a = Some i"
    by (auto simp: pubsub_emit_def GetSubscriberIntent_def SetSubscriberIntent_def Let_def)
  moreover have "pi_AllowedSubscribers p = AllowedSubscribers_VALIDATORS \<longrightarrow>
      (case pk_GetOrchestratorValidatorAddress k signer of None \<Rightarrow> pk_Validator k signer | Some v \<Rightarrow> pk_Validator k v)"
    "pi_AllowedSubscribers p = AllowedSubscribers_LIST \<longrightarrow> si_SubscriberAddress i \<in> set (pi_AllowedAddresses p)"
    using p(5) i(3) by (auto simp: subscriber_allowed_def list_ex_iff split: if_splits)
  ultimately show ?thesis using i a p by blast
qed

definition ex_subscriber :: string where "ex_subscriber = ''somm1aaaaaaaaaaaaaaaaaaaa''"

definition ex_intent :: subscriber_intent where
  "ex_intent = \<lparr>si_SubscriptionId = ''1:0xcellar'', si_SubscriberAddress = ex_subscriber, si_PublisherDomain = ''example.com''\<rparr>"

definition ex_open_intent :: publisher_intent where
  "ex_open_intent = \<lparr>pi_SubscriptionId = ''1:0xcellar'', pi_PublisherDomain = ''example.com'', pi_Method = PublishMethod_PULL,
     pi_PullUrl = ''https://example.com'', pi_AllowedSubscribers = AllowedSubscribers_LIST, pi_AllowedAddresses = [ex_subscriber]\<rparr>"

definition ex_subscribable :: pubsub_state where
  "ex_subscribable = SetPublisherIntent ex_registry (SetSubscriber ex_registered (string_bytes (drop 5 ex_subscriber))
     \<lparr>sub_Address = ex_subscriber, sub_CaCert = [], sub_PushUrl = []\<rparr>) ex_open_intent"

definition ex_add_intent :: msg_add_subscriber_intent where
  "ex_add_intent = \<lparr>masi_SubscriberIntent = Some ex_intent, masi_Signer = ex_subscriber\<rparr>"

lemma chars_string_bytes: "map (\<lambda>b. char_of (unat b)) (string_bytes s) = s"
proof -
  have "char_of (unat (word_of_nat (of_char c) :: byte)) = c" for c :: char
    by (simp add: unat_of_nat)
  then show ?thesis by (simp add: string_bytes_def comp_def)
qed

lemma ex_subscriber_parses: "AccAddressFromBech32 (pk_sdk ex_registry) ex_subscriber = Some (string_bytes (drop 5 ex_subscriber))"
  "AccAddress_String (pk_sdk ex_registry) (string_bytes (drop 5 ex_subscriber)) = ex_subscriber"
  by (simp add: ex_registry_def ex_subscriber_def) (simp add: ex_registry_def ref_sdk_def chars_string_bytes, simp add: ex_subscriber_def)

lemma ex_add_intent_Ok: "is_ok (AddSubscriberIntent ex_registry ex_subscribable ex_add_intent)"
proof -
  have "SubscriberIntent_ValidateBasic (pk_sdk ex_registry) (pk_web ex_registry) ex_intent = Ok ()"
    by (simp add: SubscriberIntent_ValidateBasic_def ValidateAddress_def ex_intent_def ex_subscriber_parses)
      (simp add: ValidateSubscriptionID_def ValidateDomain_def MaxSubscriptionIDLength_def MaxDomainLength_def ex_registry_def ex_subscriber_def)
  moreover have "GetSubscriber ex_subscribable (string_bytes (drop 5 ex_subscriber)) =
      Some \<lparr>sub_Address = ex_subscriber, sub_CaCert = [], sub_PushUrl = []\<rparr>"
    "GetPublisherIntent ex_registry ex_subscribable ''1:0xcellar'' ''example.com'' = Some ex_open_intent"
    "GetSubscriberIntent ex_registry ex_subscribable ''1:0xcellar'' a = None" for a
    by (simp_all add: GetSubscriber_def GetPublisherIntent_def GetSubscriberIntent_def ex_subscribable_def SetPublisherIntent_def
        SetSubscriber_def Let_def ex_open_intent_def ex_registered_def SetPublisher_def ex_registry_empty_def)
  ultimately show ?thesis
    by (simp add: AddSubscriberIntent_def ex_add_intent_def MustGetSigner_def ex_subscriber_parses)
      (simp add: ex_intent_def ex_subscriber_parses subscriber_allowed_def ex_open_intent_def)
qed

theorem AddSubscriberIntent_authorized_witness:
  "\<exists>a. GetSubscriberIntent ex_registry (ok_val (AddSubscriberIntent ex_registry ex_subscribable ex_add_intent)) ''1:0xcellar'' a =
    Some ex_intent"
  using AddSubscriberIntent_authorized [OF is_ok_val [OF ex_add_intent_Ok]]
  by (auto simp: ex_add_intent_def) (auto simp: ex_intent_def)

end
