(* ===== verification/Cork_Types.thy ===== *)
theory Cork_Types
  imports Pubsub_Types
begin

text \<open>
  The data of the cork module (\<^verbatim>\<open>x/cork/types\<close>): contract calls (corks) that validators schedule for a
  block, the results of the votes, the managed cellars, messages, proposals, parameters, genesis and
  keys. Hashing and hexadecimal addresses come from go-ethereum (the record \<open>eth\<close>).
\<close>

section \<open>Errors\<close>

abbreviation ErrInvalidEthereumAddress :: error where "ErrInvalidEthereumAddress \<equiv> Registered ''cork'' 2"

abbreviation ErrUnmanagedCellarAddress :: error where "ErrUnmanagedCellarAddress \<equiv> Registered ''cork'' 3"

abbreviation ErrEmptyContractCall :: error where "ErrEmptyContractCall \<equiv> Registered ''cork'' 4"

abbreviation ErrSchedulingInThePast :: error where "ErrSchedulingInThePast \<equiv> Registered ''cork'' 5"

abbreviation ErrInvalidJSON :: error where "ErrInvalidJSON \<equiv> Registered ''cork'' 6"

abbreviation ErrValidatorCorkCapacityReached :: error where
  "ErrValidatorCorkCapacityReached \<equiv> Registered ''cork'' 7"

definition cork_ModuleName :: string where "cork_ModuleName = ''cork''"

section \<open>Corks\<close>

record cork =
  c_EncodedContractCall :: bytes
  c_TargetContractAddress :: string

record scheduled_cork =
  sc_Cork :: cork
  sc_BlockHeight :: u64
  sc_Validator :: string
  sc_Id :: bytes

record cork_result =
  cr_Cork :: cork
  cr_BlockHeight :: u64
  cr_Approved :: bool
  cr_ApprovalPercentage :: string

type_synonym cellar_id_set = "string list"

definition InvalidationScope :: "eth \<Rightarrow> cork \<Rightarrow> bytes" where
  "InvalidationScope E c =
    Keccak256Hash E (HexToAddress E (c_TargetContractAddress c) @ c_EncodedContractCall c)"

definition IDHash :: "eth \<Rightarrow> cork \<Rightarrow> u64 \<Rightarrow> bytes" where
  "IDHash E c blockHeight =
    Keccak256Hash E (PutUint64 blockHeight @ PutUint64 1 @ HexToAddress E (c_TargetContractAddress c)
      @ c_EncodedContractCall c)"

definition Cork_Equals :: "eth \<Rightarrow> cork \<Rightarrow> cork \<Rightarrow> bool" where
  "Cork_Equals E c other \<longleftrightarrow>
    (if HexToAddress E (c_TargetContractAddress c) \<noteq> HexToAddress E (c_TargetContractAddress other) then False
     else if c_EncodedContractCall c \<noteq> c_EncodedContractCall other then False
     else True)"

definition Cork_ValidateBasic :: "eth \<Rightarrow> cork \<Rightarrow> unit res" where
  "Cork_ValidateBasic E c =
    (if c_EncodedContractCall c = [] then Err ErrEmptyContractCall
     else if \<not> IsHexAddress E (c_TargetContractAddress c) then Err ErrInvalidEthereumAddress
     else Ok ())"

definition ScheduledCork_ValidateBasic :: "sdk \<Rightarrow> eth \<Rightarrow> scheduled_cork \<Rightarrow> unit res" where
  "ScheduledCork_ValidateBasic S E s =
    bind_res (Cork_ValidateBasic E (sc_Cork s)) (\<lambda>_.
    if sc_BlockHeight s = 0 then Err (Errorf ''block height must be non-zero'')
    else if ValAddressFromBech32 S (sc_Validator s) = None then Err (Wrapped ErrInvalidAddress)
    else if length (sc_Id s) \<noteq> 64 then Err (Errorf ''invalid ID length, must be a keccak256 hash'')
    else Ok ())"

definition CorkResult_ValidateBasic :: "sdk \<Rightarrow> eth \<Rightarrow> cork_result \<Rightarrow> unit res" where
  "CorkResult_ValidateBasic S E c =
    bind_res (Cork_ValidateBasic E (cr_Cork c)) (\<lambda>_.
    if cr_BlockHeight c = 0 then Err (Errorf ''block height must be non-zero'')
    else if NewDecFromStr S (cr_ApprovalPercentage c) = None then Err (Errorf ''approval percentage must be a valid Dec'')
    else Ok ())"

definition CellarIDSet_ValidateBasic :: "eth \<Rightarrow> cellar_id_set \<Rightarrow> unit res" where
  "CellarIDSet_ValidateBasic E ids =
    fold_res (\<lambda>a _. if \<not> IsHexAddress E a then Err (Errorf ''invalid EVM address'') else Ok ()) ids ()"

section \<open>Messages\<close>

record msg_schedule_cork =
  msc_Cork :: "cork option"
  msc_BlockHeight :: u64
  msc_Signer :: string

definition NewMsgScheduleCorkRequest :: "sdk \<Rightarrow> eth \<Rightarrow> bytes \<Rightarrow> addr \<Rightarrow> u64 \<Rightarrow> addr \<Rightarrow> msg_schedule_cork" where
  "NewMsgScheduleCorkRequest S E body address blockHeight signer =
    \<lparr>msc_Cork = Some \<lparr>c_EncodedContractCall = body, c_TargetContractAddress = Address_Hex E address\<rparr>,
     msc_BlockHeight = blockHeight, msc_Signer = AccAddress_String S signer\<rparr>"

definition MsgScheduleCork_ValidateBasic :: "sdk \<Rightarrow> eth \<Rightarrow> msg_schedule_cork \<Rightarrow> unit res" where
  "MsgScheduleCork_ValidateBasic S E m =
    (if AccAddressFromBech32 S (msc_Signer m) = None then Err (Wrapped ErrInvalidAddress)
     else if msc_BlockHeight m = 0 then Err (Errorf ''block height must be non-zero'')
     else case msc_Cork m of None \<Rightarrow> Panic ''nil dereference'' | Some c \<Rightarrow> Cork_ValidateBasic E c)"

section \<open>Parameters\<close>

record cork_params =
  VoteThreshold :: dec
  MaxCorksPerValidator :: u64

text \<open>The refusal of a nil decimal has no counterpart: decimals here are values.\<close>

fun validateVoteThreshold :: "iface \<Rightarrow> unit res" where
  "validateVoteThreshold (IDec voteThreshold) =
    (if voteThreshold < 0 \<or> voteThreshold > dec_one
     then Err (Errorf ''vote threshold value must be within the 0% - 100% range'') else Ok ())"
| "validateVoteThreshold _ = Err (Errorf ''invalid parameter type'')"

fun validateMaxCorksPerValidator :: "iface \<Rightarrow> unit res" where
  "validateMaxCorksPerValidator (IUint64 n) =
    (if n = 0 then Err (Errorf ''max corks per validator cannot be 0'') else Ok ())"
| "validateMaxCorksPerValidator _ = Err (Errorf ''invalid parameter type'')"

definition cork_DefaultParams :: cork_params where
  "cork_DefaultParams = \<lparr>VoteThreshold = 670000000000000000, MaxCorksPerValidator = 1000\<rparr>"

definition cork_ParamSetPairs :: "cork_params \<Rightarrow> param_pair list" where
  "cork_ParamSetPairs p =
    [(''votethreshold'', IDec (VoteThreshold p), validateVoteThreshold),
     (''maxcorkspervalidator'', IUint64 (MaxCorksPerValidator p), validateMaxCorksPerValidator)]"

definition cork_Params_ValidateBasic :: "cork_params \<Rightarrow> unit res" where
  "cork_Params_ValidateBasic p =
    bind_res (validateVoteThreshold (IDec (VoteThreshold p))) (\<lambda>_.
    validateMaxCorksPerValidator (IUint64 (MaxCorksPerValidator p)))"

section \<open>Proposals\<close>

record add_managed_cellars_proposal =
  amc_Title :: string
  amc_Description :: string
  amc_CellarIds :: cellar_id_set
  amc_PublisherDomain :: string

record remove_managed_cellars_proposal =
  rmc_Title :: string
  rmc_Description :: string
  rmc_CellarIds :: cellar_id_set

record scheduled_cork_proposal =
  scp_Title :: string
  scp_Description :: string
  scp_BlockHeight :: u64
  scp_TargetContractAddress :: string
  scp_ContractCallProtoJson :: string

definition AddManagedCellarIDsProposal_ValidateBasic :: "sdk \<Rightarrow> web \<Rightarrow> add_managed_cellars_proposal \<Rightarrow> unit res" where
  "AddManagedCellarIDsProposal_ValidateBasic S W m =
    bind_res (ValidateAbstract S (amc_Title m) (amc_Description m)) (\<lambda>_.
    if amc_CellarIds m = [] then Err (Errorf ''can't have an add prosoposal with no cellars'')
    else ValidateDomain W (amc_PublisherDomain m))"

definition RemoveManagedCellarIDsProposal_ValidateBasic :: "sdk \<Rightarrow> remove_managed_cellars_proposal \<Rightarrow> unit res" where
  "RemoveManagedCellarIDsProposal_ValidateBasic S m =
    bind_res (ValidateAbstract S (rmc_Title m) (rmc_Description m)) (\<lambda>_.
    if rmc_CellarIds m = [] then Err (Errorf ''can't have a remove prosoposal with no cellars'') else Ok ())"

definition ScheduledCorkProposal_ValidateBasic :: "sdk \<Rightarrow> eth \<Rightarrow> web \<Rightarrow> scheduled_cork_proposal \<Rightarrow> unit res" where
  "ScheduledCorkProposal_ValidateBasic S E W m =
    bind_res (ValidateAbstract S (scp_Title m) (scp_Description m)) (\<lambda>_.
    if scp_BlockHeight m = 0 then Err (Errorf ''block height must be non-zero'')
    else if scp_ContractCallProtoJson m = [] then Err (Wrapped ErrInvalidJSON)
    else if \<not> json_Valid W (scp_ContractCallProtoJson m) then Err (Wrapped ErrInvalidJSON)
    else if \<not> IsHexAddress E (scp_TargetContractAddress m) then Err (Wrapped ErrInvalidEthereumAddress)
    else Ok ())"

section \<open>Genesis\<close>

record cork_genesis =
  kg_Params :: cork_params
  kg_CellarIds :: cellar_id_set
  kg_InvalidationNonce :: u64
  kg_ScheduledCorks :: "scheduled_cork list"
  kg_CorkResults :: "cork_result list"

definition cork_DefaultGenesisState :: cork_genesis where
  "cork_DefaultGenesisState =
    \<lparr>kg_Params = cork_DefaultParams, kg_CellarIds = [], kg_InvalidationNonce = 0,
     kg_ScheduledCorks = [], kg_CorkResults = []\<rparr>"

definition cork_Genesis_Validate :: "sdk \<Rightarrow> eth \<Rightarrow> cork_genesis \<Rightarrow> unit res" where
  "cork_Genesis_Validate S E gs =
    bind_res (cork_Params_ValidateBasic (kg_Params gs)) (\<lambda>_.
    bind_res (CellarIDSet_ValidateBasic E (kg_CellarIds gs)) (\<lambda>_.
    bind_res (fold_res (\<lambda>s _. ScheduledCork_ValidateBasic S E s) (kg_ScheduledCorks gs) ()) (\<lambda>_.
    fold_res (\<lambda>r _. CorkResult_ValidateBasic S E r) (kg_CorkResults gs) ())))"

section \<open>Keys\<close>

definition LatestInvalidationNonceKey :: byte where "LatestInvalidationNonceKey = 3"

definition MakeCellarIDsKey :: bytes where "MakeCellarIDsKey = [4]"

definition GetScheduledCorkKeyPrefix :: bytes where "GetScheduledCorkKeyPrefix = [5]"

definition GetScheduledCorkKeyByBlockHeightPrefix :: "u64 \<Rightarrow> bytes" where
  "GetScheduledCorkKeyByBlockHeightPrefix blockHeight = GetScheduledCorkKeyPrefix @ PutUint64 blockHeight"

definition GetScheduledCorkKey :: "u64 \<Rightarrow> bytes \<Rightarrow> addr \<Rightarrow> addr \<Rightarrow> bytes" where
  "GetScheduledCorkKey blockHeight corkID val contract =
    GetScheduledCorkKeyPrefix @ PutUint64 blockHeight @ corkID @ val @ contract"

definition GetCorkResultPrefix :: bytes where "GetCorkResultPrefix = [7]"

definition GetCorkResultKey :: "bytes \<Rightarrow> bytes" where "GetCorkResultKey corkID = GetCorkResultPrefix @ corkID"

definition GetValidatorCorkCountKey :: "addr \<Rightarrow> bytes" where "GetValidatorCorkCountKey val = [8] @ val"

end
