(* ===== verification/Cork_Keeper.thy ===== *)
theory Cork_Keeper
  imports Cork_Types Pubsub_Keeper
begin

text \<open>
  The keeper of the cork module (\<^verbatim>\<open>x/cork/keeper\<close>, \<^verbatim>\<open>x/cork/handler.go\<close>): scheduling of contract calls by
  validators, the tally at the end of the block they are scheduled for, the managed cellars and the
  invalidation nonce. The state holds the module's stores, the state of the pubsub module (its
  default subscriptions follow the cellars) and the contract calls handed to the gravity bridge, in
  order. Staking and delegation are parameters of the keeper.
\<close>

record contract_call =
  cc_Nonce :: u64
  cc_Scope :: bytes
  cc_Address :: addr
  cc_Payload :: bytes

text \<open>
  \<open>ok_ConsensusPower\<close> is \<^verbatim>\<open>Validator(val).GetConsensusPower(PowerReduction)\<close>; it is \<open>None\<close> where the
  staking keeper knows no such validator, and the code dereferences a nil interface there.
\<close>

record cork_keeper =
  ok_sdk :: sdk
  ok_eth :: eth
  ok_pubsub :: pubsub_keeper
  ok_GetOrchestratorValidatorAddress :: "addr \<Rightarrow> addr option"
  ok_ConsensusPower :: "addr \<Rightarrow> i64 option"
  ok_GetLastTotalPower :: int

record cork_state =
  co_params :: cork_params
  co_nonce :: "bytes option"
  co_cellars :: cellar_id_set
  co_sched :: "cork kvstore"
  co_results :: "cork_result kvstore"
  co_counts :: "bytes kvstore"
  co_pubsub :: pubsub_state
  co_calls :: "contract_call list"
  co_events :: "event list"

definition corkVoteThreshold :: dec where "corkVoteThreshold = 670000000000000000"

section \<open>Scheduled corks\<close>

definition SetScheduledCork :: "cork_keeper \<Rightarrow> cork_state \<Rightarrow> u64 \<Rightarrow> addr \<Rightarrow> cork \<Rightarrow> cork_state \<times> bytes" where
  "SetScheduledCork k st blockHeight val cork =
    (let corkID = IDHash (ok_eth k) cork blockHeight
     in (st\<lparr>co_sched := kv_set (co_sched st) (GetScheduledCorkKey blockHeight corkID val
           (HexToAddress (ok_eth k) (c_TargetContractAddress cork))) cork\<rparr>, corkID))"

definition GetScheduledCork :: "cork_state \<Rightarrow> u64 \<Rightarrow> bytes \<Rightarrow> addr \<Rightarrow> addr \<Rightarrow> cork option" where
  "GetScheduledCork st blockHeight corkID val contract =
    kv_get (co_sched st) (GetScheduledCorkKey blockHeight corkID val contract)"

definition DeleteScheduledCork :: "cork_state \<Rightarrow> u64 \<Rightarrow> bytes \<Rightarrow> addr \<Rightarrow> addr \<Rightarrow> cork_state" where
  "DeleteScheduledCork st blockHeight corkID val contract =
    st\<lparr>co_sched := kv_del (co_sched st) (GetScheduledCorkKey blockHeight corkID val contract)\<rparr>"

text \<open>What the iterator's callback receives: the parts of the key and the stored cork.\<close>

type_synonym cork_entry = "addr \<times> u64 \<times> bytes \<times> addr \<times> cork"

definition parse_cork_entry :: "eth \<Rightarrow> bytes \<times> cork \<Rightarrow> cork_entry" where
  "parse_cork_entry E = (\<lambda>(key, cork).
    (take 20 (drop 41 key), Uint64 (take 8 (drop 1 key)), take 32 (drop 9 key),
     BytesToAddress E (drop 61 key), cork))"

definition IterateScheduledCorksByPrefix ::
  "cork_keeper \<Rightarrow> cork_state \<Rightarrow> bytes \<Rightarrow> (cork_entry \<Rightarrow> 's \<Rightarrow> 's \<times> bool) \<Rightarrow> 's \<Rightarrow> 's" where
  "IterateScheduledCorksByPrefix k st pfx cb =
    iterate cb (map (parse_cork_entry (ok_eth k)) (kv_iter (co_sched st) pfx))"

definition IterateScheduledCorks :: "cork_keeper \<Rightarrow> cork_state \<Rightarrow> (cork_entry \<Rightarrow> 's \<Rightarrow> 's \<times> bool) \<Rightarrow> 's \<Rightarrow> 's" where
  "IterateScheduledCorks k st = IterateScheduledCorksByPrefix k st GetScheduledCorkKeyPrefix"

definition IterateScheduledCorksByBlockHeight ::
  "cork_keeper \<Rightarrow> cork_state \<Rightarrow> u64 \<Rightarrow> (cork_entry \<Rightarrow> 's \<Rightarrow> 's \<times> bool) \<Rightarrow> 's \<Rightarrow> 's" where
  "IterateScheduledCorksByBlockHeight k st blockHeight =
    IterateScheduledCorksByPrefix k st (GetScheduledCorkKeyByBlockHeightPrefix blockHeight)"

definition scheduled_cork_of :: "cork_keeper \<Rightarrow> cork_entry \<Rightarrow> scheduled_cork" where
  "scheduled_cork_of k = (\<lambda>(val, blockHeight, corkID, _, cork).
    \<lparr>sc_Cork = cork, sc_BlockHeight = blockHeight, sc_Validator = ValAddress_String (ok_sdk k) val, sc_Id = corkID\<rparr>)"

definition GetScheduledCorks :: "cork_keeper \<Rightarrow> cork_state \<Rightarrow> scheduled_cork list" where
  "GetScheduledCorks k st = IterateScheduledCorks k st (\<lambda>e acc. (acc @ [scheduled_cork_of k e], False)) []"

definition GetScheduledCorksByBlockHeight :: "cork_keeper \<Rightarrow> cork_state \<Rightarrow> u64 \<Rightarrow> scheduled_cork list" where
  "GetScheduledCorksByBlockHeight k st height =
    IterateScheduledCorksByBlockHeight k st height (\<lambda>e acc. (acc @ [scheduled_cork_of k e], False)) []"

definition GetScheduledCorksByID :: "cork_keeper \<Rightarrow> cork_state \<Rightarrow> bytes \<Rightarrow> scheduled_cork list" where
  "GetScheduledCorksByID k st queriedID =
    IterateScheduledCorks k st (\<lambda>e acc.
      (if sc_Id (scheduled_cork_of k e) = queriedID then acc @ [scheduled_cork_of k e] else acc, False)) []"

definition GetScheduledBlockHeights :: "cork_keeper \<Rightarrow> cork_state \<Rightarrow> u64 list" where
  "GetScheduledBlockHeights k st =
    fst (IterateScheduledCorks k st (\<lambda>(_, blockHeight, _) (heights, latestHeight).
      ((if blockHeight > latestHeight then heights @ [blockHeight] else heights, blockHeight), False)) ([], 0))"

section \<open>Parameters and nonces\<close>

definition cork_SetParams :: "cork_state \<Rightarrow> cork_params \<Rightarrow> cork_state res" where
  "cork_SetParams st p = bind_res (SetParamSet (cork_ParamSetPairs p)) (\<lambda>_. Ok (st\<lparr>co_params := p\<rparr>))"

text \<open>\<^verbatim>\<open>sdk.BigEndianToUint64\<close> reads a missing value as zero.\<close>

definition BigEndianToUint64 :: "bytes option \<Rightarrow> u64" where
  "BigEndianToUint64 bz = (case bz of None \<Rightarrow> 0 | Some b \<Rightarrow> if b = [] then 0 else Uint64 b)"

definition GetLatestInvalidationNonce :: "cork_state \<Rightarrow> u64" where
  "GetLatestInvalidationNonce st = BigEndianToUint64 (co_nonce st)"

definition SetLatestInvalidationNonce :: "cork_state \<Rightarrow> u64 \<Rightarrow> cork_state" where
  "SetLatestInvalidationNonce st invalidationNonce = st\<lparr>co_nonce := Some (PutUint64 invalidationNonce)\<rparr>"

definition IncrementInvalidationNonce :: "cork_state \<Rightarrow> cork_state \<times> u64" where
  "IncrementInvalidationNonce st =
    (let nextNonce = GetLatestInvalidationNonce st + 1 in (SetLatestInvalidationNonce st nextNonce, nextNonce))"

section \<open>Results\<close>

definition SetCorkResult :: "cork_state \<Rightarrow> bytes \<Rightarrow> cork_result \<Rightarrow> cork_state" where
  "SetCorkResult st corkID r = st\<lparr>co_results := kv_set (co_results st) (GetCorkResultKey corkID) r\<rparr>"

definition GetCorkResult :: "cork_state \<Rightarrow> bytes \<Rightarrow> cork_result option" where
  "GetCorkResult st corkID = kv_get (co_results st) (GetCorkResultKey corkID)"

definition DeleteCorkResult :: "cork_state \<Rightarrow> bytes \<Rightarrow> cork_state" where
  "DeleteCorkResult st corkID = st\<lparr>co_results := kv_del (co_results st) (GetCorkResultKey corkID)\<rparr>"

definition IterateCorkResults :: "cork_state \<Rightarrow> (bytes \<times> cork_result \<Rightarrow> 's \<Rightarrow> 's \<times> bool) \<Rightarrow> 's \<Rightarrow> 's" where
  "IterateCorkResults st cb =
    iterate cb (map (\<lambda>(key, r). (take 32 (drop 1 key), r)) (kv_iter (co_results st) GetCorkResultPrefix))"

definition GetCorkResults :: "cork_state \<Rightarrow> cork_result list" where
  "GetCorkResults st = IterateCorkResults st (\<lambda>e acc. (acc @ [snd e], False)) []"

section \<open>Cork counts of validators\<close>

definition GetValidatorCorkCount :: "cork_state \<Rightarrow> addr \<Rightarrow> u64" where
  "GetValidatorCorkCount st val = BigEndianToUint64 (kv_get (co_counts st) (GetValidatorCorkCountKey val))"

definition SetValidatorCorkCount :: "cork_state \<Rightarrow> addr \<Rightarrow> u64 \<Rightarrow> cork_state" where
  "SetValidatorCorkCount st val n = st\<lparr>co_counts := kv_set (co_counts st) (GetValidatorCorkCountKey val) (PutUint64 n)\<rparr>"

definition IncrementValidatorCorkCount :: "cork_state \<Rightarrow> addr \<Rightarrow> cork_state" where
  "IncrementValidatorCorkCount st val = SetValidatorCorkCount st val (GetValidatorCorkCount st val + 1)"

definition DecrementValidatorCorkCount :: "cork_state \<Rightarrow> addr \<Rightarrow> cork_state" where
  "DecrementValidatorCorkCount st val =
    (let n = GetValidatorCorkCount st val in if n > 0 then SetValidatorCorkCount st val (n - 1) else st)"

section \<open>The tally\<close>

text \<open>The slices \<^verbatim>\<open>corks\<close> and \<^verbatim>\<open>powers\<close>, which grow together, are one list of pairs.\<close>

type_synonym tally = "(cork \<times> u64) list"

fun add_vote :: "eth \<Rightarrow> cork \<Rightarrow> u64 \<Rightarrow> tally \<Rightarrow> tally" where
  "add_vote E cork pow [] = [(cork, pow)]"
| "add_vote E cork pow ((c, p) # t) =
    (if Cork_Equals E c cork then (c, p + pow) # t else (c, p) # add_vote E cork pow t)"

definition count_vote ::
  "cork_keeper \<Rightarrow> u64 \<Rightarrow> cork_entry \<Rightarrow> cork_state \<times> tally \<Rightarrow> (cork_state \<times> tally) res" where
  "count_vote k currentBlockHeight = (\<lambda>(val, _, corkID, contract, cork) (st, t).
    case ok_ConsensusPower k val of
      None \<Rightarrow> Panic ''nil dereference''
    | Some validatorPower \<Rightarrow>
      Ok (DecrementValidatorCorkCount (DeleteScheduledCork st currentBlockHeight corkID val contract) val,
          add_vote (ok_eth k) cork validatorPower t))"

definition approvalPercentage :: "cork_keeper \<Rightarrow> u64 \<Rightarrow> dec res" where
  "approvalPercentage k pow =
    Quo (ok_sdk k) (NewDecFromInt (uint pow)) (NewDecFromInt (ok_GetLastTotalPower k))"

definition settle_vote ::
  "cork_keeper \<Rightarrow> u64 \<Rightarrow> cork \<times> u64 \<Rightarrow> cork_state \<times> cork list \<Rightarrow> (cork_state \<times> cork list) res" where
  "settle_vote k currentBlockHeight = (\<lambda>(cork, pow) (st, approvedCorks).
    bind_res (approvalPercentage k pow) (\<lambda>percentage.
    let quorumReached = percentage > corkVoteThreshold;
        corkResult = \<lparr>cr_Cork = cork, cr_BlockHeight = currentBlockHeight, cr_Approved = quorumReached,
          cr_ApprovalPercentage = Dec_String (ok_sdk k) (Dec_Mul (ok_sdk k) percentage (NewDecFromInt 100))\<rparr>
    in Ok (SetCorkResult st (IDHash (ok_eth k) cork currentBlockHeight) corkResult,
           if quorumReached then approvedCorks @ [cork] else approvedCorks)))"

text \<open>
  The iterator visits the corks scheduled for the current height while the callback deletes each
  one it has visited; the entries are those at the start.
\<close>

definition GetApprovedScheduledCorks :: "cork_keeper \<Rightarrow> ctx \<Rightarrow> cork_state \<Rightarrow> (cork_state \<times> cork list) res" where
  "GetApprovedScheduledCorks k ctx st =
    (let currentBlockHeight = BlockHeight ctx;
         entries = IterateScheduledCorksByBlockHeight k st currentBlockHeight (\<lambda>e acc. (acc @ [e], False)) []
     in bind_res (fold_res (count_vote k currentBlockHeight) entries (st, [])) (\<lambda>(st1, t).
        fold_res (settle_vote k currentBlockHeight) t (st1, [])))"

section \<open>Blocks\<close>

definition submitContractCall :: "cork_keeper \<Rightarrow> cork_state \<Rightarrow> cork \<Rightarrow> cork_state" where
  "submitContractCall k st cork =
    (let (st1, invalidationNonce) = IncrementInvalidationNonce st
     in st1\<lparr>co_calls := co_calls st1 @ [\<lparr>cc_Nonce = invalidationNonce,
          cc_Scope = InvalidationScope (ok_eth k) cork,
          cc_Address = HexToAddress (ok_eth k) (c_TargetContractAddress cork),
          cc_Payload = c_EncodedContractCall cork\<rparr>]\<rparr>)"

definition cork_BeginBlocker :: "cork_state \<Rightarrow> cork_state" where
  "cork_BeginBlocker st = st"

definition cork_EndBlocker :: "cork_keeper \<Rightarrow> ctx \<Rightarrow> cork_state \<Rightarrow> cork_state res" where
  "cork_EndBlocker k ctx st =
    bind_res (GetApprovedScheduledCorks k ctx st) (\<lambda>(st1, winningScheduledVotes).
    Ok (foldl (submitContractCall k) st1 winningScheduledVotes))"

section \<open>Cellars\<close>

definition SetCellarIDs :: "cork_state \<Rightarrow> cellar_id_set \<Rightarrow> cork_state" where
  "SetCellarIDs st c = st\<lparr>co_cellars := c\<rparr>"

definition GetCellarIDs :: "cork_keeper \<Rightarrow> cork_state \<Rightarrow> addr list" where
  "GetCellarIDs k st = map (HexToAddress (ok_eth k)) (co_cellars st)"

definition HasCellarID :: "cork_keeper \<Rightarrow> cork_state \<Rightarrow> addr \<Rightarrow> bool" where
  "HasCellarID k st address = list_ex (\<lambda>a. a = address) (GetCellarIDs k st)"

section \<open>Messages\<close>

definition cork_emit :: "event list \<Rightarrow> cork_state \<Rightarrow> cork_state" where
  "cork_emit es st = st\<lparr>co_events := co_events st @ es\<rparr>"

text \<open>
  The attribute with the printed cork carries its target address. The response is the id in
  hexadecimal.
\<close>

definition ScheduleCork :: "cork_keeper \<Rightarrow> ctx \<Rightarrow> cork_state \<Rightarrow> msg_schedule_cork \<Rightarrow> (cork_state \<times> string) res" where
  "ScheduleCork k ctx st msg =
    bind_res (MustGetSigner (ok_sdk k) (msc_Signer msg)) (\<lambda>signer.
    case ok_GetOrchestratorValidatorAddress k signer of
      None \<Rightarrow> Err (Wrapped ErrUnauthorized)
    | Some validatorAddr \<Rightarrow>
      (case msc_Cork msg of None \<Rightarrow> Panic ''nil dereference'' | Some cork \<Rightarrow>
      if \<not> HasCellarID k st (HexToAddress (ok_eth k) (c_TargetContractAddress cork)) then Err ErrUnmanagedCellarAddress
      else if msc_BlockHeight msg \<le> BlockHeight ctx then Err ErrSchedulingInThePast
      else
      let (st1, corkID) = SetScheduledCork k st (msc_BlockHeight msg) validatorAddr cork;
          st2 = IncrementValidatorCorkCount st1 validatorAddr
      in Ok (cork_emit [(''message'', [(''module'', AttrS cork_ModuleName)]),
           (''cork'', [(''signer'', AttrS (AccAddress_String (ok_sdk k) signer)),
             (''validator'', AttrS (ValAddress_String (ok_sdk k) validatorAddr)),
             (''cork'', AttrS (c_TargetContractAddress cork)),
             (''block_height'', AttrU (msc_BlockHeight msg))])] st2, EncodeToString corkID)))"

datatype cork_msg = MsgScheduleCorkRequest msg_schedule_cork | CorkOtherMsg string

fun cork_NewHandler :: "cork_keeper \<Rightarrow> ctx \<Rightarrow> cork_state \<Rightarrow> cork_msg \<Rightarrow> (cork_state \<times> string) res" where
  "cork_NewHandler k ctx st (MsgScheduleCorkRequest m) = ScheduleCork k ctx (st\<lparr>co_events := []\<rparr>) m"
| "cork_NewHandler k ctx st (CorkOtherMsg _) = Err (Wrapped ErrUnknownRequest)"

section \<open>Proposals\<close>

definition NewEthereumSubscriptionID :: "eth \<Rightarrow> addr \<Rightarrow> string" where
  "NewEthereumSubscriptionID E address = ''1:'' @ Address_Hex E address"

definition add_cellar ::
  "cork_keeper \<Rightarrow> string \<Rightarrow> string \<Rightarrow> addr list \<times> pubsub_state \<Rightarrow> addr list \<times> pubsub_state" where
  "add_cellar k publisherDomain proposedCellarID = (\<lambda>(cellarAddresses, ps).
    let proposedCellarAddress = HexToAddress (ok_eth k) proposedCellarID
    in if proposedCellarAddress \<in> set cellarAddresses then (cellarAddresses, ps)
       else (cellarAddresses @ [proposedCellarAddress],
         SetDefaultSubscription (ok_pubsub k) ps
           \<lparr>ds_SubscriptionId = NewEthereumSubscriptionID (ok_eth k) proposedCellarAddress,
            ds_PublisherDomain = publisherDomain\<rparr>))"

definition HandleAddManagedCellarsProposal ::
  "cork_keeper \<Rightarrow> cork_state \<Rightarrow> add_managed_cellars_proposal \<Rightarrow> cork_state res" where
  "HandleAddManagedCellarsProposal k st p =
    (if GetPublisher (ok_pubsub k) (co_pubsub st) (amc_PublisherDomain p) = None
     then Err (Errorf ''not an approved publisher'')
     else
     let (cellarAddresses, ps) = fold (add_cellar k (amc_PublisherDomain p)) (amc_CellarIds p)
           (GetCellarIDs k st, co_pubsub st);
         idStrings = sort (map (Address_Hex (ok_eth k)) cellarAddresses)
     in Ok (SetCellarIDs (st\<lparr>co_pubsub := ps\<rparr>) idStrings))"

definition HandleRemoveManagedCellarsProposal ::
  "cork_keeper \<Rightarrow> cork_state \<Rightarrow> remove_managed_cellars_proposal \<Rightarrow> cork_state res" where
  "HandleRemoveManagedCellarsProposal k st p =
    (let E = ok_eth k;
         outputCellarIDs = map (Address_Hex E)
           (filter (\<lambda>existingID. \<not> list_ex (\<lambda>inputID. existingID = HexToAddress E inputID) (rmc_CellarIds p))
             (GetCellarIDs k st));
         st1 = SetCellarIDs st outputCellarIDs;
         ps = foldl (\<lambda>ps cellarToDelete. DeleteDefaultSubscription (ok_pubsub k) ps
             (NewEthereumSubscriptionID E (HexToAddress E cellarToDelete))) (co_pubsub st1) (rmc_CellarIds p)
     in Ok (st1\<lparr>co_pubsub := ps\<rparr>))"

definition HandleScheduledCorkProposal ::
  "cork_keeper \<Rightarrow> cork_state \<Rightarrow> scheduled_cork_proposal \<Rightarrow> cork_state res" where
  "HandleScheduledCorkProposal k st p =
    (if \<not> HasCellarID k st (HexToAddress (ok_eth k) (scp_TargetContractAddress p))
     then Err (Wrapped ErrUnmanagedCellarAddress) else Ok st)"

datatype cork_content =
  AddManagedCellarIDsProposal add_managed_cellars_proposal
| RemoveManagedCellarIDsProposal remove_managed_cellars_proposal
| ScheduledCorkProposal scheduled_cork_proposal
| CorkOtherContent string

fun cork_NewProposalHandler :: "cork_keeper \<Rightarrow> cork_state \<Rightarrow> cork_content \<Rightarrow> cork_state res" where
  "cork_NewProposalHandler k st (AddManagedCellarIDsProposal c) = HandleAddManagedCellarsProposal k st c"
| "cork_NewProposalHandler k st (RemoveManagedCellarIDsProposal c) = HandleRemoveManagedCellarsProposal k st c"
| "cork_NewProposalHandler k st (ScheduledCorkProposal c) = HandleScheduledCorkProposal k st c"
| "cork_NewProposalHandler k st (CorkOtherContent _) = Err (Wrapped ErrUnknownRequest)"

section \<open>Genesis\<close>

definition cork_InitGenesis :: "cork_keeper \<Rightarrow> cork_state \<Rightarrow> cork_genesis \<Rightarrow> cork_state res" where
  "cork_InitGenesis k st gs =
    bind_res (cork_SetParams st (kg_Params gs)) (\<lambda>st1.
    let st2 = SetLatestInvalidationNonce (SetCellarIDs st1 (kg_CellarIds gs)) (kg_InvalidationNonce gs);
        st3 = foldl (\<lambda>s r. SetCorkResult s (IDHash (ok_eth k) (cr_Cork r) (cr_BlockHeight r)) r) st2 (kg_CorkResults gs)
    in fold_res (\<lambda>sc s. case ValAddressFromHex (ok_sdk k) (sc_Validator sc) of
          None \<Rightarrow> Panic ''invalid validator address''
        | Some valAddr \<Rightarrow> Ok (fst (SetScheduledCork k s (sc_BlockHeight sc) valAddr (sc_Cork sc))))
       (kg_ScheduledCorks gs) st3)"

definition cork_ExportGenesis :: "cork_keeper \<Rightarrow> cork_state \<Rightarrow> cork_genesis" where
  "cork_ExportGenesis k st =
    \<lparr>kg_Params = co_params st, kg_CellarIds = map (Address_Hex (ok_eth k)) (GetCellarIDs k st),
     kg_InvalidationNonce = GetLatestInvalidationNonce st, kg_ScheduledCorks = GetScheduledCorks k st,
     kg_CorkResults = GetCorkResults st\<rparr>"

section \<open>Queries\<close>

definition cork_QueryParams :: "cork_state \<Rightarrow> unit option \<Rightarrow> cork_params res" where
  "cork_QueryParams st req = (if req = None then Err (Errorf ''InvalidArgument'') else Ok (co_params st))"

definition QueryCellarIDs :: "cork_keeper \<Rightarrow> cork_state \<Rightarrow> unit option \<Rightarrow> string list res" where
  "QueryCellarIDs k st req = (if req = None then Err (Errorf ''InvalidArgument'')
    else Ok (map (Address_Hex (ok_eth k)) (GetCellarIDs k st)))"

definition QueryScheduledCorks :: "cork_keeper \<Rightarrow> cork_state \<Rightarrow> unit option \<Rightarrow> scheduled_cork list res" where
  "QueryScheduledCorks k st req = (if req = None then Err (Errorf ''InvalidArgument'')
    else Ok (IterateScheduledCorks k st (\<lambda>e acc. (acc @ [scheduled_cork_of k e], False)) []))"

definition QueryScheduledBlockHeights :: "cork_keeper \<Rightarrow> cork_state \<Rightarrow> unit option \<Rightarrow> u64 list res" where
  "QueryScheduledBlockHeights k st req = (if req = None then Err (Errorf ''InvalidArgument'')
    else Ok (GetScheduledBlockHeights k st))"

definition QueryScheduledCorksByBlockHeight :: "cork_keeper \<Rightarrow> cork_state \<Rightarrow> u64 option \<Rightarrow> scheduled_cork list res" where
  "QueryScheduledCorksByBlockHeight k st req = (case req of None \<Rightarrow> Err (Errorf ''InvalidArgument'')
    | Some blockHeight \<Rightarrow> Ok (GetScheduledCorksByBlockHeight k st blockHeight))"

definition QueryScheduledCorksByID :: "cork_keeper \<Rightarrow> cork_state \<Rightarrow> string option \<Rightarrow> scheduled_cork list res" where
  "QueryScheduledCorksByID k st req = (case req of None \<Rightarrow> Err (Errorf ''InvalidArgument'')
    | Some reqId \<Rightarrow> (case DecodeString reqId of
        None \<Rightarrow> Err (Errorf ''InvalidArgument'')
      | Some corkID \<Rightarrow> Ok (GetScheduledCorksByID k st corkID)))"

definition QueryCorkResult :: "cork_state \<Rightarrow> string option \<Rightarrow> cork_result res" where
  "QueryCorkResult st req = (case req of None \<Rightarrow> Err (Errorf ''InvalidArgument'')
    | Some reqId \<Rightarrow> (case DecodeString reqId of
        None \<Rightarrow> Err (Errorf ''InvalidArgument'')
      | Some corkID \<Rightarrow> (case GetCorkResult st corkID of
          None \<Rightarrow> Err (Errorf ''NotFound'') | Some r \<Rightarrow> Ok r)))"

definition QueryCorkResults :: "cork_state \<Rightarrow> unit option \<Rightarrow> cork_result list res" where
  "QueryCorkResults st req = (if req = None then Err (Errorf ''InvalidArgument'') else Ok (GetCorkResults st))"

end
