(* ===== verification/Tally.thy ===== *)
theory Tally
  imports Sdk
begin

text \<open>
  The count of votes that the cork and the axelarcork module both write out: a list of candidates
  with their power, to which each vote is added at the first candidate it equals, or at the end.
  The locale \<open>vote_tally\<close> takes the equality of candidates and the adding step as its interface and
  relates the loop to the obvious reference: one entry per class of equal candidates, with the sum
  of the powers of its votes. The second part is the quorum: when a rounded decimal quotient
  exceeds 0.67.
\<close>

section \<open>Counting\<close>

fun representatives :: "('c \<Rightarrow> 'c \<Rightarrow> bool) \<Rightarrow> 'c list \<Rightarrow> 'c list" where
  "representatives same [] = []"
| "representatives same (c # cs) = c # filter (\<lambda>d. \<not> same c d) (representatives same cs)"

definition support :: "('c \<Rightarrow> 'c \<Rightarrow> bool) \<Rightarrow> ('c \<times> u64) list \<Rightarrow> 'c \<Rightarrow> u64" where
  "support same votes c = (\<Sum>v\<leftarrow>votes. if same c (fst v) then snd v else 0)"

definition reference_tally :: "('c \<Rightarrow> 'c \<Rightarrow> bool) \<Rightarrow> ('c \<times> u64) list \<Rightarrow> ('c \<times> u64) list" where
  "reference_tally same votes = map (\<lambda>c. (c, support same votes c)) (representatives same (map fst votes))"

lemma set_representatives: "set (representatives same cs) \<subseteq> set cs"
  by (induction cs) auto

locale vote_tally =
  fixes same :: "'c \<Rightarrow> 'c \<Rightarrow> bool"
    and add :: "'c \<Rightarrow> u64 \<Rightarrow> ('c \<times> u64) list \<Rightarrow> ('c \<times> u64) list"
  assumes same_refl [simp]: "same c c"
    and same_sym: "same c d \<Longrightarrow> same d c"
    and same_trans: "same c d \<Longrightarrow> same d e \<Longrightarrow> same c e"
    and add_nil: "add c p [] = [(c, p)]"
    and add_cons: "add c p ((d, q) # t) = (if same d c then (d, q + p) # t else (d, q) # add c p t)"
begin

lemma representatives_cover: "c \<in> set cs \<Longrightarrow> \<exists>d \<in> set (representatives same cs). same d c"
proof (induction cs)
  case (Cons x cs)
  show ?case
  proof (cases "same x c")
    case False
    with Cons obtain d where "d \<in> set (representatives same cs)" "same d c" by auto
    with False show ?thesis using same_trans [of x d c] by auto
  qed simp
qed simp

lemma representatives_apart:
  "i < j \<Longrightarrow> j < length (representatives same cs) \<Longrightarrow>
    \<not> same (representatives same cs ! i) (representatives same cs ! j)"
proof -
  have "sorted_wrt (\<lambda>c d. \<not> same c d) (representatives same cs)"
    by (induction cs) (auto simp: sorted_wrt_filter)
  then show "i < j \<Longrightarrow> j < length (representatives same cs) \<Longrightarrow>
      \<not> same (representatives same cs ! i) (representatives same cs ! j)"
    by (simp add: sorted_wrt_iff_nth_less)
qed

lemma representatives_snoc:
  "representatives same (cs @ [c]) =
    (if list_ex (\<lambda>d. same d c) cs then representatives same cs else representatives same cs @ [c])"
  by (induction cs) auto

lemma representatives_exists: "list_ex (\<lambda>d. same d c) (representatives same cs) \<longleftrightarrow> list_ex (\<lambda>d. same d c) cs"
  by (induction cs) (auto simp: list_ex_iff dest: same_trans)

text \<open>Adding a vote changes the one entry it equals, or appends a new one.\<close>

lemma add_map:
  "sorted_wrt (\<lambda>c d. \<not> same c d) ds \<Longrightarrow> add c p (map (\<lambda>d. (d, f d)) ds) =
    (if list_ex (\<lambda>d. same d c) ds then map (\<lambda>d. (d, f d + (if same d c then p else 0))) ds
     else map (\<lambda>d. (d, f d)) ds @ [(c, p)])"
proof (induction ds)
  case (Cons x ds)
  have apart: "\<not> same d c" if "same x c" "d \<in> set ds" for d
    using that Cons.prems same_trans [OF that(1) same_sym, of d] by auto
  show ?case
  proof (cases "same x c")
    case True
    with apart have "map (\<lambda>d. (d, f d + (if same d c then p else 0))) ds = map (\<lambda>d. (d, f d)) ds" by simp
    with True show ?thesis by (simp add: add_cons)
  next
    case False
    with Cons show ?thesis by (simp add: add_cons)
  qed
qed (simp add: add_nil)

lemma support_snoc: "support same (vs @ [(c, p)]) d = support same vs d + (if same d c then p else 0)"
  by (simp add: support_def)

lemma support_unvoted: "\<not> list_ex (\<lambda>d. same d c) (map fst vs) \<Longrightarrow> support same vs c = 0"
  unfolding support_def
  by (induction vs) (auto dest: same_sym)

lemma reference_tally_snoc:
  "reference_tally same (vs @ [(c, p)]) = add c p (reference_tally same vs)"
proof -
  let ?R = "representatives same (map fst vs)"
  have apart: "sorted_wrt (\<lambda>c d. \<not> same c d) ?R"
    by (simp add: sorted_wrt_iff_nth_less representatives_apart)
  show ?thesis
  proof (cases "list_ex (\<lambda>d. same d c) (map fst vs)")
    case True
    then show ?thesis
      by (simp add: reference_tally_def representatives_snoc add_map [OF apart] representatives_exists support_snoc)
  next
    case False
    then have "\<not> same d c" if "d \<in> set ?R" for d
      using that set_representatives [of same "map fst vs"] by (auto simp: list_ex_iff)
    with False show ?thesis
      by (simp add: reference_tally_def representatives_snoc add_map [OF apart] representatives_exists support_snoc
          support_unvoted)
  qed
qed

lemma tally_reference: "foldl (\<lambda>t (c, p). add c p t) [] votes = reference_tally same votes"
proof (induction votes rule: rev_induct)
  case (snoc v vs)
  then show ?case by (cases v) (simp add: reference_tally_snoc)
qed (simp add: reference_tally_def)

end

section \<open>Quorum\<close>

text \<open>
  The share of the power as a decimal of 18 places, rounded, against the threshold. For a total
  power up to \<open>10\<^sup>1\<^sup>6\<close> the rounding never decides.
\<close>

definition vote_threshold :: dec where "vote_threshold = 670000000000000000"

context sdk_dec begin

lemma quorum_only_if:
  assumes "0 \<le> p" "0 < totalPower" "vote_threshold < Dec_Quo S (NewDecFromInt p) (NewDecFromInt totalPower)"
  shows "67 * totalPower < 100 * p"
proof (rule ccontr)
  assume "\<not> 67 * totalPower < 100 * p"
  then have "100 * p * 10000000000000000 \<le> 67 * totalPower * 10000000000000000" by simp
  then have "p * dec_one \<le> vote_threshold * totalPower" by (simp add: dec_one_def vote_threshold_def)
  then have "NewDecFromInt p * dec_one \<le> vote_threshold * NewDecFromInt totalPower"
    unfolding NewDecFromInt_def mult.assoc [symmetric] by (rule mult_right_mono) (simp add: less_imp_le)
  then have "Dec_Quo S (NewDecFromInt p) (NewDecFromInt totalPower) \<le> vote_threshold"
    using assms by (intro quo_le) (simp_all add: NewDecFromInt_def dec_one_def)
  with assms(3) show False by simp
qed

lemma quorum_if:
  assumes "0 \<le> p" "0 < totalPower" "totalPower \<le> 10000000000000000" "67 * totalPower < 100 * p"
  shows "vote_threshold < Dec_Quo S (NewDecFromInt p) (NewDecFromInt totalPower)"
proof -
  have "(67 * totalPower + 1) * 10000000000000000 \<le> 100 * p * 10000000000000000" using assms by simp
  with assms(3) have "(vote_threshold + 1) * totalPower \<le> p * dec_one"
    by (simp add: dec_one_def vote_threshold_def distrib_right)
  then have "(vote_threshold + 1) * NewDecFromInt totalPower \<le> NewDecFromInt p * dec_one"
    unfolding NewDecFromInt_def mult.assoc [symmetric] by (rule mult_right_mono) (simp add: less_imp_le)
  then have "vote_threshold + 1 \<le> Dec_Quo S (NewDecFromInt p) (NewDecFromInt totalPower)"
    using assms by (intro quo_ge) (simp_all add: NewDecFromInt_def dec_one_def)
  then show ?thesis by simp
qed

lemma quorum_iff:
  assumes "0 \<le> p" "0 < totalPower" "totalPower \<le> 10000000000000000"
  shows "vote_threshold < Dec_Quo S (NewDecFromInt p) (NewDecFromInt totalPower) \<longleftrightarrow> 67 * totalPower < 100 * p"
  using quorum_if [OF assms] quorum_only_if [OF assms(1,2)] by blast

end

end
