(* ===== verification/Cork_Safety.thy ===== *)
theory Cork_Safety
  imports Cork_Keeper Tally Ethereum
begin

text \<open>
  What the end of a block does in the cork module, under the laws of decimals and addresses. The
  entries that the iterator visits are exactly the scheduled corks of the height; the loop counts
  each validator once per cork; the schedule of the height is emptied and nothing else is removed;
  the approved corks leave with consecutive nonces. The locale \<open>cork_env\<close> is the environment.
\<close>

section \<open>Well-formed schedules\<close>

text \<open>Every key is the one its parts and the stored cork determine.\<close>

definition sched_key_ok :: "eth \<Rightarrow> bytes \<Rightarrow> cork \<Rightarrow> bool" where
  "sched_key_ok E key c \<longleftrightarrow>
    (let h = Uint64 (take 8 (drop 1 key)); v = take 20 (drop 41 key) in length v = 20 \<and>
     key = GetScheduledCorkKey h (IDHash E c h) v (HexToAddress E (c_TargetContractAddress c)))"

definition sched_wf :: "cork_keeper \<Rightarrow> cork_state \<Rightarrow> bool" where
  "sched_wf k st \<longleftrightarrow> kv_all (sched_key_ok (ok_eth k)) (co_sched st)"

definition cork_addr :: "cork_keeper \<Rightarrow> cork \<Rightarrow> addr" where
  "cork_addr k c = HexToAddress (ok_eth k) (c_TargetContractAddress c)"

text \<open>The validators that scheduled a cork for a height.\<close>

definition voters :: "cork_keeper \<Rightarrow> cork_state \<Rightarrow> u64 \<Rightarrow> cork \<Rightarrow> addr set" where
  "voters k st h c = {v. length v = 20 \<and> (\<exists>d. GetScheduledCork st h (IDHash (ok_eth k) c h) v (cork_addr k c) = Some d \<and>
     Cork_Equals (ok_eth k) c d)}"

definition cork_power :: "cork_keeper \<Rightarrow> addr \<Rightarrow> u64" where
  "cork_power k v = (case ok_ConsensusPower k v of None \<Rightarrow> 0 | Some p \<Rightarrow> p)"

definition cork_entries :: "cork_keeper \<Rightarrow> cork_state \<Rightarrow> u64 \<Rightarrow> cork_entry list" where
  "cork_entries k st h =
    map (parse_cork_entry (ok_eth k)) (kv_iter (co_sched st) (GetScheduledCorkKeyByBlockHeightPrefix h))"

definition entry_vote :: "cork_keeper \<Rightarrow> cork_entry \<Rightarrow> cork \<times> u64" where
  "entry_vote k = (\<lambda>(v, _, _, _, c). (c, cork_power k v))"

definition cork_votes :: "cork_keeper \<Rightarrow> cork_state \<Rightarrow> u64 \<Rightarrow> (cork \<times> u64) list" where
  "cork_votes k st h = map (entry_vote k) (cork_entries k st h)"

text \<open>Reference definitions: which corks a block approves, what is stored and what is sent for them.\<close>

definition approved_corks :: "cork_keeper \<Rightarrow> cork_state \<Rightarrow> u64 \<Rightarrow> cork list" where
  "approved_corks k st h =
    filter (\<lambda>c. 67 * ok_GetLastTotalPower k < 100 * uint (\<Sum>v\<in>voters k st h c. cork_power k v))
      (representatives (Cork_Equals (ok_eth k)) (map fst (cork_votes k st h)))"

definition quorum :: "cork_keeper \<Rightarrow> cork \<times> u64 \<Rightarrow> bool" where
  "quorum k = (\<lambda>(_, p). corkVoteThreshold <
    Dec_Quo (ok_sdk k) (NewDecFromInt (uint p)) (NewDecFromInt (ok_GetLastTotalPower k)))"

definition store_result :: "cork_keeper \<Rightarrow> u64 \<Rightarrow> cork_result kvstore \<Rightarrow> cork \<times> u64 \<Rightarrow> cork_result kvstore" where
  "store_result k h m = (\<lambda>(c, p).
    kv_set m (GetCorkResultKey (IDHash (ok_eth k) c h))
      \<lparr>cr_Cork = c, cr_BlockHeight = h, cr_Approved = quorum k (c, p),
       cr_ApprovalPercentage = Dec_String (ok_sdk k) (Dec_Mul (ok_sdk k)
         (Dec_Quo (ok_sdk k) (NewDecFromInt (uint p)) (NewDecFromInt (ok_GetLastTotalPower k))) (NewDecFromInt 100))\<rparr>)"

definition drop_entry :: "u64 \<Rightarrow> cork_state \<Rightarrow> cork_entry \<Rightarrow> cork_state" where
  "drop_entry h s = (\<lambda>(v, _, i, a, _). DecrementValidatorCorkCount (DeleteScheduledCork s h i v a) v)"

definition call_of :: "cork_keeper \<Rightarrow> u64 \<Rightarrow> cork \<Rightarrow> contract_call" where
  "call_of k n c = \<lparr>cc_Nonce = n, cc_Scope = InvalidationScope (ok_eth k) c,
    cc_Address = HexToAddress (ok_eth k) (c_TargetContractAddress c), cc_Payload = c_EncodedContractCall c\<rparr>"

lemma Cork_Equals_iff: "Cork_Equals E c d \<longleftrightarrow>
    HexToAddress E (c_TargetContractAddress c) = HexToAddress E (c_TargetContractAddress d) \<and>
    c_EncodedContractCall c = c_EncodedContractCall d"
  by (simp add: Cork_Equals_def)

lemma Cork_Equals_IDHash: "Cork_Equals E c d \<Longrightarrow> IDHash E c h = IDHash E d h"
  by (simp add: Cork_Equals_iff IDHash_def)

text \<open>Blocks of the module: messages and proposals within a block, then its end.\<close>

definition key_height :: "bytes \<Rightarrow> u64" where
  "key_height key = Uint64 (take 8 (drop 1 key))"

definition none_past :: "cork_keeper \<Rightarrow> u64 \<Rightarrow> cork_state \<Rightarrow> bool" where
  "none_past k h st \<longleftrightarrow> kv_all (\<lambda>key _. h \<le> key_height key) (co_sched st)"

inductive cork_step :: "cork_keeper \<Rightarrow> u64 \<times> cork_state \<Rightarrow> u64 \<times> cork_state \<Rightarrow> bool" for k where
  schedule: "ScheduleCork k \<lparr>BlockHeight = h\<rparr> st msg = Ok (st', i) \<Longrightarrow> cork_step k (h, st) (h, st')"
| proposal: "cork_NewProposalHandler k st c = Ok st' \<Longrightarrow> cork_step k (h, st) (h, st')"
| end_block: "cork_EndBlocker k \<lparr>BlockHeight = h\<rparr> st = Ok st' \<Longrightarrow> h + 1 \<noteq> 0 \<Longrightarrow> cork_step k (h, st) (h + 1, st')"

inductive cork_reachable :: "cork_keeper \<Rightarrow> u64 \<Rightarrow> cork_state \<Rightarrow> bool" for k where
  genesis: "co_sched st = kv_empty \<Longrightarrow> cork_reachable k h st"
| step: "cork_reachable k h st \<Longrightarrow> cork_step k (h, st) (h', st') \<Longrightarrow> cork_reachable k h' st'"

text \<open>The default subscription of a name leads to a domain.\<close>

definition subscribed :: "pubsub_keeper \<Rightarrow> pubsub_state \<Rightarrow> string \<Rightarrow> string \<Rightarrow> bool" where
  "subscribed pk ps d i \<longleftrightarrow> (\<exists>x. GetDefaultSubscription pk ps i = Some x \<and> ds_PublisherDomain x = d)"

text \<open>The loop over the candidates is the generic tally.\<close>

interpretation cork_tally: vote_tally "Cork_Equals E" "add_vote E" for E
  by unfold_locales (auto simp: Cork_Equals_iff)

locale cork_env = sdk_dec "ok_sdk k" + eth_laws "ok_eth k"
  for k :: cork_keeper +
  assumes total_power: "0 < ok_GetLastTotalPower k" "ok_GetLastTotalPower k \<le> 10000000000000000"
    and validator_address: "ok_GetOrchestratorValidatorAddress k a = Some v \<Longrightarrow> length v = 20"
begin

lemma IDHash_length [simp]: "length (IDHash (ok_eth k) c h) = 32"
  by (simp add: IDHash_def)

lemma cork_addr_length [simp]: "length (cork_addr k c) = 20"
  by (simp add: cork_addr_def)

lemma parse_key:
  "length i = 32 \<Longrightarrow> length v = 20 \<Longrightarrow> length a = 20 \<Longrightarrow>
    parse_cork_entry (ok_eth k) (GetScheduledCorkKey h i v a, c) = (v, h, i, a, c)"
  by (simp add: parse_cork_entry_def GetScheduledCorkKey_def GetScheduledCorkKeyPrefix_def Uint64_PutUint64)

lemma sched_key_inject [simp]:
  "length i = 32 \<Longrightarrow> length v = 20 \<Longrightarrow> length i' = 32 \<Longrightarrow> length v' = 20 \<Longrightarrow>
    GetScheduledCorkKey h i v a = GetScheduledCorkKey h' i' v' a' \<longleftrightarrow> h = h' \<and> i = i' \<and> v = v' \<and> a = a'"
  by (simp add: GetScheduledCorkKey_def)

lemma sched_key_prefix [simp]:
  "prefix (GetScheduledCorkKeyByBlockHeightPrefix h) (GetScheduledCorkKey h' i v a) \<longleftrightarrow> h = h'"
  by (simp add: GetScheduledCorkKey_def GetScheduledCorkKeyByBlockHeightPrefix_def)

lemma key_height_key: "key_height (GetScheduledCorkKey h i v a) = h"
  by (simp add: key_height_def GetScheduledCorkKey_def GetScheduledCorkKeyPrefix_def)

lemma sched_key_ok_iff: "sched_key_ok (ok_eth k) key c \<longleftrightarrow>
    (\<exists>h v. length v = 20 \<and> key = GetScheduledCorkKey h (IDHash (ok_eth k) c h) v (cork_addr k c))"
proof
  assume "\<exists>h v. length v = 20 \<and> key = GetScheduledCorkKey h (IDHash (ok_eth k) c h) v (cork_addr k c)"
  then obtain h v where v: "length v = 20" "key = GetScheduledCorkKey h (IDHash (ok_eth k) c h) v (cork_addr k c)"
    by blast
  then have "Uint64 (take 8 (drop 1 key)) = h" "take 20 (drop 41 key) = v"
    by (simp_all add: GetScheduledCorkKey_def GetScheduledCorkKeyPrefix_def)
  with v show "sched_key_ok (ok_eth k) key c" by (simp add: sched_key_ok_def cork_addr_def)
qed (unfold sched_key_ok_def Let_def cork_addr_def, blast)

text \<open>The entries of a height: validator, id and address are those of the key.\<close>

lemma entries_iff:
  assumes "sched_wf k st"
  shows "e \<in> set (cork_entries k st h) \<longleftrightarrow>
    (\<exists>v c. e = (v, h, IDHash (ok_eth k) c h, cork_addr k c, c) \<and> length v = 20 \<and>
      GetScheduledCork st h (IDHash (ok_eth k) c h) v (cork_addr k c) = Some c)" (is "?l \<longleftrightarrow> ?r")
proof
  assume ?l
  then obtain key c where kc: "kv_get (co_sched st) key = Some c" "prefix (GetScheduledCorkKeyByBlockHeightPrefix h) key"
    "e = parse_cork_entry (ok_eth k) (key, c)"
    by (auto simp: cork_entries_def kv_iter_mem)
  moreover from this assms obtain h' v where "length v = 20"
    "key = GetScheduledCorkKey h' (IDHash (ok_eth k) c h') v (cork_addr k c)"
    by (auto simp: sched_wf_def dest!: kv_allD [where k = key] simp: sched_key_ok_iff)
  ultimately show ?r by (auto simp: parse_key GetScheduledCork_def)
next
  assume ?r
  then obtain v c where e: "e = (v, h, IDHash (ok_eth k) c h, cork_addr k c, c)" "length v = 20"
    "kv_get (co_sched st) (GetScheduledCorkKey h (IDHash (ok_eth k) c h) v (cork_addr k c)) = Some c"
    by (auto simp: GetScheduledCork_def)
  then show ?l unfolding cork_entries_def set_map
    by (intro image_eqI [where x = "(GetScheduledCorkKey h (IDHash (ok_eth k) c h) v (cork_addr k c), c)"])
      (simp_all add: parse_key kv_iter_mem)
qed

lemma entries_distinct:
  assumes "sched_wf k st"
  shows "distinct (cork_entries k st h)"
proof -
  let ?p = "GetScheduledCorkKeyByBlockHeightPrefix h"
  have "inj_on (parse_cork_entry (ok_eth k)) (set (kv_iter (co_sched st) ?p))"
  proof (rule inj_onI, clarify)
    fix key c key' c'
    assume *: "(key, c) \<in> set (kv_iter (co_sched st) ?p)" "(key', c') \<in> set (kv_iter (co_sched st) ?p)"
      "parse_cork_entry (ok_eth k) (key, c) = parse_cork_entry (ok_eth k) (key', c')"
    then obtain h1 v h2 v' where "length v = 20" "key = GetScheduledCorkKey h1 (IDHash (ok_eth k) c h1) v (cork_addr k c)"
      "length v' = 20" "key' = GetScheduledCorkKey h2 (IDHash (ok_eth k) c' h2) v' (cork_addr k c')"
      using assms by (metis kv_iter_mem kv_allD sched_wf_def sched_key_ok_iff)
    with *(3) show "key = key' \<and> c = c'" by (simp add: parse_key)
  qed
  then show ?thesis
    by (simp add: cork_entries_def distinct_map kvs.iter_distinct_entries)
qed

text \<open>No validator counts twice: the support of a cork is the power of the set of its voters.\<close>

lemma support_voters:
  assumes wf: "sched_wf k st"
  shows "support (Cork_Equals (ok_eth k)) (cork_votes k st h) c = (\<Sum>v\<in>voters k st h c. cork_power k v)"
proof -
  let ?E = "ok_eth k" and ?es = "cork_entries k st h"
  let ?S = "{e \<in> set ?es. Cork_Equals ?E c (snd (snd (snd (snd e))))}"
  have "support (Cork_Equals ?E) (cork_votes k st h) c =
      (\<Sum>e\<leftarrow>?es. if Cork_Equals ?E c (snd (snd (snd (snd e)))) then cork_power k (fst e) else 0)"
    by (simp add: support_def cork_votes_def comp_def entry_vote_def case_prod_unfold cong: if_cong)
  also have "\<dots> = (\<Sum>e\<in>set ?es. if Cork_Equals ?E c (snd (snd (snd (snd e)))) then cork_power k (fst e) else 0)"
    by (simp add: sum_list_distinct_conv_sum_set [OF entries_distinct [OF wf]])
  also have "\<dots> = (\<Sum>e\<in>?S. cork_power k (fst e))"
    by (simp add: sum.inter_filter)
  also have "\<dots> = (\<Sum>v\<in>fst ` ?S. cork_power k v)"
  proof (rule sum.reindex_cong [symmetric, where l = fst])
    show "inj_on fst ?S"
    proof (rule inj_onI)
      fix x y assume xy: "x \<in> ?S" "y \<in> ?S" "fst x = fst y"
      then obtain v d d' where x: "x = (v, h, IDHash ?E d h, cork_addr k d, d)"
        "GetScheduledCork st h (IDHash ?E d h) v (cork_addr k d) = Some d" "Cork_Equals ?E c d"
        and y: "y = (v, h, IDHash ?E d' h, cork_addr k d', d')"
        "GetScheduledCork st h (IDHash ?E d' h) v (cork_addr k d') = Some d'" "Cork_Equals ?E c d'"
        by (auto simp: entries_iff [OF wf])
      from x(3) y(3) have "IDHash ?E d h = IDHash ?E d' h" "cork_addr k d = cork_addr k d'"
        by (simp_all add: Cork_Equals_iff cork_addr_def IDHash_def)
      with x(2) y(2) have "d = d'" by (metis option.inject)
      with x(1) y(1) show "x = y" by simp
    qed
  qed simp_all
  also have "fst ` ?S = voters k st h c"
  proof (intro set_eqI iffI)
    fix v assume "v \<in> fst ` ?S"
    then obtain d where "length v = 20" "GetScheduledCork st h (IDHash ?E d h) v (cork_addr k d) = Some d" "Cork_Equals ?E c d"
      by (auto simp: entries_iff [OF wf])
    then show "v \<in> voters k st h c"
      by (auto simp: voters_def Cork_Equals_iff cork_addr_def IDHash_def)
  next
    fix v assume "v \<in> voters k st h c"
    then obtain d where "length v = 20" "GetScheduledCork st h (IDHash ?E c h) v (cork_addr k c) = Some d" "Cork_Equals ?E c d"
      by (auto simp: voters_def)
    moreover from this have "IDHash ?E d h = IDHash ?E c h" "cork_addr k d = cork_addr k c"
      by (simp_all add: Cork_Equals_iff cork_addr_def IDHash_def)
    ultimately have "(v, h, IDHash ?E d h, cork_addr k d, d) \<in> ?S" by (simp add: entries_iff [OF wf])
    then show "v \<in> fst ` ?S" by force
  qed
  finally show ?thesis .
qed

section \<open>The loops of the tally\<close>

lemma count_votes_Ok:
  "\<forall>e \<in> set es. ok_ConsensusPower k (fst e) \<noteq> None \<Longrightarrow>
    fold_res (count_vote k h) es (s, t) =
      Ok (foldl (drop_entry h) s es, foldl (\<lambda>t (c, p). add_vote (ok_eth k) c p t) t (map (entry_vote k) es))"
  by (induction es arbitrary: s t)
    (auto simp: count_vote_def drop_entry_def entry_vote_def cork_power_def split: option.split)

lemma count_votes_Panic:
  "e \<in> set es \<Longrightarrow> ok_ConsensusPower k (fst e) = None \<Longrightarrow>
    fold_res (count_vote k h) es (s, t) = Panic ''nil dereference''"
  by (induction es arbitrary: s t) (auto simp: count_vote_def split: option.split)

lemma drop_entries:
  "\<exists>n. foldl (drop_entry h) s es =
    s\<lparr>co_sched := foldl (\<lambda>m (v, _, i, a, _). kv_del m (GetScheduledCorkKey h i v a)) (co_sched s) es, co_counts := n\<rparr>"
proof (induction es arbitrary: s)
  case (Cons e es)
  obtain v h' i a c where e: "e = (v, h', i, a, c)" by (cases e)
  have "\<exists>n. drop_entry h s e = s\<lparr>co_sched := kv_del (co_sched s) (GetScheduledCorkKey h i v a), co_counts := n\<rparr>"
    by (auto simp: drop_entry_def e DeleteScheduledCork_def DecrementValidatorCorkCount_def SetValidatorCorkCount_def Let_def
        intro: exI [of _ "co_counts s"])
  then obtain n where "drop_entry h s e = s\<lparr>co_sched := kv_del (co_sched s) (GetScheduledCorkKey h i v a), co_counts := n\<rparr>" ..
  with Cons [of "drop_entry h s e"] show ?case by (simp add: e)
next
  case Nil
  show ?case by (rule exI [of _ "co_counts s"]) simp
qed

lemma settle_votes_Ok:
  "fold_res (settle_vote k h) t (s, acc) =
    Ok (s\<lparr>co_results := foldl (store_result k h) (co_results s) t\<rparr>, acc @ map fst (filter (quorum k) t))"
proof (induction t arbitrary: s acc)
  case (Cons x t)
  have nz: "NewDecFromInt (ok_GetLastTotalPower k) \<noteq> 0"
    using total_power by (simp add: NewDecFromInt_def dec_one_def)
  show ?case
    using Cons by (cases x) (simp add: settle_vote_def approvalPercentage_def Quo_def nz quorum_def store_result_def
        SetCorkResult_def Let_def)
qed simp

lemma quorum_power: "quorum k (c, p) \<longleftrightarrow> 67 * ok_GetLastTotalPower k < 100 * uint p"
  using quorum_iff [OF _ total_power, of "uint p"] by (simp add: quorum_def corkVoteThreshold_def vote_threshold_def)

text \<open>What the tally returns, and what it leaves of the state.\<close>

lemma GetApprovedScheduledCorks_Ok:
  assumes wf: "sched_wf k st"
    and known: "\<forall>e \<in> set (cork_entries k st (BlockHeight ctx)). ok_ConsensusPower k (fst e) \<noteq> None"
  shows "\<exists>s n r. GetApprovedScheduledCorks k ctx st =
      Ok (st\<lparr>co_sched := s, co_counts := n, co_results := r\<rparr>, approved_corks k st (BlockHeight ctx)) \<and>
    r = foldl (store_result k (BlockHeight ctx)) (co_results st)
      (reference_tally (Cork_Equals (ok_eth k)) (cork_votes k st (BlockHeight ctx))) \<and>
    (\<forall>key. kv_get s key =
      (if prefix (GetScheduledCorkKeyByBlockHeightPrefix (BlockHeight ctx)) key then None else kv_get (co_sched st) key))"
proof -
  let ?h = "BlockHeight ctx" and ?E = "ok_eth k"
  let ?es = "cork_entries k st ?h" and ?t = "reference_tally (Cork_Equals ?E) (cork_votes k st ?h)"
  let ?key = "\<lambda>(v, _, i, a, _). GetScheduledCorkKey ?h i v a"
  obtain n where n: "foldl (drop_entry ?h) st ?es =
      st\<lparr>co_sched := foldl (\<lambda>m e. kv_del m (?key e)) (co_sched st) ?es, co_counts := n\<rparr>"
    using drop_entries [of ?h st ?es] by (auto simp: case_prod_unfold)
  have get: "kv_get (foldl (\<lambda>m e. kv_del m (?key e)) (co_sched st) ?es) key =
      (if prefix (GetScheduledCorkKeyByBlockHeightPrefix ?h) key then None else kv_get (co_sched st) key)" for key
  proof (cases "prefix (GetScheduledCorkKeyByBlockHeightPrefix ?h) key")
    case False
    then have "key \<notin> ?key ` set ?es" by (auto simp: entries_iff [OF wf])
    with False show ?thesis by (simp add: kv_get_foldl_del)
  next
    case True
    have "key \<in> ?key ` set ?es" if some: "kv_get (co_sched st) key = Some c" for c
    proof -
      obtain h v where hv: "length v = 20" "key = GetScheduledCorkKey h (IDHash ?E c h) v (cork_addr k c)"
        using wf some by (auto simp: sched_wf_def dest!: kv_allD simp: sched_key_ok_iff)
      with True have "h = ?h" by simp
      with hv some have "(v, ?h, IDHash ?E c ?h, cork_addr k c, c) \<in> set ?es"
        by (simp add: entries_iff [OF wf] GetScheduledCork_def)
      then show ?thesis using hv \<open>h = ?h\<close> by force
    qed
    with True show ?thesis by (cases "kv_get (co_sched st) key") (auto simp: kv_get_foldl_del)
  qed
  have tally: "foldl (\<lambda>t (c, p). add_vote ?E c p t) [] (map (entry_vote k) ?es) = ?t"
    by (simp add: cork_tally.tally_reference cork_votes_def)
  have "IterateScheduledCorksByBlockHeight k st ?h (\<lambda>e acc. (acc @ [e], False)) [] = ?es"
    using iterate_collect [of "\<lambda>x. x"]
    by (simp add: IterateScheduledCorksByBlockHeight_def IterateScheduledCorksByPrefix_def cork_entries_def)
  then have "GetApprovedScheduledCorks k ctx st =
      fold_res (settle_vote k ?h) ?t (foldl (drop_entry ?h) st ?es, [])"
    using count_votes_Ok [OF known, of ?h st "[]"] by (simp add: GetApprovedScheduledCorks_def tally Let_def)
  moreover have "map fst (filter (quorum k) ?t) = approved_corks k st ?h"
    by (simp add: approved_corks_def reference_tally_def filter_map comp_def quorum_power support_voters [OF wf])
  ultimately show ?thesis
    using get by (intro exI [of _ "foldl (\<lambda>m e. kv_del m (?key e)) (co_sched st) ?es"] exI [of _ n]) (simp add: settle_votes_Ok n)
qed

lemma sched_wf_drop:
  "sched_wf k st \<Longrightarrow> (\<And>key. kv_get s key = (if P key then None else kv_get (co_sched st) key)) \<Longrightarrow>
    sched_wf k (st'\<lparr>co_sched := s\<rparr>)"
  by (simp add: sched_wf_def kv_all_iff)

section \<open>Submission\<close>

lemma submit_calls:
  "foldl (submitContractCall k) s cs = s\<lparr>
    co_nonce := (if cs = [] then co_nonce s else Some (PutUint64 (GetLatestInvalidationNonce s + of_nat (length cs)))),
    co_calls := co_calls s @ map (\<lambda>i. call_of k (GetLatestInvalidationNonce s + 1 + of_nat i) (cs ! i)) [0..<length cs]\<rparr>"
proof (induction cs rule: rev_induct)
  case (snoc c cs)
  let ?s = "foldl (submitContractCall k) s cs"
  have nonce: "GetLatestInvalidationNonce ?s = GetLatestInvalidationNonce s + of_nat (length cs)"
    unfolding snoc by (simp add: GetLatestInvalidationNonce_def BigEndianToUint64_def flip: length_greater_0_conv)
  have step: "foldl (submitContractCall k) s (cs @ [c]) =
      ?s\<lparr>co_nonce := Some (PutUint64 (GetLatestInvalidationNonce ?s + 1)),
         co_calls := co_calls ?s @ [call_of k (GetLatestInvalidationNonce ?s + 1) c]\<rparr>"
    by (simp add: submitContractCall_def IncrementInvalidationNonce_def SetLatestInvalidationNonce_def call_of_def Let_def)
  have calls: "map (\<lambda>i. call_of k (GetLatestInvalidationNonce s + 1 + of_nat i) ((cs @ [c]) ! i)) [0..<length cs] =
      map (\<lambda>i. call_of k (GetLatestInvalidationNonce s + 1 + of_nat i) (cs ! i)) [0..<length cs]"
    by (rule map_cong) (simp_all add: nth_append)
  show ?case
    unfolding step nonce unfolding snoc by (simp add: calls nth_append algebra_simps)
qed simp

lemma cork_EndBlocker_Ok:
  assumes wf: "sched_wf k st"
    and known: "\<forall>e \<in> set (cork_entries k st (BlockHeight ctx)). ok_ConsensusPower k (fst e) \<noteq> None"
  defines "ap \<equiv> approved_corks k st (BlockHeight ctx)" and "N \<equiv> GetLatestInvalidationNonce st"
  shows "\<exists>st'. cork_EndBlocker k ctx st = Ok st' \<and> sched_wf k st' \<and>
    (\<forall>h i v a. GetScheduledCork st' h i v a = (if h = BlockHeight ctx then None else GetScheduledCork st h i v a)) \<and>
    co_results st' = foldl (store_result k (BlockHeight ctx)) (co_results st)
      (reference_tally (Cork_Equals (ok_eth k)) (cork_votes k st (BlockHeight ctx))) \<and>
    co_calls st' = co_calls st @ map (\<lambda>i. call_of k (N + 1 + of_nat i) (ap ! i)) [0..<length ap] \<and>
    GetLatestInvalidationNonce st' = N + of_nat (length ap) \<and>
    co_cellars st' = co_cellars st \<and> co_pubsub st' = co_pubsub st \<and> co_params st' = co_params st"
proof -
  obtain s n r where r: "GetApprovedScheduledCorks k ctx st =
      Ok (st\<lparr>co_sched := s, co_counts := n, co_results := r\<rparr>, ap)"
    "r = foldl (store_result k (BlockHeight ctx)) (co_results st)
      (reference_tally (Cork_Equals (ok_eth k)) (cork_votes k st (BlockHeight ctx)))"
    "\<And>key. kv_get s key =
      (if prefix (GetScheduledCorkKeyByBlockHeightPrefix (BlockHeight ctx)) key then None else kv_get (co_sched st) key)"
    using GetApprovedScheduledCorks_Ok [OF wf known] unfolding ap_def by blast
  let ?s = "st\<lparr>co_sched := s, co_counts := n, co_results := r\<rparr>"
  let ?t = "foldl (submitContractCall k) ?s ap"
  have N: "GetLatestInvalidationNonce ?s = N" by (simp add: N_def GetLatestInvalidationNonce_def)
  have t: "?t = ?s\<lparr>co_nonce := (if ap = [] then co_nonce st else Some (PutUint64 (N + of_nat (length ap)))),
      co_calls := co_calls st @ map (\<lambda>i. call_of k (N + 1 + of_nat i) (ap ! i)) [0..<length ap]\<rparr>"
    unfolding submit_calls N by simp
  have "sched_wf k ?t" unfolding t using wf r(3) by (simp add: sched_wf_def kv_all_iff)
  moreover have "GetLatestInvalidationNonce ?t = N + of_nat (length ap)"
    unfolding t by (simp add: N_def GetLatestInvalidationNonce_def BigEndianToUint64_def)
  moreover have "GetScheduledCork ?t h i v a = (if h = BlockHeight ctx then None else GetScheduledCork st h i v a)"
    for h i v a unfolding t by (simp add: GetScheduledCork_def r(3))
  moreover have "cork_EndBlocker k ctx st = Ok ?t" by (simp add: cork_EndBlocker_def r(1))
  moreover have "co_results ?t = r" "co_cellars ?t = co_cellars st" "co_pubsub ?t = co_pubsub st"
    "co_params ?t = co_params st"
    "co_calls ?t = co_calls st @ map (\<lambda>i. call_of k (N + 1 + of_nat i) (ap ! i)) [0..<length ap]"
    unfolding t by simp_all
  ultimately show ?thesis using r(2) by blast
qed

lemma cork_EndBlocker_Panic:
  assumes "e \<in> set (cork_entries k st (BlockHeight ctx))" "ok_ConsensusPower k (fst e) = None"
  shows "cork_EndBlocker k ctx st = Panic ''nil dereference''"
proof -
  have "IterateScheduledCorksByBlockHeight k st (BlockHeight ctx) (\<lambda>e acc. (acc @ [e], False)) [] =
      cork_entries k st (BlockHeight ctx)"
    using iterate_collect [of "\<lambda>x. x"]
    by (simp add: IterateScheduledCorksByBlockHeight_def IterateScheduledCorksByPrefix_def cork_entries_def)
  with count_votes_Panic [OF assms] show ?thesis
    by (simp add: cork_EndBlocker_def GetApprovedScheduledCorks_def Let_def)
qed

section \<open>Scheduling\<close>

lemma ScheduleCork_cases:
  assumes "ScheduleCork k ctx st msg = Ok (st', i)"
  obtains signer v c es where "AccAddressFromBech32 (ok_sdk k) (msc_Signer msg) = Some signer"
    "ok_GetOrchestratorValidatorAddress k signer = Some v" "msc_Cork msg = Some c"
    "HasCellarID k st (cork_addr k c)" "BlockHeight ctx < msc_BlockHeight msg"
    "i = EncodeToString (IDHash (ok_eth k) c (msc_BlockHeight msg))"
    "st' = cork_emit es (IncrementValidatorCorkCount (fst (SetScheduledCork k st (msc_BlockHeight msg) v c)) v)"
  using assms
  by (auto simp: ScheduleCork_def MustGetSigner_def SetScheduledCork_def Let_def cork_addr_def not_le
      split: option.splits if_splits)

lemma ScheduleCork_sched:
  assumes "ScheduleCork k ctx st msg = Ok (st', i)"
  obtains v c where "length v = 20" "msc_Cork msg = Some c" "BlockHeight ctx < msc_BlockHeight msg"
    "co_sched st' = kv_set (co_sched st) (GetScheduledCorkKey (msc_BlockHeight msg)
       (IDHash (ok_eth k) c (msc_BlockHeight msg)) v (cork_addr k c)) c"
proof -
  from assms obtain signer v c es where "ok_GetOrchestratorValidatorAddress k signer = Some v" "msc_Cork msg = Some c"
    "BlockHeight ctx < msc_BlockHeight msg"
    "st' = cork_emit es (IncrementValidatorCorkCount (fst (SetScheduledCork k st (msc_BlockHeight msg) v c)) v)"
    by (rule ScheduleCork_cases)
  then show ?thesis
    by (intro that [of v c])
      (simp_all add: validator_address cork_emit_def IncrementValidatorCorkCount_def SetValidatorCorkCount_def
        SetScheduledCork_def cork_addr_def Let_def)
qed

text \<open>No scheduled cork lies in the past.\<close>

lemma cork_step_inv:
  assumes "cork_step k (h, st) (h', st')" "sched_wf k st" "none_past k h st"
  shows "sched_wf k st' \<and> none_past k h' st'"
  using assms(1)
proof cases
  case (schedule msg i)
  then obtain v c where *: "length v = 20" "h < msc_BlockHeight msg"
    "co_sched st' = kv_set (co_sched st) (GetScheduledCorkKey (msc_BlockHeight msg)
       (IDHash (ok_eth k) c (msc_BlockHeight msg)) v (cork_addr k c)) c"
    by (auto elim: ScheduleCork_sched)
  let ?key = "GetScheduledCorkKey (msc_BlockHeight msg) (IDHash (ok_eth k) c (msc_BlockHeight msg)) v (cork_addr k c)"
  have ok: "sched_key_ok (ok_eth k) ?key c" using *(1) by (auto simp: sched_key_ok_iff)
  have "key_height ?key = msc_BlockHeight msg" by (rule key_height_key)
  with * schedule assms(2,3) ok show ?thesis
    by (auto simp: sched_wf_def none_past_def intro!: kv_all_set)
next
  case (proposal c)
  then have "co_sched st' = co_sched st"
    by (cases c) (auto simp: HandleAddManagedCellarsProposal_def HandleRemoveManagedCellarsProposal_def
        HandleScheduledCorkProposal_def SetCellarIDs_def Let_def split: if_splits prod.splits)
  with assms(2,3) proposal show ?thesis by (simp add: sched_wf_def none_past_def)
next
  case end_block
  have known: "\<forall>e \<in> set (cork_entries k st h). ok_ConsensusPower k (fst e) \<noteq> None"
    using end_block cork_EndBlocker_Panic [of _ st "\<lparr>BlockHeight = h\<rparr>"] by fastforce
  obtain s n r where g: "GetApprovedScheduledCorks k \<lparr>BlockHeight = h\<rparr> st =
      Ok (st\<lparr>co_sched := s, co_counts := n, co_results := r\<rparr>, approved_corks k st h)"
    "\<And>key. kv_get s key =
      (if prefix (GetScheduledCorkKeyByBlockHeightPrefix h) key then None else kv_get (co_sched st) key)"
    using GetApprovedScheduledCorks_Ok [OF assms(2), of "\<lparr>BlockHeight = h\<rparr>"] known by auto
  then have s: "co_sched st' = s" using end_block by (auto simp: cork_EndBlocker_def submit_calls)
  have "key_height key \<noteq> h" if "kv_get s key = Some c" for key c
  proof -
    from that g(2) have "\<not> prefix (GetScheduledCorkKeyByBlockHeightPrefix h) key" "kv_get (co_sched st) key = Some c"
      by (auto split: if_splits)
    with assms(2) obtain h1 v where "key = GetScheduledCorkKey h1 (IDHash (ok_eth k) c h1) v (cork_addr k c)" "h \<noteq> h1"
      by (auto simp: sched_wf_def dest!: kv_allD simp: sched_key_ok_iff)
    then show ?thesis by (simp add: key_height_key)
  qed
  moreover have "h + 1 \<le> x" if "h \<le> x" "x \<noteq> h" for x :: u64
    using that end_block by (metis inc_le le_neq_trans)
  ultimately have "none_past k (h + 1) st'"
    using assms(3) g(2) by (auto simp: none_past_def s kv_all_iff split: if_splits)
  moreover have "sched_wf k st'" using assms(2) g(2) by (auto simp: sched_wf_def s kv_all_iff)
  ultimately show ?thesis using end_block by simp
qed

lemma cork_reachable_inv:
  "cork_reachable k h st \<Longrightarrow> sched_wf k st \<and> none_past k h st"
proof (induction rule: cork_reachable.induct)
  case (genesis st h)
  then show ?case by (simp add: sched_wf_def none_past_def)
next
  case (step h st h' st')
  then show ?case using cork_step_inv by blast
qed

section \<open>Cellars\<close>

lemma HasCellarID_set: "HasCellarID k st a \<longleftrightarrow> a \<in> set (GetCellarIDs k st)"
  by (auto simp: HasCellarID_def list_ex_iff)

lemma GetCellarIDs_length: "a \<in> set (GetCellarIDs k st) \<Longrightarrow> length a = 20"
  by (auto simp: GetCellarIDs_def)

lemma add_cellar_eq: "add_cellar k d i (cs, ps) = (if HexToAddress (ok_eth k) i \<in> set cs then (cs, ps)
    else (cs @ [HexToAddress (ok_eth k) i], SetDefaultSubscription (ok_pubsub k) ps
      \<lparr>ds_SubscriptionId = NewEthereumSubscriptionID (ok_eth k) (HexToAddress (ok_eth k) i), ds_PublisherDomain = d\<rparr>))"
  by (simp add: add_cellar_def Let_def)

lemma subscribed_set:
  "subscribed pk ps d i \<Longrightarrow> subscribed pk (SetDefaultSubscription pk ps \<lparr>ds_SubscriptionId = j, ds_PublisherDomain = d\<rparr>) d i"
  "subscribed pk (SetDefaultSubscription pk ps \<lparr>ds_SubscriptionId = j, ds_PublisherDomain = d\<rparr>) d j"
  by (auto simp: subscribed_def GetDefaultSubscription_def SetDefaultSubscription_def)

lemma add_cellar_fold:
  "fold (add_cellar k d) ids (cs, ps) = (cs', ps') \<Longrightarrow> distinct cs \<Longrightarrow> \<forall>a \<in> set cs. length a = 20 \<Longrightarrow>
    set cs' = set cs \<union> HexToAddress (ok_eth k) ` set ids \<and> distinct cs' \<and> (\<forall>a \<in> set cs'. length a = 20) \<and>
    (\<forall>i. subscribed (ok_pubsub k) ps d i \<longrightarrow> subscribed (ok_pubsub k) ps' d i) \<and>
    (\<forall>a \<in> set cs' - set cs. subscribed (ok_pubsub k) ps' d (NewEthereumSubscriptionID (ok_eth k) a))"
proof (induction ids arbitrary: cs ps)
  case (Cons i ids)
  let ?a = "HexToAddress (ok_eth k) i" and ?pk = "ok_pubsub k"
  let ?ps = "SetDefaultSubscription ?pk ps
    \<lparr>ds_SubscriptionId = NewEthereumSubscriptionID (ok_eth k) ?a, ds_PublisherDomain = d\<rparr>"
  show ?case
  proof (cases "?a \<in> set cs")
    case True
    with Cons.prems Cons.IH [of cs ps] show ?thesis by (auto simp: add_cellar_eq)
  next
    case False
    then have step: "fold (add_cellar k d) ids (cs @ [?a], ?ps) = (cs', ps')"
      using Cons.prems(1) by (simp add: add_cellar_eq)
    have IH: "set cs' = set (cs @ [?a]) \<union> HexToAddress (ok_eth k) ` set ids" "distinct cs'" "\<forall>a \<in> set cs'. length a = 20"
      "\<And>j. subscribed ?pk ?ps d j \<Longrightarrow> subscribed ?pk ps' d j"
      "\<forall>a \<in> set cs' - set (cs @ [?a]). subscribed ?pk ps' d (NewEthereumSubscriptionID (ok_eth k) a)"
      using Cons.IH [OF step] False Cons.prems(2,3) by auto
    have "subscribed ?pk ps' d (NewEthereumSubscriptionID (ok_eth k) ?a)" by (rule IH(4)) (rule subscribed_set)
    moreover have "\<forall>j. subscribed ?pk ps d j \<longrightarrow> subscribed ?pk ps' d j" using IH(4) subscribed_set(1) by blast
    ultimately show ?thesis using IH(1,2,3,5) by auto
  qed
qed auto

lemma cellars_hex: "\<forall>a \<in> set as. length a = 20 \<Longrightarrow> map (HexToAddress (ok_eth k)) (map (Address_Hex (ok_eth k)) as) = as"
  by (induction as) simp_all

end

end
