(* ===== verification/Cork_Properties.thy ===== *)
theory Cork_Properties
  imports Cork_Safety
begin

text \<open>
  The properties of the cork module: the tally, the end of a block, the schedule and the managed
  cellars. The concrete keeper and states of the instances come first: two validators with power 60
  and 40, one cellar, one cork that the first schedules for block 7 and that both schedule for
  block 9.
\<close>

section \<open>Concrete instances\<close>

definition ex_pubsub_keeper :: pubsub_keeper where
  "ex_pubsub_keeper = \<lparr>pk_sdk = ref_sdk, pk_eth = ref_eth,
     pk_web = \<lparr>url_Parse = (\<lambda>_. True), pem_Decode = (\<lambda>b. (Some \<lparr>pem_Type = ''CERTIFICATE'', pem_Bytes = b\<rparr>, [])),
       x509_ParseCertificate = (\<lambda>_. Some \<lparr>cert_IsCA = True, cert_IsECDSA = True\<rparr>), json_Valid = (\<lambda>_. True)\<rparr>,
     pk_GetOrchestratorValidatorAddress = (\<lambda>_. None), pk_Validator = (\<lambda>_. True)\<rparr>"

definition ex_pubsub :: pubsub_state where
  "ex_pubsub = \<lparr>ps_publishers = kv_empty, ps_subscribers = kv_empty, ps_pintents = kv_empty, ps_sintents = kv_empty,
     ps_defaults = kv_empty, ps_events = []\<rparr>"

definition ex_val :: "byte \<Rightarrow> addr" where "ex_val b = replicate 20 b"

definition ex_cork_keeper :: cork_keeper where
  "ex_cork_keeper = \<lparr>ok_sdk = ref_sdk, ok_eth = ref_eth, ok_pubsub = ex_pubsub_keeper,
     ok_GetOrchestratorValidatorAddress = (\<lambda>a. if a = string_bytes ''alice'' then Some (ex_val 1)
       else if a = string_bytes ''bob'' then Some (ex_val 2) else if a = string_bytes ''eve'' then Some (ex_val 3) else None),
     ok_ConsensusPower = (\<lambda>v. if v = ex_val 1 then Some 60 else if v = ex_val 2 then Some 40 else None),
     ok_GetLastTotalPower = 100\<rparr>"

definition ex_cellar :: string where "ex_cellar = ''0xaaaaaaaaaaaaaaaaaaaa''"

definition ex_cork :: cork where "ex_cork = \<lparr>c_EncodedContractCall = [1, 2], c_TargetContractAddress = ex_cellar\<rparr>"

definition ex_cork_state :: cork_state where
  "ex_cork_state = \<lparr>co_params = cork_DefaultParams, co_nonce = None, co_cellars = [ex_cellar], co_sched = kv_empty,
     co_results = kv_empty, co_counts = kv_empty, co_pubsub = ex_pubsub, co_calls = [], co_events = []\<rparr>"

definition ex_add :: "u64 \<Rightarrow> byte \<Rightarrow> cork_state \<Rightarrow> cork_state" where
  "ex_add h b st = fst (SetScheduledCork ex_cork_keeper st h (ex_val b) ex_cork)"

definition ex_scheduled :: cork_state where
  "ex_scheduled = ex_add 9 2 (ex_add 9 1 (ex_add 7 1 ex_cork_state))"

interpretation ex_cork: cork_env ex_cork_keeper
proof (intro cork_env.intro cork_env_axioms.intro)
  show "sdk_dec (ok_sdk ex_cork_keeper)" by (simp add: ex_cork_keeper_def ref_dec.sdk_dec_axioms)
  show "eth_laws (ok_eth ex_cork_keeper)" by (simp add: ex_cork_keeper_def ref_eth.eth_laws_axioms)
  show "0 < ok_GetLastTotalPower ex_cork_keeper" "ok_GetLastTotalPower ex_cork_keeper \<le> 10000000000000000"
    by (simp_all add: ex_cork_keeper_def)
  show "ok_GetOrchestratorValidatorAddress ex_cork_keeper a = Some v \<Longrightarrow> length v = 20" for a v
    by (auto simp: ex_cork_keeper_def ex_val_def split: if_splits)
qed

lemmas ex_cork_ax = ex_cork.cork_env_axioms

lemma ex_val_simps [simp]: "length (ex_val b) = 20" "ex_val b = ex_val b' \<longleftrightarrow> b = b'"
  by (simp_all add: ex_val_def)

lemma ex_add_wf [simp]: "sched_wf ex_cork_keeper st \<Longrightarrow> sched_wf ex_cork_keeper (ex_add h b st)"
  by (auto simp: sched_wf_def ex_add_def SetScheduledCork_def Let_def ex_cork.sched_key_ok_iff cork_addr_def
      intro!: kv_all_set exI [of _ h] exI [of _ "ex_val b"])

lemma ex_add_get: "length i = 32 \<Longrightarrow> length v = 20 \<Longrightarrow> GetScheduledCork (ex_add h b st) h' i v a =
    (if h' = h \<and> i = IDHash (ok_eth ex_cork_keeper) ex_cork h \<and> v = ex_val b \<and> a = cork_addr ex_cork_keeper ex_cork
     then Some ex_cork else GetScheduledCork st h' i v a)"
  by (auto simp: ex_add_def SetScheduledCork_def GetScheduledCork_def Let_def cork_addr_def)

lemma ex_cork_state_simps [simp]: "sched_wf ex_cork_keeper ex_cork_state" "GetScheduledCork ex_cork_state h i v a = None"
  by (simp_all add: ex_cork_state_def sched_wf_def GetScheduledCork_def)

lemma ex_scheduled_wf [simp]: "sched_wf ex_cork_keeper ex_scheduled"
  by (simp add: ex_scheduled_def)

lemma ex_scheduled_known:
  "\<forall>e \<in> set (cork_entries ex_cork_keeper ex_scheduled h). ok_ConsensusPower ex_cork_keeper (fst e) \<noteq> None"
proof
  fix e assume "e \<in> set (cork_entries ex_cork_keeper ex_scheduled h)"
  then have "fst e \<in> {ex_val 1, ex_val 2}"
    unfolding ex_cork.entries_iff [OF ex_scheduled_wf] by (auto simp: ex_scheduled_def ex_add_get split: if_splits)
  then show "ok_ConsensusPower ex_cork_keeper (fst e) \<noteq> None" by (auto simp: ex_cork_keeper_def)
qed

section \<open>The tally\<close>

text \<open>
  C16. The tally of a block is the obvious one: the corks approved at height \<open>h\<close> are those scheduled
  for \<open>h\<close>, one for each class of equal corks and in the order in which the store lists them, whose
  distinct voters together hold more than 67 percent of the total power. A validator that scheduled
  a cork counts once for it; powers are added in 64 bits as in the code.
\<close>

theorem GetApprovedScheduledCorks_approved:
  assumes "cork_env k" "sched_wf k st"
    and "\<forall>e \<in> set (cork_entries k st (BlockHeight ctx)). ok_ConsensusPower k (fst e) \<noteq> None"
  shows "\<exists>st'. GetApprovedScheduledCorks k ctx st = Ok (st',
    filter (\<lambda>c. 67 * ok_GetLastTotalPower k < 100 * uint (\<Sum>v\<in>voters k st (BlockHeight ctx) c. cork_power k v))
      (representatives (Cork_Equals (ok_eth k)) (map fst (cork_votes k st (BlockHeight ctx)))))"
  using cork_env.GetApprovedScheduledCorks_Ok [OF assms] unfolding approved_corks_def by blast

theorem GetApprovedScheduledCorks_approved_witness:
  "\<exists>st'. GetApprovedScheduledCorks ex_cork_keeper \<lparr>BlockHeight = 9\<rparr> ex_scheduled = Ok (st',
    filter (\<lambda>c. 67 * ok_GetLastTotalPower ex_cork_keeper <
        100 * uint (\<Sum>v\<in>voters ex_cork_keeper ex_scheduled 9 c. cork_power ex_cork_keeper v))
      (representatives (Cork_Equals (ok_eth ex_cork_keeper)) (map fst (cork_votes ex_cork_keeper ex_scheduled 9))))"
  using GetApprovedScheduledCorks_approved [OF ex_cork_ax ex_scheduled_wf, of "\<lparr>BlockHeight = 9\<rparr>"] ex_scheduled_known [of 9]
  by simp

text \<open>
  C17. The end of a block returns, given that the staking keeper knows every validator with a cork
  at this height. It removes the corks scheduled for this height and no others, stores one result per
  candidate, and hands the approved corks to the bridge in order, with consecutive invalidation
  nonces after the last one. Cellars, subscriptions and parameters stay.
\<close>

theorem cork_EndBlocker_effect:
  assumes "cork_env k" "sched_wf k st"
    and "\<forall>e \<in> set (cork_entries k st (BlockHeight ctx)). ok_ConsensusPower k (fst e) \<noteq> None"
    and "approved_corks k st (BlockHeight ctx) = ap" "GetLatestInvalidationNonce st = N"
  shows "\<exists>st'. cork_EndBlocker k ctx st = Ok st' \<and> sched_wf k st' \<and>
    (\<forall>h i v a. GetScheduledCork st' h i v a = (if h = BlockHeight ctx then None else GetScheduledCork st h i v a)) \<and>
    co_results st' = foldl (store_result k (BlockHeight ctx)) (co_results st)
      (reference_tally (Cork_Equals (ok_eth k)) (cork_votes k st (BlockHeight ctx))) \<and>
    co_calls st' = co_calls st @ map (\<lambda>i. call_of k (N + 1 + of_nat i) (ap ! i)) [0..<length ap] \<and>
    GetLatestInvalidationNonce st' = N + of_nat (length ap) \<and>
    co_cellars st' = co_cellars st \<and> co_pubsub st' = co_pubsub st \<and> co_params st' = co_params st"
  using cork_env.cork_EndBlocker_Ok [OF assms(1-3)] unfolding assms(4,5) .

theorem cork_EndBlocker_effect_witness:
  "\<exists>st'. cork_EndBlocker ex_cork_keeper \<lparr>BlockHeight = 7\<rparr> ex_scheduled = Ok st' \<and>
    GetScheduledCork st' 9 (IDHash ref_eth ex_cork 9) (ex_val 2) (HexToAddress ref_eth ex_cellar) =
    GetScheduledCork ex_scheduled 9 (IDHash ref_eth ex_cork 9) (ex_val 2) (HexToAddress ref_eth ex_cellar)"
  using cork_EndBlocker_effect [OF ex_cork_ax ex_scheduled_wf _ refl refl, of "\<lparr>BlockHeight = 7\<rparr>"] ex_scheduled_known [of 7]
  by auto

text \<open>
  A cork of a validator that the staking keeper does not know (for instance one that has been
  removed since it scheduled the cork) makes the end of the block panic: the code dereferences the nil
  validator. Nothing removes the cork before its height, so the chain halts there.
\<close>

lemma cork_EndBlocker_panics:
  assumes "cork_env k" "sched_wf k st"
    and "GetScheduledCork st (BlockHeight ctx) (IDHash (ok_eth k) c (BlockHeight ctx)) v (cork_addr k c) = Some c"
    and "length v = 20" "ok_ConsensusPower k v = None"
  shows "cork_EndBlocker k ctx st = Panic ''nil dereference''"
proof -
  have "(v, BlockHeight ctx, IDHash (ok_eth k) c (BlockHeight ctx), cork_addr k c, c) \<in> set (cork_entries k st (BlockHeight ctx))"
    using assms cork_env.entries_iff [OF assms(1,2)] by simp
  from cork_env.cork_EndBlocker_Panic [OF assms(1) this] assms(5) show ?thesis by simp
qed

lemma ex_unknown_validator_panics:
  "cork_EndBlocker ex_cork_keeper \<lparr>BlockHeight = 8\<rparr> (ex_add 8 3 ex_cork_state) = Panic ''nil dereference''"
  by (rule cork_EndBlocker_panics [OF ex_cork_ax, of _ _ ex_cork "ex_val 3"])
    (simp_all add: ex_add_get ex_cork_keeper_def [THEN arg_cong, of ok_ConsensusPower])

section \<open>The schedule\<close>

text \<open>
  C19. No scheduled cork is ever missed: in every state reached by scheduling messages, proposals and
  ends of blocks, every key of the schedule is the one determined by its height, validator and cork,
  and its height is not below the current one. The end of the block at that height then counts it.
\<close>

theorem cork_schedule_invariant:
  assumes "cork_env k" "cork_reachable k h st"
  shows "sched_wf k st \<and> none_past k h st"
  using cork_env.cork_reachable_inv [OF assms] .

definition ex_schedule :: msg_schedule_cork where
  "ex_schedule = \<lparr>msc_Cork = Some ex_cork, msc_BlockHeight = 7, msc_Signer = ''somm1alice''\<rparr>"

lemma ex_schedule_Ok: "is_ok (ScheduleCork ex_cork_keeper \<lparr>BlockHeight = 5\<rparr> ex_cork_state ex_schedule)"
  by (simp add: ScheduleCork_def ex_schedule_def MustGetSigner_def ex_cork_keeper_def ref_sdk_def ex_cork_state_def
      HasCellarID_def GetCellarIDs_def ex_cork_def SetScheduledCork_def Let_def)

definition ex_after :: cork_state where
  "ex_after = fst (ok_val (ScheduleCork ex_cork_keeper \<lparr>BlockHeight = 5\<rparr> ex_cork_state ex_schedule))"

lemma ex_schedule_result: "ScheduleCork ex_cork_keeper \<lparr>BlockHeight = 5\<rparr> ex_cork_state ex_schedule =
    Ok (ex_after, snd (ok_val (ScheduleCork ex_cork_keeper \<lparr>BlockHeight = 5\<rparr> ex_cork_state ex_schedule)))"
  using is_ok_val [OF ex_schedule_Ok] by (simp add: ex_after_def prod_eq_iff)

lemma ex_after_reachable: "cork_reachable ex_cork_keeper 5 ex_after"
proof (rule cork_reachable.step)
  show "cork_reachable ex_cork_keeper 5 ex_cork_state"
    by (rule cork_reachable.genesis) (simp add: ex_cork_state_def)
  show "cork_step ex_cork_keeper (5, ex_cork_state) (5, ex_after)"
    by (rule cork_step.schedule [OF ex_schedule_result])
qed

theorem cork_schedule_invariant_witness:
  "sched_wf ex_cork_keeper ex_after \<and> none_past ex_cork_keeper 5 ex_after"
  by (rule cork_schedule_invariant [OF ex_cork_ax ex_after_reachable])

text \<open>
  C20. What a scheduling message does: an orchestrator's validator schedules, for a future block, a
  call to a managed cellar. The cork is stored for that validator under the returned id, every other
  entry of the schedule stays, and the validator's count grows by one even when the same cork was
  scheduled before, so it can exceed the number of stored corks.
\<close>

theorem ScheduleCork_effect:
  assumes "cork_env k" "ScheduleCork k ctx st msg = Ok (st', i)"
  shows "\<exists>signer v c. AccAddressFromBech32 (ok_sdk k) (msc_Signer msg) = Some signer \<and>
    ok_GetOrchestratorValidatorAddress k signer = Some v \<and> msc_Cork msg = Some c \<and>
    HasCellarID k st (cork_addr k c) \<and> BlockHeight ctx < msc_BlockHeight msg \<and>
    DecodeString i = Some (IDHash (ok_eth k) c (msc_BlockHeight msg)) \<and>
    (\<forall>h j u a. length j = 32 \<longrightarrow> length u = 20 \<longrightarrow> GetScheduledCork st' h j u a =
      (if h = msc_BlockHeight msg \<and> j = IDHash (ok_eth k) c h \<and> u = v \<and> a = cork_addr k c then Some c
       else GetScheduledCork st h j u a)) \<and>
    (\<forall>u. length u = 20 \<longrightarrow> GetValidatorCorkCount st' u = GetValidatorCorkCount st u + (if u = v then 1 else 0)) \<and>
    co_cellars st' = co_cellars st \<and> co_calls st' = co_calls st \<and> co_results st' = co_results st"
proof -
  obtain signer v c es where *: "AccAddressFromBech32 (ok_sdk k) (msc_Signer msg) = Some signer"
    "ok_GetOrchestratorValidatorAddress k signer = Some v" "msc_Cork msg = Some c"
    "HasCellarID k st (cork_addr k c)" "BlockHeight ctx < msc_BlockHeight msg"
    "i = EncodeToString (IDHash (ok_eth k) c (msc_BlockHeight msg))"
    "st' = cork_emit es (IncrementValidatorCorkCount (fst (SetScheduledCork k st (msc_BlockHeight msg) v c)) v)"
    using cork_env.ScheduleCork_cases [OF assms] .
  note eqs = *(7) cork_emit_def IncrementValidatorCorkCount_def SetValidatorCorkCount_def SetScheduledCork_def Let_def
  have v: "length v = 20" using cork_env.validator_address [OF assms(1) *(2)] .
  have "GetScheduledCork st' h j u a =
      (if h = msc_BlockHeight msg \<and> j = IDHash (ok_eth k) c h \<and> u = v \<and> a = cork_addr k c then Some c
       else GetScheduledCork st h j u a)" if "length j = 32" "length u = 20" for h j u a
    using that v cork_env.sched_key_inject [OF assms(1)] cork_env.IDHash_length [OF assms(1)]
    by (auto simp: eqs GetScheduledCork_def cork_addr_def)
  moreover have "GetValidatorCorkCount st' u = GetValidatorCorkCount st u + (if u = v then 1 else 0)" for u
    by (simp add: eqs GetValidatorCorkCount_def GetValidatorCorkCountKey_def BigEndianToUint64_def)
  ultimately show ?thesis
    using *(1-6) by (intro exI [of _ signer] exI [of _ v] exI [of _ c]) (simp add: eqs)
qed

theorem ScheduleCork_effect_witness:
  "GetScheduledCork ex_after 7 (IDHash (ok_eth ex_cork_keeper) ex_cork 7) (ex_val 1) (cork_addr ex_cork_keeper ex_cork) = Some ex_cork"
  using ScheduleCork_effect [OF ex_cork_ax ex_schedule_result]
  by (auto simp: ex_schedule_def) (auto simp: ex_cork_keeper_def ref_sdk_def ex_cork.IDHash_length [unfolded ex_cork_keeper_def])

section \<open>Cellars\<close>

text \<open>The stored list of cellars is sorted, without repetition and in canonical spelling.\<close>

definition cellars_ok :: "cork_keeper \<Rightarrow> cork_state \<Rightarrow> bool" where
  "cellars_ok k st \<longleftrightarrow> sorted (co_cellars st) \<and> distinct (GetCellarIDs k st) \<and>
    list_all (\<lambda>s. Address_Hex (ok_eth k) (HexToAddress (ok_eth k) s) = s) (co_cellars st)"

lemma unsubscribed_fold: "i \<in> set is \<Longrightarrow>
    GetDefaultSubscription pk (foldl (\<lambda>ps i. DeleteDefaultSubscription pk ps (f i)) ps is) (f i) = None"
  by (induction "is" rule: rev_induct) (auto simp: DeleteDefaultSubscription_def GetDefaultSubscription_def)

text \<open>
  C21. A proposal to add cellars keeps the list of cellars sorted, distinct and canonically spelled;
  afterwards exactly the old and the proposed addresses are managed, and the default subscription of
  every new one leads to the proposed publisher.
\<close>

theorem HandleAddManagedCellarsProposal_effect:
  assumes "cork_env k" "cellars_ok k st" "HandleAddManagedCellarsProposal k st p = Ok st'"
  shows "cellars_ok k st' \<and>
    (\<forall>a. HasCellarID k st' a \<longleftrightarrow> HasCellarID k st a \<or> a \<in> HexToAddress (ok_eth k) ` set (amc_CellarIds p)) \<and>
    (\<forall>a. HasCellarID k st' a \<longrightarrow> \<not> HasCellarID k st a \<longrightarrow>
      subscribed (ok_pubsub k) (co_pubsub st') (amc_PublisherDomain p) (NewEthereumSubscriptionID (ok_eth k) a))"
proof -
  let ?E = "ok_eth k"
  obtain cs ps where cs: "fold (add_cellar k (amc_PublisherDomain p)) (amc_CellarIds p) (GetCellarIDs k st, co_pubsub st) = (cs, ps)"
    by fastforce
  let ?ids = "sort (map (Address_Hex ?E) cs)"
  have st': "st' = SetCellarIDs (st\<lparr>co_pubsub := ps\<rparr>) ?ids"
    using assms(3) cs by (auto simp: HandleAddManagedCellarsProposal_def Let_def split: if_splits)
  note f = cork_env.add_cellar_fold [OF assms(1) cs]
  have f': "set cs = set (GetCellarIDs k st) \<union> HexToAddress ?E ` set (amc_CellarIds p)" "distinct cs"
    "\<forall>a \<in> set cs. length a = 20"
    "\<forall>a \<in> set cs - set (GetCellarIDs k st). subscribed (ok_pubsub k) ps (amc_PublisherDomain p) (NewEthereumSubscriptionID ?E a)"
    using f assms(2) cork_env.GetCellarIDs_length [OF assms(1)] by (auto simp: cellars_ok_def)
  have hex: "HexToAddress ?E (Address_Hex ?E a) = a" if "a \<in> set cs" for a
    using that f'(3) cork_env.cellars_hex [OF assms(1), of "[a]"] by simp
  have get: "mset (GetCellarIDs k st') = mset cs"
  proof -
    have "mset (map (HexToAddress ?E) ?ids) = mset (map (HexToAddress ?E) (map (Address_Hex ?E) cs))"
      by (simp del: map_map)
    also have "\<dots> = mset cs" by (simp only: cork_env.cellars_hex [OF assms(1) f'(3)])
    finally show ?thesis by (simp add: st' GetCellarIDs_def SetCellarIDs_def)
  qed
  then have "set (GetCellarIDs k st') = set cs" "distinct (GetCellarIDs k st')"
    using f'(2) by (metis set_mset_mset) (metis get f'(2) mset_eq_imp_distinct_iff)
  moreover have "list_all (\<lambda>s. Address_Hex ?E (HexToAddress ?E s) = s) ?ids"
    by (auto simp: list_all_iff hex)
  ultimately show ?thesis
    using f' by (auto simp: cellars_ok_def cork_env.HasCellarID_set [OF assms(1)]) (auto simp: st' SetCellarIDs_def)
qed

definition ex_publisher_state :: cork_state where
  "ex_publisher_state = ex_cork_state\<lparr>co_pubsub := SetPublisher ex_pubsub_keeper ex_pubsub
     \<lparr>pub_Address = ''somm1publisher'', pub_Domain = ''example.com'', pub_CaCert = []\<rparr>\<rparr>"

definition ex_add_cellars :: add_managed_cellars_proposal where
  "ex_add_cellars = \<lparr>amc_Title = ''t'', amc_Description = ''d'', amc_CellarIds = [''0xbbbbbbbbbbbbbbbbbbbb''],
     amc_PublisherDomain = ''example.com''\<rparr>"

lemma ex_cellars_ok: "cellars_ok ex_cork_keeper ex_publisher_state"
  by code_simp

lemma ex_add_cellars_Ok: "is_ok (HandleAddManagedCellarsProposal ex_cork_keeper ex_publisher_state ex_add_cellars)"
  by (simp add: HandleAddManagedCellarsProposal_def ex_publisher_state_def ex_add_cellars_def GetPublisher_def SetPublisher_def
      ex_cork_keeper_def ex_pubsub_keeper_def Let_def case_prod_unfold)

theorem HandleAddManagedCellarsProposal_effect_witness:
  "HasCellarID ex_cork_keeper (ok_val (HandleAddManagedCellarsProposal ex_cork_keeper ex_publisher_state ex_add_cellars))
    (HexToAddress ref_eth ''0xbbbbbbbbbbbbbbbbbbbb'')"
  using HandleAddManagedCellarsProposal_effect [OF ex_cork_ax ex_cellars_ok is_ok_val [OF ex_add_cellars_Ok]]
  by (simp add: ex_add_cellars_def) (simp add: ex_cork_keeper_def)

text \<open>
  A proposal to remove cellars always succeeds. It removes exactly the named addresses, leaves the
  list of cellars sorted, distinct and canonically spelled, and deletes the default subscription of
  every named address, managed or not.
\<close>

lemma HandleRemoveManagedCellarsProposal_effect:
  assumes "cork_env k" "cellars_ok k st"
  shows "\<exists>st'. HandleRemoveManagedCellarsProposal k st p = Ok st' \<and> cellars_ok k st' \<and>
    (\<forall>a. HasCellarID k st' a \<longleftrightarrow> HasCellarID k st a \<and> a \<notin> HexToAddress (ok_eth k) ` set (rmc_CellarIds p)) \<and>
    (\<forall>i \<in> set (rmc_CellarIds p). GetDefaultSubscription (ok_pubsub k) (co_pubsub st')
      (NewEthereumSubscriptionID (ok_eth k) (HexToAddress (ok_eth k) i)) = None)"
proof -
  let ?E = "ok_eth k" and ?P = "\<lambda>a. a \<notin> HexToAddress (ok_eth k) ` set (rmc_CellarIds p)"
  obtain st' where st': "HandleRemoveManagedCellarsProposal k st p = Ok st'"
    by (simp add: HandleRemoveManagedCellarsProposal_def Let_def)
  have canon: "map (Address_Hex ?E) (filter ?P (GetCellarIDs k st)) = filter (\<lambda>s. ?P (HexToAddress ?E s)) (co_cellars st)"
    using assms(2) by (auto simp: cellars_ok_def GetCellarIDs_def filter_map comp_def list_all_iff intro!: map_idI)
  have member: "(\<lambda>a. \<not> list_ex (\<lambda>i. a = HexToAddress ?E i) (rmc_CellarIds p)) = ?P"
    by (auto simp: list_ex_iff fun_eq_iff)
  have cellars: "co_cellars st' = filter (\<lambda>s. ?P (HexToAddress ?E s)) (co_cellars st)"
    using st' unfolding HandleRemoveManagedCellarsProposal_def Let_def member canon by (auto simp: SetCellarIDs_def)
  then have get: "GetCellarIDs k st' = filter ?P (GetCellarIDs k st)"
    by (simp add: GetCellarIDs_def filter_map comp_def)
  have "cellars_ok k st'"
    using assms(2) unfolding cellars_ok_def get unfolding cellars by (auto simp: list_all_iff sorted_wrt_filter)
  moreover have "co_pubsub st' = foldl (\<lambda>ps i. DeleteDefaultSubscription (ok_pubsub k) ps
      (NewEthereumSubscriptionID ?E (HexToAddress ?E i))) (co_pubsub st) (rmc_CellarIds p)"
    using st' by (auto simp: HandleRemoveManagedCellarsProposal_def Let_def SetCellarIDs_def)
  ultimately show ?thesis
    using st' by (auto simp: cork_env.HasCellarID_set [OF assms(1)] get
      unsubscribed_fold [where f = "\<lambda>i. NewEthereumSubscriptionID ?E (HexToAddress ?E i)"])
qed

end
