(* ===== verification/Axelarcork_Types.thy ===== *)
theory Axelarcork_Types
  imports Pubsub_Types
begin

text \<open>
  The data of the axelarcork module (\<^verbatim>\<open>x/axelarcork/types\<close>): contract calls for EVM chains reached over
  Axelar, chain configurations, nonces and proxy upgrades, with validation, messages, proposals,
  parameters, genesis, keys and the payload encoding. ABI packing (go-ethereum), JSON and the IBC
  identifier checks are parameters; the locale \<open>abi_codec\<close> states that unpacking inverts packing.
\<close>

section \<open>Errors\<close>

abbreviation ErrInvalidEVMAddress :: error where "ErrInvalidEVMAddress \<equiv> Registered ''axelarcork'' 2"

abbreviation axelar_ErrUnmanagedCellarAddress :: error where
  "axelar_ErrUnmanagedCellarAddress \<equiv> Registered ''axelarcork'' 3"

abbreviation axelar_ErrEmptyContractCall :: error where "axelar_ErrEmptyContractCall \<equiv> Registered ''axelarcork'' 4"

abbreviation axelar_ErrSchedulingInThePast :: error where
  "axelar_ErrSchedulingInThePast \<equiv> Registered ''axelarcork'' 5"

abbreviation axelar_ErrInvalidJSON :: error where "axelar_ErrInvalidJSON \<equiv> Registered ''axelarcork'' 6"

abbreviation ErrValuelessSend :: error where "ErrValuelessSend \<equiv> Registered ''axelarcork'' 7"

abbreviation ErrDisabled :: error where "ErrDisabled \<equiv> Registered ''axelarcork'' 8"

definition axelarcork_ModuleName :: string where "axelarcork_ModuleName = ''axelarcork''"

section \<open>Payloads\<close>

datatype abi_type = Uint256 | Address | Bytes | AddressArr

datatype abi_arg = AUint int | AAddress addr | ABytes bytes | AAddressArr "addr list"

record abi =
  abi_Pack :: "abi_type list \<Rightarrow> abi_arg list \<Rightarrow> bytes option"
  abi_Unpack :: "abi_type list \<Rightarrow> bytes \<Rightarrow> abi_arg list option"

definition LogicCallMsgID :: int where "LogicCallMsgID = 0"

definition UpgradeMsgID :: int where "UpgradeMsgID = 1"

definition HourInBlocks :: u64 where "HourInBlocks = (60 * 60) div 12"

definition DefaultExecutableHeightThreshold :: u64 where "DefaultExecutableHeightThreshold = 72 * HourInBlocks"

definition EncodeLogicCallArgs :: "eth \<Rightarrow> abi \<Rightarrow> string \<Rightarrow> u64 \<Rightarrow> u64 \<Rightarrow> bytes \<Rightarrow> bytes option" where
  "EncodeLogicCallArgs E A targetContract nonce deadline callData =
    abi_Pack A [Uint256, Address, Uint256, Uint256, Bytes]
      [AUint LogicCallMsgID, AAddress (HexToAddress E targetContract), AUint (sint nonce), AUint (sint deadline),
       ABytes callData]"

text \<open>
  \<^verbatim>\<open>Uint64()\<close> of a big integer is its low 64 bits. A failed type assertion leaves the zero value
  (or a nil pointer, which panics); unpacked arguments have the types asked for, so the model
  treats any other list as a decoding failure.
\<close>

definition DecodeLogicCallArgs :: "eth \<Rightarrow> abi \<Rightarrow> bytes \<Rightarrow> (string \<times> u64 \<times> u64 \<times> bytes) option" where
  "DecodeLogicCallArgs E A data = (case abi_Unpack A [Uint256, Address, Uint256, Uint256, Bytes] data of
      Some [AUint msgID, AAddress target, AUint nonce, AUint deadline, ABytes callData] \<Rightarrow>
        if msgID \<noteq> LogicCallMsgID then None
        else Some (Address_Hex E target, word_of_int nonce, word_of_int deadline, callData)
    | _ \<Rightarrow> None)"

definition EncodeUpgradeArgs :: "eth \<Rightarrow> abi \<Rightarrow> string \<Rightarrow> string list \<Rightarrow> bytes option" where
  "EncodeUpgradeArgs E A newAxelarProxy targets =
    abi_Pack A [Uint256, Address, AddressArr]
      [AUint UpgradeMsgID, AAddress (HexToAddress E newAxelarProxy), AAddressArr (map (HexToAddress E) targets)]"

definition DecodeUpgradeArgs :: "eth \<Rightarrow> abi \<Rightarrow> bytes \<Rightarrow> (string \<times> string list) option" where
  "DecodeUpgradeArgs E A data = (case abi_Unpack A [Uint256, Address, AddressArr] data of
      Some [AUint msgID, AAddress newAxelarProxy, AAddressArr targets] \<Rightarrow>
        if msgID \<noteq> UpgradeMsgID then None
        else Some (Address_Hex E newAxelarProxy, map (Address_Hex E) targets)
    | _ \<Rightarrow> None)"

section \<open>Corks, chains, nonces and upgrades\<close>

record axelar_cork =
  ac_EncodedContractCall :: bytes
  ac_ChainId :: u64
  ac_TargetContractAddress :: string
  ac_Deadline :: u64

record scheduled_axelar_cork =
  sac_Cork :: axelar_cork
  sac_BlockHeight :: u64
  sac_Validator :: string
  sac_Id :: string

record axelar_cork_result =
  acr_Cork :: axelar_cork
  acr_BlockHeight :: u64
  acr_Approved :: bool
  acr_ApprovalPercentage :: string

record axelar_cellar_ids =
  aci_ChainId :: u64
  aci_Ids :: "string list"

record chain_configuration =
  cc_Name :: string
  cc_Id :: u64
  cc_ProxyAddress :: string
  cc_BridgeFees :: "coin list"

record axelar_contract_call_nonce =
  an_ChainId :: u64
  an_ContractAddress :: string
  an_Nonce :: u64

record axelar_upgrade_data =
  ud_ChainId :: u64
  ud_Payload :: bytes
  ud_ExecutableHeightThreshold :: i64

definition AxelarCork_IDHash :: "eth \<Rightarrow> axelar_cork \<Rightarrow> u64 \<Rightarrow> bytes" where
  "AxelarCork_IDHash E c blockHeight =
    Keccak256Hash E (PutUint64 blockHeight @ PutUint64 (ac_ChainId c) @
      HexToAddress E (ac_TargetContractAddress c) @ ac_EncodedContractCall c)"

definition AxelarCork_Equals :: "eth \<Rightarrow> axelar_cork \<Rightarrow> axelar_cork \<Rightarrow> bool" where
  "AxelarCork_Equals E c other \<longleftrightarrow>
    (if HexToAddress E (ac_TargetContractAddress c) \<noteq> HexToAddress E (ac_TargetContractAddress other) then False
     else if ac_EncodedContractCall c \<noteq> ac_EncodedContractCall other then False
     else if ac_Deadline c \<noteq> ac_Deadline other then False
     else True)"

definition AxelarCork_ValidateBasic :: "eth \<Rightarrow> axelar_cork \<Rightarrow> unit res" where
  "AxelarCork_ValidateBasic E c =
    (if ac_EncodedContractCall c = [] then Err axelar_ErrEmptyContractCall
     else if ac_ChainId c = 0 then Err (Errorf ''chain ID must be non-zero'')
     else if \<not> IsHexAddress E (ac_TargetContractAddress c) then Err ErrInvalidEVMAddress
     else if ac_Deadline c = 0 then Err (Errorf ''deadline must be non-zero'')
     else Ok ())"

definition ScheduledAxelarCork_ValidateBasic :: "sdk \<Rightarrow> eth \<Rightarrow> scheduled_axelar_cork \<Rightarrow> unit res" where
  "ScheduledAxelarCork_ValidateBasic S E s =
    bind_res (AxelarCork_ValidateBasic E (sac_Cork s)) (\<lambda>_.
    if sac_BlockHeight s = 0 then Err (Errorf ''block height must be non-zero'')
    else if ValAddressFromBech32 S (sac_Validator s) = None then Err (Wrapped ErrInvalidAddress)
    else if length (sac_Id s) \<noteq> 64 then Err (Errorf ''invalid ID length, must be a keccak256 hash'')
    else Ok ())"

definition AxelarCorkResult_ValidateBasic :: "sdk \<Rightarrow> eth \<Rightarrow> axelar_cork_result \<Rightarrow> unit res" where
  "AxelarCorkResult_ValidateBasic S E c =
    bind_res (AxelarCork_ValidateBasic E (acr_Cork c)) (\<lambda>_.
    if acr_BlockHeight c = 0 then Err (Errorf ''block height must be non-zero'')
    else if NewDecFromStr S (acr_ApprovalPercentage c) = None then Err (Errorf ''approval percentage must be a valid Dec'')
    else Ok ())"

definition AxelarCellarIDSet_ValidateBasic :: "eth \<Rightarrow> axelar_cellar_ids \<Rightarrow> unit res" where
  "AxelarCellarIDSet_ValidateBasic E c =
    (if aci_ChainId c = 0 then Err (Errorf ''chain ID must be non-zero'')
     else fold_res (\<lambda>a _. if \<not> IsHexAddress E a then Err (Wrapped ErrInvalidEVMAddress) else Ok ()) (aci_Ids c) ())"

text \<open>\<^verbatim>\<open>Coins.IsValid\<close> and \<^verbatim>\<open>Coins.Find\<close> of the SDK.\<close>

record coins_ops =
  Coins_IsValid :: "coin list \<Rightarrow> bool"
  Coins_Find :: "coin list \<Rightarrow> string \<Rightarrow> coin option"

definition ChainConfiguration_ValidateBasic :: "eth \<Rightarrow> coins_ops \<Rightarrow> chain_configuration \<Rightarrow> unit res" where
  "ChainConfiguration_ValidateBasic E C cc =
    (if cc_ProxyAddress cc = [] then Err (Errorf ''proxy address cannot be empty'')
     else if \<not> IsHexAddress E (cc_ProxyAddress cc) then Err (Wrapped ErrInvalidEVMAddress)
     else if cc_Id cc = 0 then Err (Errorf ''chain ID cannot be zero'')
     else if cc_Name cc = [] then Err (Errorf ''chain name cannot be empty'')
     else if \<not> Coins_IsValid C (cc_BridgeFees cc) then Err (Errorf ''bridge fee coins must be valid'')
     else Ok ())"

definition AxelarContractCallNonce_ValidateBasic :: "eth \<Rightarrow> axelar_contract_call_nonce \<Rightarrow> unit res" where
  "AxelarContractCallNonce_ValidateBasic E ccn =
    (if an_Nonce ccn = 0 then Err (Errorf ''nonce cannot be zero'')
     else if an_ContractAddress ccn = [] then Err (Errorf ''contract address cannot be empty'')
     else if \<not> IsHexAddress E (an_ContractAddress ccn) then Err (Wrapped ErrInvalidEVMAddress)
     else if an_ChainId ccn = 0 then Err (Errorf ''chain ID cannot be zero'')
     else Ok ())"

definition AxelarUpgradeData_ValidateBasic :: "axelar_upgrade_data \<Rightarrow> unit res" where
  "AxelarUpgradeData_ValidateBasic ud =
    (if ud_ChainId ud = 0 then Err (Errorf ''chain ID cannot be zero'')
     else if sint (ud_ExecutableHeightThreshold ud) < 0 then Err (Errorf ''height threshold cannot be negative'')
     else if ud_Payload ud = [] then Err (Errorf ''payload cannot be empty'')
     else Ok ())"

section \<open>The body of a message to Axelar\<close>

definition PureMessage :: int where "PureMessage = 1"

definition MessageWithToken :: int where "MessageWithToken = 2"

definition PureTokenTransfer :: int where "PureTokenTransfer = 3"

record axelar_fee =
  fee_Amount :: string
  fee_Recipient :: string

record axelar_body =
  ab_DestinationChain :: string
  ab_DestinationAddress :: string
  ab_Payload :: bytes
  ab_Type :: int
  ab_Fee :: "axelar_fee option"

section \<open>Messages\<close>

record msg_schedule_axelar_cork =
  mac_Cork :: "axelar_cork option"
  mac_ChainId :: u64
  mac_BlockHeight :: u64
  mac_Signer :: string

record msg_relay_axelar_cork =
  mrc_Signer :: string
  mrc_Token :: coin
  mrc_Fee :: u64
  mrc_ChainId :: u64
  mrc_TargetContractAddress :: string

record msg_relay_proxy_upgrade =
  mru_Signer :: string
  mru_Token :: coin
  mru_Fee :: u64
  mru_ChainId :: u64

record msg_bump_gas =
  mbg_Signer :: string
  mbg_Token :: coin
  mbg_MessageId :: string

record msg_cancel_axelar_cork =
  mca_Signer :: string
  mca_ChainId :: u64
  mca_TargetContractAddress :: string

definition MsgScheduleAxelarCork_ValidateBasic :: "sdk \<Rightarrow> eth \<Rightarrow> msg_schedule_axelar_cork \<Rightarrow> unit res" where
  "MsgScheduleAxelarCork_ValidateBasic S E m =
    bind_res (check_signer S (mac_Signer m)) (\<lambda>_.
    if mac_ChainId m = 0 then Err (Errorf ''chain ID must be non-zero'')
    else if mac_BlockHeight m = 0 then Err (Errorf ''block height must be greater than zero'')
    else case mac_Cork m of None \<Rightarrow> Panic ''nil dereference'' | Some c \<Rightarrow> AxelarCork_ValidateBasic E c)"

definition MsgRelayAxelarCork_ValidateBasic :: "sdk \<Rightarrow> eth \<Rightarrow> msg_relay_axelar_cork \<Rightarrow> unit res" where
  "MsgRelayAxelarCork_ValidateBasic S E m =
    bind_res (check_signer S (mrc_Signer m)) (\<lambda>_.
    if \<not> Coin_IsValid S (mrc_Token m) \<or> \<not> Coin_IsPositive (mrc_Token m) then Err (Errorf ''token amount must be positive'')
    else if mrc_Fee m = 0 then Err (Errorf ''fee must be greather than zero'')
    else if mrc_ChainId m = 0 then Err (Errorf ''chain ID must be greater than zero'')
    else if mrc_TargetContractAddress m = [] then Err (Errorf ''cannot relay a cork to an empty address'')
    else if \<not> IsHexAddress E (mrc_TargetContractAddress m) then Err (Wrapped ErrInvalidEVMAddress)
    else Ok ())"

definition MsgRelayAxelarProxyUpgrade_ValidateBasic :: "sdk \<Rightarrow> msg_relay_proxy_upgrade \<Rightarrow> unit res" where
  "MsgRelayAxelarProxyUpgrade_ValidateBasic S m =
    bind_res (check_signer S (mru_Signer m)) (\<lambda>_.
    if \<not> Coin_IsValid S (mru_Token m) \<or> \<not> Coin_IsPositive (mru_Token m) then Err (Errorf ''token amount must be positive'')
    else if mru_Fee m = 0 then Err (Errorf ''fee must be greather than zero'')
    else if mru_ChainId m = 0 then Err (Errorf ''chain ID must be greater than zero'')
    else Ok ())"

definition MsgBumpAxelarCorkGas_ValidateBasic :: "sdk \<Rightarrow> msg_bump_gas \<Rightarrow> unit res" where
  "MsgBumpAxelarCorkGas_ValidateBasic S m =
    bind_res (check_signer S (mbg_Signer m)) (\<lambda>_.
    if \<not> Coin_IsValid S (mbg_Token m) \<or> \<not> Coin_IsPositive (mbg_Token m) then Err (Errorf ''token amount must be positive'')
    else if mbg_MessageId m = [] then Err (Errorf ''message ID must be present'')
    else Ok ())"

definition MsgCancelAxelarCork_ValidateBasic :: "sdk \<Rightarrow> eth \<Rightarrow> msg_cancel_axelar_cork \<Rightarrow> unit res" where
  "MsgCancelAxelarCork_ValidateBasic S E m =
    bind_res (check_signer S (mca_Signer m)) (\<lambda>_.
    if mca_TargetContractAddress m = [] then Err (Errorf ''cannot cancel a cork to an empty address'')
    else if \<not> IsHexAddress E (mca_TargetContractAddress m) then Err (Wrapped ErrInvalidEVMAddress)
    else if mca_ChainId m = 0 then Err (Errorf ''chain ID must be greater than zero'')
    else Ok ())"

section \<open>Parameters\<close>

record axelar_params =
  Enabled :: bool
  IbcChannel :: string
  IbcPort :: string
  GmpAccount :: string
  ExecutorAccount :: string
  TimeoutDuration :: u64
  CorkTimeoutBlocks :: u64

record ibc_host =
  ChannelIdentifierValidator :: "string \<Rightarrow> bool"
  PortIdentifierValidator :: "string \<Rightarrow> bool"

fun validateEnabled :: "iface \<Rightarrow> unit res" where
  "validateEnabled (IBool _) = Ok ()"
| "validateEnabled _ = Err (Errorf ''invalid parameter type'')"

fun validateIBCChannel :: "ibc_host \<Rightarrow> iface \<Rightarrow> unit res" where
  "validateIBCChannel H (IString ibcChannel) =
    (if \<not> ChannelIdentifierValidator H ibcChannel then Err (Errorf ''invalid channel identifier'') else Ok ())"
| "validateIBCChannel H _ = Err (Errorf ''invalid parameter type'')"

fun validateIBCPort :: "ibc_host \<Rightarrow> iface \<Rightarrow> unit res" where
  "validateIBCPort H (IString ibcPort) =
    (if \<not> PortIdentifierValidator H ibcPort then Err (Errorf ''invalid port identifier'') else Ok ())"
| "validateIBCPort H _ = Err (Errorf ''invalid parameter type'')"

fun validateGMPAccount :: "sdk \<Rightarrow> iface \<Rightarrow> unit res" where
  "validateGMPAccount S (IString gmpAcc) =
    (if gmpAcc = [] then Err (Errorf ''gmp account cannot be empty'')
     else if AccAddressFromBech32 S gmpAcc = None then Err (Errorf ''invalid bech32 address'') else Ok ())"
| "validateGMPAccount S _ = Err (Errorf ''invalid parameter type'')"

fun validateExecutorAccount :: "eth \<Rightarrow> iface \<Rightarrow> unit res" where
  "validateExecutorAccount E (IString execAcc) =
    (if execAcc = [] then Err (Errorf ''executor account cannot be empty'')
     else if \<not> IsHexAddress E execAcc then Err (Errorf ''invalid executor account address'') else Ok ())"
| "validateExecutorAccount E _ = Err (Errorf ''invalid parameter type'')"

fun validateTimeoutDuration :: "iface \<Rightarrow> unit res" where
  "validateTimeoutDuration (IUint64 timeout) =
    (if timeout = 0 then Err (Errorf ''timeout duration cannot be zero'') else Ok ())"
| "validateTimeoutDuration _ = Err (Errorf ''invalid parameter type'')"

fun validateCorkTimeoutBlocks :: "iface \<Rightarrow> unit res" where
  "validateCorkTimeoutBlocks (IUint64 timeout) =
    (if timeout = 0 then Err (Errorf ''timeout blocks cannot be zero'') else Ok ())"
| "validateCorkTimeoutBlocks _ = Err (Errorf ''invalid parameter type'')"

definition axelar_DefaultParams :: axelar_params where
  "axelar_DefaultParams = \<lparr>Enabled = False, IbcChannel = [], IbcPort = [], GmpAccount = [], ExecutorAccount = [],
     TimeoutDuration = 0, CorkTimeoutBlocks = 10000\<rparr>"

definition axelar_ParamSetPairs :: "sdk \<Rightarrow> eth \<Rightarrow> ibc_host \<Rightarrow> axelar_params \<Rightarrow> param_pair list" where
  "axelar_ParamSetPairs S E H p =
    [(''enabled'', IBool (Enabled p), validateEnabled),
     (''ibcchannel'', IString (IbcChannel p), validateIBCChannel H),
     (''ibcport'', IString (IbcPort p), validateIBCPort H),
     (''gmpaccount'', IString (GmpAccount p), validateGMPAccount S),
     (''executoraccount'', IString (ExecutorAccount p), validateExecutorAccount E),
     (''timeoutduration'', IUint64 (TimeoutDuration p), validateTimeoutDuration),
     (''corktimeoutblocks'', IUint64 (CorkTimeoutBlocks p), validateCorkTimeoutBlocks)]"

definition axelar_Params_ValidateBasic :: "sdk \<Rightarrow> eth \<Rightarrow> ibc_host \<Rightarrow> axelar_params \<Rightarrow> unit res" where
  "axelar_Params_ValidateBasic S E H p =
    bind_res (validateEnabled (IBool (Enabled p))) (\<lambda>_.
    if Enabled p then
      bind_res (validateIBCChannel H (IString (IbcChannel p))) (\<lambda>_.
      bind_res (validateIBCPort H (IString (IbcPort p))) (\<lambda>_.
      bind_res (validateGMPAccount S (IString (GmpAccount p))) (\<lambda>_.
      bind_res (validateExecutorAccount E (IString (ExecutorAccount p))) (\<lambda>_.
      bind_res (validateTimeoutDuration (IUint64 (TimeoutDuration p))) (\<lambda>_.
      validateCorkTimeoutBlocks (IUint64 (CorkTimeoutBlocks p)))))))
    else Ok ())"

section \<open>Proposals\<close>

record add_axelar_cellars_proposal =
  aac_Title :: string
  aac_Description :: string
  aac_ChainId :: u64
  aac_CellarIds :: axelar_cellar_ids
  aac_PublisherDomain :: string

record remove_axelar_cellars_proposal =
  rac_Title :: string
  rac_Description :: string
  rac_ChainId :: u64
  rac_CellarIds :: axelar_cellar_ids

record axelar_scheduled_cork_proposal =
  asp_Title :: string
  asp_Description :: string
  asp_BlockHeight :: u64
  asp_ChainId :: u64
  asp_TargetContractAddress :: string
  asp_ContractCallProtoJson :: string
  asp_Deadline :: u64

record axelar_community_spend_proposal =
  acs_Title :: string
  acs_Description :: string
  acs_Recipient :: string
  acs_ChainId :: u64
  acs_Amount :: coin

record add_chain_configuration_proposal =
  acp_Title :: string
  acp_Description :: string
  acp_ChainConfiguration :: chain_configuration

text \<open>The remaining proposals carry a chain id, one of them also the new proxy.\<close>

record chain_proposal =
  chp_Title :: string
  chp_Description :: string
  chp_ChainId :: u64

record upgrade_proxy_proposal = chain_proposal +
  chp_NewProxyAddress :: string

definition AddAxelarManagedCellarIDsProposal_ValidateBasic ::
  "sdk \<Rightarrow> eth \<Rightarrow> web \<Rightarrow> add_axelar_cellars_proposal \<Rightarrow> unit res" where
  "AddAxelarManagedCellarIDsProposal_ValidateBasic S E W m =
    bind_res (ValidateAbstract S (aac_Title m) (aac_Description m)) (\<lambda>_.
    bind_res (AxelarCellarIDSet_ValidateBasic E (aac_CellarIds m)) (\<lambda>_.
    if aac_ChainId m = 0 then Err (Errorf ''chain ID must be non-zero'')
    else ValidateDomain W (aac_PublisherDomain m)))"

definition RemoveAxelarManagedCellarIDsProposal_ValidateBasic ::
  "sdk \<Rightarrow> eth \<Rightarrow> remove_axelar_cellars_proposal \<Rightarrow> unit res" where
  "RemoveAxelarManagedCellarIDsProposal_ValidateBasic S E m =
    bind_res (ValidateAbstract S (rac_Title m) (rac_Description m)) (\<lambda>_.
    bind_res (AxelarCellarIDSet_ValidateBasic E (rac_CellarIds m)) (\<lambda>_.
    if rac_ChainId m = 0 then Err (Errorf ''chain ID must be non-zero'') else Ok ()))"

definition AxelarScheduledCorkProposal_ValidateBasic ::
  "sdk \<Rightarrow> eth \<Rightarrow> web \<Rightarrow> axelar_scheduled_cork_proposal \<Rightarrow> unit res" where
  "AxelarScheduledCorkProposal_ValidateBasic S E W m =
    bind_res (ValidateAbstract S (asp_Title m) (asp_Description m)) (\<lambda>_.
    if asp_BlockHeight m = 0 then Err (Errorf ''block height must be non-zero'')
    else if asp_ChainId m = 0 then Err (Errorf ''chain ID must be non-zero'')
    else if \<not> IsHexAddress E (asp_TargetContractAddress m) then Err (Wrapped ErrInvalidEVMAddress)
    else if asp_ContractCallProtoJson m = [] then Err (Wrapped axelar_ErrInvalidJSON)
    else if \<not> json_Valid W (asp_ContractCallProtoJson m) then Err (Wrapped axelar_ErrInvalidJSON)
    else if asp_Deadline m = 0 then Err (Errorf ''deadline must be non-zero'')
    else Ok ())"

definition AxelarCommunityPoolSpendProposal_ValidateBasic ::
  "sdk \<Rightarrow> eth \<Rightarrow> axelar_community_spend_proposal \<Rightarrow> unit res" where
  "AxelarCommunityPoolSpendProposal_ValidateBasic S E m =
    bind_res (ValidateAbstract S (acs_Title m) (acs_Description m)) (\<lambda>_.
    if \<not> IsHexAddress E (acs_Recipient m) then Err (Wrapped ErrInvalidEVMAddress)
    else if acs_ChainId m = 0 then Err (Errorf ''chain ID must be non-zero'')
    else if \<not> Coin_IsValid S (acs_Amount m) \<or> \<not> Coin_IsPositive (acs_Amount m) then Err ErrValuelessSend
    else Ok ())"

definition AddChainConfigurationProposal_ValidateBasic ::
  "sdk \<Rightarrow> eth \<Rightarrow> coins_ops \<Rightarrow> add_chain_configuration_proposal \<Rightarrow> unit res" where
  "AddChainConfigurationProposal_ValidateBasic S E C m =
    bind_res (ValidateAbstract S (acp_Title m) (acp_Description m)) (\<lambda>_.
    ChainConfiguration_ValidateBasic E C (acp_ChainConfiguration m))"

definition RemoveChainConfigurationProposal_ValidateBasic :: "sdk \<Rightarrow> chain_proposal \<Rightarrow> unit res" where
  "RemoveChainConfigurationProposal_ValidateBasic S m =
    bind_res (ValidateAbstract S (chp_Title m) (chp_Description m)) (\<lambda>_.
    if chp_ChainId m = 0 then Err (Errorf ''chain ID must be non-zero'') else Ok ())"

definition UpgradeAxelarProxyContractProposal_ValidateBasic ::
  "sdk \<Rightarrow> eth \<Rightarrow> upgrade_proxy_proposal \<Rightarrow> unit res" where
  "UpgradeAxelarProxyContractProposal_ValidateBasic S E m =
    bind_res (ValidateAbstract S (chp_Title m) (chp_Description m)) (\<lambda>_.
    if chp_ChainId m = 0 then Err (Errorf ''chain ID must be non-zero'')
    else if \<not> IsHexAddress E (chp_NewProxyAddress m) then Err (Wrapped ErrInvalidEVMAddress)
    else Ok ())"

definition CancelAxelarProxyContractUpgradeProposal_ValidateBasic :: "sdk \<Rightarrow> chain_proposal \<Rightarrow> unit res" where
  "CancelAxelarProxyContractUpgradeProposal_ValidateBasic S m =
    bind_res (ValidateAbstract S (chp_Title m) (chp_Description m)) (\<lambda>_.
    if chp_ChainId m = 0 then Err (Errorf ''chain ID must be non-zero'') else Ok ())"

section \<open>Genesis\<close>

text \<open>The two pointers of the genesis state that a zero value leaves nil are options.\<close>

record axelar_genesis =
  xg_Params :: axelar_params
  xg_ChainConfigurations :: "chain_configuration list"
  xg_CellarIds :: "axelar_cellar_ids list"
  xg_ScheduledCorks :: "scheduled_axelar_cork list option"
  xg_CorkResults :: "axelar_cork_result list option"
  xg_AxelarContractCallNonces :: "axelar_contract_call_nonce list"
  xg_AxelarUpgradeData :: "axelar_upgrade_data list"

definition axelar_DefaultGenesisState :: axelar_genesis where
  "axelar_DefaultGenesisState =
    \<lparr>xg_Params = axelar_DefaultParams, xg_ChainConfigurations = [], xg_CellarIds = [],
     xg_ScheduledCorks = Some [], xg_CorkResults = Some [], xg_AxelarContractCallNonces = [],
     xg_AxelarUpgradeData = []\<rparr>"

fun deref :: "'a option \<Rightarrow> 'a res" where
  "deref None = Panic ''nil dereference''"
| "deref (Some x) = Ok x"

definition axelar_Genesis_Validate :: "sdk \<Rightarrow> eth \<Rightarrow> ibc_host \<Rightarrow> coins_ops \<Rightarrow> axelar_genesis \<Rightarrow> unit res" where
  "axelar_Genesis_Validate S E H C gs =
    bind_res (axelar_Params_ValidateBasic S E H (xg_Params gs)) (\<lambda>_.
    bind_res (fold_res (\<lambda>cc _. ChainConfiguration_ValidateBasic E C cc) (xg_ChainConfigurations gs) ()) (\<lambda>_.
    bind_res (fold_res (\<lambda>ids _. AxelarCellarIDSet_ValidateBasic E ids) (xg_CellarIds gs) ()) (\<lambda>_.
    bind_res (deref (xg_ScheduledCorks gs)) (\<lambda>scs.
    bind_res (fold_res (\<lambda>sc _. ScheduledAxelarCork_ValidateBasic S E sc) scs ()) (\<lambda>_.
    bind_res (deref (xg_CorkResults gs)) (\<lambda>crs.
    bind_res (fold_res (\<lambda>cr _. AxelarCorkResult_ValidateBasic S E cr) crs ()) (\<lambda>_.
    bind_res (fold_res (\<lambda>n _. AxelarContractCallNonce_ValidateBasic E n) (xg_AxelarContractCallNonces gs) ()) (\<lambda>_.
    fold_res (\<lambda>ud _. AxelarUpgradeData_ValidateBasic ud) (xg_AxelarUpgradeData gs) ()))))))))"

section \<open>Keys\<close>

definition axelar_MakeCellarIDsKey :: "u64 \<Rightarrow> bytes" where
  "axelar_MakeCellarIDsKey chainID = [2] @ PutUint64 chainID"

definition GetScheduledAxelarCorkKeyPrefix :: "u64 \<Rightarrow> bytes" where
  "GetScheduledAxelarCorkKeyPrefix chainID = [3] @ PutUint64 chainID"

definition GetScheduledAxelarCorkKeyByBlockHeightPrefix :: "u64 \<Rightarrow> u64 \<Rightarrow> bytes" where
  "GetScheduledAxelarCorkKeyByBlockHeightPrefix chainID blockHeight =
    GetScheduledAxelarCorkKeyPrefix chainID @ PutUint64 blockHeight"

definition GetScheduledAxelarCorkKey :: "u64 \<Rightarrow> u64 \<Rightarrow> bytes \<Rightarrow> addr \<Rightarrow> addr \<Rightarrow> bytes" where
  "GetScheduledAxelarCorkKey chainID blockHeight corkID val contract =
    GetScheduledAxelarCorkKeyPrefix chainID @ PutUint64 blockHeight @ corkID @ val @ contract"

definition GetAxelarCorkResultPrefix :: "u64 \<Rightarrow> bytes" where
  "GetAxelarCorkResultPrefix chainID = [4] @ PutUint64 chainID"

definition GetAxelarCorkResultKey :: "u64 \<Rightarrow> bytes \<Rightarrow> bytes" where
  "GetAxelarCorkResultKey chainID corkID = GetAxelarCorkResultPrefix chainID @ corkID"

definition ChainConfigurationPrefix :: byte where "ChainConfigurationPrefix = 5"

definition ChainConfigurationKey :: "u64 \<Rightarrow> bytes" where
  "ChainConfigurationKey chainID = [ChainConfigurationPrefix] @ PutUint64 chainID"

definition GetWinningAxelarCorkKeyPrefix :: "u64 \<Rightarrow> bytes" where
  "GetWinningAxelarCorkKeyPrefix chainID = [6] @ PutUint64 chainID"

definition GetWinningAxelarCorkKey :: "u64 \<Rightarrow> u64 \<Rightarrow> addr \<Rightarrow> bytes" where
  "GetWinningAxelarCorkKey chainID blockheight address =
    GetWinningAxelarCorkKeyPrefix chainID @ PutUint64 blockheight @ address"

definition AxelarContractCallNoncePrefix :: byte where "AxelarContractCallNoncePrefix = 7"

definition GetAxelarContractCallNonceKey :: "u64 \<Rightarrow> addr \<Rightarrow> bytes" where
  "GetAxelarContractCallNonceKey chainID contractAddress =
    [AxelarContractCallNoncePrefix] @ PutUint64 chainID @ contractAddress"

definition AxelarProxyUpgradeDataPrefix :: byte where "AxelarProxyUpgradeDataPrefix = 8"

definition GetAxelarProxyUpgradeDataKey :: "u64 \<Rightarrow> bytes" where
  "GetAxelarProxyUpgradeDataKey chainID = [AxelarProxyUpgradeDataPrefix] @ PutUint64 chainID"

section \<open>Packing and unpacking\<close>

text \<open>What a packed argument unpacks to: unsigned integers are reduced to 256 bits.\<close>

definition uint256_mod :: int where "uint256_mod = 2 ^ 256"

fun abi_norm :: "abi_arg \<Rightarrow> abi_arg" where
  "abi_norm (AUint n) = AUint (n mod uint256_mod)"
| "abi_norm a = a"

fun abi_typed :: "abi_type \<Rightarrow> abi_arg \<Rightarrow> bool" where
  "abi_typed Uint256 (AUint _) = True"
| "abi_typed Address (AAddress _) = True"
| "abi_typed Bytes (ABytes _) = True"
| "abi_typed AddressArr (AAddressArr _) = True"
| "abi_typed _ _ = False"

lemma mod_256_64: "(word_of_int (n mod uint256_mod) :: u64) = word_of_int n"
proof -
  have "n mod uint256_mod mod 2 ^ 64 = n mod 2 ^ 64"
    by (rule mod_mod_cancel) (simp add: uint256_mod_def dvd_def le_imp_power_dvd)
  then show ?thesis by (simp add: word_of_int_eq_iff take_bit_eq_mod)
qed

lemma small_mod_256 [simp]: "0 mod uint256_mod = 0" "1 mod uint256_mod = 1"
  by (simp_all add: uint256_mod_def)

locale abi_codec =
  fixes A :: abi and E :: eth
  assumes pack_unpack: "list_all2 abi_typed ts args \<Longrightarrow> abi_Pack A ts args = Some bs \<Longrightarrow>
      abi_Unpack A ts bs = Some (map abi_norm args)"
begin

text \<open>A relayed call carries its target, nonce, deadline and data, for all 64-bit values.\<close>

lemma logic_call_roundtrip:
  assumes "EncodeLogicCallArgs E A target nonce deadline callData = Some bs"
  shows "DecodeLogicCallArgs E A bs = Some (Address_Hex E (HexToAddress E target), nonce, deadline, callData)"
  using pack_unpack [OF _ assms [unfolded EncodeLogicCallArgs_def]]
  by (simp add: DecodeLogicCallArgs_def LogicCallMsgID_def mod_256_64)

lemma upgrade_roundtrip:
  assumes "EncodeUpgradeArgs E A proxy targets = Some bs"
  shows "DecodeUpgradeArgs E A bs =
    Some (Address_Hex E (HexToAddress E proxy), map (\<lambda>t. Address_Hex E (HexToAddress E t)) targets)"
  using pack_unpack [OF _ assms [unfolded EncodeUpgradeArgs_def]]
  by (simp add: DecodeUpgradeArgs_def UpgradeMsgID_def comp_def)

text \<open>A logic call is never read as an upgrade, whatever the two codes unpack to, and conversely.\<close>

lemma upgrade_not_logic_call:
  assumes "DecodeUpgradeArgs E A bs = Some r" and "abi_Unpack A [Uint256, Address, Uint256, Uint256, Bytes] bs = Some (m # rest)"
    and "abi_Unpack A [Uint256, Address, AddressArr] bs = Some (m # rest')"
  shows "DecodeLogicCallArgs E A bs = None"
  using assms by (auto simp: DecodeUpgradeArgs_def DecodeLogicCallArgs_def LogicCallMsgID_def UpgradeMsgID_def
      split: list.splits abi_arg.splits if_splits)

end

end
