(* ===== verification/Incentives.thy ===== *)
theory Incentives
  imports Sdk
begin

text \<open>
  The incentives module (\<^verbatim>\<open>x/incentives\<close>): every block up to a cutoff height a fixed amount of the base
  coin moves from the community pool to the fee collector. The pool is a value that the distribution
  keeper stores (\<open>dec_coins\<close>, decimal coins) while its coins lie in the distribution module's account,
  so the module must move both together. The locale \<open>incentives_env\<close> states what it relies on.
\<close>

section \<open>Decimal coins and the distribution keeper\<close>

type_synonym dec_coins = "(string \<times> dec) list"

definition dec_amount :: "dec_coins \<Rightarrow> string \<Rightarrow> dec" where
  "dec_amount cs d = (\<Sum>c\<leftarrow>cs. if fst c = d then snd c else 0)"

record 'w dist_ops =
  GetFeePool :: "'w \<Rightarrow> dec_coins"
  SetFeePool :: "'w \<Rightarrow> dec_coins \<Rightarrow> 'w"
  DecCoins_SafeSub :: "dec_coins \<Rightarrow> dec_coins \<Rightarrow> dec_coins \<times> bool"
  NewDecCoinsFromCoins :: "coin list \<Rightarrow> dec_coins"

definition distribution_ModuleName :: string where "distribution_ModuleName = ''distribution''"

section \<open>Parameters and genesis\<close>

abbreviation ErrInvalidDistributionPerBlock :: error where
  "ErrInvalidDistributionPerBlock \<equiv> Registered ''incentives'' 1"

record incentives_params =
  DistributionPerBlock :: coin
  IncentivesCutoffHeight :: u64

text \<open>The refusal of a nil amount has no counterpart: amounts here are values.\<close>

fun validateDistributionPerBlock :: "sdk \<Rightarrow> iface \<Rightarrow> unit res" where
  "validateDistributionPerBlock S (ICoin coinsPerBlock) =
    (if \<not> Coin_IsValid S coinsPerBlock then Err (Wrapped ErrInvalidDistributionPerBlock)
     else if cDenom coinsPerBlock \<noteq> BaseCoinUnit then Err (Wrapped ErrInvalidDistributionPerBlock)
     else Ok ())"
| "validateDistributionPerBlock S _ = Err (Wrapped ErrInvalidDistributionPerBlock)"

definition validateIncentivesCutoffHeight :: "iface \<Rightarrow> unit res" where
  "validateIncentivesCutoffHeight i = Ok ()"

definition incentives_DefaultParams :: incentives_params where
  "incentives_DefaultParams = \<lparr>DistributionPerBlock = mk_coin BaseCoinUnit 0, IncentivesCutoffHeight = 0\<rparr>"

definition incentives_ParamSetPairs :: "sdk \<Rightarrow> incentives_params \<Rightarrow> param_pair list" where
  "incentives_ParamSetPairs S p =
    [(''DistributionPerBlock'', ICoin (DistributionPerBlock p), validateDistributionPerBlock S),
     (''IncentivesCutoffHeight'', IUint64 (IncentivesCutoffHeight p), validateIncentivesCutoffHeight)]"

definition incentives_Params_ValidateBasic :: "sdk \<Rightarrow> incentives_params \<Rightarrow> unit res" where
  "incentives_Params_ValidateBasic S p = validateDistributionPerBlock S (ICoin (DistributionPerBlock p))"

definition incentives_Genesis_Validate :: "sdk \<Rightarrow> incentives_params \<Rightarrow> unit res" where
  "incentives_Genesis_Validate S gs = incentives_Params_ValidateBasic S gs"

section \<open>Keeper\<close>

record 'w incentives_keeper =
  ik_sdk :: sdk
  ik_dist :: "'w dist_ops"
  ik_SendCoinsFromModuleToModule :: "'w \<Rightarrow> string \<Rightarrow> string \<Rightarrow> coin list \<Rightarrow> 'w res"
  ik_BlocksPerYear :: "'w \<Rightarrow> u64"
  ik_BondedRatio :: "'w \<Rightarrow> dec"
  ik_StakingTokenSupply :: "'w \<Rightarrow> int"

record 'w incentives_state =
  in_params :: incentives_params
  in_world :: 'w

definition incentives_SetParams ::
  "'w incentives_keeper \<Rightarrow> 'w incentives_state \<Rightarrow> incentives_params \<Rightarrow> 'w incentives_state res" where
  "incentives_SetParams k st p =
    bind_res (SetParamSet (incentives_ParamSetPairs (ik_sdk k) p)) (\<lambda>_. Ok (st\<lparr>in_params := p\<rparr>))"

definition incentives_off :: "ctx \<Rightarrow> incentives_params \<Rightarrow> bool" where
  "incentives_off ctx p \<longleftrightarrow> BlockHeight ctx \<ge> IncentivesCutoffHeight p \<or> cAmount (DistributionPerBlock p) = 0"

definition incentives_EndBlocker ::
  "'w incentives_keeper \<Rightarrow> ctx \<Rightarrow> 'w incentives_state \<Rightarrow> 'w incentives_state res" where
  "incentives_EndBlocker k ctx st =
    (if incentives_off ctx (in_params st) then Ok st
     else bind_res (NewCoins (ik_sdk k) (DistributionPerBlock (in_params st))) (\<lambda>distPerBlockCoins.
       let communityPool = GetFeePool (ik_dist k) (in_world st);
           (newPool, negative) = DecCoins_SafeSub (ik_dist k) communityPool
             (NewDecCoinsFromCoins (ik_dist k) distPerBlockCoins)
       in if negative then Ok st
          else bind_res (panic_on_err (ik_SendCoinsFromModuleToModule k (in_world st) distribution_ModuleName
              FeeCollectorName distPerBlockCoins)) (\<lambda>w.
            Ok (st\<lparr>in_world := SetFeePool (ik_dist k) w newPool\<rparr>))))"

definition incentives_GetAPY :: "'w incentives_keeper \<Rightarrow> ctx \<Rightarrow> 'w incentives_state \<Rightarrow> dec res" where
  "incentives_GetAPY k ctx st =
    (if incentives_off ctx (in_params st) then Ok 0
     else
     let bondedRatio = ik_BondedRatio k (in_world st);
         totalCoins = ik_StakingTokenSupply k (in_world st);
         annualRewards = cAmount (DistributionPerBlock (in_params st)) * sint (ik_BlocksPerYear k (in_world st))
     in bind_res (Quo (ik_sdk k) (NewDecFromInt annualRewards) (NewDecFromInt totalCoins)) (\<lambda>q.
        Quo (ik_sdk k) q bondedRatio))"

definition incentives_InitGenesis ::
  "'w incentives_keeper \<Rightarrow> 'w incentives_state \<Rightarrow> incentives_params \<Rightarrow> 'w incentives_state res" where
  "incentives_InitGenesis k st gs = incentives_SetParams k st gs"

definition incentives_ExportGenesis :: "'w incentives_state \<Rightarrow> incentives_params" where
  "incentives_ExportGenesis st = in_params st"

definition incentives_NewHandler :: "'w incentives_state \<Rightarrow> 'm \<Rightarrow> 'w incentives_state res" where
  "incentives_NewHandler st msg = Err (Wrapped ErrUnknownRequest)"

definition incentives_QueryParams :: "'w incentives_state \<Rightarrow> incentives_params" where
  "incentives_QueryParams st = in_params st"

definition incentives_QueryAPY :: "'w incentives_keeper \<Rightarrow> ctx \<Rightarrow> 'w incentives_state \<Rightarrow> string res" where
  "incentives_QueryAPY k ctx st =
    bind_res (incentives_GetAPY k ctx st) (\<lambda>apy. Ok (Dec_String (ik_sdk k) apy))"

section \<open>The environment\<close>

text \<open>
  \<open>pool_backed\<close> is the distribution module's own invariant: its account holds at least the whole
  coins of the community pool. The laws: subtraction of decimal coins is per denomination and is
  flagged negative when some amount would be, a stored pool is read back and leaves the balances
  alone, a transfer moves coins and leaves the pool alone.
\<close>

definition pool_amount :: "'w incentives_keeper \<Rightarrow> 'w incentives_state \<Rightarrow> string \<Rightarrow> dec" where
  "pool_amount k st d = dec_amount (GetFeePool (ik_dist k) (in_world st)) d"

definition pool_backed ::
  "'w incentives_keeper \<Rightarrow> ('w \<Rightarrow> string \<Rightarrow> string \<Rightarrow> int) \<Rightarrow> 'w incentives_state \<Rightarrow> bool" where
  "pool_backed k balance st \<longleftrightarrow> (\<forall>d. 0 \<le> pool_amount k st d \<and>
    pool_amount k st d \<le> NewDecFromInt (balance (in_world st) distribution_ModuleName d))"

locale incentives_env =
  fixes k :: "'w incentives_keeper"
    and balance :: "'w \<Rightarrow> string \<Rightarrow> string \<Rightarrow> int"
  assumes base_valid: "ValidateDenom (ik_sdk k) BaseCoinUnit"
    and from_coins: "0 < n \<Longrightarrow> dec_amount (NewDecCoinsFromCoins (ik_dist k) [mk_coin d n]) e
      = (if e = d then NewDecFromInt n else 0)"
    and safe_sub: "DecCoins_SafeSub (ik_dist k) p q = (r, negative) \<Longrightarrow>
      dec_amount r d = dec_amount p d - dec_amount q d"
    and safe_sub_negative: "snd (DecCoins_SafeSub (ik_dist k) p q) \<longleftrightarrow> (\<exists>d. dec_amount p d < dec_amount q d)"
    and get_set_pool: "GetFeePool (ik_dist k) (SetFeePool (ik_dist k) w p) = p"
    and set_pool_balance: "balance (SetFeePool (ik_dist k) w p) m d = balance w m d"
    and send: "0 < n \<Longrightarrow> n \<le> balance w distribution_ModuleName d \<Longrightarrow> ValidateDenom (ik_sdk k) d \<Longrightarrow>
      \<exists>w'. ik_SendCoinsFromModuleToModule k w distribution_ModuleName FeeCollectorName [mk_coin d n] = Ok w' \<and>
        GetFeePool (ik_dist k) w' = GetFeePool (ik_dist k) w \<and>
        (\<forall>m e. balance w' m e = balance w m e + (if e \<noteq> d then 0 else if m = distribution_ModuleName then - n
           else if m = FeeCollectorName then n else 0))"
begin

text \<open>The three outcomes of a block: switched off, pool too small, one distribution.\<close>

lemma incentives_EndBlocker_off: "incentives_off ctx (in_params st) \<Longrightarrow> incentives_EndBlocker k ctx st = Ok st"
  by (simp add: incentives_EndBlocker_def)

lemma distribution_pays:
  assumes params: "incentives_Params_ValidateBasic (ik_sdk k) (in_params st) = Ok ()"
    and on: "\<not> incentives_off ctx (in_params st)" and backed: "pool_backed k balance st"
  defines "n \<equiv> cAmount (DistributionPerBlock (in_params st))"
  shows "(pool_amount k st BaseCoinUnit < NewDecFromInt n \<and> incentives_EndBlocker k ctx st = Ok st) \<or>
    (NewDecFromInt n \<le> pool_amount k st BaseCoinUnit \<and>
     (\<exists>st'. incentives_EndBlocker k ctx st = Ok st' \<and> in_params st' = in_params st \<and> pool_backed k balance st' \<and>
       (\<forall>d. pool_amount k st' d = pool_amount k st d - (if d = BaseCoinUnit then NewDecFromInt n else 0)) \<and>
       (\<forall>m d. balance (in_world st') m d = balance (in_world st) m d + (if d \<noteq> BaseCoinUnit then 0
          else if m = distribution_ModuleName then - n else if m = FeeCollectorName then n else 0))))"
proof -
  have c: "DistributionPerBlock (in_params st) = mk_coin BaseCoinUnit n" "0 < n"
    using params on by (auto simp: incentives_Params_ValidateBasic_def incentives_off_def n_def Coin_IsValid_def
        split: if_splits)
  have coins: "NewCoins (ik_sdk k) (DistributionPerBlock (in_params st)) = Ok [mk_coin BaseCoinUnit n]"
    using c base_valid by (simp add: NewCoins_def Coin_IsValid_def)
  obtain r neg where sub: "DecCoins_SafeSub (ik_dist k) (GetFeePool (ik_dist k) (in_world st))
      (NewDecCoinsFromCoins (ik_dist k) [mk_coin BaseCoinUnit n]) = (r, neg)"
    by (cases "DecCoins_SafeSub (ik_dist k) (GetFeePool (ik_dist k) (in_world st))
      (NewDecCoinsFromCoins (ik_dist k) [mk_coin BaseCoinUnit n])") auto
  have nn: "\<not> pool_amount k st d < 0" for d using backed by (simp add: pool_backed_def not_less)
  have neg: "neg \<longleftrightarrow> pool_amount k st BaseCoinUnit < NewDecFromInt n"
    using safe_sub_negative [of "GetFeePool (ik_dist k) (in_world st)"
        "NewDecCoinsFromCoins (ik_dist k) [mk_coin BaseCoinUnit n]"] sub nn c(2)
    by (auto simp: from_coins pool_amount_def [symmetric] split: if_splits)
  show ?thesis
  proof (cases neg)
    case True
    with on coins sub neg show ?thesis by (simp add: incentives_EndBlocker_def)
  next
    case False
    then have le: "NewDecFromInt n \<le> pool_amount k st BaseCoinUnit" using neg by simp
    have "NewDecFromInt n \<le> NewDecFromInt (balance (in_world st) distribution_ModuleName BaseCoinUnit)"
      using le backed unfolding pool_backed_def by (meson order_trans)
    then have "n \<le> balance (in_world st) distribution_ModuleName BaseCoinUnit"
      by (simp add: NewDecFromInt_def)
    with send [OF c(2) _ base_valid] obtain w' where w':
      "ik_SendCoinsFromModuleToModule k (in_world st) distribution_ModuleName FeeCollectorName
        [mk_coin BaseCoinUnit n] = Ok w'"
      "\<forall>m e. balance w' m e = balance (in_world st) m e + (if e \<noteq> BaseCoinUnit then 0
         else if m = distribution_ModuleName then - n else if m = FeeCollectorName then n else 0)"
      by blast
    let ?st = "st\<lparr>in_world := SetFeePool (ik_dist k) w' r\<rparr>"
    have run: "incentives_EndBlocker k ctx st = Ok ?st"
      using on coins sub False w'(1) by (simp add: incentives_EndBlocker_def)
    have pool: "\<forall>d. pool_amount k ?st d = pool_amount k st d - (if d = BaseCoinUnit then NewDecFromInt n else 0)"
      using safe_sub [OF sub] c(2) by (simp add: pool_amount_def get_set_pool from_coins)
    moreover have "pool_backed k balance ?st"
      using pool backed w'(2) le
      by (auto simp: pool_backed_def set_pool_balance NewDecFromInt_def left_diff_distrib distrib_right)
    ultimately show ?thesis using le run w'(2) by (auto simp: set_pool_balance)
  qed
qed

end

end
