(* ===== verification/Axelarcork_Keeper.thy ===== *)
theory Axelarcork_Keeper
  imports Axelarcork_Types Cork_Keeper Incentives
begin

text \<open>
  The keeper of the axelarcork module (\<^verbatim>\<open>x/axelarcork/keeper\<close>): per chain, the scheduled corks and
  their tally, the winning corks that may be relayed, the cellars, the nonces of contract calls and
  the pending proxy upgrade. The state \<open>'w axelar_state\<close> holds the module's stores, the state of the
  pubsub module and the world \<open>'w\<close> (bank, distribution, IBC). The keeper's interfaces are
  parameters; \<open>xk_Transfer\<close>, the ICS-20 transfer, acts on the whole state because the packet it sends
  may come back to this module through the IBC middleware.
\<close>

section \<open>State and interfaces\<close>

record 'w axelar_state =
  ax_params :: axelar_params
  ax_configs :: "chain_configuration kvstore"
  ax_cellars :: "axelar_cellar_ids kvstore"
  ax_sched :: "axelar_cork kvstore"
  ax_results :: "axelar_cork_result kvstore"
  ax_winning :: "axelar_cork kvstore"
  ax_nonces :: "bytes kvstore"
  ax_upgrades :: "axelar_upgrade_data kvstore"
  ax_pubsub :: pubsub_state
  ax_world :: 'w
  ax_events :: "event list"

text \<open>The block time is in nanoseconds (\<^verbatim>\<open>UnixNano\<close>).\<close>

record axelar_ctx = ctx +
  BlockTime :: i64

text \<open>
  What a Go context handed to another module carries: the SDK context, or only the base context
  inside it (\<^verbatim>\<open>ctx.Context()\<close>).
\<close>

datatype go_ctx = SdkContext axelar_ctx | BaseContext

record packet_data =
  pd_Denom :: string
  pd_Amount :: string
  pd_Sender :: string
  pd_Receiver :: string
  pd_Memo :: string

record msg_transfer =
  mt_SourcePort :: string
  mt_SourceChannel :: string
  mt_Token :: coin
  mt_Sender :: string
  mt_Receiver :: string
  mt_TimeoutTimestamp :: u64
  mt_Memo :: string

record json_ops =
  json_UnmarshalPacket :: "bytes \<Rightarrow> packet_data option"
  json_MarshalBody :: "axelar_body \<Rightarrow> string option"
  json_UnmarshalBody :: "string \<Rightarrow> axelar_body option"

record 'w axelar_keeper =
  xk_sdk :: sdk
  xk_eth :: eth
  xk_abi :: abi
  xk_coins :: coins_ops
  xk_json :: json_ops
  xk_pubsub :: pubsub_keeper
  xk_GetModuleAccount :: "'w \<Rightarrow> string \<Rightarrow> addr option"
  xk_SetModuleAccount :: "'w \<Rightarrow> addr \<Rightarrow> 'w"
  xk_GetOrchestratorValidatorAddress :: "addr \<Rightarrow> addr option"
  xk_ConsensusPower :: "addr \<Rightarrow> i64 option"
  xk_GetLastTotalPower :: int
  xk_SendCoinsFromAccountToModule :: "'w \<Rightarrow> addr \<Rightarrow> string \<Rightarrow> coin list \<Rightarrow> 'w res"
  xk_dist :: "'w dist_ops"
  xk_Transfer :: "go_ctx \<Rightarrow> msg_transfer \<Rightarrow> 'w axelar_state \<Rightarrow> 'w axelar_state res"
  xk_SendPacket :: "string \<Rightarrow> string \<Rightarrow> u64 \<Rightarrow> bytes \<Rightarrow> 'w \<Rightarrow> ('w \<times> u64) res"

text \<open>
  \<open>SetParams\<close> writes every pair with \<^verbatim>\<open>paramSpace.Set\<close>, which, unlike \<^verbatim>\<open>SetParamSet\<close>, runs no
  validator.
\<close>

definition axelar_SetParams :: "'w axelar_state \<Rightarrow> axelar_params \<Rightarrow> 'w axelar_state" where
  "axelar_SetParams st p = st\<lparr>ax_params := p\<rparr>"

definition GetSenderAccount :: "'w axelar_keeper \<Rightarrow> 'w axelar_state \<Rightarrow> addr option" where
  "GetSenderAccount k st = xk_GetModuleAccount k (ax_world st) axelarcork_ModuleName"

section \<open>Chain configurations\<close>

definition GetChainConfigurationByID :: "'w axelar_state \<Rightarrow> u64 \<Rightarrow> chain_configuration option" where
  "GetChainConfigurationByID st chainID = kv_get (ax_configs st) (ChainConfigurationKey chainID)"

definition SetChainConfiguration :: "'w axelar_state \<Rightarrow> u64 \<Rightarrow> chain_configuration \<Rightarrow> 'w axelar_state" where
  "SetChainConfiguration st chainID config =
    st\<lparr>ax_configs := kv_set (ax_configs st) (ChainConfigurationKey chainID) config\<rparr>"

definition IterateChainConfigurations ::
  "'w axelar_state \<Rightarrow> (chain_configuration \<Rightarrow> 's \<Rightarrow> 's \<times> bool) \<Rightarrow> 's \<Rightarrow> 's" where
  "IterateChainConfigurations st handler = iterate handler (kv_values (ax_configs st) [ChainConfigurationPrefix])"

definition GetChainConfigurationByName :: "'w axelar_state \<Rightarrow> string \<Rightarrow> chain_configuration option" where
  "GetChainConfigurationByName st chainName =
    IterateChainConfigurations st (\<lambda>config found.
      if cc_Name config = chainName then (Some config, True) else (found, False)) None"

definition DeleteChainConfigurationByID :: "'w axelar_state \<Rightarrow> u64 \<Rightarrow> 'w axelar_state" where
  "DeleteChainConfigurationByID st chainID =
    st\<lparr>ax_configs := kv_del (ax_configs st) (ChainConfigurationKey chainID)\<rparr>"

section \<open>Scheduled corks\<close>

definition SetScheduledAxelarCork ::
  "'w axelar_keeper \<Rightarrow> 'w axelar_state \<Rightarrow> u64 \<Rightarrow> u64 \<Rightarrow> addr \<Rightarrow> axelar_cork \<Rightarrow> 'w axelar_state \<times> bytes" where
  "SetScheduledAxelarCork k st chainID blockHeight val cork =
    (let corkID = AxelarCork_IDHash (xk_eth k) cork blockHeight
     in (st\<lparr>ax_sched := kv_set (ax_sched st) (GetScheduledAxelarCorkKey chainID blockHeight corkID val
           (HexToAddress (xk_eth k) (ac_TargetContractAddress cork))) cork\<rparr>, corkID))"

definition GetScheduledAxelarCork ::
  "'w axelar_state \<Rightarrow> u64 \<Rightarrow> u64 \<Rightarrow> bytes \<Rightarrow> addr \<Rightarrow> addr \<Rightarrow> axelar_cork option" where
  "GetScheduledAxelarCork st chainID blockHeight corkID val contract =
    kv_get (ax_sched st) (GetScheduledAxelarCorkKey chainID blockHeight corkID val contract)"

definition DeleteScheduledAxelarCork ::
  "'w axelar_state \<Rightarrow> u64 \<Rightarrow> u64 \<Rightarrow> bytes \<Rightarrow> addr \<Rightarrow> addr \<Rightarrow> 'w axelar_state" where
  "DeleteScheduledAxelarCork st chainID blockHeight corkID val contract =
    st\<lparr>ax_sched := kv_del (ax_sched st) (GetScheduledAxelarCorkKey chainID blockHeight corkID val contract)\<rparr>"

type_synonym axelar_entry = "addr \<times> u64 \<times> bytes \<times> addr \<times> axelar_cork"

definition parse_axelar_entry :: "eth \<Rightarrow> bytes \<times> axelar_cork \<Rightarrow> axelar_entry" where
  "parse_axelar_entry E = (\<lambda>(key, cork).
    (take 20 (drop 49 key), Uint64 (take 8 (drop 9 key)), take 32 (drop 17 key),
     BytesToAddress E (take 20 (drop 69 key)), cork))"

definition IterateScheduledAxelarCorksByPrefix ::
  "'w axelar_keeper \<Rightarrow> 'w axelar_state \<Rightarrow> bytes \<Rightarrow> (axelar_entry \<Rightarrow> 's \<Rightarrow> 's \<times> bool) \<Rightarrow> 's \<Rightarrow> 's" where
  "IterateScheduledAxelarCorksByPrefix k st pfx cb =
    iterate cb (map (parse_axelar_entry (xk_eth k)) (kv_iter (ax_sched st) pfx))"

definition IterateScheduledAxelarCorks ::
  "'w axelar_keeper \<Rightarrow> 'w axelar_state \<Rightarrow> u64 \<Rightarrow> (axelar_entry \<Rightarrow> 's \<Rightarrow> 's \<times> bool) \<Rightarrow> 's \<Rightarrow> 's" where
  "IterateScheduledAxelarCorks k st chainID =
    IterateScheduledAxelarCorksByPrefix k st (GetScheduledAxelarCorkKeyPrefix chainID)"

definition IterateScheduledAxelarCorksByBlockHeight ::
  "'w axelar_keeper \<Rightarrow> 'w axelar_state \<Rightarrow> u64 \<Rightarrow> u64 \<Rightarrow> (axelar_entry \<Rightarrow> 's \<Rightarrow> 's \<times> bool) \<Rightarrow> 's \<Rightarrow> 's" where
  "IterateScheduledAxelarCorksByBlockHeight k st chainID blockHeight =
    IterateScheduledAxelarCorksByPrefix k st (GetScheduledAxelarCorkKeyByBlockHeightPrefix chainID blockHeight)"

definition scheduled_axelar_cork_of :: "'w axelar_keeper \<Rightarrow> axelar_entry \<Rightarrow> scheduled_axelar_cork" where
  "scheduled_axelar_cork_of k = (\<lambda>(val, blockHeight, corkID, _, cork).
    \<lparr>sac_Cork = cork, sac_BlockHeight = blockHeight, sac_Validator = ValAddress_String (xk_sdk k) val,
     sac_Id = EncodeToString corkID\<rparr>)"

definition GetScheduledAxelarCorks :: "'w axelar_keeper \<Rightarrow> 'w axelar_state \<Rightarrow> u64 \<Rightarrow> scheduled_axelar_cork list" where
  "GetScheduledAxelarCorks k st chainID =
    IterateScheduledAxelarCorks k st chainID (\<lambda>e acc. (acc @ [scheduled_axelar_cork_of k e], False)) []"

definition GetScheduledAxelarCorksByBlockHeight ::
  "'w axelar_keeper \<Rightarrow> 'w axelar_state \<Rightarrow> u64 \<Rightarrow> u64 \<Rightarrow> scheduled_axelar_cork list" where
  "GetScheduledAxelarCorksByBlockHeight k st chainID height =
    IterateScheduledAxelarCorksByBlockHeight k st chainID height
      (\<lambda>e acc. (acc @ [scheduled_axelar_cork_of k e], False)) []"

definition GetScheduledAxelarCorksByID ::
  "'w axelar_keeper \<Rightarrow> 'w axelar_state \<Rightarrow> u64 \<Rightarrow> bytes \<Rightarrow> scheduled_axelar_cork list" where
  "GetScheduledAxelarCorksByID k st chainID queriedID =
    IterateScheduledAxelarCorks k st chainID (\<lambda>(val, blockHeight, corkID, contract, cork) acc.
      (if corkID = queriedID then acc @ [scheduled_axelar_cork_of k (val, blockHeight, corkID, contract, cork)]
       else acc, False)) []"

definition axelar_GetScheduledBlockHeights :: "'w axelar_keeper \<Rightarrow> 'w axelar_state \<Rightarrow> u64 \<Rightarrow> u64 list" where
  "axelar_GetScheduledBlockHeights k st chainID =
    fst (IterateScheduledAxelarCorks k st chainID (\<lambda>(_, blockHeight, _) (heights, latestHeight).
      ((if blockHeight > latestHeight then heights @ [blockHeight] else heights, blockHeight), False)) ([], 0))"

section \<open>Winning corks\<close>

definition SetWinningAxelarCork ::
  "'w axelar_keeper \<Rightarrow> u64 \<Rightarrow> u64 \<Rightarrow> 'w axelar_state \<Rightarrow> axelar_cork \<Rightarrow> 'w axelar_state" where
  "SetWinningAxelarCork k chainID blockHeight st cork =
    st\<lparr>ax_winning := kv_set (ax_winning st) (GetWinningAxelarCorkKey chainID blockHeight
      (HexToAddress (xk_eth k) (ac_TargetContractAddress cork))) cork\<rparr>"

definition parse_winning_entry :: "eth \<Rightarrow> bytes \<times> axelar_cork \<Rightarrow> addr \<times> u64 \<times> axelar_cork" where
  "parse_winning_entry E = (\<lambda>(key, cork).
    (BytesToAddress E (take 20 (drop 17 key)), Uint64 (take 8 (drop 9 key)), cork))"

definition IterateWinningAxelarCorks ::
  "'w axelar_keeper \<Rightarrow> 'w axelar_state \<Rightarrow> u64 \<Rightarrow> (addr \<times> u64 \<times> axelar_cork \<Rightarrow> 's \<Rightarrow> 's \<times> bool) \<Rightarrow> 's \<Rightarrow> 's" where
  "IterateWinningAxelarCorks k st chainID cb =
    iterate cb (map (parse_winning_entry (xk_eth k)) (kv_iter (ax_winning st) (GetWinningAxelarCorkKeyPrefix chainID)))"

definition GetWinningAxelarCork ::
  "'w axelar_keeper \<Rightarrow> 'w axelar_state \<Rightarrow> u64 \<Rightarrow> addr \<Rightarrow> (u64 \<times> axelar_cork) option" where
  "GetWinningAxelarCork k st chainID contractAddr =
    IterateWinningAxelarCorks k st chainID (\<lambda>(contract, blockHeight, cork) found.
      if contractAddr = contract then (Some (blockHeight, cork), True) else (found, False)) None"

definition DeleteWinningAxelarCorkByBlockheight ::
  "'w axelar_keeper \<Rightarrow> 'w axelar_state \<Rightarrow> u64 \<Rightarrow> u64 \<Rightarrow> axelar_cork \<Rightarrow> 'w axelar_state" where
  "DeleteWinningAxelarCorkByBlockheight k st chainID blockHeight cork =
    st\<lparr>ax_winning := kv_del (ax_winning st) (GetWinningAxelarCorkKey chainID blockHeight
      (HexToAddress (xk_eth k) (ac_TargetContractAddress cork)))\<rparr>"

definition DeleteWinningAxelarCork :: "'w axelar_keeper \<Rightarrow> 'w axelar_state \<Rightarrow> u64 \<Rightarrow> axelar_cork \<Rightarrow> 'w axelar_state" where
  "DeleteWinningAxelarCork k st chainID c =
    IterateWinningAxelarCorks k st chainID (\<lambda>(_, blockHeight, cork) s.
      if AxelarCork_Equals (xk_eth k) c cork
      then (DeleteWinningAxelarCorkByBlockheight k s chainID blockHeight cork, True) else (s, False)) st"

section \<open>Results\<close>

definition SetAxelarCorkResult ::
  "'w axelar_state \<Rightarrow> u64 \<Rightarrow> bytes \<Rightarrow> axelar_cork_result \<Rightarrow> 'w axelar_state" where
  "SetAxelarCorkResult st chainID corkID r =
    st\<lparr>ax_results := kv_set (ax_results st) (GetAxelarCorkResultKey chainID corkID) r\<rparr>"

definition GetAxelarCorkResult :: "'w axelar_state \<Rightarrow> u64 \<Rightarrow> bytes \<Rightarrow> axelar_cork_result option" where
  "GetAxelarCorkResult st chainID corkID = kv_get (ax_results st) (GetAxelarCorkResultKey chainID corkID)"

definition DeleteAxelarCorkResult :: "'w axelar_state \<Rightarrow> u64 \<Rightarrow> bytes \<Rightarrow> 'w axelar_state" where
  "DeleteAxelarCorkResult st chainID corkID =
    st\<lparr>ax_results := kv_del (ax_results st) (GetAxelarCorkResultKey chainID corkID)\<rparr>"

text \<open>The id handed to the callback starts at the chain id, which the iterator does not skip.\<close>

definition IterateAxelarCorkResults ::
  "'w axelar_state \<Rightarrow> u64 \<Rightarrow> (bytes \<times> axelar_cork_result \<Rightarrow> 's \<Rightarrow> 's \<times> bool) \<Rightarrow> 's \<Rightarrow> 's" where
  "IterateAxelarCorkResults st chainID cb =
    iterate cb (map (\<lambda>(key, r). (take 32 (drop 1 key), r)) (kv_iter (ax_results st) (GetAxelarCorkResultPrefix chainID)))"

definition GetAxelarCorkResults :: "'w axelar_state \<Rightarrow> u64 \<Rightarrow> axelar_cork_result list" where
  "GetAxelarCorkResults st chainID = IterateAxelarCorkResults st chainID (\<lambda>e acc. (acc @ [snd e], False)) []"

section \<open>The tally\<close>

type_synonym axelar_tally = "(axelar_cork \<times> u64) list"

fun axelar_add_vote :: "eth \<Rightarrow> axelar_cork \<Rightarrow> u64 \<Rightarrow> axelar_tally \<Rightarrow> axelar_tally" where
  "axelar_add_vote E cork pow [] = [(cork, pow)]"
| "axelar_add_vote E cork pow ((c, p) # t) =
    (if AxelarCork_Equals E c cork then (c, p + pow) # t else (c, p) # axelar_add_vote E cork pow t)"

definition axelar_count_vote ::
  "'w axelar_keeper \<Rightarrow> u64 \<Rightarrow> u64 \<Rightarrow> axelar_entry \<Rightarrow> 'w axelar_state \<times> axelar_tally \<Rightarrow>
    ('w axelar_state \<times> axelar_tally) res" where
  "axelar_count_vote k chainID currentBlockHeight = (\<lambda>(val, _, corkID, contract, cork) (st, t).
    case xk_ConsensusPower k val of
      None \<Rightarrow> Panic ''nil dereference''
    | Some validatorPower \<Rightarrow>
      Ok (DeleteScheduledAxelarCork st chainID currentBlockHeight corkID val contract,
          axelar_add_vote (xk_eth k) cork validatorPower t))"

definition axelar_approvalPercentage :: "'w axelar_keeper \<Rightarrow> u64 \<Rightarrow> dec res" where
  "axelar_approvalPercentage k pow =
    Quo (xk_sdk k) (NewDecFromInt (uint pow)) (NewDecFromInt (xk_GetLastTotalPower k))"

definition axelar_settle_vote ::
  "'w axelar_keeper \<Rightarrow> u64 \<Rightarrow> u64 \<Rightarrow> axelar_cork \<times> u64 \<Rightarrow> 'w axelar_state \<times> axelar_cork list \<Rightarrow>
    ('w axelar_state \<times> axelar_cork list) res" where
  "axelar_settle_vote k chainID currentBlockHeight = (\<lambda>(cork, pow) (st, approvedCorks).
    bind_res (axelar_approvalPercentage k pow) (\<lambda>percentage.
    let quorumReached = percentage > corkVoteThreshold;
        corkResult = \<lparr>acr_Cork = cork, acr_BlockHeight = currentBlockHeight, acr_Approved = quorumReached,
          acr_ApprovalPercentage = Dec_String (xk_sdk k) (Dec_Mul (xk_sdk k) percentage (NewDecFromInt 100))\<rparr>
    in Ok (SetAxelarCorkResult st chainID (AxelarCork_IDHash (xk_eth k) cork currentBlockHeight) corkResult,
           if quorumReached then approvedCorks @ [cork] else approvedCorks)))"

definition GetApprovedScheduledAxelarCorks ::
  "'w axelar_keeper \<Rightarrow> axelar_ctx \<Rightarrow> 'w axelar_state \<Rightarrow> u64 \<Rightarrow> ('w axelar_state \<times> axelar_cork list) res" where
  "GetApprovedScheduledAxelarCorks k ctx st chainID =
    (let currentBlockHeight = BlockHeight ctx;
         entries = IterateScheduledAxelarCorksByBlockHeight k st chainID currentBlockHeight
           (\<lambda>e acc. (acc @ [e], False)) []
     in bind_res (fold_res (axelar_count_vote k chainID currentBlockHeight) entries (st, [])) (\<lambda>(st1, t).
        fold_res (axelar_settle_vote k chainID currentBlockHeight) t (st1, [])))"

section \<open>Cellars, nonces and upgrades\<close>

definition axelar_SetCellarIDs :: "'w axelar_state \<Rightarrow> u64 \<Rightarrow> axelar_cellar_ids \<Rightarrow> 'w axelar_state" where
  "axelar_SetCellarIDs st chainID c = st\<lparr>ax_cellars := kv_set (ax_cellars st) (axelar_MakeCellarIDsKey chainID) c\<rparr>"

definition axelar_GetCellarIDs :: "'w axelar_keeper \<Rightarrow> 'w axelar_state \<Rightarrow> u64 \<Rightarrow> addr list" where
  "axelar_GetCellarIDs k st chainID = (case kv_get (ax_cellars st) (axelar_MakeCellarIDsKey chainID) of
      None \<Rightarrow> [] | Some c \<Rightarrow> map (HexToAddress (xk_eth k)) (aci_Ids c))"

definition axelar_HasCellarID :: "'w axelar_keeper \<Rightarrow> 'w axelar_state \<Rightarrow> u64 \<Rightarrow> addr \<Rightarrow> bool" where
  "axelar_HasCellarID k st chainID address = list_ex (\<lambda>a. a = address) (axelar_GetCellarIDs k st chainID)"

definition SetAxelarContractCallNonce ::
  "'w axelar_keeper \<Rightarrow> 'w axelar_state \<Rightarrow> u64 \<Rightarrow> string \<Rightarrow> u64 \<Rightarrow> 'w axelar_state" where
  "SetAxelarContractCallNonce k st chainID address nonce =
    st\<lparr>ax_nonces := kv_set (ax_nonces st)
      (GetAxelarContractCallNonceKey chainID (HexToAddress (xk_eth k) address)) (PutUint64 nonce)\<rparr>"

definition GetAxelarContractCallNonce :: "'w axelar_keeper \<Rightarrow> 'w axelar_state \<Rightarrow> u64 \<Rightarrow> string \<Rightarrow> u64" where
  "GetAxelarContractCallNonce k st chainID address =
    BigEndianToUint64 (kv_get (ax_nonces st) (GetAxelarContractCallNonceKey chainID (HexToAddress (xk_eth k) address)))"

definition IncrementAxelarContractCallNonce ::
  "'w axelar_keeper \<Rightarrow> 'w axelar_state \<Rightarrow> u64 \<Rightarrow> string \<Rightarrow> 'w axelar_state \<times> u64" where
  "IncrementAxelarContractCallNonce k st chainID address =
    (let nonce = GetAxelarContractCallNonce k st chainID address + 1
     in (SetAxelarContractCallNonce k st chainID address nonce, nonce))"

definition IterateAxelarContractCallNonces ::
  "'w axelar_keeper \<Rightarrow> 'w axelar_state \<Rightarrow> (u64 \<times> addr \<times> u64 \<Rightarrow> 's \<Rightarrow> 's \<times> bool) \<Rightarrow> 's \<Rightarrow> 's" where
  "IterateAxelarContractCallNonces k st cb =
    iterate cb (map (\<lambda>(key, v). (Uint64 (take 8 (drop 1 key)), BytesToAddress (xk_eth k) (take 20 (drop 9 key)),
        BigEndianToUint64 (Some v))) (kv_iter (ax_nonces st) [AxelarContractCallNoncePrefix]))"

definition SetAxelarProxyUpgradeData :: "'w axelar_state \<Rightarrow> u64 \<Rightarrow> axelar_upgrade_data \<Rightarrow> 'w axelar_state" where
  "SetAxelarProxyUpgradeData st chainID ud =
    st\<lparr>ax_upgrades := kv_set (ax_upgrades st) (GetAxelarProxyUpgradeDataKey chainID) ud\<rparr>"

definition GetAxelarProxyUpgradeData :: "'w axelar_state \<Rightarrow> u64 \<Rightarrow> axelar_upgrade_data option" where
  "GetAxelarProxyUpgradeData st chainID = kv_get (ax_upgrades st) (GetAxelarProxyUpgradeDataKey chainID)"

definition DeleteAxelarProxyUpgradeData :: "'w axelar_state \<Rightarrow> u64 \<Rightarrow> 'w axelar_state" where
  "DeleteAxelarProxyUpgradeData st chainID =
    st\<lparr>ax_upgrades := kv_del (ax_upgrades st) (GetAxelarProxyUpgradeDataKey chainID)\<rparr>"

definition IterateAxelarProxyUpgradeData ::
  "'w axelar_state \<Rightarrow> (u64 \<times> axelar_upgrade_data \<Rightarrow> 's \<Rightarrow> 's \<times> bool) \<Rightarrow> 's \<Rightarrow> 's" where
  "IterateAxelarProxyUpgradeData st cb =
    iterate cb (map (\<lambda>(key, ud). (Uint64 (take 8 (drop 1 key)), ud))
      (kv_iter (ax_upgrades st) [AxelarProxyUpgradeDataPrefix]))"

section \<open>Blocks\<close>

definition axelar_BeginBlocker :: "'w axelar_state \<Rightarrow> 'w axelar_state" where
  "axelar_BeginBlocker st = st"

text \<open>
  For every chain: tally, store the winners under the current height, then walk the winning corks
  and delete those at or above \<open>height - CorkTimeoutBlocks\<close>, computed in 64 bits. The iterator sees
  the entries as they are when it starts; its callback deletes.
\<close>

definition remove_timed_out ::
  "'w axelar_keeper \<Rightarrow> u64 \<Rightarrow> u64 \<Rightarrow> 'w axelar_state \<Rightarrow> 'w axelar_state" where
  "remove_timed_out k chainID timeoutHeight st =
    IterateWinningAxelarCorks k st chainID (\<lambda>(_, blockHeight, cork) s.
      (if blockHeight \<ge> timeoutHeight then DeleteWinningAxelarCorkByBlockheight k s chainID blockHeight cork else s,
       False)) st"

definition axelar_end_chain ::
  "'w axelar_keeper \<Rightarrow> axelar_ctx \<Rightarrow> chain_configuration \<Rightarrow> 'w axelar_state \<Rightarrow> 'w axelar_state res" where
  "axelar_end_chain k ctx config st =
    bind_res (GetApprovedScheduledAxelarCorks k ctx st (cc_Id config)) (\<lambda>(st1, winningScheduledVotes).
    let st2 = foldl (SetWinningAxelarCork k (cc_Id config) (BlockHeight ctx)) st1 winningScheduledVotes;
        timeoutHeight = BlockHeight ctx - CorkTimeoutBlocks (ax_params st2)
    in Ok (remove_timed_out k (cc_Id config) timeoutHeight st2))"

definition axelar_EndBlocker :: "'w axelar_keeper \<Rightarrow> axelar_ctx \<Rightarrow> 'w axelar_state \<Rightarrow> 'w axelar_state res" where
  "axelar_EndBlocker k ctx st =
    fold_res (axelar_end_chain k ctx) (kv_values (ax_configs st) [ChainConfigurationPrefix]) st"

end
