(* ===== verification/Axelarcork_Msgs.thy ===== *)
theory Axelarcork_Msgs
  imports Axelarcork_Keeper
begin

text \<open>
  The handlers of the axelarcork module: messages (\<^verbatim>\<open>keeper/msg_server.go\<close>), the check of outgoing
  packets (\<^verbatim>\<open>keeper/packet.go\<close>, \<^verbatim>\<open>ibc_middleware.go\<close>), proposals, genesis and queries.
\<close>

section \<open>Messages\<close>

definition axelar_emit :: "event \<Rightarrow> 'w axelar_state \<Rightarrow> 'w axelar_state" where
  "axelar_emit e st = st\<lparr>ax_events := ax_events st @ [e]\<rparr>"

definition axelar_ScheduleCork ::
  "'w axelar_keeper \<Rightarrow> axelar_ctx \<Rightarrow> 'w axelar_state \<Rightarrow> msg_schedule_axelar_cork \<Rightarrow> ('w axelar_state \<times> string) res" where
  "axelar_ScheduleCork k ctx st msg =
    (if \<not> Enabled (ax_params st) then Err ErrDisabled
     else bind_res (MustGetSigner (xk_sdk k) (mac_Signer msg)) (\<lambda>signer.
     case xk_GetOrchestratorValidatorAddress k signer of
       None \<Rightarrow> Err (Wrapped ErrUnauthorized)
     | Some validatorAddr \<Rightarrow>
     (case GetChainConfigurationByID st (mac_ChainId msg) of
       None \<Rightarrow> Err (Errorf ''chain by id not found'')
     | Some config \<Rightarrow>
     (case mac_Cork msg of None \<Rightarrow> Panic ''nil dereference'' | Some cork \<Rightarrow>
       if \<not> axelar_HasCellarID k st (cc_Id config) (HexToAddress (xk_eth k) (ac_TargetContractAddress cork))
       then Err axelar_ErrUnmanagedCellarAddress
       else if mac_BlockHeight msg \<le> BlockHeight ctx then Err axelar_ErrSchedulingInThePast
       else
       let (st1, corkID) = SetScheduledAxelarCork k st (cc_Id config) (mac_BlockHeight msg) validatorAddr cork
       in Ok (axelar_emit (''ScheduleCorkEvent'',
            [(''signer'', AttrS (AccAddress_String (xk_sdk k) signer)),
             (''validator'', AttrS (ValAddress_String (xk_sdk k) validatorAddr)),
             (''cork'', AttrS (ac_TargetContractAddress cork)),
             (''block_height'', AttrU (mac_BlockHeight msg)), (''chain_id'', AttrU (cc_Id config))]) st1,
            EncodeToString corkID)))))"

text \<open>The two relays and the gas bump build a transfer that times out a fixed time after the block.\<close>

definition mk_transfer :: "axelar_ctx \<Rightarrow> axelar_params \<Rightarrow> coin \<Rightarrow> string \<Rightarrow> string \<Rightarrow> string \<Rightarrow> msg_transfer" where
  "mk_transfer ctx params token sender receiver memo =
    \<lparr>mt_SourcePort = IbcPort params, mt_SourceChannel = IbcChannel params, mt_Token = token, mt_Sender = sender,
     mt_Receiver = receiver, mt_TimeoutTimestamp = BlockTime ctx + TimeoutDuration params, mt_Memo = memo\<rparr>"

definition relay_payload ::
  "'w axelar_keeper \<Rightarrow> axelar_ctx \<Rightarrow> 'w axelar_state \<Rightarrow> chain_configuration \<Rightarrow> bytes \<Rightarrow> u64 \<Rightarrow> coin \<Rightarrow> 'w axelar_state res" where
  "relay_payload k ctx st config payload fee token =
    (let params = ax_params st;
         axelarMemo = \<lparr>ab_DestinationChain = cc_Name config, ab_DestinationAddress = cc_ProxyAddress config,
           ab_Payload = payload, ab_Type = PureMessage,
           ab_Fee = Some \<lparr>fee_Amount = FormatUint fee, fee_Recipient = ExecutorAccount params\<rparr>\<rparr>
     in case json_MarshalBody (xk_json k) axelarMemo of None \<Rightarrow> Err (Errorf ''json'')
        | Some memo \<Rightarrow> (case GetSenderAccount k st of None \<Rightarrow> Panic ''nil dereference''
          | Some sender \<Rightarrow> xk_Transfer k (SdkContext ctx)
              (mk_transfer ctx params token (AccAddress_String (xk_sdk k) sender) (GmpAccount params) memo) st))"

text \<open>\<open>pay_relay\<close> moves the relayer's tokens to the module account.\<close>

definition pay_relay :: "'w axelar_keeper \<Rightarrow> 'w axelar_state \<Rightarrow> string \<Rightarrow> coin \<Rightarrow> 'w axelar_state res" where
  "pay_relay k st signer_text token =
    bind_res (MustGetSigner (xk_sdk k) signer_text) (\<lambda>signer.
    bind_res (NewCoins (xk_sdk k) token) (\<lambda>coins.
    bind_res (xk_SendCoinsFromAccountToModule k (ax_world st) signer axelarcork_ModuleName coins) (\<lambda>w.
    Ok (st\<lparr>ax_world := w\<rparr>))))"

definition RelayCork ::
  "'w axelar_keeper \<Rightarrow> axelar_ctx \<Rightarrow> 'w axelar_state \<Rightarrow> msg_relay_axelar_cork \<Rightarrow> 'w axelar_state res" where
  "RelayCork k ctx st msg =
    (if \<not> Enabled (ax_params st) then Err ErrDisabled
     else case GetChainConfigurationByID st (mrc_ChainId msg) of
       None \<Rightarrow> Err (Errorf ''chain by id not found'')
     | Some config \<Rightarrow>
     (case GetWinningAxelarCork k st (cc_Id config) (HexToAddress (xk_eth k) (mrc_TargetContractAddress msg)) of
       None \<Rightarrow> Err (Errorf ''no cork found'')
     | Some (_, cork) \<Rightarrow>
       bind_res (pay_relay k st (mrc_Signer msg) (mrc_Token msg)) (\<lambda>st1.
       let (st2, nonce) = IncrementAxelarContractCallNonce k st1 (mrc_ChainId msg) (ac_TargetContractAddress cork)
       in case EncodeLogicCallArgs (xk_eth k) (xk_abi k) (mrc_TargetContractAddress msg) nonce (ac_Deadline cork)
              (ac_EncodedContractCall cork) of
            None \<Rightarrow> Err (Errorf ''abi'')
          | Some payload \<Rightarrow> relay_payload k ctx st2 config payload (mrc_Fee msg) (mrc_Token msg))))"

definition RelayProxyUpgrade ::
  "'w axelar_keeper \<Rightarrow> axelar_ctx \<Rightarrow> 'w axelar_state \<Rightarrow> msg_relay_proxy_upgrade \<Rightarrow> 'w axelar_state res" where
  "RelayProxyUpgrade k ctx st msg =
    (if \<not> Enabled (ax_params st) then Err ErrDisabled
     else case GetChainConfigurationByID st (mru_ChainId msg) of
       None \<Rightarrow> Err (Errorf ''chain by id not found'')
     | Some config \<Rightarrow>
     (case GetAxelarProxyUpgradeData st (mru_ChainId msg) of
       None \<Rightarrow> Err (Errorf ''no proxy upgrade data found'')
     | Some upgradeData \<Rightarrow>
       if sint (BlockHeight ctx) < sint (ud_ExecutableHeightThreshold upgradeData)
       then Err (Errorf ''proxy upgrade call is not executable yet'')
       else
       bind_res (pay_relay k st (mru_Signer msg) (mru_Token msg)) (\<lambda>st1.
       bind_res (relay_payload k ctx st1 config (ud_Payload upgradeData) (mru_Fee msg) (mru_Token msg)) (\<lambda>st2.
       Ok (DeleteAxelarProxyUpgradeData st2 (mru_ChainId msg))))))"

definition BumpCorkGas ::
  "'w axelar_keeper \<Rightarrow> axelar_ctx \<Rightarrow> 'w axelar_state \<Rightarrow> msg_bump_gas \<Rightarrow> 'w axelar_state res" where
  "BumpCorkGas k ctx st msg =
    (let params = ax_params st
     in if \<not> Enabled params then Err ErrDisabled
        else xk_Transfer k (SdkContext ctx)
          (mk_transfer ctx params (mbg_Token msg) (mbg_Signer msg) (ExecutorAccount params) (mbg_MessageId msg)) st)"

definition CancelScheduledCork ::
  "'w axelar_keeper \<Rightarrow> axelar_ctx \<Rightarrow> 'w axelar_state \<Rightarrow> msg_cancel_axelar_cork \<Rightarrow> 'w axelar_state res" where
  "CancelScheduledCork k ctx st msg = Ok st"

datatype axelar_msg =
  MsgScheduleAxelarCorkRequest msg_schedule_axelar_cork
| MsgRelayAxelarCorkRequest msg_relay_axelar_cork
| MsgRelayAxelarProxyUpgradeRequest msg_relay_proxy_upgrade
| MsgBumpAxelarCorkGasRequest msg_bump_gas
| AxelarOtherMsg string

fun axelar_NewHandler :: "'w axelar_keeper \<Rightarrow> axelar_ctx \<Rightarrow> 'w axelar_state \<Rightarrow> axelar_msg \<Rightarrow> 'w axelar_state res" where
  "axelar_NewHandler k ctx st (MsgScheduleAxelarCorkRequest m) =
    bind_res (axelar_ScheduleCork k ctx st m) (\<lambda>(st', _). Ok st')"
| "axelar_NewHandler k ctx st (MsgRelayAxelarCorkRequest m) = RelayCork k ctx st m"
| "axelar_NewHandler k ctx st (MsgRelayAxelarProxyUpgradeRequest m) = RelayProxyUpgrade k ctx st m"
| "axelar_NewHandler k ctx st (MsgBumpAxelarCorkGasRequest m) = BumpCorkGas k ctx st m"
| "axelar_NewHandler k ctx st (AxelarOtherMsg _) = Err (Wrapped ErrUnknownRequest)"

section \<open>Outgoing packets\<close>

definition check_logic_call ::
  "'w axelar_keeper \<Rightarrow> 'w axelar_state \<Rightarrow> chain_configuration \<Rightarrow> string \<times> u64 \<times> u64 \<times> bytes \<Rightarrow> 'w axelar_state res" where
  "check_logic_call k st chainConfig = (\<lambda>(targetContract, nonce, _, callData).
    if nonce = 0 then Err (Errorf ''nonce cannot be zero'')
    else case GetWinningAxelarCork k st (cc_Id chainConfig) (HexToAddress (xk_eth k) targetContract) of
      None \<Rightarrow> Err (Errorf ''no cork expected'')
    | Some (blockHeight, winningCork) \<Rightarrow>
      if ac_EncodedContractCall winningCork \<noteq> callData then Err (Errorf ''cork body did not match expected body'')
      else Ok (DeleteWinningAxelarCorkByBlockheight k st (cc_Id chainConfig) blockHeight winningCork))"

definition check_upgrade ::
  "'w axelar_keeper \<Rightarrow> 'w axelar_state \<Rightarrow> chain_configuration \<Rightarrow> bytes \<Rightarrow> string \<times> string list \<Rightarrow> 'w axelar_state res" where
  "check_upgrade k st chainConfig payload = (\<lambda>(newProxyContract, targets).
    if \<not> IsHexAddress (xk_eth k) newProxyContract then Err (Errorf ''invalid proxy address'')
    else if targets = [] then Err (Errorf ''no targets provided'')
    else if list_ex (\<lambda>t. \<not> IsHexAddress (xk_eth k) t) targets then Err (Errorf ''invalid target'')
    else case GetAxelarProxyUpgradeData st (cc_Id chainConfig) of
      None \<Rightarrow> Err (Errorf ''no upgrade data expected'')
    | Some upgradeData \<Rightarrow>
      if ud_Payload upgradeData \<noteq> payload then Err (Errorf ''upgrade data did not match expected data'')
      else Ok (DeleteAxelarProxyUpgradeData st (cc_Id chainConfig)))"

definition check_payload ::
  "'w axelar_keeper \<Rightarrow> 'w axelar_state \<Rightarrow> chain_configuration \<Rightarrow> bytes \<Rightarrow> 'w axelar_state res" where
  "check_payload k st chainConfig payload =
    (case DecodeLogicCallArgs (xk_eth k) (xk_abi k) payload of
       Some call \<Rightarrow> check_logic_call k st chainConfig call
     | None \<Rightarrow> (case DecodeUpgradeArgs (xk_eth k) (xk_abi k) payload of
         Some up \<Rightarrow> check_upgrade k st chainConfig payload up
       | None \<Rightarrow> Err (Errorf ''invalid payload'')))"

definition check_body :: "'w axelar_keeper \<Rightarrow> 'w axelar_state \<Rightarrow> axelar_body \<Rightarrow> 'w axelar_state res" where
  "check_body k st axelarBody =
    (case GetChainConfigurationByName st (ab_DestinationChain axelarBody) of
       None \<Rightarrow> Err (Errorf ''configuration not found for chain'')
     | Some chainConfig \<Rightarrow>
       if \<not> IsHexAddress (xk_eth k) (cc_ProxyAddress chainConfig) then Err (Errorf ''proxy address in chain config is not valid'')
       else if \<not> IsHexAddress (xk_eth k) (ab_DestinationAddress axelarBody)
       then Err (Errorf ''axelar destination address is not a valid EVM address'')
       else if HexToAddress (xk_eth k) (ab_DestinationAddress axelarBody) \<noteq> HexToAddress (xk_eth k) (cc_ProxyAddress chainConfig)
       then Err (Errorf ''msg cannot bypass the proxy'')
       else check_payload k st chainConfig (ab_Payload axelarBody))"

definition ValidateAxelarPacket ::
  "'w axelar_keeper \<Rightarrow> 'w axelar_state \<Rightarrow> string \<Rightarrow> bytes \<Rightarrow> 'w axelar_state res" where
  "ValidateAxelarPacket k st sourceChannel data =
    (let params = ax_params st
     in if \<not> Enabled params then Ok st
        else if sourceChannel \<noteq> IbcChannel params then Ok st
        else case json_UnmarshalPacket (xk_json k) data of None \<Rightarrow> Err (Errorf ''json'')
        | Some packetData \<Rightarrow>
        (case AccAddressFromBech32 (xk_sdk k) (GmpAccount params) of
          None \<Rightarrow> Err (Errorf ''GmpAccount parameter is an invalid address'')
        | Some gmpAccountAddr \<Rightarrow>
        (case AccAddressFromBech32 (xk_sdk k) (pd_Receiver packetData) of
          None \<Rightarrow> Err (Errorf ''receiver in IBC packet data is an invalid address'')
        | Some receiverAddr \<Rightarrow>
        (case AccAddressFromBech32 (xk_sdk k) (pd_Sender packetData) of
          None \<Rightarrow> Err (Errorf ''sender in IBC packet data is an invalid address'')
        | Some senderAddr \<Rightarrow>
          if receiverAddr \<noteq> gmpAccountAddr then Ok st
          else bind_res (deref (GetSenderAccount k st)) (\<lambda>moduleAddr.
          if senderAddr \<noteq> moduleAddr then Err (Errorf ''sender to Axelar GMP account is not axelarcork module account'')
          else if pd_Memo packetData = [] then Ok st
          else case json_UnmarshalBody (xk_json k) (pd_Memo packetData) of None \<Rightarrow> Err (Errorf ''json'')
          | Some axelarBody \<Rightarrow> check_body k st axelarBody)))))"

definition axelar_SendPacket ::
  "'w axelar_keeper \<Rightarrow> 'w axelar_state \<Rightarrow> string \<Rightarrow> string \<Rightarrow> u64 \<Rightarrow> bytes \<Rightarrow> ('w axelar_state \<times> u64) res" where
  "axelar_SendPacket k st sourcePort sourceChannel timeoutTimestamp data =
    bind_res (ValidateAxelarPacket k st sourceChannel data) (\<lambda>st1.
    bind_res (xk_SendPacket k sourcePort sourceChannel timeoutTimestamp data (ax_world st1)) (\<lambda>(w, sequence).
    Ok (st1\<lparr>ax_world := w\<rparr>, sequence)))"

section \<open>Proposals\<close>

definition NewAxelarSubscriptionID :: "eth \<Rightarrow> u64 \<Rightarrow> addr \<Rightarrow> string" where
  "NewAxelarSubscriptionID E chainID address = FormatUint chainID @ '':'' @ Address_Hex E address"

definition axelar_add_cellar ::
  "'w axelar_keeper \<Rightarrow> u64 \<Rightarrow> string \<Rightarrow> string \<Rightarrow> addr list \<times> pubsub_state \<Rightarrow> addr list \<times> pubsub_state" where
  "axelar_add_cellar k chainID publisherDomain proposedCellarID = (\<lambda>(cellarAddresses, ps).
    let proposedCellarAddress = HexToAddress (xk_eth k) proposedCellarID
    in if proposedCellarAddress \<in> set cellarAddresses then (cellarAddresses, ps)
       else (cellarAddresses @ [proposedCellarAddress],
         SetDefaultSubscription (xk_pubsub k) ps
           \<lparr>ds_SubscriptionId = NewAxelarSubscriptionID (xk_eth k) chainID proposedCellarAddress,
            ds_PublisherDomain = publisherDomain\<rparr>))"

definition axelar_HandleAddManagedCellarsProposal ::
  "'w axelar_keeper \<Rightarrow> 'w axelar_state \<Rightarrow> add_axelar_cellars_proposal \<Rightarrow> 'w axelar_state res" where
  "axelar_HandleAddManagedCellarsProposal k st p =
    (case GetChainConfigurationByID st (aac_ChainId p) of
       None \<Rightarrow> Err (Errorf ''chain by id not found'')
     | Some config \<Rightarrow>
       if GetPublisher (xk_pubsub k) (ax_pubsub st) (aac_PublisherDomain p) = None
       then Err (Errorf ''not an approved publisher'')
       else bind_res (AxelarCellarIDSet_ValidateBasic (xk_eth k) (aac_CellarIds p)) (\<lambda>_.
       let (cellarAddresses, ps) = fold (axelar_add_cellar k (aac_ChainId p) (aac_PublisherDomain p))
             (aci_Ids (aac_CellarIds p)) (axelar_GetCellarIDs k st (cc_Id config), ax_pubsub st);
           idStrings = sort (map (Address_Hex (xk_eth k)) cellarAddresses)
       in Ok (axelar_SetCellarIDs (st\<lparr>ax_pubsub := ps\<rparr>) (cc_Id config)
            \<lparr>aci_ChainId = cc_Id config, aci_Ids = idStrings\<rparr>)))"

definition axelar_HandleRemoveManagedCellarsProposal ::
  "'w axelar_keeper \<Rightarrow> 'w axelar_state \<Rightarrow> remove_axelar_cellars_proposal \<Rightarrow> 'w axelar_state res" where
  "axelar_HandleRemoveManagedCellarsProposal k st p =
    (case GetChainConfigurationByID st (rac_ChainId p) of
       None \<Rightarrow> Err (Errorf ''chain by id not found'')
     | Some config \<Rightarrow>
       bind_res (AxelarCellarIDSet_ValidateBasic (xk_eth k) (rac_CellarIds p)) (\<lambda>_.
       let E = xk_eth k; inputIDs = aci_Ids (rac_CellarIds p);
           outputCellarIDs = map (Address_Hex E)
             (filter (\<lambda>existingID. \<not> list_ex (\<lambda>inputID. existingID = HexToAddress E inputID) inputIDs)
               (axelar_GetCellarIDs k st (cc_Id config)));
           st1 = axelar_SetCellarIDs st (cc_Id config) \<lparr>aci_ChainId = cc_Id config, aci_Ids = outputCellarIDs\<rparr>;
           ps = foldl (\<lambda>ps cellarToDelete. DeleteDefaultSubscription (xk_pubsub k) ps
               (NewAxelarSubscriptionID E (rac_ChainId p) (HexToAddress E cellarToDelete))) (ax_pubsub st1) inputIDs
       in Ok (st1\<lparr>ax_pubsub := ps\<rparr>)))"

definition axelar_HandleScheduledCorkProposal ::
  "'w axelar_keeper \<Rightarrow> 'w axelar_state \<Rightarrow> axelar_scheduled_cork_proposal \<Rightarrow> 'w axelar_state res" where
  "axelar_HandleScheduledCorkProposal k st p =
    (case GetChainConfigurationByID st (asp_ChainId p) of
       None \<Rightarrow> Err (Errorf ''chain by id not found'')
     | Some config \<Rightarrow>
       if \<not> axelar_HasCellarID k st (cc_Id config) (HexToAddress (xk_eth k) (asp_TargetContractAddress p))
       then Err (Wrapped axelar_ErrUnmanagedCellarAddress) else Ok st)"

text \<open>\<^verbatim>\<open>ErrBadDistribution\<close> of the distribution module; \<^verbatim>\<open>Coin.Add\<close> panics on different denominations.\<close>

abbreviation ErrBadDistribution :: error where "ErrBadDistribution \<equiv> Registered ''distribution'' 5"

definition Coin_Add :: "coin \<Rightarrow> coin \<Rightarrow> coin res" where
  "Coin_Add a b = (if cDenom a \<noteq> cDenom b then Panic ''invalid coin denominations''
     else Ok (mk_coin (cDenom a) (cAmount a + cAmount b)))"

definition HandleCommunityPoolSpendProposal ::
  "'w axelar_keeper \<Rightarrow> axelar_ctx \<Rightarrow> 'w axelar_state \<Rightarrow> axelar_community_spend_proposal \<Rightarrow> 'w axelar_state res" where
  "HandleCommunityPoolSpendProposal k ctx st p =
    (let params = ax_params st
     in case GetChainConfigurationByID st (acs_ChainId p) of
       None \<Rightarrow> Err (Errorf ''chain by id not found'')
     | Some config \<Rightarrow>
     (case Coins_Find (xk_coins k) (cc_BridgeFees config) (cDenom (acs_Amount p)) of
       None \<Rightarrow> Err (Errorf ''no matching bridge fee for denom'')
     | Some feeCoin \<Rightarrow>
       bind_res (Coin_Add (acs_Amount p) feeCoin) (\<lambda>coinWithBridgeFee.
       let feePool = GetFeePool (xk_dist k) (ax_world st);
           (newPool, negative) = DecCoins_SafeSub (xk_dist k) feePool (NewDecCoinsFromCoins (xk_dist k) [coinWithBridgeFee])
       in if negative then Err ErrBadDistribution
          else
          let sender = NewModuleAddress (xk_sdk k) distribution_ModuleName;
              axelarMemo = \<lparr>ab_DestinationChain = cc_Name config, ab_DestinationAddress = acs_Recipient p,
                ab_Payload = [], ab_Type = PureTokenTransfer, ab_Fee = None\<rparr>
          in case json_MarshalBody (xk_json k) axelarMemo of None \<Rightarrow> Err (Errorf ''json'')
          | Some memo \<Rightarrow>
            bind_res (xk_Transfer k BaseContext
              (mk_transfer ctx params coinWithBridgeFee (AccAddress_String (xk_sdk k) sender) (GmpAccount params) memo) st) (\<lambda>st1.
            Ok (st1\<lparr>ax_world := SetFeePool (xk_dist k) (ax_world st1) newPool\<rparr>)))))"

definition HandleAddChainConfigurationProposal ::
  "'w axelar_state \<Rightarrow> add_chain_configuration_proposal \<Rightarrow> 'w axelar_state res" where
  "HandleAddChainConfigurationProposal st p =
    Ok (SetChainConfiguration st (cc_Id (acp_ChainConfiguration p)) (acp_ChainConfiguration p))"

definition HandleRemoveChainConfigurationProposal :: "'w axelar_state \<Rightarrow> chain_proposal \<Rightarrow> 'w axelar_state res" where
  "HandleRemoveChainConfigurationProposal st p = Ok (DeleteChainConfigurationByID st (chp_ChainId p))"

definition HandleUpgradeAxelarProxyContractProposal ::
  "'w axelar_keeper \<Rightarrow> axelar_ctx \<Rightarrow> 'w axelar_state \<Rightarrow> upgrade_proxy_proposal \<Rightarrow> 'w axelar_state res" where
  "HandleUpgradeAxelarProxyContractProposal k ctx st p =
    (case GetChainConfigurationByID st (chp_ChainId p) of
       None \<Rightarrow> Err (Errorf ''chain by id not found'')
     | Some _ \<Rightarrow>
     (case EncodeUpgradeArgs (xk_eth k) (xk_abi k) (chp_NewProxyAddress p)
          (map (Address_Hex (xk_eth k)) (axelar_GetCellarIDs k st (chp_ChainId p))) of
       None \<Rightarrow> Err (Errorf ''abi'')
     | Some payload \<Rightarrow> Ok (SetAxelarProxyUpgradeData st (chp_ChainId p)
         \<lparr>ud_ChainId = chp_ChainId p, ud_Payload = payload,
          ud_ExecutableHeightThreshold = BlockHeight ctx + DefaultExecutableHeightThreshold\<rparr>)))"

definition HandleCancelAxelarProxyContractUpgradeProposal ::
  "'w axelar_state \<Rightarrow> chain_proposal \<Rightarrow> 'w axelar_state res" where
  "HandleCancelAxelarProxyContractUpgradeProposal st p =
    (case GetChainConfigurationByID st (chp_ChainId p) of
       None \<Rightarrow> Err (Errorf ''chain id not found'')
     | Some _ \<Rightarrow> Ok (DeleteAxelarProxyUpgradeData st (chp_ChainId p)))"

datatype axelar_content =
  AddAxelarManagedCellarIDsProposal add_axelar_cellars_proposal
| RemoveAxelarManagedCellarIDsProposal remove_axelar_cellars_proposal
| AxelarScheduledCorkProposal axelar_scheduled_cork_proposal
| AxelarCommunityPoolSpendProposal axelar_community_spend_proposal
| AddChainConfigurationProposal add_chain_configuration_proposal
| RemoveChainConfigurationProposal chain_proposal
| UpgradeAxelarProxyContractProposal upgrade_proxy_proposal
| CancelAxelarProxyContractUpgradeProposal chain_proposal
| AxelarOtherContent string

fun axelar_NewProposalHandler ::
  "'w axelar_keeper \<Rightarrow> axelar_ctx \<Rightarrow> 'w axelar_state \<Rightarrow> axelar_content \<Rightarrow> 'w axelar_state res" where
  "axelar_NewProposalHandler k ctx st (AddAxelarManagedCellarIDsProposal c) = axelar_HandleAddManagedCellarsProposal k st c"
| "axelar_NewProposalHandler k ctx st (RemoveAxelarManagedCellarIDsProposal c) = axelar_HandleRemoveManagedCellarsProposal k st c"
| "axelar_NewProposalHandler k ctx st (AxelarScheduledCorkProposal c) = axelar_HandleScheduledCorkProposal k st c"
| "axelar_NewProposalHandler k ctx st (AxelarCommunityPoolSpendProposal c) = HandleCommunityPoolSpendProposal k ctx st c"
| "axelar_NewProposalHandler k ctx st (AddChainConfigurationProposal c) = HandleAddChainConfigurationProposal st c"
| "axelar_NewProposalHandler k ctx st (RemoveChainConfigurationProposal c) = HandleRemoveChainConfigurationProposal st c"
| "axelar_NewProposalHandler k ctx st (UpgradeAxelarProxyContractProposal c) = HandleUpgradeAxelarProxyContractProposal k ctx st c"
| "axelar_NewProposalHandler k ctx st (CancelAxelarProxyContractUpgradeProposal c) =
    HandleCancelAxelarProxyContractUpgradeProposal st c"
| "axelar_NewProposalHandler k ctx st (AxelarOtherContent _) = Err (Wrapped ErrUnknownRequest)"

section \<open>Genesis\<close>

definition import_nonce ::
  "'w axelar_keeper \<Rightarrow> axelar_contract_call_nonce \<Rightarrow> 'w axelar_state \<Rightarrow> 'w axelar_state res" where
  "import_nonce k n s =
    (if GetChainConfigurationByID s (an_ChainId n) = None then Panic ''chain configuration not found''
     else if \<not> IsHexAddress (xk_eth k) (an_ContractAddress n) then Panic ''invalid contract address''
     else Ok (SetAxelarContractCallNonce k s (an_ChainId n) (an_ContractAddress n) (an_Nonce n)))"

definition import_upgrade :: "axelar_upgrade_data \<Rightarrow> 'w axelar_state \<Rightarrow> 'w axelar_state res" where
  "import_upgrade ud s =
    (if GetChainConfigurationByID s (ud_ChainId ud) = None then Panic ''chain configuration not found for upgrade data''
     else Ok (SetAxelarProxyUpgradeData s (ud_ChainId ud) ud))"

definition import_scheduled ::
  "'w axelar_keeper \<Rightarrow> scheduled_axelar_cork \<Rightarrow> 'w axelar_state \<Rightarrow> 'w axelar_state res" where
  "import_scheduled k sc s = (case ValAddressFromBech32 (xk_sdk k) (sac_Validator sc) of
      None \<Rightarrow> Panic ''invalid validator address''
    | Some valAddr \<Rightarrow>
      Ok (fst (SetScheduledAxelarCork k s (ac_ChainId (sac_Cork sc)) (sac_BlockHeight sc) valAddr (sac_Cork sc))))"

definition axelar_InitGenesis ::
  "'w axelar_keeper \<Rightarrow> 'w axelar_state \<Rightarrow> axelar_genesis \<Rightarrow> 'w axelar_state res" where
  "axelar_InitGenesis k st gs =
    (let st1 = axelar_SetParams st (xg_Params gs)
     in case GetSenderAccount k st1 of None \<Rightarrow> Panic ''module account has not been set''
     | Some senderAccount \<Rightarrow>
       let st2 = st1\<lparr>ax_world := xk_SetModuleAccount k (ax_world st1) senderAccount\<rparr>;
           st3 = foldl (\<lambda>s config. SetChainConfiguration s (cc_Id config) config) st2 (xg_ChainConfigurations gs);
           st4 = foldl (\<lambda>s c. axelar_SetCellarIDs s (aci_ChainId c) c) st3 (xg_CellarIds gs)
       in bind_res (deref (xg_CorkResults gs)) (\<lambda>crs.
          let st5 = foldl (\<lambda>s r. SetAxelarCorkResult s (ac_ChainId (acr_Cork r))
                (AxelarCork_IDHash (xk_eth k) (acr_Cork r) (acr_BlockHeight r)) r) st4 crs
          in bind_res (deref (xg_ScheduledCorks gs)) (\<lambda>scs.
          bind_res (fold_res (import_scheduled k) scs st5) (\<lambda>st6.
          bind_res (fold_res (import_nonce k) (xg_AxelarContractCallNonces gs) st6) (\<lambda>st7.
          fold_res import_upgrade (xg_AxelarUpgradeData gs) st7)))))"

text \<open>
  Appending to a list inside the two pointers of the genesis state dereferences them; they are nil
  when the export starts and nothing allocates them.
\<close>

definition append_deref :: "'a list option \<Rightarrow> 'a list \<Rightarrow> 'a list option res" where
  "append_deref xs ys = bind_res (deref xs) (\<lambda>l. Ok (Some (l @ ys)))"

definition export_chain ::
  "'w axelar_keeper \<Rightarrow> 'w axelar_state \<Rightarrow> chain_configuration \<Rightarrow> axelar_genesis \<Rightarrow> axelar_genesis res" where
  "export_chain k st config gs =
    (let gs1 = gs\<lparr>xg_ChainConfigurations := xg_ChainConfigurations gs @ [config],
           xg_CellarIds := xg_CellarIds gs @ [\<lparr>aci_ChainId = cc_Id config,
             aci_Ids = map (Address_Hex (xk_eth k)) (axelar_GetCellarIDs k st (cc_Id config))\<rparr>]\<rparr>
     in bind_res (append_deref (xg_ScheduledCorks gs1) (GetScheduledAxelarCorks k st (cc_Id config))) (\<lambda>scs.
        bind_res (append_deref (xg_CorkResults gs1) (GetAxelarCorkResults st (cc_Id config))) (\<lambda>crs.
        Ok (gs1\<lparr>xg_ScheduledCorks := scs, xg_CorkResults := crs\<rparr>))))"

definition export_nonce :: "'w axelar_keeper \<Rightarrow> u64 \<times> addr \<times> u64 \<Rightarrow> axelar_contract_call_nonce" where
  "export_nonce k = (\<lambda>(chainID, address, nonce).
    \<lparr>an_ChainId = chainID, an_ContractAddress = Address_Hex (xk_eth k) address, an_Nonce = nonce\<rparr>)"

definition axelar_ExportGenesis :: "'w axelar_keeper \<Rightarrow> 'w axelar_state \<Rightarrow> axelar_genesis res" where
  "axelar_ExportGenesis k st =
    bind_res (fold_res (export_chain k st) (kv_values (ax_configs st) [ChainConfigurationPrefix])
      \<lparr>xg_Params = ax_params st, xg_ChainConfigurations = [], xg_CellarIds = [], xg_ScheduledCorks = None,
       xg_CorkResults = None, xg_AxelarContractCallNonces = [], xg_AxelarUpgradeData = []\<rparr>) (\<lambda>gs.
    Ok (gs\<lparr>xg_AxelarContractCallNonces :=
          IterateAxelarContractCallNonces k st (\<lambda>e acc. (acc @ [export_nonce k e], False)) [],
        xg_AxelarUpgradeData := IterateAxelarProxyUpgradeData st (\<lambda>e acc. (acc @ [snd e], False)) []\<rparr>))"

section \<open>Queries\<close>

text \<open>A nil request is refused first; requests about one chain need its configuration.\<close>

definition with_req :: "'r option \<Rightarrow> ('r \<Rightarrow> 'a res) \<Rightarrow> 'a res" where
  "with_req req f = (case req of None \<Rightarrow> Err (Errorf ''InvalidArgument'') | Some r \<Rightarrow> f r)"

definition with_chain :: "'w axelar_state \<Rightarrow> u64 \<Rightarrow> (u64 \<Rightarrow> 'a res) \<Rightarrow> 'a res" where
  "with_chain st chainID f = (case GetChainConfigurationByID st chainID of
      None \<Rightarrow> Err (Errorf ''chain by id not found'') | Some config \<Rightarrow> f (cc_Id config))"

definition with_id :: "string \<Rightarrow> (bytes \<Rightarrow> 'a res) \<Rightarrow> 'a res" where
  "with_id text f = (case DecodeString text of None \<Rightarrow> Err (Errorf ''InvalidArgument'') | Some b \<Rightarrow> f b)"

definition axelar_QueryParams :: "'w axelar_state \<Rightarrow> unit option \<Rightarrow> axelar_params res" where
  "axelar_QueryParams st req = with_req req (\<lambda>_. Ok (ax_params st))"

definition axelar_QueryCellarIDs ::
  "'w axelar_keeper \<Rightarrow> 'w axelar_state \<Rightarrow> unit option \<Rightarrow> axelar_cellar_ids list res" where
  "axelar_QueryCellarIDs k st req = with_req req (\<lambda>_.
    Ok (IterateChainConfigurations st (\<lambda>config acc. (acc @ [\<lparr>aci_ChainId = cc_Id config,
      aci_Ids = map (Address_Hex (xk_eth k)) (axelar_GetCellarIDs k st (cc_Id config))\<rparr>], False)) []))"

definition QueryCellarIDsByChainID :: "'w axelar_keeper \<Rightarrow> 'w axelar_state \<Rightarrow> u64 option \<Rightarrow> string list res" where
  "QueryCellarIDsByChainID k st req = with_req req (\<lambda>chainID. with_chain st chainID (\<lambda>c.
    Ok (map (Address_Hex (xk_eth k)) (axelar_GetCellarIDs k st c))))"

definition axelar_QueryScheduledCorks ::
  "'w axelar_keeper \<Rightarrow> 'w axelar_state \<Rightarrow> u64 option \<Rightarrow> scheduled_axelar_cork list res" where
  "axelar_QueryScheduledCorks k st req = with_req req (\<lambda>chainID. with_chain st chainID (\<lambda>c.
    Ok (IterateScheduledAxelarCorks k st c (\<lambda>e acc. (acc @ [scheduled_axelar_cork_of k e], False)) [])))"

definition axelar_QueryScheduledBlockHeights :: "'w axelar_keeper \<Rightarrow> 'w axelar_state \<Rightarrow> u64 option \<Rightarrow> u64 list res" where
  "axelar_QueryScheduledBlockHeights k st req = with_req req (\<lambda>chainID. with_chain st chainID (\<lambda>c.
    Ok (axelar_GetScheduledBlockHeights k st c)))"

definition axelar_QueryScheduledCorksByBlockHeight ::
  "'w axelar_keeper \<Rightarrow> 'w axelar_state \<Rightarrow> (u64 \<times> u64) option \<Rightarrow> scheduled_axelar_cork list res" where
  "axelar_QueryScheduledCorksByBlockHeight k st req = with_req req (\<lambda>(chainID, blockHeight). with_chain st chainID (\<lambda>c.
    Ok (GetScheduledAxelarCorksByBlockHeight k st c blockHeight)))"

definition axelar_QueryScheduledCorksByID ::
  "'w axelar_keeper \<Rightarrow> 'w axelar_state \<Rightarrow> (u64 \<times> string) option \<Rightarrow> scheduled_axelar_cork list res" where
  "axelar_QueryScheduledCorksByID k st req = with_req req (\<lambda>(chainID, reqId). with_chain st chainID (\<lambda>c.
    with_id reqId (\<lambda>corkID. Ok (GetScheduledAxelarCorksByID k st c corkID))))"

definition axelar_QueryCorkResult :: "'w axelar_state \<Rightarrow> (u64 \<times> string) option \<Rightarrow> axelar_cork_result res" where
  "axelar_QueryCorkResult st req = with_req req (\<lambda>(chainID, reqId). with_chain st chainID (\<lambda>c.
    with_id reqId (\<lambda>corkID. case GetAxelarCorkResult st c corkID of
        None \<Rightarrow> Err (Errorf ''NotFound'') | Some r \<Rightarrow> Ok r)))"

definition axelar_QueryCorkResults :: "'w axelar_state \<Rightarrow> u64 option \<Rightarrow> axelar_cork_result list res" where
  "axelar_QueryCorkResults st req = with_req req (\<lambda>chainID. with_chain st chainID (\<lambda>c. Ok (GetAxelarCorkResults st c)))"

definition QueryChainConfigurations :: "'w axelar_state \<Rightarrow> unit option \<Rightarrow> chain_configuration list res" where
  "QueryChainConfigurations st req = with_req req (\<lambda>_.
    Ok (IterateChainConfigurations st (\<lambda>config acc. (acc @ [config], False)) []))"

definition QueryAxelarContractCallNonces ::
  "'w axelar_keeper \<Rightarrow> 'w axelar_state \<Rightarrow> unit option \<Rightarrow> axelar_contract_call_nonce list res" where
  "QueryAxelarContractCallNonces k st req = with_req req (\<lambda>_.
    Ok (IterateAxelarContractCallNonces k st (\<lambda>e acc. (acc @ [export_nonce k e], False)) []))"

definition QueryAxelarProxyUpgradeData :: "'w axelar_state \<Rightarrow> unit option \<Rightarrow> axelar_upgrade_data list res" where
  "QueryAxelarProxyUpgradeData st req = with_req req (\<lambda>_.
    Ok (IterateAxelarProxyUpgradeData st (\<lambda>e acc. (acc @ [snd e], False)) []))"

end
