(* ===== verification/Abi.thy ===== *)
theory Abi
  imports Axelarcork_Types Ethereum
begin

text \<open>
  A reference instance of the ABI coding that the axelarcork module hands its payloads to: integers
  of 64 bits in big-endian order, addresses of 20 bytes, and byte strings and address arrays with a
  mark before every element and one at the end. Values outside these ranges are refused. It
  interprets the locale \<open>abi_codec\<close>, so that its law is known to have a model.
\<close>

fun ref_pack1 :: "abi_type \<Rightarrow> abi_arg \<Rightarrow> bytes option" where
  "ref_pack1 Uint256 (AUint n) = (if 0 \<le> n \<and> n < 2 ^ 64 then Some (PutUint64 (word_of_int n)) else None)"
| "ref_pack1 Address (AAddress a) = (if length a = 20 then Some a else None)"
| "ref_pack1 Bytes (ABytes b) = Some (concat (map (\<lambda>x. [1, x]) b) @ [0])"
| "ref_pack1 AddressArr (AAddressArr as) =
    (if list_all (\<lambda>a. length a = 20) as then Some (concat (map (\<lambda>a. 1 # a) as) @ [0]) else None)"
| "ref_pack1 _ _ = None"

fun ref_pack :: "abi_type list \<Rightarrow> abi_arg list \<Rightarrow> bytes option" where
  "ref_pack [] [] = Some []"
| "ref_pack (t # ts) (a # as) = (case (ref_pack1 t a, ref_pack ts as) of (Some b, Some bs) \<Rightarrow> Some (b @ bs) | _ \<Rightarrow> None)"
| "ref_pack _ _ = None"

fun read_bytes :: "bytes \<Rightarrow> (bytes \<times> bytes) option" where
  "read_bytes (m # bs) = (if m = 0 then Some ([], bs)
     else case bs of [] \<Rightarrow> None | x # r \<Rightarrow> map_option (\<lambda>(b, s). (x # b, s)) (read_bytes r))"
| "read_bytes [] = None"

fun read_addresses :: "bytes \<Rightarrow> (addr list \<times> bytes) option" where
  "read_addresses (m # bs) = (if m = 0 then Some ([], bs)
     else map_option (\<lambda>(as, s). (take 20 bs # as, s)) (read_addresses (drop 20 bs)))"
| "read_addresses [] = None"

fun ref_unpack1 :: "abi_type \<Rightarrow> bytes \<Rightarrow> (abi_arg \<times> bytes) option" where
  "ref_unpack1 Uint256 bs = (if length bs < 8 then None else Some (AUint (uint (Uint64 (take 8 bs))), drop 8 bs))"
| "ref_unpack1 Address bs = (if length bs < 20 then None else Some (AAddress (take 20 bs), drop 20 bs))"
| "ref_unpack1 Bytes bs = map_option (\<lambda>(b, r). (ABytes b, r)) (read_bytes bs)"
| "ref_unpack1 AddressArr bs = map_option (\<lambda>(as, r). (AAddressArr as, r)) (read_addresses bs)"

fun ref_unpack :: "abi_type list \<Rightarrow> bytes \<Rightarrow> abi_arg list option" where
  "ref_unpack [] bs = (if bs = [] then Some [] else None)"
| "ref_unpack (t # ts) bs = (case ref_unpack1 t bs of None \<Rightarrow> None
     | Some (a, r) \<Rightarrow> map_option (\<lambda>as. a # as) (ref_unpack ts r))"

definition ref_abi :: abi where
  "ref_abi = \<lparr>abi_Pack = ref_pack, abi_Unpack = ref_unpack\<rparr>"

lemma read_bytes_mark: "read_bytes (concat (map (\<lambda>x. [1, x]) b) @ 0 # r) = Some (b, r)"
  by (induction b) simp_all

lemma read_addresses_mark:
  "list_all (\<lambda>a. length a = 20) as \<Longrightarrow> read_addresses (concat (map (\<lambda>a. 1 # a) as) @ 0 # r) = Some (as, r)"
  by (induction as) simp_all

lemma ref_unpack1_pack1: "ref_pack1 t a = Some b \<Longrightarrow> ref_unpack1 t (b @ r) = Some (abi_norm a, r)"
proof (induction t a rule: ref_pack1.induct)
  case (1 n)
  then have "n mod uint256_mod = n" by (auto simp: uint256_mod_def split: if_splits intro!: mod_pos_pos_trivial)
  with 1 show ?case by (auto simp: unsigned_of_int take_bit_eq_mod split: if_splits)
qed (auto simp: read_bytes_mark read_addresses_mark split: if_splits)

lemma ref_unpack_pack: "ref_pack ts as = Some bs \<Longrightarrow> ref_unpack ts bs = Some (map abi_norm as)"
  by (induction ts as arbitrary: bs rule: ref_pack.induct)
    (auto simp: ref_unpack1_pack1 split: option.splits)

interpretation ref_abi: abi_codec ref_abi E for E
  by unfold_locales (simp add: ref_abi_def ref_unpack_pack)

end
