(* ===== verification/Axelarcork_Safety.thy ===== *)
theory Axelarcork_Safety
  imports Axelarcork_Msgs Tally Abi
begin

text \<open>
  The axelarcork module under the laws of decimals, addresses and ABI coding, gathered in the locale
  \<open>axelar_env\<close>: the tally of a chain and height, the fate of winning corks at the end of a block, what a
  relay sends and what the check of outgoing packets lets through.
\<close>

section \<open>Well-formed stores\<close>

text \<open>
  Keys of scheduled corks have the length their parts add up to; keys of winning corks and of chain
  configurations are the ones their contents determine.
\<close>

definition axelar_sched_wf :: "'w axelar_state \<Rightarrow> bool" where
  "axelar_sched_wf st \<longleftrightarrow> kv_all (\<lambda>key _. length key = 89) (ax_sched st)"

definition win_key_ok :: "eth \<Rightarrow> bytes \<Rightarrow> axelar_cork \<Rightarrow> bool" where
  "win_key_ok E key c \<longleftrightarrow> key = GetWinningAxelarCorkKey (Uint64 (take 8 (drop 1 key))) (Uint64 (take 8 (drop 9 key)))
     (HexToAddress E (ac_TargetContractAddress c))"

definition winning_wf :: "'w axelar_keeper \<Rightarrow> 'w axelar_state \<Rightarrow> bool" where
  "winning_wf k st \<longleftrightarrow> kv_all (win_key_ok (xk_eth k)) (ax_winning st)"

definition configs_wf :: "'w axelar_state \<Rightarrow> bool" where
  "configs_wf st \<longleftrightarrow> kv_all (\<lambda>key config. key = ChainConfigurationKey (cc_Id config)) (ax_configs st)"

definition winning_at :: "'w axelar_state \<Rightarrow> u64 \<Rightarrow> u64 \<Rightarrow> addr \<Rightarrow> axelar_cork option" where
  "winning_at st chain h a = kv_get (ax_winning st) (GetWinningAxelarCorkKey chain h a)"

text \<open>The staking keeper knows the validators of the corks scheduled for a height.\<close>

definition axelar_known :: "'w axelar_keeper \<Rightarrow> u64 \<Rightarrow> 'w axelar_state \<Rightarrow> bool" where
  "axelar_known k h st \<longleftrightarrow> kv_all (\<lambda>key _. Uint64 (take 8 (drop 9 key)) = h \<longrightarrow>
     xk_ConsensusPower k (take 20 (drop 49 key)) \<noteq> None) (ax_sched st)"

section \<open>Reference definitions\<close>

definition axelar_entries :: "'w axelar_keeper \<Rightarrow> 'w axelar_state \<Rightarrow> u64 \<Rightarrow> u64 \<Rightarrow> axelar_entry list" where
  "axelar_entries k st chain h =
    map (parse_axelar_entry (xk_eth k)) (kv_iter (ax_sched st) (GetScheduledAxelarCorkKeyByBlockHeightPrefix chain h))"

definition axelar_vote :: "'w axelar_keeper \<Rightarrow> axelar_entry \<Rightarrow> axelar_cork \<times> u64" where
  "axelar_vote k = (\<lambda>(v, _, _, _, c). (c, case xk_ConsensusPower k v of None \<Rightarrow> 0 | Some p \<Rightarrow> p))"

definition axelar_votes :: "'w axelar_keeper \<Rightarrow> 'w axelar_state \<Rightarrow> u64 \<Rightarrow> u64 \<Rightarrow> (axelar_cork \<times> u64) list" where
  "axelar_votes k st chain h = map (axelar_vote k) (axelar_entries k st chain h)"

definition axelar_approved :: "'w axelar_keeper \<Rightarrow> 'w axelar_state \<Rightarrow> u64 \<Rightarrow> u64 \<Rightarrow> axelar_cork list" where
  "axelar_approved k st chain h =
    filter (\<lambda>c. 67 * xk_GetLastTotalPower k <
        100 * uint (support (AxelarCork_Equals (xk_eth k)) (axelar_votes k st chain h) c))
      (representatives (AxelarCork_Equals (xk_eth k)) (map fst (axelar_votes k st chain h)))"

definition axelar_quorum :: "'w axelar_keeper \<Rightarrow> axelar_cork \<times> u64 \<Rightarrow> bool" where
  "axelar_quorum k = (\<lambda>(_, p). corkVoteThreshold <
    Dec_Quo (xk_sdk k) (NewDecFromInt (uint p)) (NewDecFromInt (xk_GetLastTotalPower k)))"

definition axelar_drop :: "u64 \<Rightarrow> u64 \<Rightarrow> axelar_entry \<Rightarrow> bytes" where
  "axelar_drop chain h = (\<lambda>(v, _, i, a, _). GetScheduledAxelarCorkKey chain h i v a)"

lemma AxelarCork_Equals_iff: "AxelarCork_Equals E c d \<longleftrightarrow>
    HexToAddress E (ac_TargetContractAddress c) = HexToAddress E (ac_TargetContractAddress d) \<and>
    ac_EncodedContractCall c = ac_EncodedContractCall d \<and> ac_Deadline c = ac_Deadline d"
  by (simp add: AxelarCork_Equals_def)

interpretation axelar_tally: vote_tally "AxelarCork_Equals E" "axelar_add_vote E" for E
  by unfold_locales (auto simp: AxelarCork_Equals_iff)

lemma winning_key_inject [simp, key_simps]:
  "GetWinningAxelarCorkKey c h a = GetWinningAxelarCorkKey c' h' a' \<longleftrightarrow> c = c' \<and> h = h' \<and> a = a'"
  by (auto simp: GetWinningAxelarCorkKey_def GetWinningAxelarCorkKeyPrefix_def)

lemma winning_key_prefix [simp, key_simps]:
  "prefix (GetWinningAxelarCorkKeyPrefix c) (GetWinningAxelarCorkKey c' h a) \<longleftrightarrow> c = c'"
  by (auto simp: GetWinningAxelarCorkKey_def GetWinningAxelarCorkKeyPrefix_def)

lemma win_key_ok_iff: "win_key_ok E key c \<longleftrightarrow>
    (\<exists>ch h. key = GetWinningAxelarCorkKey ch h (HexToAddress E (ac_TargetContractAddress c)))"
proof
  assume "\<exists>ch h. key = GetWinningAxelarCorkKey ch h (HexToAddress E (ac_TargetContractAddress c))"
  then obtain ch h where "key = GetWinningAxelarCorkKey ch h (HexToAddress E (ac_TargetContractAddress c))" by blast
  then show "win_key_ok E key c"
    by (simp add: win_key_ok_def GetWinningAxelarCorkKey_def GetWinningAxelarCorkKeyPrefix_def)
qed (unfold win_key_ok_def, blast)

lemma config_key_inject [simp, key_simps]: "ChainConfigurationKey c = ChainConfigurationKey c' \<longleftrightarrow> c = c'"
  "prefix [ChainConfigurationPrefix] (ChainConfigurationKey c)"
  by (simp_all add: ChainConfigurationKey_def)

lemma nonce_key_inject [simp, key_simps]:
  "GetAxelarContractCallNonceKey c a = GetAxelarContractCallNonceKey c' a' \<longleftrightarrow> c = c' \<and> a = a'"
  by (auto simp: GetAxelarContractCallNonceKey_def)

lemma upgrade_key_inject [simp, key_simps]: "GetAxelarProxyUpgradeDataKey c = GetAxelarProxyUpgradeDataKey c' \<longleftrightarrow> c = c'"
  by (simp add: GetAxelarProxyUpgradeDataKey_def)

locale axelar_env = sdk_dec "xk_sdk k" + eth_laws "xk_eth k" + abi_codec "xk_abi k" "xk_eth k"
  for k :: "'w axelar_keeper" +
  assumes total_power: "0 < xk_GetLastTotalPower k" "xk_GetLastTotalPower k \<le> 10000000000000000"
begin

section \<open>The tally\<close>

lemma axelar_count_Ok:
  "\<forall>e \<in> set es. xk_ConsensusPower k (fst e) \<noteq> None \<Longrightarrow>
    fold_res (axelar_count_vote k ch h) es (s, t) =
      Ok (s\<lparr>ax_sched := foldl (\<lambda>m e. kv_del m (axelar_drop ch h e)) (ax_sched s) es\<rparr>,
          foldl (\<lambda>t (c, p). axelar_add_vote (xk_eth k) c p t) t (map (axelar_vote k) es))"
  by (induction es arbitrary: s t)
    (auto simp: axelar_count_vote_def axelar_vote_def DeleteScheduledAxelarCork_def axelar_drop_def split: option.split)

lemma axelar_settle_Ok:
  "\<exists>r. fold_res (axelar_settle_vote k ch h) t (s, acc) =
    Ok (s\<lparr>ax_results := r\<rparr>, acc @ map fst (filter (axelar_quorum k) t))"
proof (induction t arbitrary: s acc)
  case Nil
  show ?case by (rule exI [of _ "ax_results s"]) simp
next
  case (Cons x t)
  have nz: "NewDecFromInt (xk_GetLastTotalPower k) \<noteq> 0"
    using total_power by (simp add: NewDecFromInt_def dec_one_def)
  have "\<exists>r. axelar_settle_vote k ch h x (s, acc) =
      Ok (s\<lparr>ax_results := r\<rparr>, if axelar_quorum k x then acc @ [fst x] else acc)"
    by (cases x) (auto simp: axelar_settle_vote_def axelar_approvalPercentage_def Quo_def nz axelar_quorum_def
        SetAxelarCorkResult_def Let_def)
  then obtain r where "axelar_settle_vote k ch h x (s, acc) =
      Ok (s\<lparr>ax_results := r\<rparr>, if axelar_quorum k x then acc @ [fst x] else acc)" ..
  with Cons [of "s\<lparr>ax_results := r\<rparr>" "if axelar_quorum k x then acc @ [fst x] else acc"] show ?case by auto
qed

lemma axelar_quorum_power: "axelar_quorum k (c, p) \<longleftrightarrow> 67 * xk_GetLastTotalPower k < 100 * uint p"
  using quorum_iff [OF _ total_power, of "uint p"] by (simp add: axelar_quorum_def corkVoteThreshold_def vote_threshold_def)

text \<open>Parsing a key of the right length and building it again gives it back.\<close>

lemma axelar_key_parts:
  assumes "prefix (GetScheduledAxelarCorkKeyByBlockHeightPrefix ch h) key" "length key = 89"
  shows "axelar_drop ch h (parse_axelar_entry (xk_eth k) (key, c)) = key"
    and "Uint64 (take 8 (drop 9 key)) = h"
proof -
  obtain r where r: "key = GetScheduledAxelarCorkKeyByBlockHeightPrefix ch h @ r" using assms(1) by (auto simp: prefix_def)
  with assms(2) have l: "length r = 72"
    by (simp add: GetScheduledAxelarCorkKeyByBlockHeightPrefix_def GetScheduledAxelarCorkKeyPrefix_def)
  then have "take 32 r @ take 20 (drop 32 r) @ take 20 (drop 52 r) = r"
    using append_take_drop_id [of 32 r] append_take_drop_id [of 20 "drop 32 r"] by simp
  with l show "axelar_drop ch h (parse_axelar_entry (xk_eth k) (key, c)) = key" "Uint64 (take 8 (drop 9 key)) = h"
    unfolding r by (simp_all add: axelar_drop_def parse_axelar_entry_def GetScheduledAxelarCorkKeyByBlockHeightPrefix_def
        GetScheduledAxelarCorkKeyPrefix_def GetScheduledAxelarCorkKey_def)
qed

lemma entries_known:
  assumes "axelar_sched_wf st" "axelar_known k h st" "e \<in> set (axelar_entries k st ch h)"
  shows "xk_ConsensusPower k (fst e) \<noteq> None"
proof -
  obtain key c where "kv_get (ax_sched st) key = Some c" "e = parse_axelar_entry (xk_eth k) (key, c)"
    "prefix (GetScheduledAxelarCorkKeyByBlockHeightPrefix ch h) key"
    using assms(3) by (auto simp: axelar_entries_def kv_iter_mem)
  moreover from this have "length key = 89" using assms(1) by (auto simp: axelar_sched_wf_def dest: kv_allD)
  ultimately show ?thesis
    using assms(2) axelar_key_parts(2) by (auto simp: axelar_known_def parse_axelar_entry_def dest!: kv_allD)
qed

lemma GetApprovedScheduledAxelarCorks_Ok:
  assumes wf: "axelar_sched_wf st" and known: "axelar_known k (BlockHeight ctx) st"
  shows "\<exists>s r. GetApprovedScheduledAxelarCorks k ctx st ch =
      Ok (st\<lparr>ax_sched := s, ax_results := r\<rparr>, axelar_approved k st ch (BlockHeight ctx)) \<and>
    (\<forall>key. kv_get s key =
      (if prefix (GetScheduledAxelarCorkKeyByBlockHeightPrefix ch (BlockHeight ctx)) key then None
       else kv_get (ax_sched st) key))"
proof -
  let ?h = "BlockHeight ctx" and ?E = "xk_eth k"
  let ?es = "axelar_entries k st ch ?h" and ?p = "GetScheduledAxelarCorkKeyByBlockHeightPrefix ch ?h"
  let ?t = "reference_tally (AxelarCork_Equals ?E) (axelar_votes k st ch ?h)"
  let ?s = "foldl (\<lambda>m e. kv_del m (axelar_drop ch ?h e)) (ax_sched st) ?es"
  have mem: "key \<in> axelar_drop ch ?h ` set ?es \<longleftrightarrow> prefix ?p key \<and> kv_get (ax_sched st) key \<noteq> None" for key
  proof -
    have "axelar_drop ch ?h (parse_axelar_entry ?E e) = fst e" if "e \<in> set (kv_iter (ax_sched st) ?p)" for e
    proof (cases e)
      case (Pair key c)
      with that have "kv_get (ax_sched st) key = Some c" "prefix ?p key" by (simp_all add: kv_iter_mem)
      then show ?thesis using wf axelar_key_parts(1) Pair by (auto simp: axelar_sched_wf_def dest: kv_allD)
    qed
    then have "axelar_drop ch ?h ` set ?es = fst ` set (kv_iter (ax_sched st) ?p)"
      unfolding axelar_entries_def set_map image_image by (rule image_cong [OF refl])
    then show ?thesis by (simp only: kv_iter_keys)
  qed
  have get: "kv_get ?s key = (if prefix ?p key then None else kv_get (ax_sched st) key)" for key
    by (cases "kv_get (ax_sched st) key") (simp_all add: kv_get_foldl_del mem)
  have "IterateScheduledAxelarCorksByBlockHeight k st ch ?h (\<lambda>e acc. (acc @ [e], False)) [] = ?es"
    using iterate_collect [of "\<lambda>x. x"]
    by (simp add: IterateScheduledAxelarCorksByBlockHeight_def IterateScheduledAxelarCorksByPrefix_def axelar_entries_def)
  then have "GetApprovedScheduledAxelarCorks k ctx st ch = fold_res (axelar_settle_vote k ch ?h) ?t (st\<lparr>ax_sched := ?s\<rparr>, [])"
    using axelar_count_Ok [of ?es ch ?h st "[]"] entries_known [OF wf known]
    by (simp add: GetApprovedScheduledAxelarCorks_def Let_def axelar_tally.tally_reference axelar_votes_def)
  moreover have "map fst (filter (axelar_quorum k) ?t) = axelar_approved k st ch ?h"
    by (simp add: axelar_approved_def reference_tally_def filter_map comp_def axelar_quorum_power)
  ultimately show ?thesis
    using get axelar_settle_Ok [of ch ?h ?t "st\<lparr>ax_sched := ?s\<rparr>" "[]"] by (auto intro!: exI [of _ ?s])
qed

section \<open>Winning corks\<close>

lemma SetWinning_fold:
  "\<exists>w. foldl (SetWinningAxelarCork k ch h) s cs = s\<lparr>ax_winning := w\<rparr> \<and>
    (winning_wf k s \<longrightarrow> kv_all (win_key_ok (xk_eth k)) w) \<and>
    (\<forall>ch' h' a. ch' \<noteq> ch \<or> h' \<noteq> h \<longrightarrow>
      kv_get w (GetWinningAxelarCorkKey ch' h' a) = winning_at s ch' h' a)"
proof (induction cs rule: rev_induct)
  case Nil
  show ?case by (rule exI [of _ "ax_winning s"]) (simp add: winning_wf_def winning_at_def)
next
  case (snoc c cs)
  then obtain w where w: "foldl (SetWinningAxelarCork k ch h) s cs = s\<lparr>ax_winning := w\<rparr>"
    "winning_wf k s \<longrightarrow> kv_all (win_key_ok (xk_eth k)) w"
    "\<forall>ch' h' a. ch' \<noteq> ch \<or> h' \<noteq> h \<longrightarrow> kv_get w (GetWinningAxelarCorkKey ch' h' a) = winning_at s ch' h' a"
    by blast
  let ?key = "GetWinningAxelarCorkKey ch h (HexToAddress (xk_eth k) (ac_TargetContractAddress c))"
  have "foldl (SetWinningAxelarCork k ch h) s (cs @ [c]) = s\<lparr>ax_winning := kv_set w ?key c\<rparr>"
    by (simp add: w(1)) (simp add: SetWinningAxelarCork_def)
  moreover have "win_key_ok (xk_eth k) ?key c" by (auto simp: win_key_ok_iff)
  ultimately show ?case
    using w(2,3) by (intro exI [of _ "kv_set w ?key c"]) (auto intro: kv_all_set)
qed

text \<open>Deleting from the timeout height on, on a well-formed store of winning corks.\<close>

lemma remove_timed_out_get:
  assumes "winning_wf k st"
  shows "\<exists>w. remove_timed_out k ch T st = st\<lparr>ax_winning := w\<rparr> \<and> kv_all (win_key_ok (xk_eth k)) w \<and>
    (\<forall>ch' h a. kv_get w (GetWinningAxelarCorkKey ch' h a) =
      (if ch' = ch \<and> T \<le> h then None else winning_at st ch' h a))"
proof -
  let ?E = "xk_eth k" and ?es = "kv_iter (ax_winning st) (GetWinningAxelarCorkKeyPrefix ch)"
  let ?es' = "filter (\<lambda>e. T \<le> Uint64 (take 8 (drop 9 (fst e)))) ?es"
  let ?w = "foldl (\<lambda>m e. kv_del m (fst e)) (ax_winning st) ?es'"
  have key: "\<exists>h. key = GetWinningAxelarCorkKey ch h (HexToAddress ?E (ac_TargetContractAddress c)) \<and>
      parse_winning_entry ?E (key, c) = (HexToAddress ?E (ac_TargetContractAddress c), h, c) \<and> Uint64 (take 8 (drop 9 key)) = h"
    if "(key, c) \<in> set ?es" for key c
  proof -
    have "win_key_ok ?E key c" using that assms by (auto simp: kv_iter_mem winning_wf_def dest: kv_allD)
    then obtain ch' h where "key = GetWinningAxelarCorkKey ch' h (HexToAddress ?E (ac_TargetContractAddress c))"
      by (auto simp: win_key_ok_iff)
    with that show ?thesis
      by (auto simp: kv_iter_mem parse_winning_entry_def) 
        (auto simp: GetWinningAxelarCorkKey_def GetWinningAxelarCorkKeyPrefix_def)
  qed
  have fold_eq: "fold (\<lambda>(_, h, cork) s. if h \<ge> T then DeleteWinningAxelarCorkByBlockheight k s ch h cork else s)
      (map (parse_winning_entry ?E) es) s =
      s\<lparr>ax_winning := foldl (\<lambda>m e. kv_del m (fst e)) (ax_winning s) (filter (\<lambda>e. T \<le> Uint64 (take 8 (drop 9 (fst e)))) es)\<rparr>"
    if "set es \<subseteq> set ?es" for es s
    using that
  proof (induction es arbitrary: s)
    case (Cons e es)
    obtain key c where e: "e = (key, c)" by (cases e)
    with Cons.prems key [of key c] obtain h where h: "key = GetWinningAxelarCorkKey ch h (HexToAddress ?E (ac_TargetContractAddress c))"
      "parse_winning_entry ?E (key, c) = (HexToAddress ?E (ac_TargetContractAddress c), h, c)" "Uint64 (take 8 (drop 9 key)) = h"
      by auto
    with Cons e show ?case by (simp add: DeleteWinningAxelarCorkByBlockheight_def)
  qed simp
  have eq: "remove_timed_out k ch T st = st\<lparr>ax_winning := ?w\<rparr>"
    using fold_eq [OF subset_refl, of st]
    unfolding remove_timed_out_def IterateWinningAxelarCorks_def case_prod_unfold iterate_all .
  have get: "kv_get ?w (GetWinningAxelarCorkKey ch' h a) = (if ch' = ch \<and> T \<le> h then None else winning_at st ch' h a)" for ch' h a
  proof -
    have "Uint64 (take 8 (drop 9 (GetWinningAxelarCorkKey ch' h a))) = h"
      by (simp add: GetWinningAxelarCorkKey_def GetWinningAxelarCorkKeyPrefix_def)
    moreover have "fst ` set ?es' = {key \<in> fst ` set ?es. T \<le> Uint64 (take 8 (drop 9 key))}" by auto
    ultimately have "GetWinningAxelarCorkKey ch' h a \<in> fst ` set ?es' \<longleftrightarrow> ch' = ch \<and> T \<le> h \<and> winning_at st ch' h a \<noteq> None"
      unfolding winning_at_def by (simp only: mem_Collect_eq kv_iter_keys winning_key_prefix) blast
    then show ?thesis by (auto simp: kv_get_foldl_del winning_at_def)
  qed
  have "kv_all (win_key_ok ?E) ?w"
    using assms by (auto simp: winning_wf_def kv_all_iff kv_get_foldl_del split: if_splits)
  with eq get show ?thesis by blast
qed

text \<open>The end of a block for one chain.\<close>

lemma axelar_end_chain_Ok:
  assumes "axelar_sched_wf st" "axelar_known k (BlockHeight ctx) st" "winning_wf k st"
  shows "\<exists>s r w. axelar_end_chain k ctx config st = Ok (st\<lparr>ax_sched := s, ax_results := r, ax_winning := w\<rparr>) \<and>
    (\<forall>key. kv_get s key \<noteq> None \<longrightarrow> kv_get s key = kv_get (ax_sched st) key) \<and> kv_all (win_key_ok (xk_eth k)) w \<and>
    (\<forall>ch h a. ch \<noteq> cc_Id config \<longrightarrow> kv_get w (GetWinningAxelarCorkKey ch h a) = winning_at st ch h a) \<and>
    (\<forall>h a. BlockHeight ctx - CorkTimeoutBlocks (ax_params st) \<le> h \<longrightarrow>
      kv_get w (GetWinningAxelarCorkKey (cc_Id config) h a) = None) \<and>
    (\<forall>h a. h < BlockHeight ctx - CorkTimeoutBlocks (ax_params st) \<longrightarrow> h \<noteq> BlockHeight ctx \<longrightarrow>
      kv_get w (GetWinningAxelarCorkKey (cc_Id config) h a) = winning_at st (cc_Id config) h a)"
proof -
  let ?h = "BlockHeight ctx" and ?c = "cc_Id config"
  let ?T = "?h - CorkTimeoutBlocks (ax_params st)"
  obtain s r where sr: "GetApprovedScheduledAxelarCorks k ctx st ?c =
      Ok (st\<lparr>ax_sched := s, ax_results := r\<rparr>, axelar_approved k st ?c ?h)"
    "\<And>key. kv_get s key = (if prefix (GetScheduledAxelarCorkKeyByBlockHeightPrefix ?c ?h) key then None
       else kv_get (ax_sched st) key)"
    using GetApprovedScheduledAxelarCorks_Ok [OF assms(1,2), of ?c] by blast
  let ?st1 = "st\<lparr>ax_sched := s, ax_results := r\<rparr>"
  obtain w1 where w1: "foldl (SetWinningAxelarCork k ?c ?h) ?st1 (axelar_approved k st ?c ?h) = ?st1\<lparr>ax_winning := w1\<rparr>"
    "kv_all (win_key_ok (xk_eth k)) w1"
    "\<And>ch h a. ch \<noteq> ?c \<or> h \<noteq> ?h \<Longrightarrow> kv_get w1 (GetWinningAxelarCorkKey ch h a) = winning_at st ch h a"
    using SetWinning_fold [of ?c ?h ?st1 "axelar_approved k st ?c ?h"] assms(3) by (auto simp: winning_wf_def winning_at_def)
  let ?st2 = "?st1\<lparr>ax_winning := w1\<rparr>"
  have wf2: "winning_wf k ?st2" using w1(2) by (simp add: winning_wf_def)
  obtain w where w: "remove_timed_out k ?c ?T ?st2 = ?st2\<lparr>ax_winning := w\<rparr>" "kv_all (win_key_ok (xk_eth k)) w"
    "\<And>ch h a. kv_get w (GetWinningAxelarCorkKey ch h a) = (if ch = ?c \<and> ?T \<le> h then None else winning_at ?st2 ch h a)"
    using remove_timed_out_get [OF wf2, of ?c ?T] by blast
  have "axelar_end_chain k ctx config st = Ok (st\<lparr>ax_sched := s, ax_results := r, ax_winning := w\<rparr>)"
    using w(1) by (simp add: axelar_end_chain_def sr(1) w1(1) Let_def)
  moreover have "\<forall>key. kv_get s key \<noteq> None \<longrightarrow> kv_get s key = kv_get (ax_sched st) key" using sr(2) by auto
  moreover have "winning_at ?st2 ch h a = winning_at st ch h a" if "ch \<noteq> ?c \<or> h \<noteq> ?h" for ch h a
    using w1(3) [OF that] by (simp add: winning_at_def)
  ultimately show ?thesis
    using w by (intro exI [of _ s] exI [of _ r] exI [of _ w]) auto
qed

lemma axelar_chains_Ok:
  assumes "axelar_sched_wf st" "axelar_known k (BlockHeight ctx) st" "winning_wf k st"
  defines "T \<equiv> BlockHeight ctx - CorkTimeoutBlocks (ax_params st)"
  shows "\<exists>s r w. fold_res (axelar_end_chain k ctx) cfgs st = Ok (st\<lparr>ax_sched := s, ax_results := r, ax_winning := w\<rparr>) \<and>
    kv_all (win_key_ok (xk_eth k)) w \<and>
    (\<forall>ch h a. ch \<notin> cc_Id ` set cfgs \<longrightarrow> kv_get w (GetWinningAxelarCorkKey ch h a) = winning_at st ch h a) \<and>
    (\<forall>ch h a. ch \<in> cc_Id ` set cfgs \<longrightarrow> T \<le> h \<longrightarrow> kv_get w (GetWinningAxelarCorkKey ch h a) = None) \<and>
    (\<forall>ch h a. ch \<in> cc_Id ` set cfgs \<longrightarrow> h < T \<longrightarrow> h \<noteq> BlockHeight ctx \<longrightarrow>
      kv_get w (GetWinningAxelarCorkKey ch h a) = winning_at st ch h a)"
  using assms(1-3) unfolding T_def
proof (induction cfgs arbitrary: st)
  case Nil
  then show ?case
    by (intro exI [of _ "ax_sched st"] exI [of _ "ax_results st"] exI [of _ "ax_winning st"])
      (simp add: winning_at_def winning_wf_def)
next
  case (Cons config cfgs)
  let ?c = "cc_Id config" and ?h = "BlockHeight ctx" and ?T = "BlockHeight ctx - CorkTimeoutBlocks (ax_params st)"
  obtain s r w where step: "axelar_end_chain k ctx config st = Ok (st\<lparr>ax_sched := s, ax_results := r, ax_winning := w\<rparr>)"
    and s: "\<forall>key. kv_get s key \<noteq> None \<longrightarrow> kv_get s key = kv_get (ax_sched st) key"
    and w: "kv_all (win_key_ok (xk_eth k)) w"
      "\<forall>ch h a. ch \<noteq> ?c \<longrightarrow> kv_get w (GetWinningAxelarCorkKey ch h a) = winning_at st ch h a"
      "\<forall>h a. ?T \<le> h \<longrightarrow> kv_get w (GetWinningAxelarCorkKey ?c h a) = None"
      "\<forall>h a. h < ?T \<longrightarrow> h \<noteq> ?h \<longrightarrow> kv_get w (GetWinningAxelarCorkKey ?c h a) = winning_at st ?c h a"
    using axelar_end_chain_Ok [OF Cons.prems, of config] by blast
  let ?st = "st\<lparr>ax_sched := s, ax_results := r, ax_winning := w\<rparr>"
  have "axelar_sched_wf ?st" "axelar_known k ?h ?st" "winning_wf k ?st"
    using Cons.prems s w(1) by (auto simp: axelar_sched_wf_def axelar_known_def winning_wf_def kv_all_iff)
  from Cons.IH [OF this] obtain s' r' w' where
    IH: "fold_res (axelar_end_chain k ctx) cfgs ?st = Ok (?st\<lparr>ax_sched := s', ax_results := r', ax_winning := w'\<rparr>)"
      "kv_all (win_key_ok (xk_eth k)) w'"
      "\<forall>ch h a. ch \<notin> cc_Id ` set cfgs \<longrightarrow> kv_get w' (GetWinningAxelarCorkKey ch h a) = kv_get w (GetWinningAxelarCorkKey ch h a)"
      "\<forall>ch h a. ch \<in> cc_Id ` set cfgs \<longrightarrow> ?T \<le> h \<longrightarrow> kv_get w' (GetWinningAxelarCorkKey ch h a) = None"
      "\<forall>ch h a. ch \<in> cc_Id ` set cfgs \<longrightarrow> h < ?T \<longrightarrow> h \<noteq> ?h \<longrightarrow>
        kv_get w' (GetWinningAxelarCorkKey ch h a) = kv_get w (GetWinningAxelarCorkKey ch h a)"
    by (auto simp: winning_at_def)
  have "fold_res (axelar_end_chain k ctx) (config # cfgs) st = Ok (st\<lparr>ax_sched := s', ax_results := r', ax_winning := w'\<rparr>)"
    using step IH(1) by simp
  moreover have "kv_get w' (GetWinningAxelarCorkKey ch h a) = None" if "ch \<in> cc_Id ` set (config # cfgs)" "?T \<le> h" for ch h a
    using that IH(3,4) w(3) by (cases "ch \<in> cc_Id ` set cfgs") auto
  moreover have "kv_get w' (GetWinningAxelarCorkKey ch h a) = winning_at st ch h a"
    if "ch \<in> cc_Id ` set (config # cfgs)" "h < ?T" "h \<noteq> ?h" for ch h a
    using that IH(3,5) w(2,4) by (cases "ch \<in> cc_Id ` set cfgs"; cases "ch = ?c") auto
  moreover have "kv_get w' (GetWinningAxelarCorkKey ch h a) = winning_at st ch h a" if "ch \<notin> cc_Id ` set (config # cfgs)" for ch h a
    using that IH(3) w(2) by simp
  ultimately show ?case using IH(2) by blast
qed

lemma chain_configured:
  assumes "configs_wf st" "GetChainConfigurationByID st ch = Some config"
  shows "ch \<in> cc_Id ` set (kv_values (ax_configs st) [ChainConfigurationPrefix])"
proof -
  have "cc_Id config = ch" using assms by (auto simp: configs_wf_def GetChainConfigurationByID_def dest: kv_allD)
  moreover have "config \<in> set (kv_values (ax_configs st) [ChainConfigurationPrefix])"
    using assms(2) by (auto simp: kv_values_mem GetChainConfigurationByID_def intro!: exI [of _ "ChainConfigurationKey ch"])
  ultimately show ?thesis by blast
qed

section \<open>Relaying\<close>

lemma find_SomeD: "find P xs = Some x \<Longrightarrow> x \<in> set xs \<and> P x"
  by (induction xs) (auto split: if_splits)

lemma GetWinningAxelarCork_find:
  "GetWinningAxelarCork k st ch a = map_option snd (find (\<lambda>x. a = fst x)
    (map (parse_winning_entry (xk_eth k)) (kv_iter (ax_winning st) (GetWinningAxelarCorkKeyPrefix ch))))"
  unfolding GetWinningAxelarCork_def IterateWinningAxelarCorks_def case_prod_unfold prod.collapse iterate_find ..

lemma GetWinningAxelarCork_Some:
  assumes "winning_wf k st" "GetWinningAxelarCork k st ch a = Some (h, c)"
  shows "winning_at st ch h a = Some c" "HexToAddress (xk_eth k) (ac_TargetContractAddress c) = a"
proof -
  let ?E = "xk_eth k" and ?es = "kv_iter (ax_winning st) (GetWinningAxelarCorkKeyPrefix ch)"
  obtain x where "find (\<lambda>x. a = fst x) (map (parse_winning_entry ?E) ?es) = Some x" "snd x = (h, c)"
    using assms(2) unfolding GetWinningAxelarCork_find by auto
  then have "(a, h, c) \<in> set (map (parse_winning_entry ?E) ?es)"
    by (cases x) (use find_SomeD in fastforce)
  then obtain e where e: "e \<in> set ?es" "parse_winning_entry ?E e = (a, h, c)" by auto
  obtain key where key: "e = (key, c)" using e(2) by (cases e) (auto simp: parse_winning_entry_def)
  have k: "kv_get (ax_winning st) key = Some c" "prefix (GetWinningAxelarCorkKeyPrefix ch) key"
    using e(1) by (simp_all add: key kv_iter_mem)
  then have "win_key_ok ?E key c" using assms(1) by (auto simp: winning_wf_def dest: kv_allD)
  then obtain ch' h' where "key = GetWinningAxelarCorkKey ch' h' (HexToAddress ?E (ac_TargetContractAddress c))"
    by (auto simp: win_key_ok_iff)
  moreover from this k(2) have "ch' = ch" by simp
  moreover have "parse_winning_entry ?E (GetWinningAxelarCorkKey ch h' (HexToAddress ?E (ac_TargetContractAddress c)), c) =
      (HexToAddress ?E (ac_TargetContractAddress c), h', c)"
    by (simp add: parse_winning_entry_def GetWinningAxelarCorkKey_def GetWinningAxelarCorkKeyPrefix_def)
  ultimately show "winning_at st ch h a = Some c" "HexToAddress ?E (ac_TargetContractAddress c) = a"
    using k(1) e(2) key by (simp_all add: winning_at_def)
qed

lemma GetWinningAxelarCork_None:
  assumes "winning_wf k st"
  shows "GetWinningAxelarCork k st ch a = None \<longleftrightarrow> (\<forall>h. winning_at st ch h a = None)"
proof
  assume none: "GetWinningAxelarCork k st ch a = None"
  have "winning_at st ch h a \<noteq> Some c" for h c
  proof
    assume win: "winning_at st ch h a = Some c"
    then have "(GetWinningAxelarCorkKey ch h a, c) \<in> set (kv_iter (ax_winning st) (GetWinningAxelarCorkKeyPrefix ch))"
      by (simp add: kv_iter_mem winning_at_def)
    moreover have "win_key_ok (xk_eth k) (GetWinningAxelarCorkKey ch h a) c"
      using win assms by (auto simp: winning_wf_def winning_at_def dest: kv_allD)
    then have "HexToAddress (xk_eth k) (ac_TargetContractAddress c) = a" by (auto simp: win_key_ok_iff)
    then have "fst (parse_winning_entry (xk_eth k) (GetWinningAxelarCorkKey ch h a, c)) = a"
      by (auto simp: parse_winning_entry_def GetWinningAxelarCorkKey_def GetWinningAxelarCorkKeyPrefix_def)
    ultimately show False
      using none unfolding GetWinningAxelarCork_find by (auto simp: find_None_iff)
  qed
  then show "\<forall>h. winning_at st ch h a = None" by (meson not_None_eq)
next
  assume none: "\<forall>h. winning_at st ch h a = None"
  show "GetWinningAxelarCork k st ch a = None"
  proof (rule ccontr)
    assume "GetWinningAxelarCork k st ch a \<noteq> None"
    then obtain h c where "GetWinningAxelarCork k st ch a = Some (h, c)" by (metis not_None_eq prod.exhaust)
    with GetWinningAxelarCork_Some [OF assms] none show False by (metis option.distinct(1))
  qed
qed

lemma cellar_hex: "a \<in> set (axelar_GetCellarIDs k st ch) \<Longrightarrow> HexToAddress (xk_eth k) (Address_Hex (xk_eth k) a) = a"
  by (auto simp: axelar_GetCellarIDs_def split: option.splits)

end

end
