(* ===== verification/Axelarcork_Properties.thy ===== *)
theory Axelarcork_Properties
  imports Axelarcork_Safety Cork_Properties
begin

text \<open>
  The properties of the axelarcork module. The instances use a world that is the list of the transfers
  sent so far, one configured chain with id 1, and a keeper whose JSON coding of memos is fixed.
\<close>

section \<open>Concrete instances\<close>

definition ex_body :: axelar_body where
  "ex_body = \<lparr>ab_DestinationChain = ''arbitrum'', ab_DestinationAddress = ''0xpppppppppppppppppppp'',
     ab_Payload = the (EncodeLogicCallArgs ref_eth ref_abi ex_cellar 1 5000 [1, 2]), ab_Type = PureMessage, ab_Fee = None\<rparr>"

definition ex_axelar_keeper :: "msg_transfer list axelar_keeper" where
  "ex_axelar_keeper = \<lparr>xk_sdk = ref_sdk, xk_eth = ref_eth, xk_abi = ref_abi,
     xk_coins = \<lparr>Coins_IsValid = (\<lambda>_. True), Coins_Find = (\<lambda>cs d. find (\<lambda>c. cDenom c = d) cs)\<rparr>,
     xk_json = \<lparr>json_UnmarshalPacket = (\<lambda>b. Some \<lparr>pd_Denom = ''usomm'', pd_Amount = ''1'', pd_Sender = ''somm1module'',
         pd_Receiver = ''somm1gmp'', pd_Memo = map (\<lambda>x. char_of (unat x)) b\<rparr>),
       json_MarshalBody = (\<lambda>b. Some (ab_DestinationChain b)), json_UnmarshalBody = (\<lambda>_. Some ex_body)\<rparr>,
     xk_pubsub = ex_pubsub_keeper,
     xk_GetModuleAccount = (\<lambda>_ _. Some (string_bytes ''module'')), xk_SetModuleAccount = (\<lambda>w _. w),
     xk_GetOrchestratorValidatorAddress = (\<lambda>_. Some (ex_val 1)),
     xk_ConsensusPower = (\<lambda>_. Some 80), xk_GetLastTotalPower = 100,
     xk_SendCoinsFromAccountToModule = (\<lambda>w _ _ _. Ok w),
     xk_dist = \<lparr>GetFeePool = (\<lambda>_. []), SetFeePool = (\<lambda>w _. w), DecCoins_SafeSub = (\<lambda>a _. (a, False)),
       NewDecCoinsFromCoins = (\<lambda>_. [])\<rparr>,
     xk_Transfer = (\<lambda>c m s. case c of BaseContext \<Rightarrow> Panic ''no SDK context'' | SdkContext _ \<Rightarrow>
       Ok (s\<lparr>ax_world := ax_world s @ [m]\<rparr>)),
     xk_SendPacket = (\<lambda>_ _ _ _ w. Ok (w, 1))\<rparr>"

definition ex_config :: chain_configuration where
  "ex_config = \<lparr>cc_Name = ''arbitrum'', cc_Id = 1, cc_ProxyAddress = ''0xpppppppppppppppppppp'', cc_BridgeFees = []\<rparr>"

definition ex_axelar_params :: axelar_params where
  "ex_axelar_params = \<lparr>Enabled = True, IbcChannel = ''channel-2'', IbcPort = ''transfer'', GmpAccount = ''somm1gmp'',
     ExecutorAccount = ''0xeeeeeeeeeeeeeeeeeeee'', TimeoutDuration = 60, CorkTimeoutBlocks = 5000\<rparr>"

definition ex_axelar_cork :: axelar_cork where
  "ex_axelar_cork = \<lparr>ac_EncodedContractCall = [1, 2], ac_ChainId = 1, ac_TargetContractAddress = ex_cellar, ac_Deadline = 5000\<rparr>"

definition ex_axelar_state :: "msg_transfer list axelar_state" where
  "ex_axelar_state = \<lparr>ax_params = ex_axelar_params, ax_configs = kv_set kv_empty (ChainConfigurationKey 1) ex_config,
     ax_cellars = kv_empty,
     ax_sched = kv_set kv_empty (GetScheduledAxelarCorkKey 1 9000 (AxelarCork_IDHash ref_eth ex_axelar_cork 9000) (ex_val 1)
       (HexToAddress ref_eth ex_cellar)) ex_axelar_cork,
     ax_results = kv_empty,
     ax_winning = kv_set kv_empty (GetWinningAxelarCorkKey 1 8000 (HexToAddress ref_eth ex_cellar)) ex_axelar_cork,
     ax_nonces = kv_empty, ax_upgrades = kv_empty, ax_pubsub = ex_pubsub, ax_world = [], ax_events = []\<rparr>"

definition ex_axelar_ctx :: axelar_ctx where "ex_axelar_ctx = \<lparr>BlockHeight = 9000, BlockTime = 1000\<rparr>"

interpretation ex_axelar: axelar_env ex_axelar_keeper
proof (intro axelar_env.intro axelar_env_axioms.intro)
  show "sdk_dec (xk_sdk ex_axelar_keeper)" by (simp add: ex_axelar_keeper_def ref_dec.sdk_dec_axioms)
  show "eth_laws (xk_eth ex_axelar_keeper)" by (simp add: ex_axelar_keeper_def ref_eth.eth_laws_axioms)
  show "abi_codec (xk_abi ex_axelar_keeper)" by (simp add: ex_axelar_keeper_def ref_abi.abi_codec_axioms)
  show "0 < xk_GetLastTotalPower ex_axelar_keeper" "xk_GetLastTotalPower ex_axelar_keeper \<le> 10000000000000000"
    by (simp_all add: ex_axelar_keeper_def)
qed

lemmas ex_axelar_ax = ex_axelar.axelar_env_axioms

lemma ex_axelar_eth [simp]: "xk_eth ex_axelar_keeper = ref_eth" "xk_sdk ex_axelar_keeper = ref_sdk"
  "xk_abi ex_axelar_keeper = ref_abi"
  by (simp_all add: ex_axelar_keeper_def)

lemma ex_axelar_wf [simp]: "axelar_sched_wf ex_axelar_state" "axelar_known ex_axelar_keeper h ex_axelar_state"
  "winning_wf ex_axelar_keeper ex_axelar_state" "configs_wf ex_axelar_state"
  by (auto simp: axelar_sched_wf_def axelar_known_def winning_wf_def configs_wf_def ex_axelar_state_def win_key_ok_iff
      GetScheduledAxelarCorkKey_def GetScheduledAxelarCorkKeyPrefix_def AxelarCork_IDHash_def ex_config_def ex_axelar_cork_def
      ex_axelar_keeper_def [THEN arg_cong, of xk_ConsensusPower] kv_all_iff)

section \<open>The tally and the end of a block\<close>



text \<open>
  C24. What the end of a block leaves of the winning corks of a configured chain: those below
  \<open>height - CorkTimeoutBlocks\<close> (in 64 bits) stay, all others are deleted. The comparison in the code
  is the wrong way round: the corks that won in this very block are deleted at once whenever the
  timeout is not above the height, and the ones that have timed out are kept.
\<close>

theorem axelar_EndBlocker_winning:
  assumes "axelar_env k" "axelar_sched_wf st" "axelar_known k (BlockHeight ctx) st" "winning_wf k st" "configs_wf st"
    and "GetChainConfigurationByID st ch = Some config"
  shows "\<exists>st'. axelar_EndBlocker k ctx st = Ok st' \<and>
    (\<forall>h a. h \<noteq> BlockHeight ctx \<longrightarrow> winning_at st' ch h a =
      (if h < BlockHeight ctx - CorkTimeoutBlocks (ax_params st) then winning_at st ch h a else None)) \<and>
    (CorkTimeoutBlocks (ax_params st) \<le> BlockHeight ctx \<longrightarrow> (\<forall>a. winning_at st' ch (BlockHeight ctx) a = None))"
proof -
  let ?T = "BlockHeight ctx - CorkTimeoutBlocks (ax_params st)" and ?cs = "kv_values (ax_configs st) [ChainConfigurationPrefix]"
  have ch: "ch \<in> cc_Id ` set ?cs" using axelar_env.chain_configured [OF assms(1,5,6)] .
  obtain s r w where "axelar_EndBlocker k ctx st = Ok (st\<lparr>ax_sched := s, ax_results := r, ax_winning := w\<rparr>)"
    "\<forall>h a. ?T \<le> h \<longrightarrow> kv_get w (GetWinningAxelarCorkKey ch h a) = None"
    "\<forall>h a. h < ?T \<longrightarrow> h \<noteq> BlockHeight ctx \<longrightarrow> kv_get w (GetWinningAxelarCorkKey ch h a) = winning_at st ch h a"
    using axelar_env.axelar_chains_Ok [OF assms(1-4), of ?cs] ch by (auto simp: axelar_EndBlocker_def)
  moreover have "CorkTimeoutBlocks (ax_params st) \<le> BlockHeight ctx \<Longrightarrow> ?T \<le> BlockHeight ctx"
    by (simp add: word_sub_le_iff)
  ultimately show ?thesis by (auto simp: winning_at_def not_less)
qed

theorem axelar_EndBlocker_winning_witness:
  "\<exists>st'. axelar_EndBlocker ex_axelar_keeper ex_axelar_ctx ex_axelar_state = Ok st' \<and>
    winning_at st' 1 8000 (HexToAddress ref_eth ex_cellar) = None \<and> winning_at st' 1 9000 (HexToAddress ref_eth ex_cellar) = None"
proof -
  have "GetChainConfigurationByID ex_axelar_state 1 = Some ex_config"
    by (simp add: GetChainConfigurationByID_def ex_axelar_state_def)
  from axelar_EndBlocker_winning [OF ex_axelar_ax ex_axelar_wf this, where ctx = ex_axelar_ctx] show ?thesis
    by (auto simp: ex_axelar_ctx_def) (auto simp: ex_axelar_state_def ex_axelar_params_def)
qed

section \<open>Relaying\<close>

lemma deref_eq_Ok: "deref x = Ok y \<longleftrightarrow> x = Some y"
  by (cases x) auto

text \<open>The two ways in which a payload passes the check.\<close>

lemma check_payload_cases:
  assumes "axelar_env k" "winning_wf k st" "check_payload k st config payload = Ok st'"
  shows "(\<exists>target nonce deadline h cork. DecodeLogicCallArgs (xk_eth k) (xk_abi k) payload =
        Some (target, nonce, deadline, ac_EncodedContractCall cork) \<and> nonce \<noteq> 0 \<and>
        winning_at st (cc_Id config) h (HexToAddress (xk_eth k) target) = Some cork \<and>
        winning_at st' (cc_Id config) h (HexToAddress (xk_eth k) target) = None) \<or>
    (\<exists>ud. GetAxelarProxyUpgradeData st (cc_Id config) = Some ud \<and> ud_Payload ud = payload \<and>
        GetAxelarProxyUpgradeData st' (cc_Id config) = None)"
proof (cases "DecodeLogicCallArgs (xk_eth k) (xk_abi k) payload")
  case None
  with assms(3) obtain up where "check_upgrade k st config payload up = Ok st'"
    by (auto simp: check_payload_def split: option.splits)
  then show ?thesis
    by (cases up) (auto simp: check_upgrade_def DeleteAxelarProxyUpgradeData_def GetAxelarProxyUpgradeData_def
        split: if_splits option.splits)
next
  case (Some call)
  obtain target nonce deadline callData where call: "call = (target, nonce, deadline, callData)" by (cases call)
  with Some assms(3) obtain h cork where "nonce \<noteq> 0"
    "GetWinningAxelarCork k st (cc_Id config) (HexToAddress (xk_eth k) target) = Some (h, cork)"
    "ac_EncodedContractCall cork = callData" "st' = DeleteWinningAxelarCorkByBlockheight k st (cc_Id config) h cork"
    by (auto simp: check_payload_def check_logic_call_def split: if_splits option.splits)
  with axelar_env.GetWinningAxelarCork_Some [OF assms(1,2) this(2)] Some call show ?thesis
    by (intro disjI1 exI [of _ target] exI [of _ nonce] exI [of _ deadline] exI [of _ h] exI [of _ cork])
      (simp add: winning_at_def DeleteWinningAxelarCorkByBlockheight_def)
qed



lemma ex_winning: "GetWinningAxelarCork ex_axelar_keeper ex_axelar_state 1 (HexToAddress ref_eth ex_cellar) = Some (8000, ex_axelar_cork)"
proof -
  have "winning_at ex_axelar_state 1 8000 (HexToAddress ref_eth ex_cellar) = Some ex_axelar_cork"
    by (simp add: winning_at_def ex_axelar_state_def)
  then obtain h c where "GetWinningAxelarCork ex_axelar_keeper ex_axelar_state 1 (HexToAddress ref_eth ex_cellar) = Some (h, c)"
    using ex_axelar.GetWinningAxelarCork_None [OF ex_axelar_wf(3)] by (metis not_None_eq option.distinct(1) prod.exhaust)
  moreover from ex_axelar.GetWinningAxelarCork_Some(1) [OF ex_axelar_wf(3) this] have "h = 8000" "c = ex_axelar_cork"
    by (auto simp: winning_at_def ex_axelar_state_def split: if_splits)
  ultimately show ?thesis by simp
qed

lemma ex_axelar_lookup: "GetChainConfigurationByID ex_axelar_state 1 = Some ex_config" "cc_Id ex_config = 1"
  "ax_params ex_axelar_state = ex_axelar_params" "Enabled ex_axelar_params"
  by (simp_all add: GetChainConfigurationByID_def ex_axelar_state_def ex_config_def ex_axelar_params_def)






text \<open>
  C26. What the check of outgoing packets lets through: a packet on the configured channel to the
  general-message account passes only if its sender is the module account; if it has a memo, the memo
  goes to the proxy of a configured chain and carries either the call of a winning cork of that chain
  or exactly the pending upgrade of that chain, and the check consumes that cork or upgrade. Nonce
  and deadline of the packet are not compared with the cork.
\<close>

theorem ValidateAxelarPacket_safe:
  assumes "axelar_env k" "winning_wf k st" "ValidateAxelarPacket k st channel data = Ok st'"
    and "Enabled (ax_params st)" "channel = IbcChannel (ax_params st)" "json_UnmarshalPacket (xk_json k) data = Some p"
    and "AccAddressFromBech32 (xk_sdk k) (pd_Receiver p) = Some g"
    and "AccAddressFromBech32 (xk_sdk k) (GmpAccount (ax_params st)) = Some g"
  shows "\<exists>m. GetSenderAccount k st = Some m \<and> AccAddressFromBech32 (xk_sdk k) (pd_Sender p) = Some m \<and>
    (pd_Memo p \<noteq> [] \<longrightarrow> (\<exists>body config. json_UnmarshalBody (xk_json k) (pd_Memo p) = Some body \<and>
      GetChainConfigurationByName st (ab_DestinationChain body) = Some config \<and>
      HexToAddress (xk_eth k) (ab_DestinationAddress body) = HexToAddress (xk_eth k) (cc_ProxyAddress config) \<and>
      ((\<exists>target nonce deadline h cork. DecodeLogicCallArgs (xk_eth k) (xk_abi k) (ab_Payload body) =
          Some (target, nonce, deadline, ac_EncodedContractCall cork) \<and> nonce \<noteq> 0 \<and>
          winning_at st (cc_Id config) h (HexToAddress (xk_eth k) target) = Some cork \<and>
          winning_at st' (cc_Id config) h (HexToAddress (xk_eth k) target) = None) \<or>
       (\<exists>ud. GetAxelarProxyUpgradeData st (cc_Id config) = Some ud \<and> ud_Payload ud = ab_Payload body \<and>
          GetAxelarProxyUpgradeData st' (cc_Id config) = None))))"
proof -
  have nz: "GetSenderAccount k st \<noteq> None" "AccAddressFromBech32 (xk_sdk k) (pd_Sender p) = GetSenderAccount k st"
    using assms(3-8) by (auto simp: ValidateAxelarPacket_def Let_def deref_eq_Ok split: option.splits if_splits)
  then obtain m where m: "GetSenderAccount k st = Some m" "AccAddressFromBech32 (xk_sdk k) (pd_Sender p) = Some m" by auto
  show ?thesis
  proof (cases "pd_Memo p = []")
    case False
    then obtain body where body: "json_UnmarshalBody (xk_json k) (pd_Memo p) = Some body" "check_body k st body = Ok st'"
      using assms(3-8) m by (auto simp: ValidateAxelarPacket_def Let_def split: option.splits)
    then obtain config where config: "GetChainConfigurationByName st (ab_DestinationChain body) = Some config"
      "HexToAddress (xk_eth k) (ab_DestinationAddress body) = HexToAddress (xk_eth k) (cc_ProxyAddress config)"
      "check_payload k st config (ab_Payload body) = Ok st'"
      by (auto simp: check_body_def split: option.splits if_splits)
    show ?thesis
      using m body(1) config check_payload_cases [OF assms(1,2) config(3)] by blast
  qed (use m in blast)
qed

lemma ex_payload: "DecodeLogicCallArgs ref_eth ref_abi (ab_Payload ex_body) =
    Some (Address_Hex ref_eth (HexToAddress ref_eth ex_cellar), 1, 5000, [1, 2])"
proof (rule ref_abi.logic_call_roundtrip)
  show "EncodeLogicCallArgs ref_eth ref_abi ex_cellar 1 5000 [1, 2] = Some (ab_Payload ex_body)"
    by (simp add: ex_body_def) (simp add: EncodeLogicCallArgs_def ref_abi_def LogicCallMsgID_def)
qed

definition ex_packet :: packet_data where
  "ex_packet = the (json_UnmarshalPacket (xk_json ex_axelar_keeper) (string_bytes ''memo''))"

lemma ex_packet_simps: "json_UnmarshalPacket (xk_json ex_axelar_keeper) (string_bytes ''memo'') = Some ex_packet"
  "pd_Memo ex_packet \<noteq> []" "pd_Receiver ex_packet = ''somm1gmp''" "pd_Sender ex_packet = ''somm1module''"
  "GetSenderAccount ex_axelar_keeper ex_axelar_state = Some (string_bytes ''module'')"
  "json_UnmarshalBody (xk_json ex_axelar_keeper) s = Some ex_body" "GmpAccount ex_axelar_params = ''somm1gmp''"
  "IbcChannel ex_axelar_params = ''channel-2''"
  by (simp_all add: ex_packet_def ex_axelar_keeper_def GetSenderAccount_def string_bytes_def ex_axelar_params_def)

lemma ex_check_Ok: "is_ok (ValidateAxelarPacket ex_axelar_keeper ex_axelar_state ''channel-2'' (string_bytes ''memo''))"
proof -
  have "GetChainConfigurationByName ex_axelar_state ''arbitrum'' = Some ex_config"
    by (simp add: GetChainConfigurationByName_def IterateChainConfigurations_def kv_values_def kv_iter_def ex_axelar_state_def)
      (simp add: ex_config_def)
  moreover have "is_ok (check_payload ex_axelar_keeper ex_axelar_state ex_config (ab_Payload ex_body))"
    by (simp add: check_payload_def ex_payload check_logic_call_def ex_axelar_lookup ex_winning)
      (simp add: ex_axelar_cork_def)
  ultimately have "is_ok (check_body ex_axelar_keeper ex_axelar_state ex_body)"
    by (simp add: check_body_def) (simp add: ex_body_def ex_config_def ref_eth_def)
  then show ?thesis
    by (simp add: ValidateAxelarPacket_def ex_axelar_lookup ex_packet_simps Let_def)
      (simp add: ref_sdk_def ex_packet_simps)
qed

theorem ValidateAxelarPacket_safe_witness:
  "\<exists>m. GetSenderAccount ex_axelar_keeper ex_axelar_state = Some m \<and> AccAddressFromBech32 ref_sdk (pd_Sender ex_packet) = Some m"
  using ValidateAxelarPacket_safe [OF ex_axelar_ax ex_axelar_wf(3) is_ok_val [OF ex_check_Ok],
      of ex_packet "string_bytes ''gmp''"]
  by (simp add: ex_axelar_lookup ex_packet_simps) (simp add: ref_sdk_def)

section \<open>Upgrades and genesis\<close>









text \<open>
  C28. The export of the genesis state panics as soon as a chain is configured: it appends to the lists
  inside two pointers that nothing has allocated.
\<close>

theorem axelar_ExportGenesis_panics:
  assumes "GetChainConfigurationByID st ch = Some config"
  shows "axelar_ExportGenesis k st = Panic ''nil dereference''"
proof -
  have "config \<in> set (kv_values (ax_configs st) [ChainConfigurationPrefix])"
    using assms by (auto simp: kv_values_mem GetChainConfigurationByID_def intro!: exI [of _ "ChainConfigurationKey ch"])
  then obtain c cs where "kv_values (ax_configs st) [ChainConfigurationPrefix] = c # cs"
    by (cases "kv_values (ax_configs st) [ChainConfigurationPrefix]") auto
  then show ?thesis by (simp add: axelar_ExportGenesis_def export_chain_def append_deref_def Let_def)
qed

theorem axelar_ExportGenesis_panics_witness:
  "axelar_ExportGenesis ex_axelar_keeper ex_axelar_state = Panic ''nil dereference''"
  by (rule axelar_ExportGenesis_panics [OF ex_axelar_lookup(1)])

end
