(* ===== verification/Cellarfees_Types.thy ===== *)
theory Cellarfees_Types
  imports Auction_Types
begin

text \<open>
  The data of the cellarfees module (\<^verbatim>\<open>x/cellarfees/types\<close>): parameters, genesis and the fee accrual
  counters with their operations. The counters are a slice kept sorted by denomination; the locale
  \<open>counter_ops\<close> states what the keeper relies on: incrementing and resetting refine the update of
  a map from denominations to counts, and keep the slice sorted without duplicates.
\<close>

section \<open>Errors\<close>

abbreviation ErrInvalidFeeAccrualAuctionThreshold :: error where
  "ErrInvalidFeeAccrualAuctionThreshold \<equiv> Registered ''cellarfees'' 2"

abbreviation ErrInvalidRewardEmissionPeriod :: error where
  "ErrInvalidRewardEmissionPeriod \<equiv> Registered ''cellarfees'' 3"

abbreviation ErrInvalidInitialPriceDecreaseRate :: error where
  "ErrInvalidInitialPriceDecreaseRate \<equiv> Registered ''cellarfees'' 4"

abbreviation ErrInvalidPriceDecreaseBlockInterval :: error where
  "ErrInvalidPriceDecreaseBlockInterval \<equiv> Registered ''cellarfees'' 5"

abbreviation ErrInvalidFeeAccrualCounters :: error where
  "ErrInvalidFeeAccrualCounters \<equiv> Registered ''cellarfees'' 6"

abbreviation ErrInvalidLastRewardSupplyPeak :: error where
  "ErrInvalidLastRewardSupplyPeak \<equiv> Registered ''cellarfees'' 7"

abbreviation ErrInvalidAuctionInterval :: error where
  "ErrInvalidAuctionInterval \<equiv> Registered ''cellarfees'' 8"

definition cellarfees_ModuleName :: string where "cellarfees_ModuleName = ''cellarfees''"

section \<open>Parameters\<close>

record cellarfees_params =
  FeeAccrualAuctionThreshold :: u64
  RewardEmissionPeriod :: u64
  InitialPriceDecreaseRate :: dec
  PriceDecreaseBlockInterval :: u64
  AuctionInterval :: u64

fun validateFeeAccrualAuctionThreshold :: "iface \<Rightarrow> unit res" where
  "validateFeeAccrualAuctionThreshold (IUint64 threshold) =
    (if threshold = 0 then Err (Wrapped ErrInvalidFeeAccrualAuctionThreshold) else Ok ())"
| "validateFeeAccrualAuctionThreshold _ = Err (Wrapped ErrInvalidFeeAccrualAuctionThreshold)"

fun validateRewardEmissionPeriod :: "iface \<Rightarrow> unit res" where
  "validateRewardEmissionPeriod (IUint64 emissionPeriod) =
    (if emissionPeriod = 0 then Err (Wrapped ErrInvalidRewardEmissionPeriod) else Ok ())"
| "validateRewardEmissionPeriod _ = Err (Wrapped ErrInvalidRewardEmissionPeriod)"

text \<open>
  An \<^verbatim>\<open>sdk.Dec\<close> is a struct that holds a pointer to a big integer, so Go's \<^verbatim>\<open>==\<close>
  with the freshly allocated \<^verbatim>\<open>sdk.ZeroDec()\<close> or \<^verbatim>\<open>sdk.OneDec()\<close> compares
  pointers and is never true: both refusals are dead code and the validator accepts every decimal.
\<close>

fun validateInitialPriceDecreaseRate :: "iface \<Rightarrow> unit res" where
  "validateInitialPriceDecreaseRate (IDec rate) = Ok ()"
| "validateInitialPriceDecreaseRate _ = Err (Wrapped ErrInvalidInitialPriceDecreaseRate)"

fun validatePriceDecreaseBlockInterval :: "iface \<Rightarrow> unit res" where
  "validatePriceDecreaseBlockInterval (IUint64 interval) =
    (if interval = 0 then Err (Wrapped ErrInvalidPriceDecreaseBlockInterval) else Ok ())"
| "validatePriceDecreaseBlockInterval _ = Err (Wrapped ErrInvalidPriceDecreaseBlockInterval)"

fun validateAuctionInterval :: "iface \<Rightarrow> unit res" where
  "validateAuctionInterval (IUint64 interval) =
    (if interval = 0 then Err (Wrapped ErrInvalidAuctionInterval) else Ok ())"
| "validateAuctionInterval _ = Err (Wrapped ErrInvalidAuctionInterval)"

definition cellarfees_DefaultParams :: cellarfees_params where
  "cellarfees_DefaultParams =
    \<lparr>FeeAccrualAuctionThreshold = 2, RewardEmissionPeriod = 403200,
     InitialPriceDecreaseRate = 64800000000000, PriceDecreaseBlockInterval = 10, AuctionInterval = 15000\<rparr>"

definition cellarfees_ParamSetPairs :: "cellarfees_params \<Rightarrow> param_pair list" where
  "cellarfees_ParamSetPairs p =
    [(''FeeAccrualAuctionThreshold'', IUint64 (FeeAccrualAuctionThreshold p), validateFeeAccrualAuctionThreshold),
     (''RewardEmissionPeriod'', IUint64 (RewardEmissionPeriod p), validateRewardEmissionPeriod),
     (''InitialPriceDecreaseRate'', IDec (InitialPriceDecreaseRate p), validateInitialPriceDecreaseRate),
     (''PriceDecreaseBlockInterval'', IUint64 (PriceDecreaseBlockInterval p), validatePriceDecreaseBlockInterval),
     (''AuctionInterval'', IUint64 (AuctionInterval p), validateAuctionInterval)]"

definition cellarfees_Params_ValidateBasic :: "cellarfees_params \<Rightarrow> unit res" where
  "cellarfees_Params_ValidateBasic p =
    bind_res (validateFeeAccrualAuctionThreshold (IUint64 (FeeAccrualAuctionThreshold p))) (\<lambda>_.
    bind_res (validateRewardEmissionPeriod (IUint64 (RewardEmissionPeriod p))) (\<lambda>_.
    bind_res (validateInitialPriceDecreaseRate (IDec (InitialPriceDecreaseRate p))) (\<lambda>_.
    validatePriceDecreaseBlockInterval (IUint64 (PriceDecreaseBlockInterval p)))))"

section \<open>Fee accrual counters\<close>

record fee_accrual_counter =
  fc_Denom :: string
  fc_Count :: u64

type_synonym fee_accrual_counters = "fee_accrual_counter list"

definition DefaultFeeAccrualCounters :: fee_accrual_counters where
  "DefaultFeeAccrualCounters = []"

text \<open>
  \<^verbatim>\<open>Less\<close> compares denominations bytewise and \<^verbatim>\<open>sort.Sort\<close> sorts by it. The
  library sort used here is stable, Go's need not be; the two agree on slices without duplicate
  denominations, the only ones the invariant admits.
\<close>

definition counter_Less :: "fee_accrual_counter \<Rightarrow> fee_accrual_counter \<Rightarrow> bool" where
  "counter_Less a b \<longleftrightarrow> fc_Denom a < fc_Denom b"

definition sort_counters :: "fee_accrual_counters \<Rightarrow> fee_accrual_counters" where
  "sort_counters cs = sort_key fc_Denom cs"

definition insertCounter :: "fee_accrual_counters \<Rightarrow> string \<Rightarrow> u64 \<Rightarrow> fee_accrual_counters" where
  "insertCounter f denom n = sort_counters (f @ [\<lparr>fc_Denom = denom, fc_Count = n\<rparr>])"

text \<open>The loop over the slice that updates the first counter of a denomination, if there is one.\<close>

fun update_counter ::
  "string \<Rightarrow> (u64 \<Rightarrow> u64) \<Rightarrow> fee_accrual_counters \<Rightarrow> (fee_accrual_counters \<times> u64) option" where
  "update_counter denom g [] = None"
| "update_counter denom g (k # cs) =
    (if fc_Denom k = denom then Some (k\<lparr>fc_Count := g (fc_Count k)\<rparr> # cs, g (fc_Count k))
     else map_option (\<lambda>(cs', n). (k # cs', n)) (update_counter denom g cs))"

definition IncrementCounter :: "fee_accrual_counters \<Rightarrow> string \<Rightarrow> fee_accrual_counters \<times> u64" where
  "IncrementCounter f denom = (case update_counter denom (\<lambda>c. c + 1) f of
      Some r \<Rightarrow> r
    | None \<Rightarrow> (insertCounter f denom 1, 1))"

definition ResetCounter :: "fee_accrual_counters \<Rightarrow> string \<Rightarrow> fee_accrual_counters" where
  "ResetCounter f denom = (case update_counter denom (\<lambda>_. 0) f of
      Some (f', _) \<Rightarrow> f'
    | None \<Rightarrow> insertCounter f denom 0)"

section \<open>Genesis\<close>

text \<open>A nil slice of counters, which validation refuses, is told from an empty one.\<close>

record cellarfees_genesis =
  cg_Params :: cellarfees_params
  cg_FeeAccrualCounters :: "fee_accrual_counters option"
  cg_LastRewardSupplyPeak :: int

definition cellarfees_DefaultGenesisState :: cellarfees_genesis where
  "cellarfees_DefaultGenesisState =
    \<lparr>cg_Params = cellarfees_DefaultParams, cg_FeeAccrualCounters = Some DefaultFeeAccrualCounters,
     cg_LastRewardSupplyPeak = 0\<rparr>"

definition cellarfees_Genesis_Validate :: "cellarfees_genesis \<Rightarrow> unit res" where
  "cellarfees_Genesis_Validate gs =
    bind_res (cellarfees_Params_ValidateBasic (cg_Params gs)) (\<lambda>_.
    case cg_FeeAccrualCounters gs of
      None \<Rightarrow> Err (Wrapped ErrInvalidFeeAccrualCounters)
    | Some cs \<Rightarrow>
      if map fc_Denom (sort_counters cs) \<noteq> map fc_Denom cs then Err (Wrapped ErrInvalidFeeAccrualCounters)
      else if cg_LastRewardSupplyPeak gs < 0 then Err (Wrapped ErrInvalidLastRewardSupplyPeak)
      else Ok ())"

section \<open>The counters as a map\<close>

definition counters_ok :: "fee_accrual_counters \<Rightarrow> bool" where
  "counters_ok cs \<longleftrightarrow> sorted_wrt counter_Less cs"

definition counter_map :: "fee_accrual_counters \<Rightarrow> string \<rightharpoonup> u64" where
  "counter_map cs = map_of (map (\<lambda>c. (fc_Denom c, fc_Count c)) cs)"

locale counter_ops =
  fixes ok :: "'c \<Rightarrow> bool"
    and abs :: "'c \<Rightarrow> string \<rightharpoonup> u64"
    and inc :: "'c \<Rightarrow> string \<Rightarrow> 'c \<times> u64"
    and reset :: "'c \<Rightarrow> string \<Rightarrow> 'c"
  assumes inc_ok: "ok cs \<Longrightarrow> ok (fst (inc cs d))"
    and reset_ok: "ok cs \<Longrightarrow> ok (reset cs d)"
    and abs_inc: "ok cs \<Longrightarrow> abs (fst (inc cs d)) = (abs cs)(d \<mapsto> snd (inc cs d))"
    and inc_count: "ok cs \<Longrightarrow> snd (inc cs d) = (case abs cs d of None \<Rightarrow> 1 | Some n \<Rightarrow> n + 1)"
    and abs_reset: "ok cs \<Longrightarrow> abs (reset cs d) = (abs cs)(d \<mapsto> 0)"
begin

text \<open>A sequence of accruals counts, for every denomination, how often it occurs (modulo \<open>2\<^sup>6\<^sup>4\<close>).\<close>

definition accrue :: "'c \<Rightarrow> string list \<Rightarrow> 'c" where
  "accrue cs ds = foldl (\<lambda>cs d. fst (inc cs d)) cs ds"

definition count_of :: "'c \<Rightarrow> string \<Rightarrow> u64" where
  "count_of cs d = (case abs cs d of None \<Rightarrow> 0 | Some n \<Rightarrow> n)"

lemma accrue_ok: "ok cs \<Longrightarrow> ok (accrue cs ds)"
  by (induction ds arbitrary: cs) (simp_all add: accrue_def inc_ok)

lemma count_of_inc: "ok cs \<Longrightarrow> count_of (fst (inc cs d)) d' = (if d' = d then count_of cs d + 1 else count_of cs d')"
  by (simp add: count_of_def abs_inc inc_count split: option.split)

lemma count_of_reset: "ok cs \<Longrightarrow> count_of (reset cs d) d' = (if d' = d then 0 else count_of cs d')"
  by (simp add: count_of_def abs_reset)

lemma count_of_accrue: "ok cs \<Longrightarrow> count_of (accrue cs ds) d = count_of cs d + word_of_nat (count_list ds d)"
  by (induction ds arbitrary: cs) (simp_all add: accrue_def inc_ok count_of_inc)

end

lemma counter_Less_fst: "sorted_wrt counter_Less cs \<longleftrightarrow> sorted_wrt (<) (map fc_Denom cs)"
  by (simp add: counter_Less_def [abs_def] sorted_wrt_map)

lemma counters_ok_iff: "counters_ok cs \<longleftrightarrow> sorted (map fc_Denom cs) \<and> distinct (map fc_Denom cs)"
  by (simp add: counters_ok_def counter_Less_fst strict_sorted_iff)

lemma update_counter_denoms:
  "update_counter d g cs = Some (cs', n) \<Longrightarrow> map fc_Denom cs' = map fc_Denom cs"
  by (induction cs arbitrary: cs' n) (auto split: if_splits)

lemma update_counter_Some:
  "update_counter d g cs = Some (cs', n) \<Longrightarrow> \<exists>m. counter_map cs d = Some m \<and> n = g m"
  by (induction cs arbitrary: cs' n) (auto simp: counter_map_def split: if_splits)

lemma counter_map_update:
  "update_counter d g cs = Some (cs', n) \<Longrightarrow> counter_map cs' = (counter_map cs)(d \<mapsto> n)"
  by (induction cs arbitrary: cs' n) (auto simp: counter_map_def fun_eq_iff split: if_splits)

lemma update_counter_None: "update_counter d g cs = None \<longleftrightarrow> d \<notin> fc_Denom ` set cs"
  by (induction cs) auto

lemma counter_map_None: "counter_map cs d = None \<longleftrightarrow> d \<notin> fc_Denom ` set cs"
  by (simp add: counter_map_def map_of_eq_None_iff image_comp)

lemma mset_insertCounter: "mset (insertCounter cs d n) = add_mset \<lparr>fc_Denom = d, fc_Count = n\<rparr> (mset cs)"
  by (simp add: insertCounter_def sort_counters_def)

lemma insertCounter_ok:
  assumes "counters_ok cs" "d \<notin> fc_Denom ` set cs"
  shows "counters_ok (insertCounter cs d n)"
proof -
  have "mset (map fc_Denom (insertCounter cs d n)) = mset (d # map fc_Denom cs)"
    by (simp add: mset_insertCounter)
  then have "distinct (map fc_Denom (insertCounter cs d n)) = distinct (d # map fc_Denom cs)"
    by (rule mset_eq_imp_distinct_iff)
  with assms show ?thesis by (simp add: counters_ok_iff) (simp add: insertCounter_def sort_counters_def)
qed

lemma counter_map_insert:
  assumes "counters_ok cs" "d \<notin> fc_Denom ` set cs"
  shows "counter_map (insertCounter cs d n) = (counter_map cs)(d \<mapsto> n)"
proof -
  let ?kv = "\<lambda>c. (fc_Denom c, fc_Count c)" and ?c = "\<lparr>fc_Denom = d, fc_Count = n\<rparr>"
  have "distinct (map fst (map ?kv (insertCounter cs d n)))"
    using insertCounter_ok [OF assms] by (simp add: counters_ok_iff comp_def)
  moreover have "distinct (map fst (map ?kv (?c # cs)))"
    using assms by (simp add: counters_ok_iff comp_def)
  moreover have "set (map ?kv (insertCounter cs d n)) = set (map ?kv (?c # cs))"
    by (simp add: insertCounter_def sort_counters_def)
  ultimately have "map_of (map ?kv (insertCounter cs d n)) = map_of (map ?kv (?c # cs))"
    by (simp only: map_of_inject_set)
  then show ?thesis by (simp add: counter_map_def)
qed

interpretation fc: counter_ops counters_ok counter_map IncrementCounter ResetCounter
proof
  fix cs d assume ok: "counters_ok cs"
  have upd: "counters_ok cs'" if "update_counter d g cs = Some (cs', n)" for g cs' n
    using ok update_counter_denoms [OF that] by (simp add: counters_ok_iff)
  have ins: "counters_ok (insertCounter cs d n)" if "update_counter d g cs = None" for g n
    using insertCounter_ok [OF ok] that by (simp add: update_counter_None)
  have ins_map: "counter_map (insertCounter cs d n) = (counter_map cs)(d \<mapsto> n)"
    if "update_counter d g cs = None" for g n
    using counter_map_insert [OF ok] that by (simp add: update_counter_None)
  show "counters_ok (fst (IncrementCounter cs d))" "counters_ok (ResetCounter cs d)"
    using upd ins by (auto simp: IncrementCounter_def ResetCounter_def split: option.split prod.split)
  show "counter_map (fst (IncrementCounter cs d)) = (counter_map cs)(d \<mapsto> snd (IncrementCounter cs d))"
    using counter_map_update ins_map by (auto simp: IncrementCounter_def split: option.split)
  show "counter_map (ResetCounter cs d) = (counter_map cs)(d \<mapsto> 0)"
    using counter_map_update [of d "\<lambda>_. 0" cs] ins_map
    by (auto simp: ResetCounter_def split: option.splits dest: update_counter_Some)
  show "snd (IncrementCounter cs d) = (case counter_map cs d of None \<Rightarrow> 1 | Some n \<Rightarrow> n + 1)"
  proof (cases "update_counter d (\<lambda>c. c + 1) cs")
    case None
    moreover from None have "counter_map cs d = None" by (simp add: update_counter_None counter_map_None)
    ultimately show ?thesis by (simp add: IncrementCounter_def)
  next
    case (Some r)
    with update_counter_Some [of d "\<lambda>c. c + 1" cs "fst r" "snd r"] show ?thesis
      by (auto simp: IncrementCounter_def)
  qed
qed

end
