(* ===== verification/Cellarfees_Keeper.thy ===== *)
theory Cellarfees_Keeper
  imports Cellarfees_Types
begin

text \<open>
  The keeper of the cellarfees module (\<^verbatim>\<open>x/cellarfees/keeper\<close>): fee accrual counters fed by the
  bridge hook, auctions of the accrued fees, and the emission of rewards. The keeper record holds
  the interfaces of the other modules (\<^verbatim>\<open>types/expected_keepers.go\<close>) as operations on an
  abstract world \<open>'w\<close>, the rest of the chain state; the state adds what this module stores. The
  two values in the store are kept as the bytes of the peak and as the decoded counters; \<open>None\<close> is a
  key that was never set.
\<close>

record 'w cellarfees_keeper =
  ck_sdk :: sdk
  ck_eth :: eth
  ck_GetModuleAccount :: "string \<Rightarrow> addr option"
  ck_GetBalance :: "'w \<Rightarrow> addr \<Rightarrow> string \<Rightarrow> int"
  ck_SendCoinsFromModuleToModule :: "'w \<Rightarrow> string \<Rightarrow> string \<Rightarrow> coin list \<Rightarrow> 'w res"
  ck_BlocksPerYear :: "'w \<Rightarrow> u64"
  ck_BondedRatio :: "'w \<Rightarrow> dec"
  ck_StakingTokenSupply :: "'w \<Rightarrow> int"
  ck_HasCellarID :: "'w \<Rightarrow> addr \<Rightarrow> bool"
  ck_ERC20ToDenomLookup :: "'w \<Rightarrow> addr \<Rightarrow> bool \<times> string"
  ck_GetActiveAuctions :: "'w \<Rightarrow> auction list"
  ck_BeginAuction :: "ctx \<Rightarrow> 'w \<Rightarrow> coin \<Rightarrow> dec \<Rightarrow> u64 \<Rightarrow> string \<Rightarrow> string \<Rightarrow> 'w res"

record 'w cellarfees_state =
  cf_params :: cellarfees_params
  cf_peak :: "bytes option"
  cf_counters :: "fee_accrual_counters option"
  cf_world :: 'w
  cf_events :: "event list"

section \<open>Parameters and stored values\<close>

definition cellarfees_SetParams :: "'w cellarfees_state \<Rightarrow> cellarfees_params \<Rightarrow> 'w cellarfees_state res" where
  "cellarfees_SetParams st p =
    bind_res (SetParamSet (cellarfees_ParamSetPairs p)) (\<lambda>_. Ok (st\<lparr>cf_params := p\<rparr>))"

definition GetFeesAccount :: "'w cellarfees_keeper \<Rightarrow> addr res" where
  "GetFeesAccount k = (case ck_GetModuleAccount k cellarfees_ModuleName of
      None \<Rightarrow> Panic ''nil dereference'' | Some a \<Rightarrow> Ok a)"

definition GetLastRewardSupplyPeak :: "'w cellarfees_state \<Rightarrow> int res" where
  "GetLastRewardSupplyPeak st = (case cf_peak st of
      None \<Rightarrow> Panic ''Last highest reward supply should not have been nil''
    | Some b \<Rightarrow> Ok (big_SetBytes b))"

definition SetLastRewardSupplyPeak :: "'w cellarfees_state \<Rightarrow> int \<Rightarrow> 'w cellarfees_state" where
  "SetLastRewardSupplyPeak st amount = st\<lparr>cf_peak := Some (big_Bytes amount)\<rparr>"

definition GetFeeAccrualCounters :: "'w cellarfees_state \<Rightarrow> fee_accrual_counters res" where
  "GetFeeAccrualCounters st = (case cf_counters st of
      None \<Rightarrow> Panic ''Fee accrual counters is nil, it should have been set by InitGenesis''
    | Some cs \<Rightarrow> if cs = [] then Ok DefaultFeeAccrualCounters else Ok cs)"

definition SetFeeAccrualCounters :: "'w cellarfees_state \<Rightarrow> fee_accrual_counters \<Rightarrow> 'w cellarfees_state" where
  "SetFeeAccrualCounters st cs = st\<lparr>cf_counters := Some cs\<rparr>"

section \<open>Emissions\<close>

text \<open>\<^verbatim>\<open>math.Int.Quo\<close> divides big integers with truncation and panics on a zero divisor.\<close>

definition Int_Quo :: "int \<Rightarrow> int \<Rightarrow> int res" where
  "Int_Quo a b = (if b = 0 then Panic ''division by zero'' else Ok (a sdiv b))"

definition GetEmission ::
  "'w cellarfees_keeper \<Rightarrow> 'w cellarfees_state \<Rightarrow> int \<Rightarrow> ('w cellarfees_state \<times> coin list) res" where
  "GetEmission k st remainingRewardsSupply =
    bind_res (GetLastRewardSupplyPeak st) (\<lambda>previousSupplyPeak.
    let period = sint (RewardEmissionPeriod (cf_params st));
        (st1, base) = (if remainingRewardsSupply > previousSupplyPeak
          then (SetLastRewardSupplyPeak st remainingRewardsSupply, remainingRewardsSupply)
          else (st, previousSupplyPeak))
    in bind_res (Int_Quo base period) (\<lambda>amount.
    let (st2, emissionAmount) =
          (if amount = 0 then (st1, 1)
           else if amount \<ge> remainingRewardsSupply then (SetLastRewardSupplyPeak st1 0, remainingRewardsSupply)
           else (st1, amount))
    in bind_res (NewCoin (ck_sdk k) BaseCoinUnit emissionAmount) (\<lambda>c.
       bind_res (NewCoins (ck_sdk k) c) (\<lambda>cs. Ok (st2, cs)))))"

definition cellarfees_GetAPY :: "'w cellarfees_keeper \<Rightarrow> 'w cellarfees_state \<Rightarrow> ('w cellarfees_state \<times> dec) res" where
  "cellarfees_GetAPY k st =
    bind_res (GetFeesAccount k) (\<lambda>acc.
    let remainingRewardsSupply = ck_GetBalance k (cf_world st) acc BaseCoinUnit
    in if remainingRewardsSupply = 0 then Ok (st, 0)
    else
    let blocksPerYear = ck_BlocksPerYear k (cf_world st);
        bondedRatio = ck_BondedRatio k (cf_world st);
        totalCoins = ck_StakingTokenSupply k (cf_world st)
    in bind_res (GetEmission k st remainingRewardsSupply) (\<lambda>(st1, emission).
    let annualRewards = amountOf emission BaseCoinUnit * sint blocksPerYear
    in bind_res (Quo (ck_sdk k) (NewDecFromInt annualRewards) (NewDecFromInt totalCoins)) (\<lambda>q.
       bind_res (Quo (ck_sdk k) q bondedRatio) (\<lambda>apy. Ok (st1, apy)))))"

section \<open>Starting auctions\<close>

text \<open>
  The result of \<^verbatim>\<open>beginAuction\<close> is the world afterwards and whether an auction was
  started. The \<^verbatim>\<open>switch err\<close> compares the returned error with the sentinels themselves.
  A panic of the auction keeper passes through.
\<close>

definition cellarfees_beginAuction ::
  "'w cellarfees_keeper \<Rightarrow> ctx \<Rightarrow> 'w cellarfees_state \<Rightarrow> string \<Rightarrow> ('w cellarfees_state \<times> bool) res" where
  "cellarfees_beginAuction k ctx st denom =
    (if list_ex (\<lambda>auction. denom = cDenom (a_StartingTokensForSale auction)) (ck_GetActiveAuctions k (cf_world st))
     then Ok (st, False)
     else bind_res (GetFeesAccount k) (\<lambda>acc.
       let amount = ck_GetBalance k (cf_world st) acc denom
       in if amount = 0 then Ok (st, False)
       else case ck_BeginAuction k ctx (cf_world st) (mk_coin denom amount)
           (InitialPriceDecreaseRate (cf_params st)) (PriceDecreaseBlockInterval (cf_params st))
           cellarfees_ModuleName cellarfees_ModuleName of
         Ok w \<Rightarrow> Ok (st\<lparr>cf_world := w\<rparr>, True)
       | Panic s \<Rightarrow> Panic s
       | Err err \<Rightarrow>
         if err = ErrUnauthorizedFundingModule
           then Panic ''Attempted to start an auction with an unauthorized funding module''
         else if err = ErrUnauthorizedProceedsModule
           then Panic ''Attempted to start an auction with an unauthorized proceeds module''
         else Ok (st, False)))"

section \<open>Blocks\<close>

text \<open>
  One iteration of the loop over the counters. The loop ranges over the slice while
  \<^verbatim>\<open>ResetCounter\<close> writes into it, but it only writes at or before the current index, so the
  elements still to be visited are those of the slice at the start.
\<close>

definition auction_counter ::
  "'w cellarfees_keeper \<Rightarrow> ctx \<Rightarrow> i64 \<Rightarrow> fee_accrual_counter
    \<Rightarrow> 'w cellarfees_state \<times> fee_accrual_counters \<Rightarrow> ('w cellarfees_state \<times> fee_accrual_counters) res" where
  "auction_counter k ctx modulus counter = (\<lambda>(st, counters).
    if fc_Count counter \<ge> FeeAccrualAuctionThreshold (cf_params st) \<and> modulus = 0
    then bind_res (cellarfees_beginAuction k ctx st (fc_Denom counter)) (\<lambda>(st1, started).
      Ok (st1, if started then ResetCounter counters (fc_Denom counter) else counters))
    else Ok (st, counters))"

definition handle_fee_auctions ::
  "'w cellarfees_keeper \<Rightarrow> ctx \<Rightarrow> 'w cellarfees_state \<Rightarrow> 'w cellarfees_state res" where
  "handle_fee_auctions k ctx st =
    bind_res (GetFeeAccrualCounters st) (\<lambda>counters.
    bind_res (rem_i64 (BlockHeight ctx) (AuctionInterval (cf_params st))) (\<lambda>modulus.
    bind_res (fold_res (auction_counter k ctx modulus) counters (st, counters)) (\<lambda>(st1, counters1).
    Ok (SetFeeAccrualCounters st1 counters1))))"

definition handle_reward_emissions ::
  "'w cellarfees_keeper \<Rightarrow> 'w cellarfees_state \<Rightarrow> 'w cellarfees_state res" where
  "handle_reward_emissions k st =
    bind_res (GetFeesAccount k) (\<lambda>moduleAccount.
    let remainingRewardsSupply = ck_GetBalance k (cf_world st) moduleAccount BaseCoinUnit
    in if remainingRewardsSupply = 0 then Ok st
    else bind_res (GetEmission k st remainingRewardsSupply) (\<lambda>(st1, emission).
      bind_res (panic_on_err (ck_SendCoinsFromModuleToModule k (cf_world st1) cellarfees_ModuleName
          FeeCollectorName emission)) (\<lambda>w.
      Ok (st1\<lparr>cf_world := w\<rparr>))))"

definition cellarfees_BeginBlocker ::
  "'w cellarfees_keeper \<Rightarrow> ctx \<Rightarrow> 'w cellarfees_state \<Rightarrow> 'w cellarfees_state res" where
  "cellarfees_BeginBlocker k ctx st =
    bind_res (handle_fee_auctions k ctx st) (handle_reward_emissions k)"

definition cellarfees_EndBlocker :: "'w cellarfees_state \<Rightarrow> 'w cellarfees_state" where
  "cellarfees_EndBlocker st = st"

section \<open>Bridge hooks\<close>

record send_to_cosmos_event =
  ev_CosmosReceiver :: string
  ev_Amount :: int
  ev_EthereumSender :: string
  ev_TokenContract :: string

definition cellarfees_emit :: "event \<Rightarrow> 'w cellarfees_state \<Rightarrow> 'w cellarfees_state" where
  "cellarfees_emit e st = st\<lparr>cf_events := cf_events st @ [e]\<rparr>"

definition AfterSendToCosmosEvent ::
  "'w cellarfees_keeper \<Rightarrow> send_to_cosmos_event \<Rightarrow> 'w cellarfees_state \<Rightarrow> 'w cellarfees_state res" where
  "AfterSendToCosmosEvent k event st =
    bind_res (GetFeesAccount k) (\<lambda>moduleAccountAddress.
    if ev_CosmosReceiver event \<noteq> AccAddress_String (ck_sdk k) moduleAccountAddress then Ok st
    else if ev_Amount event = 0 then Ok st
    else if \<not> ck_HasCellarID k (cf_world st) (HexToAddress (ck_eth k) (ev_EthereumSender event)) then Ok st
    else
    let (_, denom) = ck_ERC20ToDenomLookup k (cf_world st) (HexToAddress (ck_eth k) (ev_TokenContract event))
    in if denom = BaseCoinUnit then Ok st
    else bind_res (GetFeeAccrualCounters st) (\<lambda>counters.
      let (counters1, n) = IncrementCounter counters denom
      in Ok (cellarfees_emit (''fee_accrual'',
           [(''cellar'', AttrS (ev_EthereumSender event)), (''token_contract'', AttrS (ev_TokenContract event)),
            (''denom'', AttrS denom), (''amount'', AttrI (ev_Amount event)), (''count'', AttrU n)])
         (SetFeeAccrualCounters st counters1))))"

section \<open>Genesis, messages and queries\<close>

definition cellarfees_InitGenesis ::
  "'w cellarfees_keeper \<Rightarrow> 'w cellarfees_state \<Rightarrow> cellarfees_genesis \<Rightarrow> 'w cellarfees_state res" where
  "cellarfees_InitGenesis k st gs =
    bind_res (cellarfees_SetParams st (cg_Params gs)) (\<lambda>st1.
    let st2 = SetFeeAccrualCounters st1 (case cg_FeeAccrualCounters gs of None \<Rightarrow> [] | Some cs \<Rightarrow> cs);
        st3 = SetLastRewardSupplyPeak st2 (cg_LastRewardSupplyPeak gs)
    in if ck_GetModuleAccount k cellarfees_ModuleName = None then Panic ''module account has not been set''
       else Ok st3)"

definition cellarfees_ExportGenesis :: "'w cellarfees_state \<Rightarrow> cellarfees_genesis res" where
  "cellarfees_ExportGenesis st =
    bind_res (GetFeeAccrualCounters st) (\<lambda>cs.
    bind_res (GetLastRewardSupplyPeak st) (\<lambda>peak.
    Ok \<lparr>cg_Params = cf_params st, cg_FeeAccrualCounters = Some cs, cg_LastRewardSupplyPeak = peak\<rparr>))"

text \<open>The module has no messages: its handler refuses whatever it is sent.\<close>

definition cellarfees_NewHandler :: "'w cellarfees_state \<Rightarrow> 'm \<Rightarrow> 'w cellarfees_state res" where
  "cellarfees_NewHandler st msg = Err (Wrapped ErrUnknownRequest)"

text \<open>Queries; \<open>None\<close> is a nil request.\<close>

definition cellarfees_QueryParams :: "'w cellarfees_state \<Rightarrow> unit option \<Rightarrow> cellarfees_params res" where
  "cellarfees_QueryParams st req = (if req = None then Err (Errorf ''InvalidArgument'') else Ok (cf_params st))"

definition cellarfees_QueryModuleAccounts :: "'w cellarfees_keeper \<Rightarrow> unit option \<Rightarrow> string res" where
  "cellarfees_QueryModuleAccounts k req =
    (if req = None then Err (Errorf ''InvalidArgument'')
     else bind_res (GetFeesAccount k) (\<lambda>a. Ok (AccAddress_String (ck_sdk k) a)))"

definition QueryLastRewardSupplyPeak :: "'w cellarfees_state \<Rightarrow> unit option \<Rightarrow> int res" where
  "QueryLastRewardSupplyPeak st req =
    (if req = None then Err (Errorf ''InvalidArgument'') else GetLastRewardSupplyPeak st)"

definition QueryFeeAccrualCounters :: "'w cellarfees_state \<Rightarrow> unit option \<Rightarrow> fee_accrual_counters res" where
  "QueryFeeAccrualCounters st req =
    (if req = None then Err (Errorf ''InvalidArgument'') else GetFeeAccrualCounters st)"

definition cellarfees_QueryAPY :: "'w cellarfees_keeper \<Rightarrow> 'w cellarfees_state \<Rightarrow> string res" where
  "cellarfees_QueryAPY k st =
    bind_res (cellarfees_GetAPY k st) (\<lambda>(_, apy). Ok (Dec_String (ck_sdk k) apy))"

end
