(* ===== verification/Cellarfees_Safety.thy ===== *)
theory Cellarfees_Safety
  imports Cellarfees_Keeper
begin

text \<open>
  What the cellarfees module guarantees under the laws of the modules it calls. The emission of
  rewards refines an abstract machine on the pair of the last supply peak and the remaining supply;
  the counters stay sorted, without duplicates and without the base coin; a block returns. The
  locale \<open>fee_env\<close> is the interface to the bank and to the auction module; its predicate
  \<open>saleable n w d\<close> says that in world \<open>w\<close> an auction of \<open>d\<close> cannot panic, also after up to \<open>n - 1\<close> others
  were started, and \<open>winv\<close> is the invariant of the other modules.
\<close>

section \<open>The abstract emission machine\<close>

text \<open>
  The state is the last peak of the supply and the remaining supply. A block emits the period's
  share of the larger of the two: at least one unit, at most what remains; the last share resets the
  peak.
\<close>

definition emission_base :: "int \<times> int \<Rightarrow> int" where
  "emission_base = (\<lambda>(peak, amt). max peak amt)"

definition emission_share :: "int \<Rightarrow> int \<times> int \<Rightarrow> int" where
  "emission_share period s =
    (let share = emission_base s div period in if share = 0 then 1 else min share (snd s))"

definition emission_step :: "int \<Rightarrow> int \<times> int \<Rightarrow> int \<times> int" where
  "emission_step period s =
    (if snd s = 0 then s
     else (if emission_base s div period \<noteq> 0 \<and> snd s \<le> emission_base s div period then 0 else emission_base s,
           snd s - emission_share period s))"

lemma emission_share_bounds:
  assumes "0 < period" "0 < snd s"
  shows "1 \<le> emission_share period s \<and> emission_share period s \<le> snd s"
proof -
  have "0 \<le> emission_base s div period"
    using assms by (cases s) (simp add: emission_base_def pos_imp_zdiv_nonneg_iff)
  with assms show ?thesis by (auto simp: emission_share_def Let_def)
qed

text \<open>While the supply lasts, the peak stays and each block removes the same share of it.\<close>

lemma emission_step_constant:
  assumes "0 < period" "0 < amt" "amt \<le> peak"
  shows "emission_step period (peak, amt) =
    (let e = max 1 (peak div period)
     in if e < amt \<or> peak < period then (peak, amt - e) else (0, 0))"
proof (cases "peak < period")
  case True
  with assms have "peak div period = 0" by (simp add: div_pos_pos_trivial)
  with True assms show ?thesis by (simp add: emission_step_def emission_share_def emission_base_def)
next
  case False
  with assms have "1 \<le> peak div period" by (simp add: int_one_le_iff_zero_less pos_imp_zdiv_pos_iff)
  with False assms show ?thesis
    by (auto simp: emission_step_def emission_share_def emission_base_def Let_def max_def)
qed

lemma emission_run_constant:
  assumes "0 < period" "0 \<le> amt" "amt \<le> peak" "e = max 1 (peak div period)"
  shows "snd ((emission_step period ^^ n) (peak, amt)) = max 0 (amt - int n * e)"
  using assms(2,3)
proof (induction n arbitrary: amt)
  case (Suc n)
  have e: "1 \<le> e" using assms by simp
  show ?case
  proof (cases "0 < amt")
    case False
    with Suc.prems have "amt = 0" by simp
    moreover have "(emission_step period ^^ m) (p, 0) = (p, 0)" for m p
      by (induction m) (simp_all add: emission_step_def)
    ultimately show ?thesis using e by (simp add: max_def not_le del: funpow.simps)
  next
    case True
    have zero: "(emission_step period ^^ m) (p, 0) = (p, 0)" for m p
      by (induction m) (simp_all add: emission_step_def)
    from emission_step_constant [OF assms(1) True Suc.prems(2)] have step:
      "emission_step period (peak, amt) = (if e < amt \<or> peak < period then (peak, amt - e) else (0, 0))"
      by (simp add: Let_def assms(4))
    have suc: "int (Suc n) * e = e + int n * e" by (simp add: distrib_right)
    have nn: "0 \<le> int n * e" using e by simp
    show ?thesis
    proof (cases "e < amt \<or> peak < period")
      case True
      moreover have "e = 1" if "peak < period"
        using that assms \<open>0 < amt\<close> Suc.prems by (simp add: div_pos_pos_trivial)
      ultimately have "0 \<le> amt - e" "amt - e \<le> peak" using \<open>0 < amt\<close> Suc.prems e by auto
      with Suc.IH True show ?thesis by (simp only: funpow_Suc_right o_apply step if_True suc)
    next
      case False
      then have "max 0 (amt - (e + int n * e)) = 0" using nn by linarith
      with False show ?thesis by (simp only: funpow_Suc_right o_apply step if_False suc zero snd_conv)
    qed
  qed
qed simp

text \<open>The supply is spent after at most two periods.\<close>

lemma two_shares: "0 < (q :: int) \<Longrightarrow> 0 \<le> p \<Longrightarrow> p \<le> 2 * q * max 1 (p div q)"
proof -
  assume *: "0 < q" "0 \<le> p"
  have "p mod q < q" using * by simp
  moreover have "p = q * (p div q) + p mod q" by simp
  moreover have "q \<le> q * max 1 (p div q)" using * by (simp add: mult_le_cancel_left1)
  moreover have "q * (p div q) \<le> q * max 1 (p div q)" using * by (intro mult_left_mono) simp_all
  ultimately show ?thesis by linarith
qed

lemma emission_exhausted:
  assumes "0 < period" "0 \<le> amt" "amt \<le> peak"
  shows "snd ((emission_step period ^^ nat (2 * period)) (peak, amt)) = 0"
  using emission_run_constant [OF assms refl, of "nat (2 * period)"] two_shares [OF assms(1), of peak] assms
  by simp

lemma emission_first_step:
  assumes "0 < period" "0 \<le> peak" "0 \<le> amt" "emission_step period (peak, amt) = (peak', amt')"
  shows "0 \<le> amt' \<and> amt' \<le> amt \<and> (amt' \<le> peak' \<or> amt' = 0)"
  using emission_share_bounds [OF assms(1), of "(peak, amt)"] assms
  by (cases "amt = 0") (auto simp: emission_step_def emission_base_def emission_share_def Let_def split: if_splits)

lemma emission_zero [simp]: "(emission_step period ^^ n) (p, 0) = (p, 0)"
  by (induction n) (simp_all add: emission_step_def)

text \<open>From any state the first step restores \<open>amt \<le> peak\<close>, so one block more is always enough.\<close>

lemma emission_all_spent:
  assumes "0 < period" "0 \<le> peak" "0 \<le> amt"
  shows "snd ((emission_step period ^^ Suc (nat (2 * period))) (peak, amt)) = 0"
proof -
  obtain p a where step: "emission_step period (peak, amt) = (p, a)" by fastforce
  then consider "a \<le> p" "0 \<le> a" | "a = 0" using emission_first_step [OF assms step] by auto
  then show ?thesis
    by cases (simp_all add: funpow_Suc_right step emission_exhausted [OF assms(1)] del: funpow.simps)
qed

section \<open>The invariant\<close>

definition cellarfees_params_ok :: "cellarfees_params \<Rightarrow> bool" where
  "cellarfees_params_ok p \<longleftrightarrow> FeeAccrualAuctionThreshold p \<noteq> 0 \<and> RewardEmissionPeriod p \<noteq> 0 \<and>
    PriceDecreaseBlockInterval p \<noteq> 0 \<and> AuctionInterval p \<noteq> 0"

definition cellarfees_inv :: "'w cellarfees_state \<Rightarrow> bool" where
  "cellarfees_inv st \<longleftrightarrow> cellarfees_params_ok (cf_params st) \<and> cf_peak st \<noteq> None \<and>
    (case cf_counters st of None \<Rightarrow> False
     | Some cs \<Rightarrow> counters_ok cs \<and> BaseCoinUnit \<notin> set (map fc_Denom cs))"

lemma cellarfees_inv_counters:
  assumes "cellarfees_inv st"
  obtains cs where "cf_counters st = Some cs" "GetFeeAccrualCounters st = Ok cs" "counters_ok cs"
    "BaseCoinUnit \<notin> fc_Denom ` set cs"
  using assms by (auto simp: cellarfees_inv_def GetFeeAccrualCounters_def DefaultFeeAccrualCounters_def
      split: option.splits)

lemma cellarfees_inv_peak:
  assumes "cellarfees_inv st"
  obtains peak where "GetLastRewardSupplyPeak st = Ok peak" "0 \<le> peak"
  using assms by (auto simp: cellarfees_inv_def GetLastRewardSupplyPeak_def big_SetBytes_def)

lemma counter_map_mem: "counters_ok cs \<Longrightarrow> c \<in> set cs \<Longrightarrow> counter_map cs (fc_Denom c) = Some (fc_Count c)"
  by (auto simp: counter_map_def counters_ok_iff comp_def intro!: map_of_is_SomeI)

lemma dom_counter_map: "dom (counter_map cs) = fc_Denom ` set cs"
  by (simp add: counter_map_def dom_map_of_conv_image_fst image_comp)

section \<open>The environment\<close>

definition rate_ok :: "dec \<Rightarrow> bool" where
  "rate_ok r \<longleftrightarrow> 0 < r \<and> r < dec_one"

text \<open>The emissions of a number of consecutive blocks.\<close>

fun emission_blocks :: "'w cellarfees_keeper \<Rightarrow> nat \<Rightarrow> 'w cellarfees_state \<Rightarrow> 'w cellarfees_state res" where
  "emission_blocks k 0 st = Ok st"
| "emission_blocks k (Suc n) st = bind_res (handle_reward_emissions k st) (emission_blocks k n)"

text \<open>The remaining reward supply: the base coins of the module account.\<close>

definition reward_supply :: "'w cellarfees_keeper \<Rightarrow> addr \<Rightarrow> 'w cellarfees_state \<Rightarrow> int" where
  "reward_supply k acc st = ck_GetBalance k (cf_world st) acc BaseCoinUnit"

locale fee_env =
  fixes k :: "'w cellarfees_keeper"
    and acc :: addr
    and winv :: "'w \<Rightarrow> bool"
    and saleable :: "nat \<Rightarrow> 'w \<Rightarrow> string \<Rightarrow> bool"
  assumes fees_account: "ck_GetModuleAccount k cellarfees_ModuleName = Some acc"
    and base_denom_valid: "ValidateDenom (ck_sdk k) BaseCoinUnit"
    and fee_balance_nonneg: "0 \<le> ck_GetBalance k w a d"
    and send_emission: "winv w \<Longrightarrow> 0 < v \<Longrightarrow> v \<le> ck_GetBalance k w acc BaseCoinUnit \<Longrightarrow>
      \<exists>w'. ck_SendCoinsFromModuleToModule k w cellarfees_ModuleName FeeCollectorName [mk_coin BaseCoinUnit v] = Ok w' \<and>
        winv w' \<and> (\<forall>d. ck_GetBalance k w' acc d = ck_GetBalance k w acc d - (if d = BaseCoinUnit then v else 0)) \<and>
        ck_GetActiveAuctions k w' = ck_GetActiveAuctions k w"
    and begin_winv: "winv w \<Longrightarrow>
      ck_BeginAuction k ctx w c r i cellarfees_ModuleName cellarfees_ModuleName = Ok w' \<Longrightarrow> winv w'"
    and begin_balance: "ck_BeginAuction k ctx w c r i cellarfees_ModuleName cellarfees_ModuleName = Ok w' \<Longrightarrow>
      ck_GetBalance k w' acc d = ck_GetBalance k w acc d - (if d = cDenom c then cAmount c else 0)"
    and begin_active: "winv w \<Longrightarrow>
      ck_BeginAuction k ctx w c r i cellarfees_ModuleName cellarfees_ModuleName = Ok w' \<Longrightarrow>
      cDenom ` a_StartingTokensForSale ` set (ck_GetActiveAuctions k w')
        = insert (cDenom c) (cDenom ` a_StartingTokensForSale ` set (ck_GetActiveAuctions k w))"
    and begin_returns: "winv w \<Longrightarrow> saleable (Suc n) w (cDenom c) \<Longrightarrow> rate_ok r \<Longrightarrow> i \<noteq> 0 \<Longrightarrow> BlockHeight ctx \<noteq> 0 \<Longrightarrow>
      cDenom c \<noteq> BaseCoinUnit \<Longrightarrow> 0 < cAmount c \<Longrightarrow> cAmount c \<le> ck_GetBalance k w acc (cDenom c) \<Longrightarrow>
      (\<exists>w'. ck_BeginAuction k ctx w c r i cellarfees_ModuleName cellarfees_ModuleName = Ok w') \<or>
      (\<exists>e. ck_BeginAuction k ctx w c r i cellarfees_ModuleName cellarfees_ModuleName = Err (Wrapped e))"
    and begin_saleable: "ck_BeginAuction k ctx w c r i cellarfees_ModuleName cellarfees_ModuleName = Ok w' \<Longrightarrow>
      saleable (Suc n) w d \<Longrightarrow> saleable n w' d"
    and saleable_mono: "saleable (Suc n) w d \<Longrightarrow> saleable n w d"
begin

lemma GetFeesAccount_eq [simp]: "GetFeesAccount k = Ok acc"
  by (simp add: GetFeesAccount_def fees_account)

lemma reward_supply_nonneg: "0 \<le> reward_supply k acc st"
  by (simp add: reward_supply_def fee_balance_nonneg)

lemma sdiv_pos: "0 \<le> (a :: int) \<Longrightarrow> 0 < b \<Longrightarrow> a sdiv b = a div b"
  by (simp add: signed_divide_int_def sgn_if)

text \<open>An emission is the share of the abstract machine, and its effect on the peak is that of the machine.\<close>

lemma GetEmission_refines:
  assumes "GetLastRewardSupplyPeak st = Ok peak" "0 \<le> peak" "0 < amt"
    "0 < sint (RewardEmissionPeriod (cf_params st))"
  defines "q \<equiv> sint (RewardEmissionPeriod (cf_params st))"
  shows "\<exists>b. GetEmission k st amt =
      Ok (st\<lparr>cf_peak := Some b\<rparr>, [mk_coin BaseCoinUnit (emission_share q (peak, amt))]) \<and>
    big_SetBytes b = fst (emission_step q (peak, amt))"
proof -
  obtain b where b: "cf_peak st = Some b" "big_SetBytes b = peak"
    using assms(1) by (auto simp: GetLastRewardSupplyPeak_def split: option.splits)
  then have stay: "st\<lparr>cf_peak := Some b\<rparr> = st" by simp
  let ?s = "(peak, amt)"
  have share: "1 \<le> emission_share q ?s" "emission_share q ?s \<le> amt"
    using emission_share_bounds [of q ?s] assms by simp_all
  have coin: "NewCoin (ck_sdk k) BaseCoinUnit n = Ok (mk_coin BaseCoinUnit n)"
    "NewCoins (ck_sdk k) (mk_coin BaseCoinUnit n) = Ok [mk_coin BaseCoinUnit n]" if "1 \<le> n" for n
    using that base_denom_valid by (simp_all add: NewCoin_def NewCoins_def Coin_IsValid_def)
  have q: "0 < q" using assms by simp
  have base: "emission_base ?s = (if amt > peak then amt else peak)"
    by (simp add: emission_base_def max_def)
  have div: "Int_Quo (emission_base ?s) q = Ok (emission_base ?s div q)"
    using assms by (simp add: Int_Quo_def sdiv_pos emission_base_def)
  have pos: "0 \<le> emission_base ?s div q" using assms by (simp add: emission_base_def pos_imp_zdiv_nonneg_iff)
  let ?b = "if emission_base ?s div q \<noteq> 0 \<and> amt \<le> emission_base ?s div q then big_Bytes 0
    else if amt > peak then big_Bytes amt else b"
  have "big_SetBytes ?b = fst (emission_step q ?s)"
    using b assms(3) by (simp add: emission_step_def base)
  moreover have "GetEmission k st amt = Ok (st\<lparr>cf_peak := Some ?b\<rparr>, [mk_coin BaseCoinUnit (emission_share q ?s)])"
    using div pos share assms(3) stay base
    by (cases "amt > peak")
      (simp_all add: GetEmission_def assms(1) q_def [symmetric] SetLastRewardSupplyPeak_def Let_def
        emission_share_def coin min_def)
  ultimately show ?thesis by blast
qed

section \<open>Fee auctions\<close>

abbreviation on_sale :: "'w \<Rightarrow> string set" where
  "on_sale w \<equiv> cDenom ` a_StartingTokensForSale ` set (ck_GetActiveAuctions k w)"

text \<open>An attempt to start an auction returns; a started auction takes the whole balance.\<close>

lemma cellarfees_beginAuction_total:
  assumes "winv (cf_world st)" "saleable (Suc n) (cf_world st) d" "rate_ok (InitialPriceDecreaseRate (cf_params st))"
    "PriceDecreaseBlockInterval (cf_params st) \<noteq> 0" "BlockHeight ctx \<noteq> 0" "d \<noteq> BaseCoinUnit"
  shows "\<exists>w started. cellarfees_beginAuction k ctx st d = Ok (st\<lparr>cf_world := w\<rparr>, started) \<and>
    winv w \<and> (if started then on_sale w = insert d (on_sale (cf_world st)) \<and>
       (\<forall>d'. ck_GetBalance k w acc d' = (if d' = d then 0 else ck_GetBalance k (cf_world st) acc d')) \<and>
       (\<forall>n d'. saleable (Suc n) (cf_world st) d' \<longrightarrow> saleable n w d')
     else w = cf_world st)"
proof -
  let ?w = "cf_world st" and ?p = "cf_params st"
  let ?amt = "ck_GetBalance k ?w acc d"
  let ?b = "ck_BeginAuction k ctx ?w (mk_coin d ?amt) (InitialPriceDecreaseRate ?p)
    (PriceDecreaseBlockInterval ?p) cellarfees_ModuleName cellarfees_ModuleName"
  show ?thesis
  proof (cases "d \<in> on_sale ?w \<or> ?amt = 0")
    case True
    then have "cellarfees_beginAuction k ctx st d = Ok (st\<lparr>cf_world := ?w\<rparr>, False)"
      by (auto simp: cellarfees_beginAuction_def list_ex_iff)
    then show ?thesis using assms by (intro exI [of _ ?w] exI [of _ False]) simp
  next
    case False
    have "(\<exists>w. ?b = Ok w) \<or> (\<exists>e. ?b = Err (Wrapped e))"
      using False assms fee_balance_nonneg [of ?w acc d] by (intro begin_returns) simp_all
    then consider w where "?b = Ok w" | e where "?b = Err (Wrapped e)" by blast
    then show ?thesis
    proof cases
      case 1
      then have "cellarfees_beginAuction k ctx st d = Ok (st\<lparr>cf_world := w\<rparr>, True)"
        using False by (auto simp: cellarfees_beginAuction_def list_ex_iff)
      then show ?thesis
        using begin_balance [OF 1] begin_active [OF _ 1] begin_winv [OF _ 1] begin_saleable [OF 1] assms(1)
        by (intro exI [of _ w] exI [of _ True]) simp
    next
      case 2
      then have "cellarfees_beginAuction k ctx st d = Ok (st\<lparr>cf_world := ?w\<rparr>, False)"
        using False by (auto simp: cellarfees_beginAuction_def list_ex_iff)
      then show ?thesis using assms(1) by (intro exI [of _ ?w] exI [of _ False]) simp
    qed
  qed
qed

text \<open>
  What the loop over the counters has done when it reaches the elements still to be visited: a
  counter was left alone, or its denomination went on sale, with the whole balance.
\<close>

definition auctioned :: "'w cellarfees_state \<Rightarrow> bool \<Rightarrow> 'w cellarfees_state \<times> fee_accrual_counters \<Rightarrow> string \<Rightarrow> bool" where
  "auctioned st due r d \<longleftrightarrow> (let cs = ok_val (GetFeeAccrualCounters st); w = cf_world (fst r) in
    counter_map (snd r) d = counter_map cs d \<or>
    due \<and> counter_map (snd r) d = Some 0 \<and> d \<in> on_sale w \<and> ck_GetBalance k w acc d = 0 \<and>
    (\<exists>n. counter_map cs d = Some n \<and> FeeAccrualAuctionThreshold (cf_params st) \<le> n))"

definition loop_inv :: "'w cellarfees_state \<Rightarrow> bool \<Rightarrow> fee_accrual_counters \<Rightarrow>
    'w cellarfees_state \<times> fee_accrual_counters \<Rightarrow> bool" where
  "loop_inv st due rest r \<longleftrightarrow> (let cs = ok_val (GetFeeAccrualCounters st) in
    set rest \<subseteq> set cs \<and> (\<exists>w. winv w \<and> fst r = st\<lparr>cf_world := w\<rparr>) \<and> counters_ok (snd r) \<and>
    dom (counter_map (snd r)) = dom (counter_map cs) \<and> reward_supply k acc (fst r) = reward_supply k acc st \<and>
    (\<forall>d. auctioned st due r d) \<and> (\<forall>c \<in> set cs. saleable (length rest) (cf_world (fst r)) (fc_Denom c)))"

lemma auction_counter_step:
  assumes inv: "cellarfees_inv st" and rate: "rate_ok (InitialPriceDecreaseRate (cf_params st))"
    and height: "BlockHeight ctx \<noteq> 0" and loop: "loop_inv st (modulus = 0) (c # rest) r"
  shows "\<exists>r'. auction_counter k ctx modulus c r = Ok r' \<and> loop_inv st (modulus = 0) rest r'"
proof -
  obtain cs where cs: "GetFeeAccrualCounters st = Ok cs" "counters_ok cs" "BaseCoinUnit \<notin> fc_Denom ` set cs"
    using cellarfees_inv_counters [OF inv] .
  obtain v ctrs where r: "r = (st\<lparr>cf_world := v\<rparr>, ctrs)" and v: "winv v"
    using loop by (cases r) (auto simp: loop_inv_def Let_def)
  have c: "c \<in> set cs" "saleable (Suc (length rest)) v (fc_Denom c)" "counters_ok ctrs"
    "fc_Denom c \<in> dom (counter_map ctrs)"
    using loop cs by (auto simp: loop_inv_def r dom_counter_map)
  have base: "fc_Denom c \<noteq> BaseCoinUnit" using c(1) cs(3) by (metis imageI)
  show ?thesis
  proof (cases "FeeAccrualAuctionThreshold (cf_params st) \<le> fc_Count c \<and> modulus = 0")
    case False
    then have "auction_counter k ctx modulus c r = Ok r" by (auto simp: auction_counter_def r)
    moreover have "loop_inv st (modulus = 0) rest r"
      using loop saleable_mono by (auto simp: loop_inv_def Let_def)
    ultimately show ?thesis by blast
  next
    case True
    obtain w started where step: "cellarfees_beginAuction k ctx (st\<lparr>cf_world := v\<rparr>) (fc_Denom c)
        = Ok (st\<lparr>cf_world := w\<rparr>, started)"
      and w: "winv w" and eff: "if started then on_sale w = insert (fc_Denom c) (on_sale v) \<and>
         (\<forall>d'. ck_GetBalance k w acc d' = (if d' = fc_Denom c then 0 else ck_GetBalance k v acc d')) \<and>
         (\<forall>n d'. saleable (Suc n) v d' \<longrightarrow> saleable n w d')
       else w = v"
      using cellarfees_beginAuction_total [of "st\<lparr>cf_world := v\<rparr>" "length rest" "fc_Denom c" ctx] c v base inv rate height
      by (auto simp: cellarfees_inv_def cellarfees_params_ok_def)
    let ?r = "(st\<lparr>cf_world := w\<rparr>, if started then ResetCounter ctrs (fc_Denom c) else ctrs)"
    have "auction_counter k ctx modulus c r = Ok ?r" using True step by (simp add: auction_counter_def r)
    moreover have "loop_inv st (modulus = 0) rest ?r"
    proof (cases started)
      case False
      with eff loop saleable_mono show ?thesis by (auto simp: loop_inv_def Let_def r)
    next
      case started: True
      have "auctioned st (modulus = 0) ?r d" for d
        using loop eff True started cs counter_map_mem [OF cs(2) c(1)]
        by (cases "d = fc_Denom c") (auto simp: loop_inv_def auctioned_def r Let_def fc.abs_reset [OF c(3)])
      moreover have "dom (counter_map (snd ?r)) = dom (counter_map cs)"
        using loop started c by (auto simp: loop_inv_def r Let_def cs fc.abs_reset [OF c(3)])
      ultimately show ?thesis
        using loop eff started c base w
        by (simp add: loop_inv_def Let_def r cs fc.reset_ok reward_supply_def) (rule exI [of _ w], simp)
    qed
    ultimately show ?thesis by blast
  qed
qed

lemma handle_fee_auctions_total:
  assumes inv: "cellarfees_inv st" and rate: "rate_ok (InitialPriceDecreaseRate (cf_params st))"
    and height: "BlockHeight ctx \<noteq> 0" and cs: "cf_counters st = Some cs"
    and sale: "\<forall>c \<in> set cs. saleable (length cs) (cf_world st) (fc_Denom c)" and world: "winv (cf_world st)"
  shows "\<exists>w cs'. handle_fee_auctions k ctx st = Ok (st\<lparr>cf_world := w, cf_counters := Some cs'\<rparr>) \<and> winv w \<and>
    counters_ok cs' \<and> fc_Denom ` set cs' = fc_Denom ` set cs \<and>
    ck_GetBalance k w acc BaseCoinUnit = reward_supply k acc st \<and>
    (\<forall>d. counter_map cs' d = counter_map cs d \<or>
      rem_i64 (BlockHeight ctx) (AuctionInterval (cf_params st)) = Ok 0 \<and>
      counter_map cs' d = Some 0 \<and> d \<in> on_sale w \<and> ck_GetBalance k w acc d = 0 \<and>
      (\<exists>n. counter_map cs d = Some n \<and> FeeAccrualAuctionThreshold (cf_params st) \<le> n))"
proof -
  obtain modulus where m: "rem_i64 (BlockHeight ctx) (AuctionInterval (cf_params st)) = Ok modulus"
    using inv rem_i64_total by (auto simp: cellarfees_inv_def cellarfees_params_ok_def)
  have get: "GetFeeAccrualCounters st = Ok cs" "counters_ok cs"
    using cellarfees_inv_counters [OF inv] cs by auto
  have "loop_inv st (modulus = 0) cs (st, cs)"
    using sale get world by (auto simp: loop_inv_def auctioned_def intro: exI [of _ "cf_world st"])
  then obtain r where r: "fold_res (auction_counter k ctx modulus) cs (st, cs) = Ok r" "loop_inv st (modulus = 0) [] r"
    using fold_res_total [where I = "loop_inv st (modulus = 0)" and f = "auction_counter k ctx modulus"]
      auction_counter_step [OF inv rate height, of modulus] by meson
  then obtain w cs' where r': "r = (st\<lparr>cf_world := w\<rparr>, cs')" and w: "winv w"
    by (cases r) (auto simp: loop_inv_def Let_def)
  have "handle_fee_auctions k ctx st = Ok (st\<lparr>cf_world := w, cf_counters := Some cs'\<rparr>)"
    by (simp add: handle_fee_auctions_def get m r r' SetFeeAccrualCounters_def)
  moreover have "dom (counter_map cs') = dom (counter_map cs)"
    using r(2) get by (auto simp: loop_inv_def r' Let_def)
  ultimately show ?thesis
    using r(2) get m w
    by (intro exI [of _ w] exI [of _ cs'])
      (simp add: loop_inv_def r' auctioned_def Let_def reward_supply_def dom_counter_map)
qed

section \<open>Reward emissions\<close>

lemma handle_reward_emissions_refines:
  assumes "GetLastRewardSupplyPeak st = Ok peak" "0 \<le> peak"
    "0 < sint (RewardEmissionPeriod (cf_params st))" and world: "winv (cf_world st)"
  shows "\<exists>w b. handle_reward_emissions k st = Ok (st\<lparr>cf_world := w, cf_peak := Some b\<rparr>) \<and> winv w \<and>
    ck_GetActiveAuctions k w = ck_GetActiveAuctions k (cf_world st) \<and>
    (\<forall>d. d \<noteq> BaseCoinUnit \<longrightarrow> ck_GetBalance k w acc d = ck_GetBalance k (cf_world st) acc d) \<and>
    (big_SetBytes b, ck_GetBalance k w acc BaseCoinUnit)
      = emission_step (sint (RewardEmissionPeriod (cf_params st))) (peak, reward_supply k acc st)"
proof (cases "reward_supply k acc st = 0")
  case True
  obtain b where "cf_peak st = Some b" "big_SetBytes b = peak"
    using assms(1) by (auto simp: GetLastRewardSupplyPeak_def split: option.splits)
  with True world show ?thesis
    by (intro exI [of _ "cf_world st"] exI [of _ b])
      (simp add: handle_reward_emissions_def reward_supply_def emission_step_def)
next
  case False
  then have pos: "0 < reward_supply k acc st" using reward_supply_nonneg [of st] by simp
  let ?q = "sint (RewardEmissionPeriod (cf_params st))" and ?s = "(peak, reward_supply k acc st)"
  obtain b where b: "GetEmission k st (reward_supply k acc st) =
      Ok (st\<lparr>cf_peak := Some b\<rparr>, [mk_coin BaseCoinUnit (emission_share ?q ?s)])"
    "big_SetBytes b = fst (emission_step ?q ?s)"
    using GetEmission_refines [OF assms(1,2) pos assms(3)] by blast
  have share: "0 < emission_share ?q ?s" "emission_share ?q ?s \<le> reward_supply k acc st"
    using emission_share_bounds [of ?q ?s] assms pos by simp_all
  with send_emission [OF world, of "emission_share ?q ?s"] obtain w where
    "ck_SendCoinsFromModuleToModule k (cf_world st) cellarfees_ModuleName FeeCollectorName
      [mk_coin BaseCoinUnit (emission_share ?q ?s)] = Ok w" "winv w"
    "ck_GetBalance k w acc BaseCoinUnit = reward_supply k acc st - emission_share ?q ?s"
    "ck_GetActiveAuctions k w = ck_GetActiveAuctions k (cf_world st)"
    "\<forall>d. d \<noteq> BaseCoinUnit \<longrightarrow> ck_GetBalance k w acc d = ck_GetBalance k (cf_world st) acc d"
    by (auto simp: reward_supply_def)
  with b False show ?thesis
    by (intro exI [of _ w] exI [of _ b])
      (simp add: handle_reward_emissions_def Let_def flip: reward_supply_def, simp add: emission_step_def)
qed

text \<open>The emissions of \<open>n\<close> blocks without income follow the machine.\<close>

lemma emission_blocks_refine:
  assumes "GetLastRewardSupplyPeak st = Ok peak" "0 < sint (RewardEmissionPeriod (cf_params st))" "winv (cf_world st)"
  shows "\<exists>st' peak'. emission_blocks k n st = Ok st' \<and> winv (cf_world st') \<and> cf_params st' = cf_params st \<and>
    cf_counters st' = cf_counters st \<and> GetLastRewardSupplyPeak st' = Ok peak' \<and> (peak', reward_supply k acc st') =
      (emission_step (sint (RewardEmissionPeriod (cf_params st))) ^^ n) (peak, reward_supply k acc st)"
  using assms
proof (induction n arbitrary: st peak)
  case (Suc n)
  have "0 \<le> peak" using Suc.prems(1) by (auto simp: GetLastRewardSupplyPeak_def big_SetBytes_def split: option.splits)
  from handle_reward_emissions_refines [OF Suc.prems(1) this Suc.prems(2,3)] obtain w b where
    step: "handle_reward_emissions k st = Ok (st\<lparr>cf_world := w, cf_peak := Some b\<rparr>)" "winv w"
      "(big_SetBytes b, ck_GetBalance k w acc BaseCoinUnit)
        = emission_step (sint (RewardEmissionPeriod (cf_params st))) (peak, reward_supply k acc st)" by blast
  let ?st = "st\<lparr>cf_world := w, cf_peak := Some b\<rparr>"
  have "GetLastRewardSupplyPeak ?st = Ok (big_SetBytes b)" by (simp add: GetLastRewardSupplyPeak_def)
  from Suc.IH [OF this] Suc.prems(2) step(2) step(3) [symmetric] show ?case
    by (simp add: step(1) funpow_Suc_right reward_supply_def del: funpow.simps)
qed simp

text \<open>The beginning of a block returns, and its emission is a step of the abstract machine.\<close>

lemma cellarfees_BeginBlocker_total:
  assumes inv: "cellarfees_inv st" and rate: "rate_ok (InitialPriceDecreaseRate (cf_params st))"
    and period: "0 < sint (RewardEmissionPeriod (cf_params st))" and height: "BlockHeight ctx \<noteq> 0"
    and cs: "cf_counters st = Some cs"
    and sale: "\<forall>c \<in> set cs. saleable (length cs) (cf_world st) (fc_Denom c)" and world: "winv (cf_world st)"
    and peak: "GetLastRewardSupplyPeak st = Ok peak"
  shows "\<exists>st' cs' peak'. cellarfees_BeginBlocker k ctx st = Ok st' \<and> cellarfees_inv st' \<and> winv (cf_world st') \<and>
    cf_params st' = cf_params st \<and> cf_counters st' = Some cs' \<and> GetLastRewardSupplyPeak st' = Ok peak' \<and>
    (peak', reward_supply k acc st') = emission_step (sint (RewardEmissionPeriod (cf_params st))) (peak, reward_supply k acc st) \<and>
    (\<forall>d. counter_map cs' d = counter_map cs d \<or>
      rem_i64 (BlockHeight ctx) (AuctionInterval (cf_params st)) = Ok 0 \<and> counter_map cs' d = Some 0 \<and>
      d \<in> on_sale (cf_world st') \<and> ck_GetBalance k (cf_world st') acc d = 0 \<and>
      (\<exists>n. counter_map cs d = Some n \<and> FeeAccrualAuctionThreshold (cf_params st) \<le> n))"
proof -
  obtain w cs' where fee: "handle_fee_auctions k ctx st = Ok (st\<lparr>cf_world := w, cf_counters := Some cs'\<rparr>)"
    "winv w" "counters_ok cs'" "fc_Denom ` set cs' = fc_Denom ` set cs"
    "ck_GetBalance k w acc BaseCoinUnit = reward_supply k acc st"
    "\<forall>d. counter_map cs' d = counter_map cs d \<or>
      rem_i64 (BlockHeight ctx) (AuctionInterval (cf_params st)) = Ok 0 \<and>
      counter_map cs' d = Some 0 \<and> d \<in> on_sale w \<and> ck_GetBalance k w acc d = 0 \<and>
      (\<exists>n. counter_map cs d = Some n \<and> FeeAccrualAuctionThreshold (cf_params st) \<le> n)"
    using handle_fee_auctions_total [OF inv rate height cs sale world] by blast
  let ?st = "st\<lparr>cf_world := w, cf_counters := Some cs'\<rparr>"
  have peak1: "GetLastRewardSupplyPeak ?st = Ok peak" using peak by (simp add: GetLastRewardSupplyPeak_def)
  have "0 \<le> peak" using cellarfees_inv_peak [OF inv] peak by auto
  with handle_reward_emissions_refines [OF peak1] period fee(2,5)
  obtain v b where "handle_reward_emissions k ?st = Ok (?st\<lparr>cf_world := v, cf_peak := Some b\<rparr>)" "winv v"
    "ck_GetActiveAuctions k v = ck_GetActiveAuctions k w" "\<forall>d. d \<noteq> BaseCoinUnit \<longrightarrow> ck_GetBalance k v acc d = ck_GetBalance k w acc d"
    "(big_SetBytes b, ck_GetBalance k v acc BaseCoinUnit)
      = emission_step (sint (RewardEmissionPeriod (cf_params st))) (peak, reward_supply k acc st)"
    by (auto simp: reward_supply_def)
  moreover have base: "BaseCoinUnit \<notin> fc_Denom ` set cs" using inv cs by (simp add: cellarfees_inv_def)
  moreover have "d \<noteq> BaseCoinUnit" if "counter_map cs d = Some n" for d n
    using that base counter_map_None [of cs d] by (metis option.distinct(1))
  ultimately show ?thesis
    using fee inv
    by (intro exI [of _ "?st\<lparr>cf_world := v, cf_peak := Some b\<rparr>"] exI [of _ cs'] exI [of _ "big_SetBytes b"])
      (auto simp: cellarfees_BeginBlocker_def cellarfees_inv_def GetLastRewardSupplyPeak_def reward_supply_def)
qed

end

end
