(* ===== verification/App_Wiring.thy ===== *)
theory App_Wiring
  imports Auction_Properties Cellarfees_Safety Incentives Axelarcork_Properties
begin

text \<open>
  How \<^verbatim>\<open>app/app.go\<close> puts the modules together. The keepers of auction, cellarfees and incentives are
  built over one world: the auction store with the balances of the bank, the cork store and the
  community pool. What comes from other repositories (bank, accounts, mint, bridge, decimal coins) is
  the record \<open>app_ext\<close>. The locale \<open>app_env\<close> collects the laws of those parts; its sublocales show
  that the wired keepers satisfy the interfaces \<open>auction_env\<close>, \<open>fee_env\<close> and \<open>incentives_env\<close> that the
  modules were verified against.
\<close>

section \<open>State and keepers\<close>

record 'b app_world =
  aw_auction :: "'b auction_state"
  aw_cork :: cork_state
  aw_pool :: dec_coins

record 'b app_ext =
  ext_sdk :: sdk
  ext_bank :: "'b bank_ops"
  ext_GetModuleAccount :: "string \<Rightarrow> addr option"
  ext_BlocksPerYear :: "'b \<Rightarrow> u64"
  ext_BondedRatio :: "'b \<Rightarrow> dec"
  ext_StakingTokenSupply :: "'b \<Rightarrow> int"
  ext_ERC20ToDenomLookup :: "addr \<Rightarrow> bool \<times> string"
  ext_SafeSub :: "dec_coins \<Rightarrow> dec_coins \<Rightarrow> dec_coins \<times> bool"
  ext_NewDecCoinsFromCoins :: "coin list \<Rightarrow> dec_coins"

abbreviation aw_bank :: "'b app_world \<Rightarrow> 'b" where
  "aw_bank w \<equiv> st_bank (aw_auction w)"

definition aw_set_bank :: "'b app_world \<Rightarrow> 'b \<Rightarrow> 'b app_world" where
  "aw_set_bank w b = w\<lparr>aw_auction := (aw_auction w)\<lparr>st_bank := b\<rparr>\<rparr>"

definition aw_send :: "'b app_ext \<Rightarrow> 'b app_world \<Rightarrow> string \<Rightarrow> string \<Rightarrow> coin list \<Rightarrow> 'b app_world res" where
  "aw_send e w m n cs =
    bind_res (SendCoinsFromModuleToModule (ext_bank e) (aw_bank w) m n cs) (\<lambda>b. Ok (aw_set_bank w b))"

definition app_AuctionKeeper :: "'b app_ext \<Rightarrow> 'b auction_keeper" where
  "app_AuctionKeeper e = \<lparr>ak_sdk = ext_sdk e, ak_bank = ext_bank e, ak_GetModuleAccount = ext_GetModuleAccount e,
     fundingModuleAccounts = [cellarfees_ModuleName \<mapsto> True],
     proceedsModuleAccounts = [cellarfees_ModuleName \<mapsto> True]\<rparr>"

definition app_CellarFeesKeeper :: "'b app_ext \<Rightarrow> cork_keeper \<Rightarrow> 'b app_world cellarfees_keeper" where
  "app_CellarFeesKeeper e corkKeeper = \<lparr>ck_sdk = ext_sdk e, ck_eth = ok_eth corkKeeper,
     ck_GetModuleAccount = ext_GetModuleAccount e,
     ck_GetBalance = (\<lambda>w. GetBalance (ext_bank e) (aw_bank w)),
     ck_SendCoinsFromModuleToModule = aw_send e,
     ck_BlocksPerYear = (\<lambda>w. ext_BlocksPerYear e (aw_bank w)), ck_BondedRatio = (\<lambda>w. ext_BondedRatio e (aw_bank w)),
     ck_StakingTokenSupply = (\<lambda>w. ext_StakingTokenSupply e (aw_bank w)),
     ck_HasCellarID = (\<lambda>w. HasCellarID corkKeeper (aw_cork w)),
     ck_ERC20ToDenomLookup = (\<lambda>w. ext_ERC20ToDenomLookup e),
     ck_GetActiveAuctions = (\<lambda>w. GetActiveAuctions (aw_auction w)),
     ck_BeginAuction = (\<lambda>ctx w c rate interval fund proc.
       bind_res (BeginAuction (app_AuctionKeeper e) ctx (aw_auction w) c rate interval fund proc)
         (\<lambda>s. Ok (w\<lparr>aw_auction := s\<rparr>)))\<rparr>"

definition app_IncentivesKeeper :: "'b app_ext \<Rightarrow> 'b app_world incentives_keeper" where
  "app_IncentivesKeeper e = \<lparr>ik_sdk = ext_sdk e,
     ik_dist = \<lparr>GetFeePool = aw_pool, SetFeePool = (\<lambda>w p. w\<lparr>aw_pool := p\<rparr>), DecCoins_SafeSub = ext_SafeSub e,
       NewDecCoinsFromCoins = ext_NewDecCoinsFromCoins e\<rparr>,
     ik_SendCoinsFromModuleToModule = aw_send e,
     ik_BlocksPerYear = (\<lambda>w. ext_BlocksPerYear e (aw_bank w)), ik_BondedRatio = (\<lambda>w. ext_BondedRatio e (aw_bank w)),
     ik_StakingTokenSupply = (\<lambda>w. ext_StakingTokenSupply e (aw_bank w))\<rparr>"

section \<open>Blocks\<close>

text \<open>
  The state of the chain's own modules; the shared world lies in the state of cellarfees. The pubsub
  registry, which the two cork modules write on proposals, is not touched by a block.
\<close>

record ('b, 'x) app_state =
  app_fees :: "'b app_world cellarfees_state"
  app_incentives :: incentives_params
  app_axelar :: "'x axelar_state"

abbreviation app_world_of :: "('b, 'x) app_state \<Rightarrow> 'b app_world" where
  "app_world_of s \<equiv> cf_world (app_fees s)"

definition app_set_world :: "('b, 'x) app_state \<Rightarrow> 'b app_world \<Rightarrow> ('b, 'x) app_state" where
  "app_set_world s w = s\<lparr>app_fees := (app_fees s)\<lparr>cf_world := w\<rparr>\<rparr>"

text \<open>
  The order of \<^verbatim>\<open>SetOrderBeginBlockers\<close>, restricted to the chain's own modules: incentives, cork,
  axelarcork, cellarfees, auction, pubsub. Incentives and pubsub have no code there.
\<close>

definition app_BeginBlocker ::
  "'b app_ext \<Rightarrow> cork_keeper \<Rightarrow> ctx \<Rightarrow> ('b, 'x) app_state \<Rightarrow> ('b, 'x) app_state res" where
  "app_BeginBlocker e corkKeeper ctx s =
    (let s1 = app_set_world s ((app_world_of s)\<lparr>aw_cork := cork_BeginBlocker (aw_cork (app_world_of s))\<rparr>);
         s2 = s1\<lparr>app_axelar := axelar_BeginBlocker (app_axelar s1)\<rparr>
     in bind_res (cellarfees_BeginBlocker (app_CellarFeesKeeper e corkKeeper) ctx (app_fees s2)) (\<lambda>f.
        let s3 = s2\<lparr>app_fees := f\<rparr>; w = app_world_of s3
        in Ok (app_set_world s3 (w\<lparr>aw_auction := auction_BeginBlocker (app_AuctionKeeper e) ctx (aw_auction w)\<rparr>))))"

lemma app_BeginBlocker_eq:
  "app_BeginBlocker e k ctx s =
    bind_res (cellarfees_BeginBlocker (app_CellarFeesKeeper e k) ctx (app_fees s)) (\<lambda>f. Ok (s\<lparr>app_fees := f\<rparr>))"
  by (simp add: app_BeginBlocker_def app_set_world_def cork_BeginBlocker_def axelar_BeginBlocker_def
      auction_BeginBlocker_def Let_def)

definition app_end_incentives :: "'b app_ext \<Rightarrow> ctx \<Rightarrow> ('b, 'x) app_state \<Rightarrow> ('b, 'x) app_state res" where
  "app_end_incentives e ctx s =
    bind_res (incentives_EndBlocker (app_IncentivesKeeper e) ctx \<lparr>in_params = app_incentives s, in_world = app_world_of s\<rparr>)
      (\<lambda>i. Ok (app_set_world s (in_world i)))"

definition app_end_cork :: "cork_keeper \<Rightarrow> ctx \<Rightarrow> ('b, 'x) app_state \<Rightarrow> ('b, 'x) app_state res" where
  "app_end_cork k ctx s =
    bind_res (cork_EndBlocker k ctx (aw_cork (app_world_of s))) (\<lambda>c.
    Ok (app_set_world s ((app_world_of s)\<lparr>aw_cork := c\<rparr>)))"

definition app_end_axelar :: "'x axelar_keeper \<Rightarrow> axelar_ctx \<Rightarrow> ('b, 'x) app_state \<Rightarrow> ('b, 'x) app_state res" where
  "app_end_axelar k ctx s = bind_res (axelar_EndBlocker k ctx (app_axelar s)) (\<lambda>x. Ok (s\<lparr>app_axelar := x\<rparr>))"

definition app_end_auction :: "'b app_ext \<Rightarrow> ctx \<Rightarrow> ('b, 'x) app_state \<Rightarrow> ('b, 'x) app_state res" where
  "app_end_auction e ctx s =
    bind_res (auction_EndBlocker (app_AuctionKeeper e) ctx (aw_auction (app_world_of s))) (\<lambda>a.
    Ok (app_set_world s ((app_world_of s)\<lparr>aw_auction := a\<rparr>)))"

text \<open>The order of \<^verbatim>\<open>SetOrderEndBlockers\<close>: incentives, cork, axelarcork, cellarfees, auction, pubsub.\<close>

definition app_EndBlocker ::
  "'b app_ext \<Rightarrow> cork_keeper \<Rightarrow> 'x axelar_keeper \<Rightarrow> axelar_ctx \<Rightarrow> ('b, 'x) app_state \<Rightarrow> ('b, 'x) app_state res" where
  "app_EndBlocker e corkKeeper axelarKeeper ctx s =
    bind_res (app_end_incentives e \<lparr>BlockHeight = BlockHeight ctx\<rparr> s) (\<lambda>s1.
    bind_res (app_end_cork corkKeeper \<lparr>BlockHeight = BlockHeight ctx\<rparr> s1) (\<lambda>s2.
    bind_res (app_end_axelar axelarKeeper ctx s2) (\<lambda>s3.
    app_end_auction e \<lparr>BlockHeight = BlockHeight ctx\<rparr> (s3\<lparr>app_fees := cellarfees_EndBlocker (app_fees s3)\<rparr>))))"

section \<open>The environment\<close>

text \<open>
  The denominations whose auction cannot panic: when both prices are stored, the unit price they give
  is positive, and there is room for \<open>n\<close> more auction ids.
\<close>

definition priced :: "'b auction_keeper \<Rightarrow> nat \<Rightarrow> 'b auction_state \<Rightarrow> string \<Rightarrow> bool" where
  "priced k n st d \<longleftrightarrow> unat (GetLastAuctionID st) + n < 2 ^ 32 \<and> ValidateDenom (ak_sdk k) d \<and>
    (case (GetTokenPrice st d, GetTokenPrice st BaseCoinUnit) of
       (Some sale, Some usomm) \<Rightarrow>
         (case saleTokenPriceInUsomm (ak_sdk k) sale usomm of Ok price \<Rightarrow> 0 < price | _ \<Rightarrow> False)
     | _ \<Rightarrow> True)"

definition module_balances :: "'b app_ext \<Rightarrow> 'b app_world \<Rightarrow> string \<Rightarrow> string \<Rightarrow> int" where
  "module_balances e w m d = GetBalance (ext_bank e) (aw_bank w) (NewModuleAddress (ext_sdk e) m) d"

text \<open>
  The invariant of the shared world: that of the auction module, a community pool whose whole coins lie
  in the account of the distribution module, and a well-formed schedule of corks.
\<close>

definition pool_ok :: "'b app_ext \<Rightarrow> 'b app_world \<Rightarrow> bool" where
  "pool_ok e w \<longleftrightarrow> (\<forall>d. 0 \<le> dec_amount (aw_pool w) d \<and>
    dec_amount (aw_pool w) d \<le> NewDecFromInt (module_balances e w distribution_ModuleName d))"

definition world_inv :: "'b app_ext \<Rightarrow> cork_keeper \<Rightarrow> 'b app_world \<Rightarrow> bool" where
  "world_inv e k w \<longleftrightarrow> auction_inv (app_AuctionKeeper e) (aw_auction w) \<and> pool_ok e w \<and> sched_wf k (aw_cork w)"

lemma app_AuctionKeeper_simps [simp]:
  "ak_sdk (app_AuctionKeeper e) = ext_sdk e" "ak_bank (app_AuctionKeeper e) = ext_bank e"
  "fundingModuleAccounts (app_AuctionKeeper e) = [cellarfees_ModuleName \<mapsto> True]"
  "proceedsModuleAccounts (app_AuctionKeeper e) = [cellarfees_ModuleName \<mapsto> True]"
  by (simp_all add: app_AuctionKeeper_def)

lemma module_names [simp]:
  "cellarfees_ModuleName \<noteq> auction_ModuleName" "auction_ModuleName \<noteq> cellarfees_ModuleName"
  "FeeCollectorName \<noteq> cellarfees_ModuleName" "cellarfees_ModuleName \<noteq> FeeCollectorName"
  "distribution_ModuleName \<noteq> auction_ModuleName" "auction_ModuleName \<noteq> distribution_ModuleName"
  "distribution_ModuleName \<noteq> FeeCollectorName" "FeeCollectorName \<noteq> distribution_ModuleName"
  "distribution_ModuleName \<noteq> cellarfees_ModuleName" "cellarfees_ModuleName \<noteq> distribution_ModuleName"
  "auction_ModuleName \<noteq> FeeCollectorName" "cellarfees_ModuleName \<noteq> ''''"
  by (simp_all add: cellarfees_ModuleName_def auction_ModuleName_def FeeCollectorName_def distribution_ModuleName_def)

text \<open>A transfer out of another module's account keeps the invariant of the auction module.\<close>

lemma auction_inv_bank:
  assumes "auction_inv k st" "module_balance k st BaseCoinUnit \<le> GetBalance (ak_bank k) b (module_addr k auction_ModuleName) BaseCoinUnit"
  shows "auction_inv k (st\<lparr>st_bank := b\<rparr>)"
  using assms by (auto simp: auction_inv_def solvent_def)

locale app_env = chain_env "ext_sdk e" "ext_bank e" has_account blocked + cork: cork_env ck + axelar: axelar_env xk
  for e :: "'b app_ext" and has_account :: "string \<Rightarrow> bool" and blocked :: "addr \<Rightarrow> bool" and ck :: cork_keeper
    and xk :: "'x axelar_keeper" +
  assumes module_account: "has_account m \<Longrightarrow> ext_GetModuleAccount e m = Some (NewModuleAddress (ext_sdk e) m)"
    and own_accounts: "has_account auction_ModuleName" "has_account cellarfees_ModuleName"
      "has_account FeeCollectorName" "has_account distribution_ModuleName"
    and usomm_denom: "ValidateDenom (ext_sdk e) BaseCoinUnit"
    and dec_from_coins: "0 < n \<Longrightarrow> dec_amount (ext_NewDecCoinsFromCoins e [mk_coin d n]) d'
      = (if d' = d then NewDecFromInt n else 0)"
    and dec_safe_sub: "ext_SafeSub e p q = (r, negative) \<Longrightarrow> dec_amount r d = dec_amount p d - dec_amount q d"
    and dec_safe_sub_negative: "snd (ext_SafeSub e p q) \<longleftrightarrow> (\<exists>d. dec_amount p d < dec_amount q d)"

sublocale app_env \<subseteq> auctions: auction_env "app_AuctionKeeper e" has_account blocked
  by (intro auction_env.intro auction_env_axioms.intro)
    (simp_all add: chain_env_axioms keeper_ok_def usomm_denom own_accounts GetAuctionAccount_def module_account
      app_AuctionKeeper_def)

section \<open>The interfaces are met\<close>

context app_env begin

abbreviation ak :: "'b auction_keeper" where
  "ak \<equiv> app_AuctionKeeper e"

abbreviation fees_addr :: addr where
  "fees_addr \<equiv> NewModuleAddress (ext_sdk e) cellarfees_ModuleName"

lemma aw_send_ok:
  assumes inv: "world_inv e ck w" and accounts: "has_account m" "has_account n"
    and m: "m \<noteq> auction_ModuleName" "m \<noteq> distribution_ModuleName"
    and coin: "ValidateDenom (ext_sdk e) d" "0 < v" "v \<le> module_balances e w m d"
  shows "\<exists>b. aw_send e w m n [mk_coin d v] = Ok (aw_set_bank w b) \<and> world_inv e ck (aw_set_bank w b) \<and>
    (\<forall>x d'. GetBalance (ext_bank e) b x d' = GetBalance (ext_bank e) (aw_bank w) x d' +
      moved (NewModuleAddress (ext_sdk e) m) (NewModuleAddress (ext_sdk e) n) [mk_coin d v] x d')"
proof -
  obtain b where b: "SendCoinsFromModuleToModule (ext_bank e) (aw_bank w) m n [mk_coin d v] = Ok b"
    using m2m_funds [of m n "mk_coin d v" "aw_bank w"] accounts coin by (auto simp: module_balances_def)
  note bal = m2m_balance [OF b]
  have "auction_inv ak ((aw_auction w)\<lparr>st_bank := b\<rparr>)"
    using inv m coin by (intro auction_inv_bank) (simp_all add: world_inv_def bal moved_def maddr_inj)
  moreover have "module_balances e w distribution_ModuleName d' \<le> module_balances e (aw_set_bank w b) distribution_ModuleName d'" for d'
    using m(2) coin(2) by (simp add: module_balances_def aw_set_bank_def bal moved_def maddr_inj)
  then have "pool_ok e (aw_set_bank w b)"
    using inv by (auto simp: world_inv_def pool_ok_def aw_set_bank_def NewDecFromInt_def
        intro: order_trans [OF _ mult_right_mono [OF _ less_imp_le [OF dec_one_pos]]])
  ultimately show ?thesis
    using inv b bal by (intro exI [of _ b]) (simp add: aw_send_def aw_set_bank_def world_inv_def)
qed

text \<open>Starting a fee auction: either an error that is wrapped, or the auction is opened.\<close>

lemma BeginAuction_returns:
  assumes "priced ak (Suc n) st (cDenom c)" "rate_ok r" "i \<noteq> 0" "BlockHeight ctx \<noteq> 0"
    "cDenom c \<noteq> BaseCoinUnit" "0 < cAmount c" "cAmount c \<le> GetBalance (ext_bank e) (st_bank st) fees_addr (cDenom c)"
  shows "(\<exists>st'. BeginAuction ak ctx st c r i cellarfees_ModuleName cellarfees_ModuleName = Ok st') \<or>
    (\<exists>x. BeginAuction ak ctx st c r i cellarfees_ModuleName cellarfees_ModuleName = Err (Wrapped x))"
proof -
  obtain b where b: "SendCoinsFromModuleToModule (ext_bank e) (st_bank st) cellarfees_ModuleName auction_ModuleName [c] = Ok b"
    using m2m_funds [of cellarfees_ModuleName auction_ModuleName c "st_bank st"] assms own_accounts by (auto simp: priced_def)
  have "GetLastAuctionID st + 1 \<noteq> 0"
    using assms(1) by (auto simp: priced_def unat_eq_0 [symmetric] unat_word_ariths simp del: unat_eq_0)
  then have ok: "Auction_ValidateBasic (ext_sdk e) (new_auction ctx st c r i p cellarfees_ModuleName cellarfees_ModuleName) = Ok ()"
    if "0 < p" for p
    using assms that by (simp add: Auction_ValidateBasic_Ok new_auction_def rate_ok_def priced_def)
  show ?thesis
    using assms(1) b ok
    by (auto simp: BeginAuction_def open_auction_def priced_def Let_def new_auction_def split: option.splits res.splits)
qed

lemma BeginAuction_opens:
  assumes "auction_inv ak st" "BeginAuction ak ctx st c r i fund proc = Ok st'"
  shows "auction_inv ak st'"
    "sale_denom ` set (GetActiveAuctions st') = insert (cDenom c) (sale_denom ` set (GetActiveAuctions st))"
proof -
  show inv': "auction_inv ak st'" using auctions.BeginAuction_inv [OF assms] .
  have wf: "store_wf ak st" "store_wf ak st'" using assms(1) inv' by (simp_all add: auction_inv_def)
  obtain price b ev where *: "Auction_ValidateBasic (ext_sdk e) (new_auction ctx st c r i price fund proc) = Ok ()"
    "st' = auction_emit ev (setLastAuctionID (setActiveAuction (st\<lparr>st_bank := b\<rparr>) (new_auction ctx st c r i price fund proc))
       (GetLastAuctionID st + 1))"
    using auctions.BeginAuction_cases [OF assms(2)] by (metis app_AuctionKeeper_simps(1))
  let ?a = "new_auction ctx st c r i price fund proc"
  have a: "a_Id ?a = GetLastAuctionID st + 1" "sale_denom ?a = cDenom c" by (simp_all add: new_auction_def)
  have new: "GetLastAuctionID st < a_Id ?a"
    using *(1) word_less_Suc [of "GetLastAuctionID st"] by (simp add: a Auction_ValidateBasic_Ok)
  have fresh: "a_Id x \<noteq> a_Id ?a" if "GetActiveAuctionByID st (a_Id x) = Some x" for x
    using store_wf_active(2) [OF wf(1) that] new by (auto simp only: active_ok_def)
  have get: "GetActiveAuctionByID st' j = (if j = a_Id ?a then Some ?a else GetActiveAuctionByID st j)" for j
    by (simp add: *(2) setActiveAuction_def GetActiveAuctionByID_def auction_emit_def)
  have "x \<in> set (GetActiveAuctions st') \<longleftrightarrow> x = ?a \<or> x \<in> set (GetActiveAuctions st)" for x
    unfolding store_wf_active_mem [OF wf(1)] store_wf_active_mem [OF wf(2)] get using fresh [of x] by auto
  then have "set (GetActiveAuctions st') = insert ?a (set (GetActiveAuctions st))" by blast
  then show "sale_denom ` set (GetActiveAuctions st') = insert (cDenom c) (sale_denom ` set (GetActiveAuctions st))"
    by (simp add: a)
qed

lemma BeginAuction_frame:
  assumes "BeginAuction ak ctx st c r i fund proc = Ok st'"
  shows "GetBalance (ext_bank e) (st_bank st') x d = GetBalance (ext_bank e) (st_bank st) x d +
      moved (NewModuleAddress (ext_sdk e) fund) (NewModuleAddress (ext_sdk e) auction_ModuleName) [c] x d"
    "priced ak (Suc n) st d' \<Longrightarrow> priced ak n st' d'"
proof -
  obtain price b ev where *: "SendCoinsFromModuleToModule (ext_bank e) (st_bank st) fund auction_ModuleName [c] = Ok b"
    "st' = auction_emit ev (setLastAuctionID (setActiveAuction (st\<lparr>st_bank := b\<rparr>) (new_auction ctx st c r i price fund proc))
       (GetLastAuctionID st + 1))"
    using auctions.BeginAuction_cases [OF assms] by (metis app_AuctionKeeper_simps(2))
  show "GetBalance (ext_bank e) (st_bank st') x d = GetBalance (ext_bank e) (st_bank st) x d +
      moved (NewModuleAddress (ext_sdk e) fund) (NewModuleAddress (ext_sdk e) auction_ModuleName) [c] x d"
    using m2m_balance [OF *(1)] by (simp add: *(2) setActiveAuction_def)
  assume p: "priced ak (Suc n) st d'"
  then have "unat (GetLastAuctionID st + 1) = unat (GetLastAuctionID st) + 1"
    by (simp add: priced_def unat_word_ariths)
  moreover have "GetLastAuctionID st' = GetLastAuctionID st + 1" "GetTokenPrice st' x = GetTokenPrice st x" for x
    by (simp_all add: *(2) GetTokenPrice_def setActiveAuction_def auction_emit_def)
  ultimately show "priced ak n st' d'" using p by (simp add: priced_def)
qed

end

lemma app_CellarFeesKeeper_simps [simp]:
  "ck_sdk (app_CellarFeesKeeper e k) = ext_sdk e" "ck_eth (app_CellarFeesKeeper e k) = ok_eth k"
  "ck_GetModuleAccount (app_CellarFeesKeeper e k) = ext_GetModuleAccount e"
  "ck_GetBalance (app_CellarFeesKeeper e k) w = GetBalance (ext_bank e) (aw_bank w)"
  "ck_SendCoinsFromModuleToModule (app_CellarFeesKeeper e k) = aw_send e"
  "ck_HasCellarID (app_CellarFeesKeeper e k) w = HasCellarID k (aw_cork w)"
  "ck_ERC20ToDenomLookup (app_CellarFeesKeeper e k) w = ext_ERC20ToDenomLookup e"
  "ck_GetActiveAuctions (app_CellarFeesKeeper e k) w = GetActiveAuctions (aw_auction w)"
  "ck_BeginAuction (app_CellarFeesKeeper e k) ctx w c r i f p =
    bind_res (BeginAuction (app_AuctionKeeper e) ctx (aw_auction w) c r i f p) (\<lambda>s. Ok (w\<lparr>aw_auction := s\<rparr>))"
  by (simp_all add: app_CellarFeesKeeper_def)

lemma app_IncentivesKeeper_simps [simp]:
  "ik_sdk (app_IncentivesKeeper e) = ext_sdk e" "ik_SendCoinsFromModuleToModule (app_IncentivesKeeper e) = aw_send e"
  "GetFeePool (ik_dist (app_IncentivesKeeper e)) = aw_pool"
  "SetFeePool (ik_dist (app_IncentivesKeeper e)) = (\<lambda>w p. w\<lparr>aw_pool := p\<rparr>)"
  "DecCoins_SafeSub (ik_dist (app_IncentivesKeeper e)) = ext_SafeSub e"
  "NewDecCoinsFromCoins (ik_dist (app_IncentivesKeeper e)) = ext_NewDecCoinsFromCoins e"
  by (simp_all add: app_IncentivesKeeper_def)

sublocale app_env \<subseteq> fees: fee_env "app_CellarFeesKeeper e ck" "NewModuleAddress (ext_sdk e) cellarfees_ModuleName"
  "world_inv e ck" "\<lambda>n w. priced (app_AuctionKeeper e) n (aw_auction w)"
proof
  show "ck_GetModuleAccount (app_CellarFeesKeeper e ck) cellarfees_ModuleName = Some fees_addr"
    by (simp add: module_account own_accounts)
  show "ValidateDenom (ck_sdk (app_CellarFeesKeeper e ck)) BaseCoinUnit" by (simp add: usomm_denom)
  show "0 \<le> ck_GetBalance (app_CellarFeesKeeper e ck) w a d" for w a d by (simp add: balance_nonneg)
next
  fix w v
  assume "world_inv e ck w" "0 < v" "v \<le> ck_GetBalance (app_CellarFeesKeeper e ck) w fees_addr BaseCoinUnit"
  from aw_send_ok [OF this(1) own_accounts(2,3) _ _ usomm_denom this(2)] this(3) obtain b where
    "aw_send e w cellarfees_ModuleName FeeCollectorName [mk_coin BaseCoinUnit v] = Ok (aw_set_bank w b)"
    "world_inv e ck (aw_set_bank w b)"
    "\<forall>d. GetBalance (ext_bank e) b fees_addr d = GetBalance (ext_bank e) (aw_bank w) fees_addr d - (if d = BaseCoinUnit then v else 0)"
    by (auto simp: module_balances_def moved_def maddr_inj)
  then show "\<exists>w'. ck_SendCoinsFromModuleToModule (app_CellarFeesKeeper e ck) w cellarfees_ModuleName FeeCollectorName
      [mk_coin BaseCoinUnit v] = Ok w' \<and> world_inv e ck w' \<and>
      (\<forall>d. ck_GetBalance (app_CellarFeesKeeper e ck) w' fees_addr d =
        ck_GetBalance (app_CellarFeesKeeper e ck) w fees_addr d - (if d = BaseCoinUnit then v else 0)) \<and>
      ck_GetActiveAuctions (app_CellarFeesKeeper e ck) w' = ck_GetActiveAuctions (app_CellarFeesKeeper e ck) w"
    by (intro exI [of _ "aw_set_bank w b"]) (simp add: aw_set_bank_def GetActiveAuctions_values)
next
  fix ctx w c r i w'
  assume b: "ck_BeginAuction (app_CellarFeesKeeper e ck) ctx w c r i cellarfees_ModuleName cellarfees_ModuleName = Ok w'"
  then obtain st' where st': "BeginAuction ak ctx (aw_auction w) c r i cellarfees_ModuleName cellarfees_ModuleName = Ok st'"
    "w' = w\<lparr>aw_auction := st'\<rparr>" by auto
  show "ck_GetBalance (app_CellarFeesKeeper e ck) w' fees_addr d =
      ck_GetBalance (app_CellarFeesKeeper e ck) w fees_addr d - (if d = cDenom c then cAmount c else 0)" for d
    using BeginAuction_frame(1) [OF st'(1)] by (simp add: st'(2) moved_def maddr_inj)
  show "priced ak (Suc n) (aw_auction w) d \<Longrightarrow> priced ak n (aw_auction w') d" for n d
    using BeginAuction_frame(2) [OF st'(1)] by (simp add: st'(2))
  assume inv: "world_inv e ck w"
  then have a: "auction_inv ak (aw_auction w)" by (simp add: world_inv_def)
  have "module_balances e w' distribution_ModuleName d = module_balances e w distribution_ModuleName d" for d
    using BeginAuction_frame(1) [OF st'(1)] by (simp add: st'(2) module_balances_def moved_def maddr_inj)
  then show "world_inv e ck w'"
    using inv BeginAuction_opens(1) [OF a st'(1)] by (simp add: st'(2) world_inv_def pool_ok_def)
  show "cDenom ` a_StartingTokensForSale ` set (ck_GetActiveAuctions (app_CellarFeesKeeper e ck) w') =
      insert (cDenom c) (cDenom ` a_StartingTokensForSale ` set (ck_GetActiveAuctions (app_CellarFeesKeeper e ck) w))"
    using BeginAuction_opens(2) [OF a st'(1)] by (simp add: st'(2) image_image)
next
  fix w n r and i :: u64 and c :: coin and ctx :: ctx
  assume "priced ak (Suc n) (aw_auction w) (cDenom c)" "rate_ok r" "i \<noteq> 0" "BlockHeight ctx \<noteq> 0" "cDenom c \<noteq> BaseCoinUnit"
    "0 < cAmount c" "cAmount c \<le> ck_GetBalance (app_CellarFeesKeeper e ck) w fees_addr (cDenom c)"
  then show "(\<exists>w'. ck_BeginAuction (app_CellarFeesKeeper e ck) ctx w c r i cellarfees_ModuleName cellarfees_ModuleName = Ok w') \<or>
      (\<exists>x. ck_BeginAuction (app_CellarFeesKeeper e ck) ctx w c r i cellarfees_ModuleName cellarfees_ModuleName = Err (Wrapped x))"
    using BeginAuction_returns [of n "aw_auction w" c r i ctx] by auto
next
  show "priced ak (Suc n) (aw_auction w) d \<Longrightarrow> priced ak n (aw_auction w) d" for n w d by (simp add: priced_def)
qed

sublocale app_env \<subseteq> rewards: incentives_env "app_IncentivesKeeper e" "module_balances e"
proof
  fix n w d
  assume "0 < n" "n \<le> module_balances e w distribution_ModuleName d" "ValidateDenom (ik_sdk (app_IncentivesKeeper e)) d"
  then obtain b where b: "SendCoinsFromModuleToModule (ext_bank e) (aw_bank w) distribution_ModuleName FeeCollectorName [mk_coin d n] = Ok b"
    using m2m_funds [of distribution_ModuleName FeeCollectorName "mk_coin d n" "aw_bank w"] own_accounts
    by (auto simp: module_balances_def)
  then show "\<exists>w'. ik_SendCoinsFromModuleToModule (app_IncentivesKeeper e) w distribution_ModuleName FeeCollectorName [mk_coin d n] = Ok w' \<and>
      GetFeePool (ik_dist (app_IncentivesKeeper e)) w' = GetFeePool (ik_dist (app_IncentivesKeeper e)) w \<and>
      (\<forall>m e'. module_balances e w' m e' = module_balances e w m e' + (if e' \<noteq> d then 0 else if m = distribution_ModuleName then - n
           else if m = FeeCollectorName then n else 0))"
    using m2m_balance [OF b]
    by (intro exI [of _ "aw_set_bank w b"]) (simp add: aw_send_def aw_set_bank_def module_balances_def moved_def maddr_inj)
qed (simp_all add: usomm_denom dec_from_coins dec_safe_sub dec_safe_sub_negative module_balances_def)

end
