(* ===== verification/App_Safety.thy ===== *)
theory App_Safety
  imports App_Wiring
begin

text \<open>
  A block of the whole application. Each step of the block returns and keeps the invariant of the
  shared world, so the chain's own modules never halt a block that is ready: the stored prices give
  positive unit prices and the validators of the corks of this height are known.
\<close>

definition app_inv :: "'b app_ext \<Rightarrow> cork_keeper \<Rightarrow> 'x axelar_keeper \<Rightarrow> ('b, 'x) app_state \<Rightarrow> bool" where
  "app_inv e ck xk s \<longleftrightarrow> cellarfees_inv (app_fees s) \<and> rate_ok (InitialPriceDecreaseRate (cf_params (app_fees s))) \<and>
    0 < sint (RewardEmissionPeriod (cf_params (app_fees s))) \<and> world_inv e ck (app_world_of s) \<and>
    incentives_Params_ValidateBasic (ext_sdk e) (app_incentives s) = Ok () \<and>
    axelar_sched_wf (app_axelar s) \<and> winning_wf xk (app_axelar s)"

definition block_ready ::
  "'b app_ext \<Rightarrow> cork_keeper \<Rightarrow> 'x axelar_keeper \<Rightarrow> axelar_ctx \<Rightarrow> ('b, 'x) app_state \<Rightarrow> bool" where
  "block_ready e ck xk ctx s \<longleftrightarrow> BlockHeight ctx \<noteq> 0 \<and>
    (case cf_counters (app_fees s) of None \<Rightarrow> True | Some cs \<Rightarrow>
      list_all (\<lambda>c. priced (app_AuctionKeeper e) (length cs) (aw_auction (app_world_of s)) (fc_Denom c)) cs) \<and>
    list_all (\<lambda>x. ok_ConsensusPower ck (fst x) \<noteq> None) (cork_entries ck (aw_cork (app_world_of s)) (BlockHeight ctx)) \<and>
    axelar_known xk (BlockHeight ctx) (app_axelar s)"

definition app_block ::
  "'b app_ext \<Rightarrow> cork_keeper \<Rightarrow> 'x axelar_keeper \<Rightarrow> axelar_ctx \<Rightarrow> ('b, 'x) app_state \<Rightarrow> ('b, 'x) app_state res" where
  "app_block e ck xk ctx s =
    bind_res (app_BeginBlocker e ck \<lparr>BlockHeight = BlockHeight ctx\<rparr> s) (app_EndBlocker e ck xk ctx)"

section \<open>Frames\<close>

lemma prune_auction_bank: "st_bank (fst (prune_auction ctx maxAge a s)) = st_bank (fst s)"
proof -
  have "st_bank (foldl (\<lambda>s b. deleteBid s i (b_Id b)) st bs) = st_bank st" for i and bs :: "bid list" and st :: "'a auction_state"
    by (induction bs arbitrary: st) (simp_all add: deleteBid_def)
  then show ?thesis by (simp add: prune_auction_def Let_def deleteEndedAuction_def split: prod.split)
qed

lemma prune_auctions_bank [simp]: "st_bank (prune_auctions ctx st) = st_bank st"
proof -
  have "st_bank (fst (fold (prune_auction ctx maxAge) xs s)) = st_bank (fst s)" for maxAge xs and s :: "'a auction_state \<times> string set"
    by (induction xs arbitrary: s) (simp_all add: prune_auction_bank)
  then show ?thesis by (simp add: prune_auctions_def Let_def)
qed

context auction_env begin

text \<open>The end of a block moves coins only between the auction module and the modules its auctions name.\<close>

lemma FinishAuction_frame:
  assumes "FinishAuction k ctx st a = Ok st'" "x \<noteq> maddr"
    "x \<noteq> module_addr k (a_FundingModuleAccount a)" "x \<noteq> module_addr k (a_ProceedsModuleAccount a)"
  shows "GetBalance (ak_bank k) (st_bank st') x d = GetBalance (ak_bank k) (st_bank st) x d"
proof -
  have send: "GetBalance (ak_bank k) b' x d = GetBalance (ak_bank k) b x d"
    if "SendCoinsFromModuleToModule (ak_bank k) b auction_ModuleName m cs = Ok b'"
      "m = a_FundingModuleAccount a \<or> m = a_ProceedsModuleAccount a" for b b' m cs
    using m2m_balance [OF that(1), of x d] that(2) assms(2-4) by (auto simp: moved_def)
  obtain s1 s2 where s: "return_unsold k st a = Ok s1" "pay_proceeds k s1 a = Ok s2" "st' = close_auction ctx s2 a"
    using assms(1) by (auto simp: FinishAuction_def)
  have "GetBalance (ak_bank k) (st_bank s1) x d = GetBalance (ak_bank k) (st_bank st) x d"
    using s(1) send by (auto simp: return_unsold_def Let_def split: if_splits)
  moreover have "GetBalance (ak_bank k) (st_bank s2) x d = GetBalance (ak_bank k) (st_bank s1) x d"
    using s(2) send by (auto simp: pay_proceeds_def Let_def split: if_splits)
  moreover have "st_bank st' = st_bank s2" by (simp add: s(3) close_auction_reads)
  ultimately show ?thesis by simp
qed

lemma update_auction_price_frame:
  assumes "update_auction_price k ctx a st = Ok st'" "x \<noteq> maddr"
    "x \<noteq> module_addr k (a_FundingModuleAccount a)" "x \<noteq> module_addr k (a_ProceedsModuleAccount a)"
  shows "GetBalance (ak_bank k) (st_bank st') x d = GetBalance (ak_bank k) (st_bank st) x d"
  using assms(1) FinishAuction_frame [of ctx st "a\<lparr>a_CurrentPriceDecreaseRate := next_decrease_rate k ctx st a\<rparr>" st' x d] assms(2-4)
  by (auto simp: update_auction_price_def Let_def setActiveAuction_def split: if_splits)

lemma auction_EndBlocker_frame:
  assumes "auction_inv k st" "auction_EndBlocker k ctx st = Ok st'" "x \<noteq> maddr"
    "\<And>m. fundingModuleAccounts k m \<noteq> None \<or> proceedsModuleAccounts k m \<noteq> None \<Longrightarrow> x \<noteq> module_addr k m"
  shows "GetBalance (ak_bank k) (st_bank st') x d = GetBalance (ak_bank k) (st_bank st) x d"
proof -
  have wf: "store_wf k st" using assms(1) by (simp add: auction_inv_def)
  obtain s where s: "fold_res (update_auction_price k ctx) (GetActiveAuctions st) st = Ok s" "st' = prune_auctions ctx s"
    using assms(2) by (auto simp: auction_EndBlocker_def)
  have other: "x \<noteq> module_addr k (a_FundingModuleAccount a)" "x \<noteq> module_addr k (a_ProceedsModuleAccount a)"
    if "a \<in> set (GetActiveAuctions st)" for a
    using store_wf_active(2) [OF wf] that store_wf_active_mem [OF wf, of a] assms(4) by (auto simp: active_ok_def)
  have "GetBalance (ak_bank k) (st_bank s') x d = GetBalance (ak_bank k) (st_bank s) x d"
    if "set as \<subseteq> set (GetActiveAuctions st)" "fold_res (update_auction_price k ctx) as s = Ok s'" for as s s'
    using that
  proof (induction as arbitrary: s)
    case (Cons a as)
    then obtain s1 where s1: "update_auction_price k ctx a s = Ok s1" "fold_res (update_auction_price k ctx) as s1 = Ok s'" by auto
    with Cons update_auction_price_frame [OF s1(1) assms(3) other, of d] show ?case by simp
  qed simp
  from this [OF order_refl s(1)] show ?thesis by (simp add: s(2))
qed

end

context axelar_env begin

lemma axelar_EndBlocker_returns:
  assumes "axelar_sched_wf st" "axelar_known k (BlockHeight ctx) st" "winning_wf k st"
  shows "\<exists>st'. axelar_EndBlocker k ctx st = Ok st' \<and> axelar_sched_wf st' \<and> winning_wf k st'"
proof -
  define I where "I = (\<lambda>(_ :: chain_configuration list) s. axelar_sched_wf s \<and> axelar_known k (BlockHeight ctx) s \<and> winning_wf k s)"
  have "\<exists>s'. fold_res (axelar_end_chain k ctx) (kv_values (ax_configs st) [ChainConfigurationPrefix]) st = Ok s' \<and> I [] s'"
  proof (rule fold_res_total)
    show "I (kv_values (ax_configs st) [ChainConfigurationPrefix]) st" using assms by (simp add: I_def)
    fix c cs s assume "I (c # cs) s"
    then have s: "axelar_sched_wf s" "axelar_known k (BlockHeight ctx) s" "winning_wf k s" by (simp_all add: I_def)
    from axelar_end_chain_Ok [OF s, of c] obtain s1 r w where
      "axelar_end_chain k ctx c s = Ok (s\<lparr>ax_sched := s1, ax_results := r, ax_winning := w\<rparr>)"
      "\<forall>key. kv_get s1 key \<noteq> None \<longrightarrow> kv_get s1 key = kv_get (ax_sched s) key" "kv_all (win_key_ok (xk_eth k)) w"
      by blast
    with s show "\<exists>s'. axelar_end_chain k ctx c s = Ok s' \<and> I cs s'"
      by (auto simp: I_def axelar_sched_wf_def axelar_known_def winning_wf_def kv_all_iff)
  qed
  then show ?thesis by (auto simp: axelar_EndBlocker_def I_def)
qed

end

lemma pool_backed_ok [simp]: "pool_backed (app_IncentivesKeeper e) (module_balances e) st \<longleftrightarrow> pool_ok e (in_world st)"
  by (simp add: pool_backed_def pool_ok_def pool_amount_def)

lemma cf_world_peak: "cf_world (SetLastRewardSupplyPeak st n) = cf_world st"
  by (simp add: SetLastRewardSupplyPeak_def)

lemma GetEmission_frame: "GetEmission k st n = Ok (st', cs) \<Longrightarrow> cf_world st' = cf_world st"
  by (cases "GetLastRewardSupplyPeak st")
    (auto simp: GetEmission_def Let_def case_prod_beta cf_world_peak split: if_splits)

lemma cellarfees_BeginBlocker_frame:
  assumes "cellarfees_BeginBlocker (app_CellarFeesKeeper e ck) ctx st = Ok st'"
  shows "aw_cork (cf_world st') = aw_cork (cf_world st)" "aw_pool (cf_world st') = aw_pool (cf_world st)"
proof -
  let ?same = "\<lambda>w w'. aw_cork w' = aw_cork w \<and> aw_pool w' = aw_pool w"
  obtain cs m st1 cs1 where *: "fold_res (auction_counter (app_CellarFeesKeeper e ck) ctx m) cs (st, cs) = Ok (st1, cs1)"
    "handle_reward_emissions (app_CellarFeesKeeper e ck) (SetFeeAccrualCounters st1 cs1) = Ok st'"
    using assms by (auto simp: cellarfees_BeginBlocker_def handle_fee_auctions_def)
  have start: "?same (cf_world s) (cf_world s')"
    if "cellarfees_beginAuction (app_CellarFeesKeeper e ck) ctx s d = Ok (s', b)" for s s' d b
    using that by (auto simp: cellarfees_beginAuction_def Let_def split: if_splits res.splits)
  have "?same (cf_world (fst (st, cs))) (cf_world (fst (st1, cs1)))"
    by (rule fold_res_invariant [where I = "\<lambda>_ r. ?same (cf_world (fst (st, cs))) (cf_world (fst r))", OF _ _ *(1)])
      (auto simp: auction_counter_def split: if_splits prod.splits dest!: start)
  moreover have "?same (cf_world s) (cf_world s')" if "handle_reward_emissions (app_CellarFeesKeeper e ck) s = Ok s'" for s s'
    using that by (auto simp: handle_reward_emissions_def aw_send_def aw_set_bank_def Let_def split: if_splits dest!: GetEmission_frame)
  from this [OF *(2)] have "?same (cf_world st1) (cf_world st')" by (simp add: SetFeeAccrualCounters_def)
  ultimately show "aw_cork (cf_world st') = aw_cork (cf_world st)" "aw_pool (cf_world st') = aw_pool (cf_world st)" by simp_all
qed

lemma incentives_EndBlocker_frame:
  assumes "incentives_EndBlocker (app_IncentivesKeeper e) ctx st = Ok st'"
  shows "\<exists>b p. in_world st' = (aw_set_bank (in_world st) b)\<lparr>aw_pool := p\<rparr>"
proof -
  consider "st' = st" | b p where "st' = st\<lparr>in_world := (aw_set_bank (in_world st) b)\<lparr>aw_pool := p\<rparr>\<rparr>"
    using assms by (auto simp: incentives_EndBlocker_def aw_send_def Let_def case_prod_beta split: if_splits)
  then show ?thesis
  proof cases
    case 1
    then show ?thesis
      by (intro exI [of _ "aw_bank (in_world st)"] exI [of _ "aw_pool (in_world st)"]) (simp add: aw_set_bank_def)
  next
    case (2 b p)
    then show ?thesis by (intro exI [of _ b] exI [of _ p]) simp
  qed
qed

section \<open>The steps of a block\<close>

lemma fold_res_panics:
  assumes "\<And>x. x \<in> set xs \<Longrightarrow> f x s = Ok s \<or> is_panic (f x s)" "y \<in> set xs" "is_panic (f y s)"
  shows "is_panic (fold_res f xs s)"
  using assms by (induction xs) (auto simp: is_panic_bind)

lemma panic_on_err_panics: "m \<noteq> Ok () \<Longrightarrow> is_panic (panic_on_err m)"
  by (cases m) simp_all

lemma is_panicE: "is_panic m \<Longrightarrow> (\<And>s. m = Panic s \<Longrightarrow> P) \<Longrightarrow> P"
  by (cases m) auto

context app_env begin

lemma fee_block:
  assumes "cellarfees_inv st" "rate_ok (InitialPriceDecreaseRate (cf_params st))"
    "0 < sint (RewardEmissionPeriod (cf_params st))" "BlockHeight ctx \<noteq> 0" "cf_counters st = Some cs"
    "\<forall>c \<in> set cs. priced ak (length cs) (aw_auction (cf_world st)) (fc_Denom c)"
    "world_inv e ck (cf_world st)" "GetLastRewardSupplyPeak st = Ok peak"
  shows "\<exists>st' cs' peak'. cellarfees_BeginBlocker (app_CellarFeesKeeper e ck) ctx st = Ok st' \<and> cellarfees_inv st' \<and>
    world_inv e ck (cf_world st') \<and> cf_counters st' = Some cs' \<and> GetLastRewardSupplyPeak st' = Ok peak' \<and>
    (peak', GetBalance (ext_bank e) (aw_bank (cf_world st')) fees_addr BaseCoinUnit) =
      emission_step (sint (RewardEmissionPeriod (cf_params st)))
        (peak, GetBalance (ext_bank e) (aw_bank (cf_world st)) fees_addr BaseCoinUnit) \<and>
    (\<forall>d. counter_map cs' d = counter_map cs d \<or>
      rem_i64 (BlockHeight ctx) (AuctionInterval (cf_params st)) = Ok 0 \<and> counter_map cs' d = Some 0 \<and>
      d \<in> sale_denom ` set (GetActiveAuctions (aw_auction (cf_world st'))) \<and>
      GetBalance (ext_bank e) (aw_bank (cf_world st')) fees_addr d = 0 \<and>
      (\<exists>n. counter_map cs d = Some n \<and> FeeAccrualAuctionThreshold (cf_params st) \<le> n))"
  using fees.cellarfees_BeginBlocker_total [OF assms] unfolding reward_supply_def by (simp add: image_image) blast

lemma emissions_end:
  assumes "world_inv e ck (cf_world st)" "GetLastRewardSupplyPeak st = Ok peak" "0 < sint (RewardEmissionPeriod (cf_params st))"
  shows "\<exists>st'. emission_blocks (app_CellarFeesKeeper e ck) (Suc (nat (2 * sint (RewardEmissionPeriod (cf_params st))))) st = Ok st' \<and>
    GetBalance (ext_bank e) (aw_bank (cf_world st')) fees_addr BaseCoinUnit = 0 \<and>
    world_inv e ck (cf_world st') \<and> cf_counters st' = cf_counters st"
proof -
  let ?q = "sint (RewardEmissionPeriod (cf_params st))" and ?k = "app_CellarFeesKeeper e ck"
  have "0 \<le> peak" using assms(2) by (auto simp: GetLastRewardSupplyPeak_def big_SetBytes_def split: option.splits)
  then have spent: "snd ((emission_step ?q ^^ Suc (nat (2 * ?q))) (peak, reward_supply ?k fees_addr st)) = 0"
    using assms(3) fees.reward_supply_nonneg by (intro emission_all_spent)
  obtain st' peak' where "emission_blocks ?k (Suc (nat (2 * ?q))) st = Ok st'" "world_inv e ck (cf_world st')"
    "cf_counters st' = cf_counters st"
    "(peak', reward_supply ?k fees_addr st') = (emission_step ?q ^^ Suc (nat (2 * ?q))) (peak, reward_supply ?k fees_addr st)"
    using fees.emission_blocks_refine [OF assms(2,3,1), of "Suc (nat (2 * ?q))"] by blast
  moreover from this(4) have "reward_supply ?k fees_addr st' = 0" using spent by (metis snd_conv)
  ultimately show ?thesis by (auto simp: reward_supply_def)
qed

text \<open>With a rate outside the open interval from 0 to 1 no auction starts: the attempt fails or panics.\<close>

lemma bad_rate_BeginAuction:
  assumes "\<not> rate_ok r"
  shows "(\<exists>x. BeginAuction ak ctx st c r i fund proc = Err (Wrapped x)) \<or> is_panic (BeginAuction ak ctx st c r i fund proc)"
    and "MinimumAuctionHeight (st_params st) < BlockHeight ctx \<Longrightarrow> 0 < cAmount c \<Longrightarrow>
      GetTokenPrice st (cDenom c) = Some sale \<Longrightarrow> \<not> tokenPriceTooOld ctx st sale \<Longrightarrow>
      GetTokenPrice st BaseCoinUnit = Some usomm \<Longrightarrow> \<not> tokenPriceTooOld ctx st usomm \<Longrightarrow>
      is_panic (BeginAuction ak ctx st c r i cellarfees_ModuleName cellarfees_ModuleName)"
proof -
  have "Auction_ValidateBasic (ext_sdk e) (new_auction ctx st c r i price fund proc) \<noteq> Ok ()" for price fund proc
    using assms by (auto simp: Auction_ValidateBasic_Ok new_auction_def rate_ok_def)
  then have opens: "is_panic (open_auction ak ctx st (new_auction ctx st c r i price fund proc))" for price fund proc
    by (simp add: open_auction_def is_panic_bind panic_on_err_panics)
  have price: "is_panic (bind_res (saleTokenPriceInUsomm (ext_sdk e) sale usomm)
      (\<lambda>price. open_auction ak ctx st (new_auction ctx st c r i price fund proc)))" for sale usomm fund proc
    using opens by (auto simp: saleTokenPriceInUsomm_def Quo_def is_panic_bind)
  then show "(\<exists>x. BeginAuction ak ctx st c r i fund proc = Err (Wrapped x)) \<or> is_panic (BeginAuction ak ctx st c r i fund proc)"
    by (auto simp: BeginAuction_def split: option.split)
  show "MinimumAuctionHeight (st_params st) < BlockHeight ctx \<Longrightarrow> 0 < cAmount c \<Longrightarrow>
      GetTokenPrice st (cDenom c) = Some sale \<Longrightarrow> \<not> tokenPriceTooOld ctx st sale \<Longrightarrow>
      GetTokenPrice st BaseCoinUnit = Some usomm \<Longrightarrow> \<not> tokenPriceTooOld ctx st usomm \<Longrightarrow>
      is_panic (BeginAuction ak ctx st c r i cellarfees_ModuleName cellarfees_ModuleName)"
    using price by (simp add: BeginAuction_def Coin_IsPositive_def not_le)
qed

lemma bad_rate_block:
  assumes rate: "\<not> rate_ok (InitialPriceDecreaseRate (cf_params st))" and counters: "cf_counters st = Some cs" "c \<in> set cs"
    "FeeAccrualAuctionThreshold (cf_params st) \<le> fc_Count c"
    and due: "rem_i64 (BlockHeight ctx) (AuctionInterval (cf_params st)) = Ok 0"
    and world: "w = aw_auction (cf_world st)" "fc_Denom c \<notin> sale_denom ` set (GetActiveAuctions w)"
    "0 < GetBalance (ext_bank e) (st_bank w) fees_addr (fc_Denom c)" "MinimumAuctionHeight (st_params w) < BlockHeight ctx"
    "GetTokenPrice w (fc_Denom c) = Some sale" "\<not> tokenPriceTooOld ctx w sale"
    "GetTokenPrice w BaseCoinUnit = Some usomm" "\<not> tokenPriceTooOld ctx w usomm"
  shows "is_panic (cellarfees_BeginBlocker (app_CellarFeesKeeper e ck) ctx st)"
proof -
  let ?k = "app_CellarFeesKeeper e ck"
  have cs: "GetFeeAccrualCounters st = Ok cs"
    using counters by (auto simp: GetFeeAccrualCounters_def DefaultFeeAccrualCounters_def)
  have "cellarfees_beginAuction ?k ctx st d = Ok (st, False) \<or> is_panic (cellarfees_beginAuction ?k ctx st d)" for d
    using bad_rate_BeginAuction(1) [OF rate, of ctx "aw_auction (cf_world st)"
        "mk_coin d (GetBalance (ext_bank e) (aw_bank (cf_world st)) fees_addr d)" "PriceDecreaseBlockInterval (cf_params st)"
        cellarfees_ModuleName cellarfees_ModuleName]
    by (auto simp: cellarfees_beginAuction_def Let_def split: res.splits)
  then have "auction_counter ?k ctx 0 x (st, cs) = Ok (st, cs) \<or> is_panic (auction_counter ?k ctx 0 x (st, cs))" for x
    by (fastforce simp: auction_counter_def is_panic_bind)
  moreover have "is_panic (cellarfees_beginAuction ?k ctx st (fc_Denom c))"
    using world bad_rate_BeginAuction(2) [OF rate, of w ctx "mk_coin (fc_Denom c) (GetBalance (ext_bank e) (st_bank w) fees_addr (fc_Denom c))"
        sale usomm "PriceDecreaseBlockInterval (cf_params st)"]
    by (auto simp: cellarfees_beginAuction_def Let_def list_ex_iff image_iff elim!: is_panicE)
  then have "is_panic (auction_counter ?k ctx 0 c (st, cs))"
    using counters by (simp add: auction_counter_def is_panic_bind)
  ultimately have "is_panic (fold_res (auction_counter ?k ctx 0) cs (st, cs))"
    using counters(2) by (intro fold_res_panics)
  then show ?thesis
    by (simp add: cellarfees_BeginBlocker_def handle_fee_auctions_def cs due is_panic_bind)
qed

lemma distribution:
  assumes "incentives_Params_ValidateBasic (ext_sdk e) (in_params st) = Ok ()" "\<not> incentives_off ctx (in_params st)"
    "pool_ok e (in_world st)"
  defines "n \<equiv> cAmount (DistributionPerBlock (in_params st))"
  shows "if dec_amount (aw_pool (in_world st)) BaseCoinUnit < NewDecFromInt n
    then incentives_EndBlocker (app_IncentivesKeeper e) ctx st = Ok st
    else \<exists>st'. incentives_EndBlocker (app_IncentivesKeeper e) ctx st = Ok st' \<and> pool_ok e (in_world st') \<and>
      (\<forall>d. dec_amount (aw_pool (in_world st')) d =
        dec_amount (aw_pool (in_world st)) d - (if d = BaseCoinUnit then NewDecFromInt n else 0)) \<and>
      (\<forall>m d. module_balances e (in_world st') m d = module_balances e (in_world st) m d + (if d \<noteq> BaseCoinUnit then 0
        else if m = distribution_ModuleName then - n else if m = FeeCollectorName then n else 0))"
  using rewards.distribution_pays [of st ctx] assms(1-3) unfolding n_def by (auto simp: pool_amount_def)

lemma incentives_step:
  assumes inv: "world_inv e ck (in_world st)" and params: "incentives_Params_ValidateBasic (ext_sdk e) (in_params st) = Ok ()"
  shows "\<exists>st'. incentives_EndBlocker (app_IncentivesKeeper e) ctx st = Ok st' \<and> world_inv e ck (in_world st') \<and>
    aw_cork (in_world st') = aw_cork (in_world st)"
proof -
  have pool: "pool_ok e (in_world st)" and auc: "auction_inv ak (aw_auction (in_world st))"
    using inv by (simp_all add: world_inv_def)
  consider "incentives_EndBlocker (app_IncentivesKeeper e) ctx st = Ok st"
    | st' where "incentives_EndBlocker (app_IncentivesKeeper e) ctx st = Ok st'" "pool_ok e (in_world st')"
      "\<forall>m d. module_balances e (in_world st') m d = module_balances e (in_world st) m d + (if d \<noteq> BaseCoinUnit then 0
        else if m = distribution_ModuleName then - cAmount (DistributionPerBlock (in_params st))
        else if m = FeeCollectorName then cAmount (DistributionPerBlock (in_params st)) else 0)"
    using rewards.distribution_pays [of st ctx] params pool rewards.incentives_EndBlocker_off [of ctx st]
    by (cases "incentives_off ctx (in_params st)") auto
  then show ?thesis
  proof cases
    case 1
    with inv show ?thesis by blast
  next
    case (2 st')
    obtain b p where w: "in_world st' = (aw_set_bank (in_world st) b)\<lparr>aw_pool := p\<rparr>"
      using incentives_EndBlocker_frame [OF 2(1)] by blast
    have "auction_inv ak ((aw_auction (in_world st))\<lparr>st_bank := b\<rparr>)"
      using auc 2(3) [rule_format, of auction_ModuleName BaseCoinUnit]
      by (intro auction_inv_bank) (simp_all add: w aw_set_bank_def module_balances_def)
    with 2 inv show ?thesis by (intro exI [of _ st']) (simp add: w aw_set_bank_def world_inv_def)
  qed
qed

lemma cork_step:
  assumes "world_inv e ck w" "\<forall>x \<in> set (cork_entries ck (aw_cork w) (BlockHeight ctx)). ok_ConsensusPower ck (fst x) \<noteq> None"
  shows "\<exists>c. cork_EndBlocker ck ctx (aw_cork w) = Ok c \<and> world_inv e ck (w\<lparr>aw_cork := c\<rparr>)"
proof -
  obtain c where "cork_EndBlocker ck ctx (aw_cork w) = Ok c" "sched_wf ck c"
    using cork.cork_EndBlocker_Ok [of "aw_cork w" ctx] assms by (auto simp: world_inv_def)
  with assms(1) show ?thesis by (intro exI [of _ c]) (simp add: world_inv_def pool_ok_def module_balances_def)
qed

lemma auction_step:
  assumes "world_inv e ck w" "BlockHeight ctx \<noteq> 0"
  shows "\<exists>a. auction_EndBlocker ak ctx (aw_auction w) = Ok a \<and> world_inv e ck (w\<lparr>aw_auction := a\<rparr>)"
proof -
  have inv: "auction_inv ak (aw_auction w)" using assms(1) by (simp add: world_inv_def)
  obtain a where a: "auction_EndBlocker ak ctx (aw_auction w) = Ok a" "auction_inv ak a"
    using auctions.auction_EndBlocker_total [OF inv assms(2)] by blast
  have "GetBalance (ext_bank e) (st_bank a) (NewModuleAddress (ext_sdk e) distribution_ModuleName) d =
      GetBalance (ext_bank e) (aw_bank w) (NewModuleAddress (ext_sdk e) distribution_ModuleName) d" for d
    by (rule auctions.auction_EndBlocker_frame [OF inv a(1), simplified]) (auto simp: maddr_inj split: if_splits)
  with a assms(1) show ?thesis by (intro exI [of _ a]) (simp add: world_inv_def pool_ok_def module_balances_def)
qed

lemma begin_step:
  assumes inv: "app_inv e ck xk s" and ready: "block_ready e ck xk ctx s"
  shows "\<exists>s'. app_BeginBlocker e ck \<lparr>BlockHeight = BlockHeight ctx\<rparr> s = Ok s' \<and> app_inv e ck xk s' \<and>
    aw_cork (app_world_of s') = aw_cork (app_world_of s) \<and> app_axelar s' = app_axelar s"
proof -
  have f: "cellarfees_inv (app_fees s)" using inv by (simp add: app_inv_def)
  obtain cs where cs: "cf_counters (app_fees s) = Some cs" by (rule cellarfees_inv_counters [OF f])
  obtain peak where peak: "GetLastRewardSupplyPeak (app_fees s) = Ok peak" by (rule cellarfees_inv_peak [OF f])
  obtain f' where f': "cellarfees_BeginBlocker (app_CellarFeesKeeper e ck) \<lparr>BlockHeight = BlockHeight ctx\<rparr> (app_fees s) = Ok f'"
    "cellarfees_inv f'" "world_inv e ck (cf_world f')" "cf_params f' = cf_params (app_fees s)"
    using fees.cellarfees_BeginBlocker_total [OF f _ _ _ cs _ _ peak, of "\<lparr>BlockHeight = BlockHeight ctx\<rparr>"] inv ready cs
    by (auto simp: app_inv_def block_ready_def list_all_iff)
  then show ?thesis
    using inv cellarfees_BeginBlocker_frame(1) [OF f'(1)]
    by (intro exI [of _ "s\<lparr>app_fees := f'\<rparr>"]) (simp add: app_BeginBlocker_eq app_inv_def)
qed

lemma end_step:
  assumes inv: "app_inv e ck xk s" and height: "BlockHeight ctx \<noteq> 0"
    and known: "\<forall>x \<in> set (cork_entries ck (aw_cork (app_world_of s)) (BlockHeight ctx)). ok_ConsensusPower ck (fst x) \<noteq> None"
      "axelar_known xk (BlockHeight ctx) (app_axelar s)"
  shows "\<exists>s'. app_EndBlocker e ck xk ctx s = Ok s' \<and> app_inv e ck xk s'"
proof -
  let ?ctx = "\<lparr>BlockHeight = BlockHeight ctx\<rparr>" and ?i = "\<lparr>in_params = app_incentives s, in_world = app_world_of s\<rparr>"
  have w: "world_inv e ck (in_world ?i)" "incentives_Params_ValidateBasic (ext_sdk e) (in_params ?i) = Ok ()"
    using inv by (simp_all add: app_inv_def)
  from incentives_step [OF w, of ?ctx] obtain i where
    i: "incentives_EndBlocker (app_IncentivesKeeper e) ?ctx ?i = Ok i" "world_inv e ck (in_world i)"
      "aw_cork (in_world i) = aw_cork (app_world_of s)" by auto
  from cork_step [OF i(2), of ?ctx] known(1) obtain c where
    c: "cork_EndBlocker ck ?ctx (aw_cork (in_world i)) = Ok c" "world_inv e ck ((in_world i)\<lparr>aw_cork := c\<rparr>)"
    by (auto simp: i(3))
  obtain x where x: "axelar_EndBlocker xk ctx (app_axelar s) = Ok x" "axelar_sched_wf x" "winning_wf xk x"
    using axelar.axelar_EndBlocker_returns [of "app_axelar s" ctx] inv known(2) by (auto simp: app_inv_def)
  from auction_step [OF c(2), of ?ctx] height obtain a where
    a: "auction_EndBlocker ak ?ctx (aw_auction (in_world i)) = Ok a"
      "world_inv e ck ((in_world i)\<lparr>aw_cork := c, aw_auction := a\<rparr>)" by auto
  let ?w = "(in_world i)\<lparr>aw_cork := c, aw_auction := a\<rparr>"
  have "app_EndBlocker e ck xk ctx s = Ok (s\<lparr>app_fees := (app_fees s)\<lparr>cf_world := ?w\<rparr>, app_axelar := x\<rparr>)"
    by (simp add: app_EndBlocker_def app_end_incentives_def app_end_cork_def app_end_axelar_def app_end_auction_def
        app_set_world_def cellarfees_EndBlocker_def i(1) c(1) x(1) a(1))
  moreover have "app_inv e ck xk (s\<lparr>app_fees := (app_fees s)\<lparr>cf_world := ?w\<rparr>, app_axelar := x\<rparr>)"
    using inv a(2) x by (simp add: app_inv_def cellarfees_inv_def)
  ultimately show ?thesis by blast
qed

text \<open>A whole block.\<close>

lemma block_step:
  assumes "app_inv e ck xk s" "block_ready e ck xk ctx s"
  shows "\<exists>s'. app_block e ck xk ctx s = Ok s' \<and> app_inv e ck xk s'"
proof -
  obtain s1 where s1: "app_BeginBlocker e ck \<lparr>BlockHeight = BlockHeight ctx\<rparr> s = Ok s1" "app_inv e ck xk s1"
    "aw_cork (app_world_of s1) = aw_cork (app_world_of s)" "app_axelar s1 = app_axelar s"
    using begin_step [OF assms] by blast
  from end_step [OF s1(2), of ctx] assms(2) s1 show ?thesis by (auto simp: app_block_def block_ready_def list_all_iff)
qed

end

end
