(* ===== verification/App_Histories.thy ===== *)
theory App_Histories
  imports App_Safety
begin

text \<open>
  The histories of the application: it starts from the genesis states of its modules (\<^verbatim>\<open>InitChainer\<close>) and
  then runs blocks, messages, proposals, the hook of the bridge, parameter changes and the activity of
  other modules, in any order. Every state such a history reaches satisfies the invariant of the
  application. The actions of axelarcork come first: they keep the layout of its schedule and of
  its winning corks. They rely on the transfer module in one point: a transfer changes the stores of
  axelarcork at most by passing the packet through the module's check.
\<close>

section \<open>Actions of axelarcork\<close>

inductive axelar_action :: "'w axelar_keeper \<Rightarrow> 'w axelar_state \<Rightarrow> 'w axelar_state \<Rightarrow> bool" for k where
  msg: "axelar_NewHandler k ctx st m = Ok st' \<Longrightarrow> axelar_action k st st'"
| proposal: "axelar_NewProposalHandler k ctx st c = Ok st' \<Longrightarrow> axelar_action k st st'"
| packet: "axelar_SendPacket k st port channel timeout data = Ok (st', n) \<Longrightarrow> axelar_action k st st'"
| params: "axelar_action k st (axelar_SetParams st p)"

definition axelar_layout :: "'w axelar_keeper \<Rightarrow> 'w axelar_state \<Rightarrow> bool" where
  "axelar_layout k st \<longleftrightarrow> axelar_sched_wf st \<and> winning_wf k st"

lemma axelar_layout_updates [simp]:
  "axelar_layout k (st\<lparr>ax_world := w\<rparr>) = axelar_layout k st" "axelar_layout k (st\<lparr>ax_params := p\<rparr>) = axelar_layout k st"
  "axelar_layout k (st\<lparr>ax_configs := c\<rparr>) = axelar_layout k st" "axelar_layout k (st\<lparr>ax_cellars := i\<rparr>) = axelar_layout k st"
  "axelar_layout k (st\<lparr>ax_nonces := n\<rparr>) = axelar_layout k st" "axelar_layout k (st\<lparr>ax_upgrades := u\<rparr>) = axelar_layout k st"
  "axelar_layout k (st\<lparr>ax_pubsub := b\<rparr>) = axelar_layout k st" "axelar_layout k (st\<lparr>ax_events := v\<rparr>) = axelar_layout k st"
  by (simp_all add: axelar_layout_def axelar_sched_wf_def winning_wf_def)

lemma axelar_layout_delete: "axelar_layout k st \<Longrightarrow> axelar_layout k (st\<lparr>ax_winning := kv_del (ax_winning st) key\<rparr>)"
  by (simp add: axelar_layout_def axelar_sched_wf_def winning_wf_def kv_all_del)

lemma ValidateAxelarPacket_layout:
  assumes "axelar_layout k st" "ValidateAxelarPacket k st channel data = Ok st'"
  shows "axelar_layout k st'"
proof -
  have "axelar_layout k s" if "check_payload k st c p = Ok s" for c p s
    using that assms(1) by (auto simp: check_payload_def check_logic_call_def check_upgrade_def axelar_layout_delete
        DeleteWinningAxelarCorkByBlockheight_def DeleteAxelarProxyUpgradeData_def split: option.splits if_splits prod.splits)
  then have "axelar_layout k s" if "check_body k st b = Ok s" for b s
    using that by (auto simp: check_body_def split: option.splits if_splits)
  with assms show ?thesis by (auto simp: ValidateAxelarPacket_def Let_def split: option.splits if_splits)
qed

locale axelar_chain = axelar_env k
  for k :: "'w axelar_keeper" +
  assumes validator_address: "xk_GetOrchestratorValidatorAddress k a = Some v \<Longrightarrow> length v = 20"
    and transfer: "xk_Transfer k ctx m st = Ok st' \<Longrightarrow>
      \<exists>channel data st1 w. ValidateAxelarPacket k st channel data = Ok st1 \<and> st' = st1\<lparr>ax_world := w\<rparr>"
begin

lemma transfer_layout: "axelar_layout k st \<Longrightarrow> xk_Transfer k ctx m st = Ok st' \<Longrightarrow> axelar_layout k st'"
  using transfer [of ctx m st st'] ValidateAxelarPacket_layout by auto

lemma relay_layout:
  "axelar_layout k st \<Longrightarrow> pay_relay k st s t = Ok st' \<Longrightarrow> axelar_layout k st'"
  "axelar_layout k st \<Longrightarrow> relay_payload k ctx st c p f t = Ok st' \<Longrightarrow> axelar_layout k st'"
  by (auto simp: pay_relay_def relay_payload_def Let_def split: option.splits intro: transfer_layout)

lemma schedule_layout:
  assumes "axelar_layout k st" "axelar_ScheduleCork k ctx st m = Ok (st', i)"
  shows "axelar_layout k st'"
proof -
  have *: "axelar_layout k (fst (SetScheduledAxelarCork k st ch h v c))" if "length v = 20" for ch h v c
    using assms(1) that by (auto simp: axelar_layout_def axelar_sched_wf_def winning_wf_def SetScheduledAxelarCork_def Let_def
        AxelarCork_IDHash_def GetScheduledAxelarCorkKey_def GetScheduledAxelarCorkKeyPrefix_def intro!: kv_all_set)
  show ?thesis
  proof (cases "Enabled (ax_params st)")
    case True
    with assms(2) show ?thesis
      by (clarsimp simp: axelar_ScheduleCork_def)
        (auto simp: axelar_emit_def Let_def case_prod_beta intro: * [OF validator_address] split: option.splits if_splits)
  qed (use assms(2) in \<open>simp add: axelar_ScheduleCork_def\<close>)
qed

lemma relay_nonce_layout:
  assumes "axelar_layout k st" "relay_payload k ctx (fst (IncrementAxelarContractCallNonce k st i a)) c p f t = Ok st'"
  shows "axelar_layout k st'"
  by (rule relay_layout(2) [OF _ assms(2)])
    (simp add: assms(1) IncrementAxelarContractCallNonce_def SetAxelarContractCallNonce_def Let_def)

lemma axelar_msg_layout:
  assumes "axelar_layout k st" "axelar_NewHandler k ctx st m = Ok st'"
  shows "axelar_layout k st'"
proof (cases m)
  case (MsgScheduleAxelarCorkRequest x)
  with assms show ?thesis by (auto intro: schedule_layout split: prod.splits)
next
  case (MsgRelayAxelarCorkRequest x)
  with assms show ?thesis
    by (auto simp: RelayCork_def case_prod_beta Let_def split: option.splits if_splits
        dest: relay_layout(1) relay_nonce_layout)
next
  case (MsgRelayAxelarProxyUpgradeRequest x)
  with assms show ?thesis
    by (auto simp: RelayProxyUpgrade_def DeleteAxelarProxyUpgradeData_def split: option.splits if_splits
        intro: relay_layout(2) [OF relay_layout(1)])
next
  case (MsgBumpAxelarCorkGasRequest x)
  with assms show ?thesis by (auto simp: BumpCorkGas_def Let_def split: if_splits intro: transfer_layout)
qed (use assms in simp)

lemma axelar_proposal_layout:
  assumes "axelar_layout k st" "axelar_NewProposalHandler k ctx st c = Ok st'"
  shows "axelar_layout k st'"
proof (cases c)
  case (AddAxelarManagedCellarIDsProposal x)
  with assms show ?thesis by (auto simp: axelar_HandleAddManagedCellarsProposal_def axelar_SetCellarIDs_def Let_def
        split: option.splits if_splits prod.splits)
next
  case (RemoveAxelarManagedCellarIDsProposal x)
  with assms show ?thesis by (auto simp: axelar_HandleRemoveManagedCellarsProposal_def axelar_SetCellarIDs_def Let_def
        split: option.splits if_splits)
next
  case (AxelarScheduledCorkProposal x)
  with assms show ?thesis by (auto simp: axelar_HandleScheduledCorkProposal_def split: option.splits if_splits)
next
  case (AxelarCommunityPoolSpendProposal x)
  with assms show ?thesis by (auto simp: HandleCommunityPoolSpendProposal_def Let_def case_prod_beta
        dest: transfer_layout split: option.splits if_splits)
next
  case (AddChainConfigurationProposal x)
  with assms show ?thesis by (auto simp: HandleAddChainConfigurationProposal_def SetChainConfiguration_def)
next
  case (RemoveChainConfigurationProposal x)
  with assms show ?thesis by (auto simp: HandleRemoveChainConfigurationProposal_def DeleteChainConfigurationByID_def)
next
  case (UpgradeAxelarProxyContractProposal x)
  with assms show ?thesis by (auto simp: HandleUpgradeAxelarProxyContractProposal_def SetAxelarProxyUpgradeData_def
        split: option.splits)
next
  case (CancelAxelarProxyContractUpgradeProposal x)
  with assms show ?thesis by (auto simp: HandleCancelAxelarProxyContractUpgradeProposal_def DeleteAxelarProxyUpgradeData_def
        split: option.splits)
qed (use assms in simp)

lemma axelar_action_layout: "axelar_action k st st' \<Longrightarrow> axelar_layout k st \<Longrightarrow> axelar_layout k st'"
proof (induction rule: axelar_action.induct)
  case (packet st port channel timeout data st' n)
  then show ?case by (auto simp: axelar_SendPacket_def dest: ValidateAxelarPacket_layout)
qed (auto simp: axelar_SetParams_def intro: axelar_msg_layout axelar_proposal_layout)

end

section \<open>Genesis\<close>

record app_genesis =
  gen_incentives :: incentives_params
  gen_cork :: cork_genesis
  gen_axelarcork :: axelar_genesis
  gen_cellarfees :: cellarfees_genesis
  gen_auction :: auction_genesis
  gen_pubsub :: pubsub_genesis

definition app_DefaultGenesis :: app_genesis where
  "app_DefaultGenesis = \<lparr>gen_incentives = incentives_DefaultParams, gen_cork = cork_DefaultGenesisState,
     gen_axelarcork = axelar_DefaultGenesisState, gen_cellarfees = cellarfees_DefaultGenesisState,
     gen_auction = auction_DefaultGenesisState, gen_pubsub = pubsub_DefaultGenesisState\<rparr>"

text \<open>The registry of pubsub is the one the two cork modules use.\<close>

definition app_set_pubsub :: "('b, 'x) app_state \<Rightarrow> pubsub_state \<Rightarrow> ('b, 'x) app_state" where
  "app_set_pubsub s p = (app_set_world s ((app_world_of s)\<lparr>aw_cork := (aw_cork (app_world_of s))\<lparr>co_pubsub := p\<rparr>\<rparr>))
     \<lparr>app_axelar := (app_axelar s)\<lparr>ax_pubsub := p\<rparr>\<rparr>"

text \<open>The order of \<^verbatim>\<open>SetOrderInitGenesis\<close>, restricted to the chain's own modules.\<close>

definition app_InitGenesis ::
  "'b app_ext \<Rightarrow> cork_keeper \<Rightarrow> 'x axelar_keeper \<Rightarrow> app_genesis \<Rightarrow> ('b, 'x) app_state \<Rightarrow> ('b, 'x) app_state res" where
  "app_InitGenesis e ck xk g s =
    bind_res (incentives_InitGenesis (app_IncentivesKeeper e) \<lparr>in_params = app_incentives s, in_world = app_world_of s\<rparr>
      (gen_incentives g)) (\<lambda>i.
    let s1 = app_set_world (s\<lparr>app_incentives := in_params i\<rparr>) (in_world i) in
    bind_res (cork_InitGenesis ck (aw_cork (app_world_of s1)) (gen_cork g)) (\<lambda>c.
    let s2 = app_set_world s1 ((app_world_of s1)\<lparr>aw_cork := c\<rparr>) in
    bind_res (axelar_InitGenesis xk (app_axelar s2) (gen_axelarcork g)) (\<lambda>x.
    let s3 = s2\<lparr>app_axelar := x\<rparr> in
    bind_res (cellarfees_InitGenesis (app_CellarFeesKeeper e ck) (app_fees s3) (gen_cellarfees g)) (\<lambda>f.
    let s4 = s3\<lparr>app_fees := f\<rparr> in
    bind_res (auction_InitGenesis (app_AuctionKeeper e) (aw_auction (app_world_of s4)) (gen_auction g)) (\<lambda>a.
    let s5 = app_set_world s4 ((app_world_of s4)\<lparr>aw_auction := a\<rparr>) in
    bind_res (pubsub_InitGenesis (ok_pubsub ck) (co_pubsub (aw_cork (app_world_of s5))) (gen_pubsub g)) (\<lambda>p.
    Ok (app_set_pubsub s5 p)))))))"

text \<open>A state with empty stores and a bank and community pool that other modules have set up.\<close>

definition app_blank :: "'b app_ext \<Rightarrow> ('b, 'x) app_state \<Rightarrow> bool" where
  "app_blank e s \<longleftrightarrow> aw_auction (app_world_of s) = empty_auction_state (aw_bank (app_world_of s)) \<and>
     pool_ok e (app_world_of s) \<and> co_sched (aw_cork (app_world_of s)) = kv_empty \<and>
     ax_sched (app_axelar s) = kv_empty \<and> ax_winning (app_axelar s) = kv_empty"

section \<open>Steps\<close>

text \<open>
  One rule per way a state changes; what a cork module changes in the registry of pubsub, the other one sees. Bids are signed by users, who do not hold the key of a module account.
  Parameter changes of cellarfees keep the price decrease rate inside (0, 1) and the emission period
  positive, which the module's validation does not enforce. Other modules never take base coins out of the
  auction account and keep the community pool backed.
\<close>

inductive app_step ::
  "'b app_ext \<Rightarrow> cork_keeper \<Rightarrow> 'x axelar_keeper \<Rightarrow> ('b, 'x) app_state \<Rightarrow> ('b, 'x) app_state \<Rightarrow> bool"
  for e ck xk where
  block: "block_ready e ck xk ctx s \<Longrightarrow> app_block e ck xk ctx s = Ok s' \<Longrightarrow> app_step e ck xk s s'"
| bid: "AccAddressFromBech32 (ext_sdk e) (mb_Signer msg) = Some signer \<Longrightarrow> (\<And>m. signer \<noteq> NewModuleAddress (ext_sdk e) m) \<Longrightarrow>
    BlockHeight ctx \<noteq> 0 \<Longrightarrow> SubmitBid (app_AuctionKeeper e) ctx (aw_auction (app_world_of s)) msg = Ok (a, b) \<Longrightarrow>
    app_step e ck xk s (app_set_world s ((app_world_of s)\<lparr>aw_auction := a\<rparr>))"
| prices: "BlockHeight ctx \<noteq> 0 \<Longrightarrow>
    HandleSetTokenPricesProposal (app_AuctionKeeper e) ctx (aw_auction (app_world_of s)) p = Ok a \<Longrightarrow>
    app_step e ck xk s (app_set_world s ((app_world_of s)\<lparr>aw_auction := a\<rparr>))"
| schedule: "ScheduleCork ck ctx (aw_cork (app_world_of s)) m = Ok (c, i) \<Longrightarrow>
    app_step e ck xk s (app_set_world s ((app_world_of s)\<lparr>aw_cork := c\<rparr>))"
| cork_proposal: "cork_NewProposalHandler ck (aw_cork (app_world_of s)) p = Ok c \<Longrightarrow>
    app_step e ck xk s (app_set_pubsub (app_set_world s ((app_world_of s)\<lparr>aw_cork := c\<rparr>)) (co_pubsub c))"
| pubsub: "pubsub_NewHandler (ok_pubsub ck) (co_pubsub (aw_cork (app_world_of s))) m = Ok p \<Longrightarrow>
    app_step e ck xk s (app_set_pubsub s p)"
| pubsub_proposal: "NewPubsubProposalHandler (ok_pubsub ck) (co_pubsub (aw_cork (app_world_of s))) c = Ok p \<Longrightarrow>
    app_step e ck xk s (app_set_pubsub s p)"
| axelar: "axelar_action xk (app_axelar s) x \<Longrightarrow>
    app_step e ck xk s (app_set_pubsub (s\<lparr>app_axelar := x\<rparr>) (ax_pubsub x))"
| fee: "AfterSendToCosmosEvent (app_CellarFeesKeeper e ck) ev (app_fees s) = Ok f \<Longrightarrow>
    app_step e ck xk s (s\<lparr>app_fees := f\<rparr>)"
| fee_params: "cellarfees_SetParams (app_fees s) p = Ok f \<Longrightarrow> rate_ok (InitialPriceDecreaseRate p) \<Longrightarrow>
    0 < sint (RewardEmissionPeriod p) \<Longrightarrow> app_step e ck xk s (s\<lparr>app_fees := f\<rparr>)"
| auction_params: "auction_setParams (aw_auction (app_world_of s)) p = Ok a \<Longrightarrow>
    app_step e ck xk s (app_set_world s ((app_world_of s)\<lparr>aw_auction := a\<rparr>))"
| incentives_params: "SetParamSet (incentives_ParamSetPairs (ext_sdk e) p) = Ok () \<Longrightarrow>
    app_step e ck xk s (s\<lparr>app_incentives := p\<rparr>)"
| others: "w = (aw_set_bank (app_world_of s) b)\<lparr>aw_pool := q\<rparr> \<Longrightarrow> pool_ok e w \<Longrightarrow>
    module_balances e (app_world_of s) auction_ModuleName BaseCoinUnit \<le> module_balances e w auction_ModuleName BaseCoinUnit \<Longrightarrow>
    app_step e ck xk s (app_set_world s w)"

inductive app_reachable ::
  "'b app_ext \<Rightarrow> cork_keeper \<Rightarrow> 'x axelar_keeper \<Rightarrow> ('b, 'x) app_state \<Rightarrow> bool"
  for e ck xk where
  genesis: "app_blank e s0 \<Longrightarrow> app_InitGenesis e ck xk app_DefaultGenesis s0 = Ok s \<Longrightarrow> app_reachable e ck xk s"
| step: "app_reachable e ck xk s \<Longrightarrow> app_step e ck xk s s' \<Longrightarrow> app_reachable e ck xk s'"

section \<open>Steps keep the invariant\<close>

context auction_env begin

lemma SubmitBid_frame:
  assumes inv: "auction_inv k st" and ok: "SubmitBid k ctx st msg = Ok (st', bid)"
    and x: "x \<noteq> maddr" "AccAddressFromBech32 (ak_sdk k) (mb_Signer msg) \<noteq> Some x"
      "\<And>m. fundingModuleAccounts k m \<noteq> None \<or> proceedsModuleAccounts k m \<noteq> None \<Longrightarrow> x \<noteq> module_addr k m"
  shows "GetBalance (ak_bank k) (st_bank st') x d = GetBalance (ak_bank k) (st_bank st) x d"
proof -
  from ok obtain signer a b st3 e where *: "AccAddressFromBech32 (ak_sdk k) (mb_Signer msg) = Some signer"
    "GetActiveAuctionByID st (mb_AuctionId msg) = Some a" "transfer_bid k (st_bank st) signer bid = Ok b"
    "settle_bid k ctx (record_bid (st\<lparr>st_bank := b\<rparr>) (sell_to k st a bid) bid) (sell_to k st a bid) = Ok st3"
    "st' = auction_emit e st3" by (rule SubmitBid_cases)
  have "active_ok k st a" using store_wf_active(2) [OF _ *(2)] inv by (simp add: auction_inv_def)
  then have other: "x \<noteq> module_addr k (a_FundingModuleAccount (sell_to k st a bid))"
    "x \<noteq> module_addr k (a_ProceedsModuleAccount (sell_to k st a bid))"
    using x(3) by (auto simp: active_ok_def sell_to_def)
  have bank: "st_bank (record_bid (st\<lparr>st_bank := b\<rparr>) (sell_to k st a bid) bid) = b"
    by (simp add: record_bid_def setBid_def setActiveAuction_def)
  have "GetBalance (ak_bank k) (st_bank st3) x d = GetBalance (ak_bank k) b x d"
    using *(4) FinishAuction_frame [OF _ x(1) other] bank by (auto simp: settle_bid_def split: if_splits)
  moreover have "GetBalance (ak_bank k) b x d = GetBalance (ak_bank k) (st_bank st) x d"
    using transfer_bid_balance [OF *(3), of x d] x(1,2) *(1) by (simp add: moved_def)
  ultimately show ?thesis by (simp add: *(5) auction_emit_def)
qed

end

lemma proposal_bank: "HandleSetTokenPricesProposal k ctx st p = Ok st' \<Longrightarrow> st_bank st' = st_bank st"
proof -
  have "st_bank (foldl (\<lambda>s t. setTokenPrice s (proposed_price ctx t)) st ts) = st_bank st" for ts
    by (induction ts arbitrary: st) (simp_all add: setTokenPrice_def)
  then show "HandleSetTokenPricesProposal k ctx st p = Ok st' \<Longrightarrow> st_bank st' = st_bank st"
    by (auto simp: HandleSetTokenPricesProposal_Ok)
qed

context app_env begin

text \<open>Another auction state or another schedule in the shared world.\<close>

lemma app_inv_auction:
  assumes "app_inv e ck xk s" "auction_inv ak a"
    "\<And>d. GetBalance (ext_bank e) (st_bank a) (NewModuleAddress (ext_sdk e) distribution_ModuleName) d =
      GetBalance (ext_bank e) (aw_bank (app_world_of s)) (NewModuleAddress (ext_sdk e) distribution_ModuleName) d"
  shows "app_inv e ck xk (app_set_world s ((app_world_of s)\<lparr>aw_auction := a\<rparr>))"
  using assms by (simp add: app_inv_def app_set_world_def cellarfees_inv_def world_inv_def pool_ok_def module_balances_def)

lemma app_inv_cork:
  "app_inv e ck xk s \<Longrightarrow> sched_wf ck c \<Longrightarrow> app_inv e ck xk (app_set_world s ((app_world_of s)\<lparr>aw_cork := c\<rparr>))"
  by (simp add: app_inv_def app_set_world_def cellarfees_inv_def world_inv_def pool_ok_def module_balances_def)

lemma app_inv_pubsub:
  assumes "app_inv e ck xk s"
  shows "app_inv e ck xk (app_set_pubsub s p)"
proof -
  have "app_inv e ck xk (app_set_world s ((app_world_of s)\<lparr>aw_cork := (aw_cork (app_world_of s))\<lparr>co_pubsub := p\<rparr>\<rparr>))"
    by (rule app_inv_cork [OF assms]) (use assms in \<open>simp add: app_inv_def world_inv_def sched_wf_def\<close>)
  then show ?thesis by (simp add: app_set_pubsub_def app_set_world_def app_inv_def axelar_sched_wf_def winning_wf_def)
qed

lemma app_inv_sched: "app_inv e ck xk s \<Longrightarrow> sched_wf ck (aw_cork (app_world_of s))"
  by (simp add: app_inv_def world_inv_def)

text \<open>The hook of the bridge: which transfers count as fees.\<close>

lemma fee_event:
  assumes "cellarfees_inv st" "cf_counters st = Some cs"
    "denom = snd (ext_ERC20ToDenomLookup e (HexToAddress (ok_eth ck) (ev_TokenContract ev)))"
  shows "\<exists>st' cs'. AfterSendToCosmosEvent (app_CellarFeesKeeper e ck) ev st = Ok st' \<and> cellarfees_inv st' \<and>
    cf_params st' = cf_params st \<and> cf_peak st' = cf_peak st \<and> cf_world st' = cf_world st \<and> cf_counters st' = Some cs' \<and>
    counter_map cs' = (if ev_CosmosReceiver ev = AccAddress_String (ext_sdk e) (NewModuleAddress (ext_sdk e) cellarfees_ModuleName) \<and>
        ev_Amount ev \<noteq> 0 \<and> HasCellarID ck (aw_cork (cf_world st)) (HexToAddress (ok_eth ck) (ev_EthereumSender ev)) \<and>
        denom \<noteq> BaseCoinUnit
      then (counter_map cs)(denom \<mapsto> (case counter_map cs denom of None \<Rightarrow> 1 | Some n \<Rightarrow> n + 1)) else counter_map cs)"
proof -
  have acc: "GetFeesAccount (app_CellarFeesKeeper e ck) = Ok (NewModuleAddress (ext_sdk e) cellarfees_ModuleName)"
    using module_account own_accounts(2) by (simp add: GetFeesAccount_def)
  have cs: "GetFeeAccrualCounters st = Ok cs" "counters_ok cs" "BaseCoinUnit \<notin> fc_Denom ` set cs"
    using cellarfees_inv_counters [OF assms(1)] assms(2) by auto
  obtain cs' n where inc: "IncrementCounter cs denom = (cs', n)" by fastforce
  then have map': "counters_ok cs'" "counter_map cs' = (counter_map cs)(denom \<mapsto> n)"
    "n = (case counter_map cs denom of None \<Rightarrow> 1 | Some n \<Rightarrow> n + 1)"
    using fc.inc_ok [OF cs(2), of denom] fc.abs_inc [OF cs(2), of denom] fc.inc_count [OF cs(2), of denom] by simp_all
  have "fc_Denom ` set cs' = insert denom (fc_Denom ` set cs)"
    using map'(2) by (simp flip: dom_counter_map)
  then have "BaseCoinUnit \<notin> fc_Denom ` set cs'" if "denom \<noteq> BaseCoinUnit" using that cs(3) by auto
  then show ?thesis
    using assms cs map' inc
    by (simp add: AfterSendToCosmosEvent_def acc case_prod_beta Let_def SetFeeAccrualCounters_def cellarfees_emit_def cellarfees_inv_def)
qed

lemma fee_event_inv:
  assumes "app_inv e ck xk s" "AfterSendToCosmosEvent (app_CellarFeesKeeper e ck) ev (app_fees s) = Ok f"
  shows "app_inv e ck xk (s\<lparr>app_fees := f\<rparr>)"
proof -
  have inv: "cellarfees_inv (app_fees s)" using assms(1) by (simp add: app_inv_def)
  obtain cs where cs: "cf_counters (app_fees s) = Some cs" by (rule cellarfees_inv_counters [OF inv])
  from fee_event [OF inv cs refl, of ev] assms(2) have "cellarfees_inv f" "cf_params f = cf_params (app_fees s)"
    "cf_world f = cf_world (app_fees s)" by auto
  with assms(1) show ?thesis by (simp add: app_inv_def)
qed

end

context cork_env begin

lemma cork_schedule_wf:
  assumes "sched_wf k st" "ScheduleCork k ctx st m = Ok (st', i)"
  shows "sched_wf k st'"
proof -
  obtain v c where *: "length v = 20" "co_sched st' = kv_set (co_sched st) (GetScheduledCorkKey (msc_BlockHeight m)
       (IDHash (ok_eth k) c (msc_BlockHeight m)) v (cork_addr k c)) c"
    using assms(2) by (auto elim: ScheduleCork_sched)
  then have "sched_key_ok (ok_eth k) (GetScheduledCorkKey (msc_BlockHeight m) (IDHash (ok_eth k) c (msc_BlockHeight m)) v
      (cork_addr k c)) c" by (auto simp: sched_key_ok_iff)
  with * assms(1) show ?thesis by (auto simp: sched_wf_def intro!: kv_all_set)
qed

lemma cork_proposal_wf:
  assumes "sched_wf k st" "cork_NewProposalHandler k st p = Ok st'"
  shows "sched_wf k st'"
proof -
  have "co_sched st' = co_sched st"
    using assms(2) by (cases p) (auto simp: HandleAddManagedCellarsProposal_def HandleRemoveManagedCellarsProposal_def
        HandleScheduledCorkProposal_def SetCellarIDs_def Let_def split: if_splits prod.splits)
  with assms(1) show ?thesis by (simp add: sched_wf_def)
qed

end

text \<open>What the default genesis states leave in the stores.\<close>

lemma default_geneses:
  "incentives_InitGenesis ik i p = Ok i' \<Longrightarrow> i' = i\<lparr>in_params := p\<rparr> \<and> incentives_Params_ValidateBasic (ik_sdk ik) p = Ok ()"
  "cork_InitGenesis ck c cork_DefaultGenesisState = Ok c' \<Longrightarrow> co_sched c' = co_sched c"
  "axelar_InitGenesis xk x axelar_DefaultGenesisState = Ok x' \<Longrightarrow> ax_sched x' = ax_sched x \<and> ax_winning x' = ax_winning x"
  "cellarfees_InitGenesis fk f cellarfees_DefaultGenesisState = Ok f' \<Longrightarrow>
    cf_world f' = cf_world f \<and> cf_params f' = cellarfees_DefaultParams \<and> cf_counters f' = Some [] \<and> cellarfees_inv f'"
  "pubsub_InitGenesis pk p' pubsub_DefaultGenesisState = Ok p'' \<Longrightarrow> p'' = p'"
  by (auto simp: incentives_InitGenesis_def incentives_SetParams_def incentives_ParamSetPairs_def
      incentives_Params_ValidateBasic_def)
    (auto simp: cork_InitGenesis_def cork_SetParams_def cork_DefaultGenesisState_def SetLatestInvalidationNonce_def
      SetCellarIDs_def Let_def axelar_InitGenesis_def axelar_DefaultGenesisState_def axelar_SetParams_def
      cellarfees_InitGenesis_def cellarfees_SetParams_def cellarfees_DefaultGenesisState_def SetFeeAccrualCounters_def
      SetLastRewardSupplyPeak_def DefaultFeeAccrualCounters_def cellarfees_inv_def cellarfees_params_ok_def
      cellarfees_DefaultParams_def counters_ok_def pubsub_InitGenesis_def pubsub_DefaultGenesisState_def
      split: option.splits if_splits)

lemma block_ready_incentives [simp]: "block_ready e ck xk ctx (s\<lparr>app_incentives := p\<rparr>) = block_ready e ck xk ctx s"
  by (simp add: block_ready_def cong: option.case_cong)

text \<open>The application with an axelarcork module whose parts meet \<open>axelar_chain\<close>.\<close>

locale app_chain = app_env e has_account blocked ck xk + xchain: axelar_chain xk
  for e :: "'b app_ext" and has_account :: "string \<Rightarrow> bool" and blocked :: "addr \<Rightarrow> bool" and ck :: cork_keeper
    and xk :: "'x axelar_keeper"
begin

lemma app_genesis_cases:
  assumes "app_InitGenesis e ck xk app_DefaultGenesis s0 = Ok s"
  obtains c x f a where "co_sched c = co_sched (aw_cork (app_world_of s0))"
    "ax_sched x = ax_sched (app_axelar s0)" "ax_winning x = ax_winning (app_axelar s0)"
    "cf_params f = cellarfees_DefaultParams" "cf_counters f = Some []" "cellarfees_inv f"
    "auction_InitGenesis ak (aw_auction (app_world_of s0)) auction_DefaultGenesisState = Ok a"
    "incentives_Params_ValidateBasic (ext_sdk e) incentives_DefaultParams = Ok ()"
    "s = s0\<lparr>app_incentives := incentives_DefaultParams, app_axelar := x,
       app_fees := f\<lparr>cf_world := (app_world_of s0)\<lparr>aw_cork := c, aw_auction := a\<rparr>\<rparr>\<rparr>"
proof -
  from assms obtain i c x f a p where g:
    "incentives_InitGenesis (app_IncentivesKeeper e) \<lparr>in_params = app_incentives s0, in_world = app_world_of s0\<rparr>
      incentives_DefaultParams = Ok i"
    "cork_InitGenesis ck (aw_cork (in_world i)) cork_DefaultGenesisState = Ok c"
    "axelar_InitGenesis xk (app_axelar s0) axelar_DefaultGenesisState = Ok x"
    "cellarfees_InitGenesis (app_CellarFeesKeeper e ck) ((app_fees s0)\<lparr>cf_world := (in_world i)\<lparr>aw_cork := c\<rparr>\<rparr>)
      cellarfees_DefaultGenesisState = Ok f"
    "auction_InitGenesis ak (aw_auction (cf_world f)) auction_DefaultGenesisState = Ok a"
    "s = app_set_pubsub (app_set_world (s0\<lparr>app_incentives := in_params i, app_axelar := x, app_fees := f\<rparr>)
      ((cf_world f)\<lparr>aw_auction := a\<rparr>)) p"
    by (auto simp: app_InitGenesis_def app_DefaultGenesis_def app_set_world_def Let_def)
  note d = default_geneses(1) [OF g(1)] default_geneses(2) [OF g(2)] default_geneses(3) [OF g(3)] default_geneses(4) [OF g(4)]
  from d g(5) show ?thesis
    by (intro that [of "c\<lparr>co_pubsub := p\<rparr>" "x\<lparr>ax_pubsub := p\<rparr>" f a]) (simp_all add: g(6) app_set_pubsub_def app_set_world_def)
qed

lemma app_genesis_inv:
  assumes blank: "app_blank e s0" and ok: "app_InitGenesis e ck xk app_DefaultGenesis s0 = Ok s"
  shows "app_inv e ck xk s"
proof -
  from ok obtain c x f a where g: "co_sched c = co_sched (aw_cork (app_world_of s0))"
    "ax_sched x = ax_sched (app_axelar s0)" "ax_winning x = ax_winning (app_axelar s0)"
    "cf_params f = cellarfees_DefaultParams" "cf_counters f = Some []" "cellarfees_inv f"
    "auction_InitGenesis ak (aw_auction (app_world_of s0)) auction_DefaultGenesisState = Ok a"
    "incentives_Params_ValidateBasic (ext_sdk e) incentives_DefaultParams = Ok ()"
    "s = s0\<lparr>app_incentives := incentives_DefaultParams, app_axelar := x,
       app_fees := f\<lparr>cf_world := (app_world_of s0)\<lparr>aw_cork := c, aw_auction := a\<rparr>\<rparr>\<rparr>" by (rule app_genesis_cases)
  have a0: "auction_InitGenesis ak (empty_auction_state (aw_bank (app_world_of s0))) auction_DefaultGenesisState = Ok a"
    using g(7) blank by (simp add: app_blank_def)
  then have "st_bank a = aw_bank (app_world_of s0)"
    by (auto simp: auction_InitGenesis_def auction_DefaultGenesisState_def auction_setParams_def Let_def empty_auction_state_def
        split: if_splits)
  moreover have "auction_inv ak a" by (rule default_genesis_inv [OF a0]) (simp add: balance_nonneg)
  moreover have "rate_ok (InitialPriceDecreaseRate cellarfees_DefaultParams)" "0 < sint (RewardEmissionPeriod cellarfees_DefaultParams)"
    by (simp_all add: rate_ok_def cellarfees_DefaultParams_def dec_one_def)
  ultimately show ?thesis
    using blank g by (simp add: app_inv_def app_blank_def cellarfees_inv_def world_inv_def pool_ok_def module_balances_def
        sched_wf_def axelar_sched_wf_def winning_wf_def)
qed

text \<open>The first block is ready.\<close>

lemma app_genesis_ready:
  assumes "app_blank e s0" "app_InitGenesis e ck xk app_DefaultGenesis s0 = Ok s" "BlockHeight ctx \<noteq> 0"
  shows "block_ready e ck xk ctx s"
proof -
  from assms(2) obtain c x f a where "co_sched c = co_sched (aw_cork (app_world_of s0))" "ax_sched x = ax_sched (app_axelar s0)"
    "cf_counters f = Some []"
    "s = s0\<lparr>app_incentives := incentives_DefaultParams, app_axelar := x,
       app_fees := f\<lparr>cf_world := (app_world_of s0)\<lparr>aw_cork := c, aw_auction := a\<rparr>\<rparr>\<rparr>" by (rule app_genesis_cases)
  with assms(1,3) show ?thesis
    by (simp add: block_ready_def app_blank_def cork_entries_def kv_iter_def axelar_known_def)
qed

lemma app_step_inv: "app_step e ck xk s s' \<Longrightarrow> app_inv e ck xk s \<Longrightarrow> app_inv e ck xk s'"
proof (induction rule: app_step.induct)
  case (block ctx s s')
  then show ?case using block_step [of s ctx] by auto
next
  case (bid msg signer ctx s a b)
  have inv: "auction_inv ak (aw_auction (app_world_of s))" using bid.prems by (simp add: app_inv_def world_inv_def)
  have "auction_inv ak a" using auctions.SubmitBid_inv [OF inv _ bid(3,4)] bid(1,2) by auto
  then show ?case
  proof (rule app_inv_auction [OF bid.prems])
    fix d show "GetBalance (ext_bank e) (st_bank a) (NewModuleAddress (ext_sdk e) distribution_ModuleName) d =
      GetBalance (ext_bank e) (aw_bank (app_world_of s)) (NewModuleAddress (ext_sdk e) distribution_ModuleName) d"
      by (rule auctions.SubmitBid_frame [OF inv bid(4), simplified])
        (use bid(1,2) in \<open>auto simp: maddr_inj split: if_splits\<close>)
  qed
next
  case (prices ctx s p a)
  then show ?case
    using HandleSetTokenPricesProposal_inv [OF _ prices(1,2)] proposal_bank [OF prices(2)]
    by (intro app_inv_auction) (simp_all add: app_inv_def world_inv_def)
next
  case (schedule ctx s m c i)
  then show ?case by (blast intro: app_inv_cork cork.cork_schedule_wf app_inv_sched)
next
  case (cork_proposal s p c)
  then show ?case by (blast intro: app_inv_pubsub app_inv_cork cork.cork_proposal_wf app_inv_sched)
next
  case (pubsub s m p)
  then show ?case using app_inv_pubsub by blast
next
  case (pubsub_proposal s c p)
  then show ?case using app_inv_pubsub by blast
next
  case (axelar s x)
  then have "app_inv e ck xk (s\<lparr>app_axelar := x\<rparr>)"
    using xchain.axelar_action_layout [OF axelar(1)] by (simp add: app_inv_def axelar_layout_def)
  then show ?case by (rule app_inv_pubsub)
next
  case (fee ev s f)
  then show ?case using fee_event_inv by blast
next
  case (fee_params s p f)
  then show ?case by (auto simp: app_inv_def cellarfees_SetParams_def cellarfees_ParamSetPairs_def cellarfees_inv_def
        cellarfees_params_ok_def split: if_splits)
next
  case (auction_params s p a)
  then show ?case
    using auction_setParams_inv [OF _ auction_params(1)]
    by (intro app_inv_auction) (auto simp: app_inv_def world_inv_def auction_setParams_def)
next
  case (incentives_params p s)
  then show ?case by (simp add: app_inv_def incentives_ParamSetPairs_def incentives_Params_ValidateBasic_def)
next
  case (others w q s b)
  then have "auction_inv ak ((aw_auction (app_world_of s))\<lparr>st_bank := b\<rparr>)"
    by (intro auction_inv_bank) (simp_all add: app_inv_def world_inv_def module_balances_def aw_set_bank_def)
  with others show ?case
    by (simp add: app_inv_def app_set_world_def cellarfees_inv_def world_inv_def aw_set_bank_def)
qed

lemma app_reachable_inv: "app_reachable e ck xk s \<Longrightarrow> app_inv e ck xk s"
proof (induction rule: app_reachable.induct)
  case (genesis s0 s)
  then show ?case by (rule app_genesis_inv)
next
  case (step s s')
  then show ?case using app_step_inv by blast
qed

text \<open>A reachable state whose next block is ready has a reachable successor.\<close>

lemma app_reachable_block:
  assumes "app_reachable e ck xk s" "block_ready e ck xk ctx s"
  shows "\<exists>s'. app_block e ck xk ctx s = Ok s' \<and> app_reachable e ck xk s'"
proof -
  obtain s' where "app_block e ck xk ctx s = Ok s'"
    using block_step [OF app_reachable_inv [OF assms(1)] assms(2)] by blast
  moreover from this have "app_reachable e ck xk s'"
    using assms by (blast intro: app_reachable.step app_step.block)
  ultimately show ?thesis by blast
qed

end

end
