(* ===== verification/App_Properties.thy ===== *)
theory App_Properties
  imports App_Histories
begin

text \<open>
  The properties of the application as wired: blocks do not halt, fees are counted, auctioned and paid out
  as rewards, and the incentives move pool and coins together. The concrete application uses the
  reference bank and decimals, with one accrued fee denomination that has a price.
\<close>

section \<open>A concrete application\<close>

definition ref_safe_sub :: "dec_coins \<Rightarrow> dec_coins \<Rightarrow> dec_coins \<times> bool" where
  "ref_safe_sub p q = (p @ map (\<lambda>c. (fst c, - snd c)) q,
     list_ex (\<lambda>d. dec_amount p d < dec_amount q d) (map fst p @ map fst q))"

definition ex_ext :: "ref_bank_state app_ext" where
  "ex_ext = \<lparr>ext_sdk = ref_sdk, ext_bank = ref_bank, ext_GetModuleAccount = (\<lambda>m. Some (NewModuleAddress ref_sdk m)),
     ext_BlocksPerYear = (\<lambda>_. 5000000), ext_BondedRatio = (\<lambda>_. dec_one div 2), ext_StakingTokenSupply = (\<lambda>_. 1000000),
     ext_ERC20ToDenomLookup = (\<lambda>a. (True, ''gravity0xbb'')), ext_SafeSub = ref_safe_sub,
     ext_NewDecCoinsFromCoins = map (\<lambda>c. (cDenom c, NewDecFromInt (cAmount c)))\<rparr>"

lemma dec_amount_append [simp]: "dec_amount (p @ q) d = dec_amount p d + dec_amount q d"
  by (simp add: dec_amount_def)

lemma dec_amount_minus [simp]: "dec_amount (map (\<lambda>c. (fst c, - snd c)) q) d = - dec_amount q d"
  by (induction q) (auto simp: dec_amount_def)

lemma dec_amount_absent: "d \<notin> fst ` set p \<Longrightarrow> dec_amount p d = 0"
  by (induction p) (auto simp: dec_amount_def)

lemma ex_ext_simps [simp]: "ext_sdk ex_ext = ref_sdk" "ext_bank ex_ext = ref_bank" "ext_SafeSub ex_ext = ref_safe_sub"
  "ext_GetModuleAccount ex_ext m = Some (NewModuleAddress ref_sdk m)" "app_AuctionKeeper ex_ext = ex_keeper"
  by (simp_all add: ex_ext_def app_AuctionKeeper_def ex_keeper_def cellarfees_ModuleName_def)

interpretation ex_app: app_env ex_ext "\<lambda>_. True" ref_blocked ex_cork_keeper ex_axelar_keeper
proof (intro app_env.intro app_env_axioms.intro)
  show "chain_env (ext_sdk ex_ext) (ext_bank ex_ext) (\<lambda>_. True) ref_blocked" by (simp add: ref_env.chain_env_axioms)
  show "cork_env ex_cork_keeper" by (rule ex_cork_ax)
  show "axelar_env ex_axelar_keeper" by (rule ex_axelar_ax)
  show "ValidateDenom (ext_sdk ex_ext) BaseCoinUnit" by (simp add: ref_sdk_def BaseCoinUnit_def)
  fix p q r d d' negative and n :: int
  show "0 < n \<Longrightarrow> dec_amount (ext_NewDecCoinsFromCoins ex_ext [mk_coin d n]) d' = (if d' = d then NewDecFromInt n else 0)"
    by (simp add: ex_ext_def dec_amount_def)
  show "ext_SafeSub ex_ext p q = (r, negative) \<Longrightarrow> dec_amount r d = dec_amount p d - dec_amount q d"
    by (auto simp: ref_safe_sub_def)
  have "d \<in> fst ` set p \<union> fst ` set q" if "dec_amount p d < dec_amount q d" for d
    using that dec_amount_absent [of d p] dec_amount_absent [of d q] by fastforce
  then show "snd (ext_SafeSub ex_ext p q) \<longleftrightarrow> (\<exists>d. dec_amount p d < dec_amount q d)"
    by (auto simp: ref_safe_sub_def list_ex_iff) blast+
qed simp_all

lemmas ex_app_ax = ex_app.app_env_axioms

text \<open>One fee denomination with three accruals, 500 units of every coin in every account.\<close>

definition ex_fee_params :: cellarfees_params where
  "ex_fee_params = cellarfees_DefaultParams\<lparr>AuctionInterval := 7, RewardEmissionPeriod := 10\<rparr>"

definition ex_world :: "ref_bank_state app_world" where
  "ex_world = \<lparr>aw_auction = ex_state\<lparr>st_bank := (\<lambda>a d. 500)\<rparr>, aw_cork = ex_scheduled,
     aw_pool = [(BaseCoinUnit, 100 * dec_one)]\<rparr>"

definition ex_fees :: "ref_bank_state app_world cellarfees_state" where
  "ex_fees = \<lparr>cf_params = ex_fee_params, cf_peak = Some (big_Bytes 200),
     cf_counters = Some [\<lparr>fc_Denom = ''gravity0xbb'', fc_Count = 3\<rparr>], cf_world = ex_world, cf_events = []\<rparr>"

definition ex_app_state :: "(ref_bank_state, msg_transfer list) app_state" where
  "ex_app_state = \<lparr>app_fees = ex_fees, app_incentives = \<lparr>DistributionPerBlock = mk_coin BaseCoinUnit 3, IncentivesCutoffHeight = 1000\<rparr>,
     app_axelar = ex_axelar_state\<rparr>"

definition ex_app_ctx :: axelar_ctx where "ex_app_ctx = \<lparr>BlockHeight = 7, BlockTime = 1000\<rparr>"

lemma ex_pool_ok: "pool_ok ex_ext ex_world"
  by (simp add: pool_ok_def ex_world_def dec_amount_def module_balances_def ref_bank_def NewDecFromInt_def dec_one_def)

lemma ex_world_inv: "world_inv ex_ext ex_cork_keeper ex_world"
  using ex_pool_ok ex_state_inv_rich by (simp add: world_inv_def ex_world_def)

lemma ex_fees_inv: "cellarfees_inv ex_fees"
  by (simp add: cellarfees_inv_def ex_fees_def cellarfees_params_ok_def ex_fee_params_def cellarfees_DefaultParams_def
      counters_ok_def BaseCoinUnit_def)

lemma ex_app_inv: "app_inv ex_ext ex_cork_keeper ex_axelar_keeper ex_app_state"
  using ex_world_inv ex_fees_inv
  by (simp add: app_inv_def ex_app_state_def ex_axelar_wf)
    (simp add: ex_fees_def ex_fee_params_def cellarfees_DefaultParams_def rate_ok_def dec_one_def
      incentives_Params_ValidateBasic_def Coin_IsValid_def ref_sdk_def BaseCoinUnit_def)

lemma ex_block_ready: "block_ready ex_ext ex_cork_keeper ex_axelar_keeper ex_app_ctx ex_app_state"
proof -
  have "priced ex_keeper 1 (ex_state\<lparr>st_bank := (\<lambda>a d. 500)\<rparr>) ''gravity0xbb''" by code_simp
  moreover have "\<forall>x \<in> set (cork_entries ex_cork_keeper ex_scheduled 7). ok_ConsensusPower ex_cork_keeper (fst x) \<noteq> None"
    by (rule ex_scheduled_known)
  ultimately show ?thesis
    by (simp add: block_ready_def ex_app_state_def ex_app_ctx_def ex_axelar_wf list_all_iff) (simp add: ex_fees_def ex_world_def)
qed

section \<open>Blocks\<close>









section \<open>Fees and rewards\<close>

text \<open>
  C34. What the beginning of a block does to fees and rewards, with the real auction keeper: a counter
  stays or, in a block divisible by the auction interval and from the threshold on, is reset to zero
  because an auction of the whole balance of its denomination is now running. The reward supply and
  its peak make exactly one step of the emission machine: the share of a period of the peak, at least
  one unit, at most the supply.
\<close>

theorem cellarfees_BeginBlocker_effect:
  assumes "app_env e has_account blocked ck xk" "cellarfees_inv st" "rate_ok (InitialPriceDecreaseRate (cf_params st))"
    "0 < sint (RewardEmissionPeriod (cf_params st))" "BlockHeight ctx \<noteq> 0" "cf_counters st = Some cs"
    "\<forall>c \<in> set cs. priced (app_AuctionKeeper e) (length cs) (aw_auction (cf_world st)) (fc_Denom c)"
    "world_inv e ck (cf_world st)" "GetLastRewardSupplyPeak st = Ok peak"
    "acc = NewModuleAddress (ext_sdk e) cellarfees_ModuleName"
  shows "\<exists>st' cs' peak'. cellarfees_BeginBlocker (app_CellarFeesKeeper e ck) ctx st = Ok st' \<and> cellarfees_inv st' \<and>
    world_inv e ck (cf_world st') \<and> cf_counters st' = Some cs' \<and> GetLastRewardSupplyPeak st' = Ok peak' \<and>
    (peak', GetBalance (ext_bank e) (aw_bank (cf_world st')) acc BaseCoinUnit) =
      emission_step (sint (RewardEmissionPeriod (cf_params st)))
        (peak, GetBalance (ext_bank e) (aw_bank (cf_world st)) acc BaseCoinUnit) \<and>
    (\<forall>d. counter_map cs' d = counter_map cs d \<or>
      rem_i64 (BlockHeight ctx) (AuctionInterval (cf_params st)) = Ok 0 \<and> counter_map cs' d = Some 0 \<and>
      d \<in> sale_denom ` set (GetActiveAuctions (aw_auction (cf_world st'))) \<and>
      GetBalance (ext_bank e) (aw_bank (cf_world st')) acc d = 0 \<and>
      (\<exists>n. counter_map cs d = Some n \<and> FeeAccrualAuctionThreshold (cf_params st) \<le> n))"
  using app_env.fee_block [OF assms(1-9)] unfolding assms(10) .

lemma ex_fees_simps [simp]:
  "cf_params ex_fees = ex_fee_params" "cf_world ex_fees = ex_world" "GetLastRewardSupplyPeak ex_fees = Ok 200"
  "cf_counters ex_fees = Some [\<lparr>fc_Denom = ''gravity0xbb'', fc_Count = 3\<rparr>]"
  by (simp_all add: ex_fees_def GetLastRewardSupplyPeak_def)

lemma ex_fee_params_simps [simp]:
  "RewardEmissionPeriod ex_fee_params = 10" "AuctionInterval ex_fee_params = 7" "FeeAccrualAuctionThreshold ex_fee_params = 2"
  "rate_ok (InitialPriceDecreaseRate ex_fee_params)"
  by (simp_all add: ex_fee_params_def cellarfees_DefaultParams_def rate_ok_def dec_one_def)

lemma ex_world_balance [simp]: "GetBalance ref_bank (aw_bank ex_world) a d = 500"
  by (simp add: ex_world_def ref_bank_def)

lemma ex_priced: "priced ex_keeper 1 (aw_auction ex_world) ''gravity0xbb''"
  using ex_block_ready by (simp add: block_ready_def ex_app_state_def)

theorem cellarfees_BeginBlocker_effect_witness:
  "\<exists>st'. cellarfees_BeginBlocker (app_CellarFeesKeeper ex_ext ex_cork_keeper) \<lparr>BlockHeight = 7\<rparr> ex_fees = Ok st' \<and>
    GetBalance ref_bank (aw_bank (cf_world st')) (NewModuleAddress ref_sdk cellarfees_ModuleName) BaseCoinUnit = 450"
proof -
  have step: "emission_step 10 (200, 500) = (500, 450)"
    by (simp add: emission_step_def emission_share_def emission_base_def)
  show ?thesis
    using cellarfees_BeginBlocker_effect [where ctx = "\<lparr>BlockHeight = 7\<rparr>" and peak = 200 and
        cs = "[\<lparr>fc_Denom = ''gravity0xbb'', fc_Count = 3\<rparr>]", OF ex_app_ax ex_fees_inv _ _ _ _ _ _ _ refl]
      ex_world_inv ex_priced step by auto
qed

text \<open>
  C35. The parameters accept an initial price decrease rate of 0 or of at least 1 (their validation
  compares pointers), and such a rate halts the chain: as soon as an accrued denomination is due, is
  not on sale, has a balance and fresh prices, the attempt to auction it panics at the beginning of
  the block.
\<close>

theorem bad_rate_halts:
  assumes env: "app_env e has_account blocked ck xk" and p: "cellarfees_params_ok p" "\<not> rate_ok (InitialPriceDecreaseRate p)"
    and counters: "cf_counters st = Some cs" "c \<in> set cs" "FeeAccrualAuctionThreshold p \<le> fc_Count c"
    and due: "rem_i64 (BlockHeight ctx) (AuctionInterval p) = Ok 0"
    and world: "w = aw_auction (cf_world st)" "fc_Denom c \<notin> sale_denom ` set (GetActiveAuctions w)"
    "0 < GetBalance (ext_bank e) (st_bank w) (NewModuleAddress (ext_sdk e) cellarfees_ModuleName) (fc_Denom c)"
    "MinimumAuctionHeight (st_params w) < BlockHeight ctx"
    "GetTokenPrice w (fc_Denom c) = Some sale" "\<not> tokenPriceTooOld ctx w sale"
    "GetTokenPrice w BaseCoinUnit = Some usomm" "\<not> tokenPriceTooOld ctx w usomm"
  shows "\<exists>st'. cellarfees_SetParams st p = Ok st' \<and> is_panic (cellarfees_BeginBlocker (app_CellarFeesKeeper e ck) ctx st')"
proof (intro exI conjI)
  show "cellarfees_SetParams st p = Ok (st\<lparr>cf_params := p\<rparr>)"
    using p(1) by (simp add: cellarfees_SetParams_def cellarfees_ParamSetPairs_def cellarfees_params_ok_def)
  show "is_panic (cellarfees_BeginBlocker (app_CellarFeesKeeper e ck) ctx (st\<lparr>cf_params := p\<rparr>))"
    by (rule app_env.bad_rate_block [OF env, of _ cs c ctx w sale usomm]) (use p(2) counters due world in simp_all)
qed

theorem bad_rate_halts_witness:
  "\<exists>st'. cellarfees_SetParams ex_fees (ex_fee_params\<lparr>InitialPriceDecreaseRate := 0\<rparr>) = Ok st' \<and>
    is_panic (cellarfees_BeginBlocker (app_CellarFeesKeeper ex_ext ex_cork_keeper) \<lparr>BlockHeight = 7\<rparr> st')"
proof (rule bad_rate_halts [OF ex_app_ax, where w = "aw_auction ex_world" and cs = "[\<lparr>fc_Denom = ''gravity0xbb'', fc_Count = 3\<rparr>]"
      and c = "\<lparr>fc_Denom = ''gravity0xbb'', fc_Count = 3\<rparr>" and sale = "ex_price ''gravity0xbb'' 6 (2 * dec_one)"
      and usomm = "ex_price BaseCoinUnit 6 (dec_one div 10)"])
  show "cellarfees_params_ok (ex_fee_params\<lparr>InitialPriceDecreaseRate := 0\<rparr>)"
    by (simp add: cellarfees_params_ok_def ex_fee_params_def cellarfees_DefaultParams_def)
  show "fc_Denom \<lparr>fc_Denom = ''gravity0xbb'', fc_Count = 3\<rparr> \<notin> sale_denom ` set (GetActiveAuctions (aw_auction ex_world))"
    "MinimumAuctionHeight (st_params (aw_auction ex_world)) < BlockHeight \<lparr>BlockHeight = 7\<rparr>"
    "GetTokenPrice (aw_auction ex_world) (fc_Denom \<lparr>fc_Denom = ''gravity0xbb'', fc_Count = 3\<rparr>) = Some (ex_price ''gravity0xbb'' 6 (2 * dec_one))"
    "\<not> tokenPriceTooOld \<lparr>BlockHeight = 7\<rparr> (aw_auction ex_world) (ex_price ''gravity0xbb'' 6 (2 * dec_one))"
    "GetTokenPrice (aw_auction ex_world) BaseCoinUnit = Some (ex_price BaseCoinUnit 6 (dec_one div 10))"
    "\<not> tokenPriceTooOld \<lparr>BlockHeight = 7\<rparr> (aw_auction ex_world) (ex_price BaseCoinUnit 6 (dec_one div 10))"
    "rem_i64 (BlockHeight \<lparr>BlockHeight = 7\<rparr>) (AuctionInterval (ex_fee_params\<lparr>InitialPriceDecreaseRate := 0\<rparr>)) = Ok 0"
    by code_simp+
qed (simp_all add: rate_ok_def)

text \<open>
  Which transfers over the bridge count as fees: the hook always returns, changes nothing but the
  counters, and adds one to the counter of the token's denomination exactly when the receiver is the
  module account, the amount is not zero, the sender is a managed cellar of the cork module, and the
  denomination is not the base coin.
\<close>

lemma AfterSendToCosmosEvent_counts:
  assumes "app_env e has_account blocked ck xk" "cellarfees_inv st" "cf_counters st = Some cs"
    "denom = snd (ext_ERC20ToDenomLookup e (HexToAddress (ok_eth ck) (ev_TokenContract ev)))"
  shows "\<exists>st' cs'. AfterSendToCosmosEvent (app_CellarFeesKeeper e ck) ev st = Ok st' \<and> cellarfees_inv st' \<and>
    cf_params st' = cf_params st \<and> cf_peak st' = cf_peak st \<and> cf_world st' = cf_world st \<and> cf_counters st' = Some cs' \<and>
    counter_map cs' = (if ev_CosmosReceiver ev = AccAddress_String (ext_sdk e) (NewModuleAddress (ext_sdk e) cellarfees_ModuleName) \<and>
        ev_Amount ev \<noteq> 0 \<and> HasCellarID ck (aw_cork (cf_world st)) (HexToAddress (ok_eth ck) (ev_EthereumSender ev)) \<and>
        denom \<noteq> BaseCoinUnit
      then (counter_map cs)(denom \<mapsto> (case counter_map cs denom of None \<Rightarrow> 1 | Some n \<Rightarrow> n + 1)) else counter_map cs)"
  by (rule app_env.fee_event [OF assms])

lemma ex_counter_map [simp]: "counter_map [\<lparr>fc_Denom = d, fc_Count = n\<rparr>] = [d \<mapsto> n]"
  by (simp add: counter_map_def)

text \<open>
  C37. The sorted slice of counters refines a map: after any sequence of increments and resets it is
  still sorted without duplicates, and read as a map it is what the same updates make of the map.
\<close>

datatype counter_op = Inc string | Reset string

fun counter_step :: "fee_accrual_counters \<Rightarrow> counter_op \<Rightarrow> fee_accrual_counters" where
  "counter_step cs (Inc d) = fst (IncrementCounter cs d)"
| "counter_step cs (Reset d) = ResetCounter cs d"

fun counter_spec :: "(string \<rightharpoonup> u64) \<Rightarrow> counter_op \<Rightarrow> (string \<rightharpoonup> u64)" where
  "counter_spec m (Inc d) = m(d \<mapsto> (case m d of None \<Rightarrow> 1 | Some n \<Rightarrow> n + 1))"
| "counter_spec m (Reset d) = m(d \<mapsto> 0)"

theorem fee_counters_refine:
  assumes "counters_ok cs"
  shows "counters_ok (foldl counter_step cs ops) \<and> counter_map (foldl counter_step cs ops) = foldl counter_spec (counter_map cs) ops"
  using assms
proof (induction ops arbitrary: cs)
  case (Cons x ops)
  have "counters_ok (counter_step cs x) \<and> counter_map (counter_step cs x) = counter_spec (counter_map cs) x"
    using Cons.prems by (cases x) (simp_all add: fc.inc_ok fc.reset_ok fc.abs_inc fc.abs_reset fc.inc_count)
  with Cons.IH show ?case by simp
qed simp

theorem fee_counters_refine_witness:
  "counter_map (foldl counter_step [\<lparr>fc_Denom = ''b'', fc_Count = 3\<rparr>] [Inc ''a'', Reset ''b'', Inc ''a'']) = [''b'' \<mapsto> 0, ''a'' \<mapsto> 2]"
  using fee_counters_refine [of "[\<lparr>fc_Denom = ''b'', fc_Count = 3\<rparr>]" "[Inc ''a'', Reset ''b'', Inc ''a'']"]
  by (simp add: counters_ok_def fun_upd_twist)

text \<open>
  C38. The reward supply is spent: without income, after two emission periods and one block nothing is
  left on the module account, and no block before that fails. An emission is at least one unit, so
  the supply cannot linger below one share.
\<close>

theorem rewards_spent:
  assumes "app_env e has_account blocked ck xk" "world_inv e ck (cf_world st)" "GetLastRewardSupplyPeak st = Ok peak"
    "0 < sint (RewardEmissionPeriod (cf_params st))"
  shows "\<exists>st'. emission_blocks (app_CellarFeesKeeper e ck) (Suc (nat (2 * sint (RewardEmissionPeriod (cf_params st))))) st = Ok st' \<and>
    GetBalance (ext_bank e) (aw_bank (cf_world st')) (NewModuleAddress (ext_sdk e) cellarfees_ModuleName) BaseCoinUnit = 0 \<and>
    world_inv e ck (cf_world st') \<and> cf_counters st' = cf_counters st"
  by (rule app_env.emissions_end [OF assms])

theorem rewards_spent_witness:
  "\<exists>st'. emission_blocks (app_CellarFeesKeeper ex_ext ex_cork_keeper) 21 ex_fees = Ok st' \<and>
    GetBalance ref_bank (aw_bank (cf_world st')) (NewModuleAddress ref_sdk cellarfees_ModuleName) BaseCoinUnit = 0"
  using rewards_spent [OF ex_app_ax, of ex_fees 200] ex_world_inv by auto

text \<open>
  The genesis state of cellarfees round-trips: the export of a state that satisfies the invariant
  succeeds and is valid, importing it restores parameters, counters and the supply peak, and
  exporting again gives the same genesis state.
\<close>

lemma cellarfees_genesis_roundtrip:
  assumes "cellarfees_inv st" "ck_GetModuleAccount k cellarfees_ModuleName = Some acc"
  shows "\<exists>gs s1. cellarfees_ExportGenesis st = Ok gs \<and> cellarfees_Genesis_Validate gs = Ok () \<and>
    cellarfees_InitGenesis k s0 gs = Ok s1 \<and> cf_params s1 = cf_params st \<and> cf_counters s1 = cf_counters st \<and>
    GetLastRewardSupplyPeak s1 = GetLastRewardSupplyPeak st \<and> cf_world s1 = cf_world s0 \<and> cellarfees_ExportGenesis s1 = Ok gs"
proof -
  obtain cs where cs: "cf_counters st = Some cs" "GetFeeAccrualCounters st = Ok cs" "counters_ok cs"
    by (rule cellarfees_inv_counters [OF assms(1)])
  obtain peak where peak: "GetLastRewardSupplyPeak st = Ok peak" "0 \<le> peak" by (rule cellarfees_inv_peak [OF assms(1)])
  have p: "cellarfees_params_ok (cf_params st)" using assms(1) by (simp add: cellarfees_inv_def)
  let ?gs = "\<lparr>cg_Params = cf_params st, cg_FeeAccrualCounters = Some cs, cg_LastRewardSupplyPeak = peak\<rparr>"
  let ?s1 = "SetLastRewardSupplyPeak (SetFeeAccrualCounters (s0\<lparr>cf_params := cf_params st\<rparr>) cs) peak"
  have "cellarfees_ExportGenesis st = Ok ?gs" by (simp add: cellarfees_ExportGenesis_def cs peak)
  moreover have "sort_counters cs = cs"
    using cs(3) by (simp add: sort_counters_def counters_ok_iff sort_key_id_if_sorted)
  then have "cellarfees_Genesis_Validate ?gs = Ok ()"
    using p peak(2) by (simp add: cellarfees_Genesis_Validate_def cellarfees_Params_ValidateBasic_def cellarfees_params_ok_def)
  moreover have "cellarfees_InitGenesis k s0 ?gs = Ok ?s1"
    using p assms(2) by (simp add: cellarfees_InitGenesis_def cellarfees_SetParams_def cellarfees_ParamSetPairs_def cellarfees_params_ok_def)
  moreover have "GetLastRewardSupplyPeak ?s1 = Ok peak" "GetFeeAccrualCounters ?s1 = Ok cs" "cf_params ?s1 = cf_params st"
    "cf_counters ?s1 = Some cs" "cf_world ?s1 = cf_world s0"
    using peak(2) cs
    by (auto simp: SetLastRewardSupplyPeak_def SetFeeAccrualCounters_def GetLastRewardSupplyPeak_def GetFeeAccrualCounters_def)
  ultimately show ?thesis using cs(1) peak(1) by (simp add: cellarfees_ExportGenesis_def)
qed

section \<open>Incentives\<close>

text \<open>
  C40. What the incentives do at the end of a block below the cutoff height: if the community pool holds
  at least one distribution, exactly that amount of the base coin moves from the distribution module to
  the fee collector and the pool shrinks by the same amount, so the pool stays backed by coins;
  otherwise nothing happens. The block returns in both cases.
\<close>

theorem incentives_EndBlocker_pays:
  assumes "app_env e has_account blocked ck xk" "incentives_Params_ValidateBasic (ext_sdk e) (in_params st) = Ok ()"
    "\<not> incentives_off ctx (in_params st)" "pool_ok e (in_world st)" "n = cAmount (DistributionPerBlock (in_params st))"
  shows "if dec_amount (aw_pool (in_world st)) BaseCoinUnit < NewDecFromInt n
    then incentives_EndBlocker (app_IncentivesKeeper e) ctx st = Ok st
    else \<exists>st'. incentives_EndBlocker (app_IncentivesKeeper e) ctx st = Ok st' \<and> pool_ok e (in_world st') \<and>
      (\<forall>d. dec_amount (aw_pool (in_world st')) d =
        dec_amount (aw_pool (in_world st)) d - (if d = BaseCoinUnit then NewDecFromInt n else 0)) \<and>
      (\<forall>m d. module_balances e (in_world st') m d = module_balances e (in_world st) m d + (if d \<noteq> BaseCoinUnit then 0
        else if m = distribution_ModuleName then - n else if m = FeeCollectorName then n else 0))"
  using app_env.distribution [OF assms(1-4)] unfolding assms(5) .

theorem incentives_EndBlocker_pays_witness:
  "\<exists>st'. incentives_EndBlocker (app_IncentivesKeeper ex_ext) \<lparr>BlockHeight = 7\<rparr>
      \<lparr>in_params = app_incentives ex_app_state, in_world = ex_world\<rparr> = Ok st' \<and>
    dec_amount (aw_pool (in_world st')) BaseCoinUnit = 97 * dec_one"
proof -
  have pool: "dec_amount (aw_pool ex_world) BaseCoinUnit = 100 * dec_one" by (simp add: ex_world_def dec_amount_def)
  have "incentives_Params_ValidateBasic ref_sdk (app_incentives ex_app_state) = Ok ()"
    using ex_app_inv by (simp add: app_inv_def)
  moreover have "\<not> incentives_off \<lparr>BlockHeight = 7\<rparr> (app_incentives ex_app_state)"
    "cAmount (DistributionPerBlock (app_incentives ex_app_state)) = 3"
    by (simp_all add: incentives_off_def ex_app_state_def)
  ultimately show ?thesis
    using incentives_EndBlocker_pays [OF ex_app_ax, where st = "\<lparr>in_params = app_incentives ex_app_state, in_world = ex_world\<rparr>"
        and ctx = "\<lparr>BlockHeight = 7\<rparr>", OF _ _ _ refl] ex_pool_ok
    by (auto simp: pool NewDecFromInt_def)
qed

end
