(* ===== verification/Auction_Bids.thy ===== *)
theory Auction_Bids
  imports Auction_Safety
begin

text \<open>
  When a bid is accepted. A message that passed its stateless validation, signed by a user who may receive
  coins, never makes the handler panic as long as the prices it has to compute fit into 64 bits; and once
  the price of a bid is computed and the payment can be taken, nothing later in the handler can fail.
\<close>

section \<open>Pricing\<close>

text \<open>The amounts that the handler converts to 64-bit integers: the minimum and everything left, at the price of the auction.\<close>

definition bid_fits :: "auction \<Rightarrow> int \<Rightarrow> msg_submit_bid \<Rightarrow> bool" where
  "bid_fits a bal msg \<longleftrightarrow> bal * a_CurrentUnitPriceInUsomm a \<le> (2 ^ 63 - 1) * dec_one \<and>
     cAmount (mb_SaleTokenMinimumAmount msg) * a_CurrentUnitPriceInUsomm a \<le> (2 ^ 63 - 1) * dec_one"

lemma Bid_ValidateBasic_no_panic: "\<not> is_panic (Bid_ValidateBasic S b)"
  by (simp add: Bid_ValidateBasic_def)

context auction_env begin

lemma cost_fits:
  assumes "0 \<le> n" "0 < p" "n * p \<le> (2 ^ 63 - 1) * dec_one"
  shows "\<exists>c. TruncateInt64 (ak_sdk k) (Dec_Ceil (ak_sdk k) (n * p)) = Ok c \<and> 0 \<le> c"
proof -
  define c where "c = - ((- (n * p)) div dec_one)"
  have np: "0 \<le> n * p" using assms by simp
  note b = ceil_div_bounds [of "n * p", folded c_def]
  have "c * dec_one < (2 ^ 63 - 1) * dec_one + dec_one" using b(2) assms(3) by linarith
  then have "c < 2 ^ 63" by (simp add: dec_one_def)
  moreover have "0 \<le> c * dec_one" using b(1) np by linarith
  then have "0 \<le> c" by (simp add: zero_le_mult_iff dec_one_def)
  ultimately show ?thesis using trunc_ceil [OF np] by (simp add: TruncateInt64_def c_def)
qed

lemma fulfilled_no_panic:
  assumes "0 < a_CurrentUnitPriceInUsomm a" "0 < maxBid" "0 \<le> bal"
  shows "\<not> is_panic (fulfilledSaleTokens (ak_sdk k) a bal maxBid minimum)"
    "fulfilledSaleTokens (ak_sdk k) a bal maxBid minimum = Ok n \<Longrightarrow> 0 \<le> n \<and> n \<le> bal"
proof -
  have "0 \<le> Dec_Quo (ak_sdk k) (NewDecFromInt maxBid) (a_CurrentUnitPriceInUsomm a)"
    using assms by (intro quo_nonneg) (simp_all add: NewDecFromInt_def less_imp_le)
  then show "fulfilledSaleTokens (ak_sdk k) a bal maxBid minimum = Ok n \<Longrightarrow> 0 \<le> n \<and> n \<le> bal"
    using assms by (auto simp: fulfilledSaleTokens_def Quo_def Let_def trunc_eq pos_imp_zdiv_nonneg_iff split: if_splits)
  show "\<not> is_panic (fulfilledSaleTokens (ak_sdk k) a bal maxBid minimum)"
    using assms by (simp add: fulfilledSaleTokens_def Quo_def Let_def)
qed

lemma price_bid_no_panic:
  assumes act: "active_ok k st a" and bal: "0 \<le> bal" and fits: "bid_fits a bal msg"
    and msg: "0 < cAmount (mb_SaleTokenMinimumAmount msg)" "0 < cAmount (mb_MaxBidInUsomm msg)"
  shows "\<not> is_panic (price_bid k ctx st msg signer a bal)"
proof -
  let ?S = "ak_sdk k" and ?p = "a_CurrentUnitPriceInUsomm a"
  have p: "0 < ?p" and d: "ValidateDenom ?S (sale_denom a)" using act by (simp_all add: active_ok_def)
  have bp: "0 \<le> bal * ?p" "bal * ?p div dec_one < 2 ^ 63" "0 \<le> bal * ?p div dec_one"
    using bal p fits zdiv_mono1 [of "bal * ?p" "(2 ^ 63 - 1) * dec_one" dec_one]
    by (simp_all add: bid_fits_def dec_one_def pos_imp_zdiv_nonneg_iff)
  have "\<not> is_panic (minUsommBid ?S st a bal)"
    using bp trunc_eq [OF bp(1)] by (simp add: minUsommBid_def Let_def TruncateInt64_def)
  moreover obtain c where "minimumPurchasePriceInUsomm ?S a (cAmount (mb_SaleTokenMinimumAmount msg)) = Ok c"
    using cost_fits [of "cAmount (mb_SaleTokenMinimumAmount msg)" ?p] msg(1) p fits
    by (auto simp: minimumPurchasePriceInUsomm_def bid_fits_def)
  moreover have "\<exists>c. usommAmount ?S a n = Ok c \<and> 0 \<le> c"
    if "fulfilledSaleTokens ?S a bal (cAmount (mb_MaxBidInUsomm msg)) (cAmount (mb_SaleTokenMinimumAmount msg)) = Ok n" for n
  proof -
    have n: "0 \<le> n" "n \<le> bal" using fulfilled_no_panic(2) [OF p msg(2) bal that] by simp_all
    then have "n * ?p \<le> bal * ?p" using p by (intro mult_right_mono) simp_all
    then have "n * ?p \<le> (2 ^ 63 - 1) * dec_one" using fits by (simp add: bid_fits_def)
    with cost_fits [OF n(1) p] show ?thesis by (simp add: usommAmount_def)
  qed
  ultimately show ?thesis
    using fulfilled_no_panic(1) [OF p msg(2) bal] d usomm_valid
    by (simp add: price_bid_def Let_def is_panic_bind NewCoin_def Coin_IsValid_def Bid_ValidateBasic_no_panic) fastforce
qed

section \<open>Transfers\<close>

lemma transfer_bid_total:
  assumes act: "active_ok k st a" and bid: "price_bid k ctx st msg signer a (module_balance k st (sale_denom a)) = Ok bid"
    and msg: "0 < cAmount (mb_SaleTokenMinimumAmount msg)" "0 < cAmount (mb_MaxBidInUsomm msg)"
    and user: "\<not> blocked signer" "signer \<noteq> maddr"
    and pay: "SendCoinsFromAccountToModule (ak_bank k) (st_bank st) signer auction_ModuleName [b_TotalUsommPaid bid] = r"
  shows "transfer_bid k (st_bank st) signer bid = bind_res r (\<lambda>b. transfer_bid k (st_bank st) signer bid)"
    "r = Ok b1 \<Longrightarrow> \<exists>b. transfer_bid k (st_bank st) signer bid = Ok b"
proof -
  note fields = price_bid_fields [OF bid]
  have p: "0 < a_CurrentUnitPriceInUsomm a" and d: "ValidateDenom (ak_sdk k) (sale_denom a)" "sale_denom a \<noteq> BaseCoinUnit"
    using act by (simp_all add: active_ok_def)
  note amounts = price_bid_Ok [OF bid p msg balance_nonneg]
  let ?n = "cAmount (b_TotalFulfilledSaleTokens bid)"
  have n: "0 < ?n" using amounts(1) msg(1) by linarith
  then have "0 < paid bid * dec_one" using amounts(3) p by (intro less_le_trans [OF _ amounts(3)]) simp
  then have "0 < paid bid" by (simp add: zero_less_mult_iff dec_one_def)
  then have coins: "NewCoins (ak_sdk k) (b_TotalUsommPaid bid) = Ok [b_TotalUsommPaid bid]"
    "NewCoins (ak_sdk k) (b_TotalFulfilledSaleTokens bid) = Ok [b_TotalFulfilledSaleTokens bid]"
    using n fields(9,10) d usomm_valid by (simp_all add: NewCoins_def Coin_IsValid_def)
  show "transfer_bid k (st_bank st) signer bid = bind_res r (\<lambda>b. transfer_bid k (st_bank st) signer bid)"
    using pay by (cases r) (simp_all add: transfer_bid_def coins)
  assume r: "r = Ok b1"
  have "GetBalance (ak_bank k) b1 maddr (sale_denom a) = module_balance k st (sale_denom a)"
    using a2m_balance [OF pay [unfolded r], of maddr "sale_denom a"] fields(10) d(2) by (simp add: moved_def)
  with m2a_funds [OF has_accounts(1) user(1), of "b_TotalFulfilledSaleTokens bid" b1] n d(1) fields(9) amounts(2)
  obtain b where "SendCoinsFromModuleToAccount (ak_bank k) b1 auction_ModuleName signer [b_TotalFulfilledSaleTokens bid] = Ok b"
    by auto
  then show "\<exists>b. transfer_bid k (st_bank st) signer bid = Ok b" using pay r by (simp add: transfer_bid_def coins)
qed

section \<open>The handler\<close>

text \<open>The message and its signer, as they reach the handler.\<close>

lemma SubmitBid_unfold:
  assumes "AccAddressFromBech32 (ak_sdk k) (mb_Signer msg) = Some signer"
    "GetActiveAuctionByID st (mb_AuctionId msg) = Some a" "sale_denom a = cDenom (mb_SaleTokenMinimumAmount msg)"
  shows "\<exists>ev. SubmitBid k ctx st msg = bind_res (price_bid k ctx st msg signer a (module_balance k st (sale_denom a))) (\<lambda>bid.
    bind_res (transfer_bid k (st_bank st) signer bid) (\<lambda>bank.
    bind_res (Coin_Sub (mk_coin (sale_denom a) (module_balance k st (sale_denom a))) (b_TotalFulfilledSaleTokens bid)) (\<lambda>remaining.
    bind_res (settle_bid k ctx (record_bid (st\<lparr>st_bank := bank\<rparr>) (a\<lparr>a_RemainingTokensForSale := remaining\<rparr>) bid)
      (a\<lparr>a_RemainingTokensForSale := remaining\<rparr>)) (\<lambda>st3. Ok (auction_emit (ev bid) st3, bid)))))"
  using assms unfolding SubmitBid_def
  by (intro exI) (simp add: MustGetSigner_def auction_account Let_def; rule refl)

lemma SubmitBid_transferred:
  assumes inv: "auction_inv k st" and signer: "AccAddressFromBech32 (ak_sdk k) (mb_Signer msg) = Some signer" "signer \<noteq> maddr"
    and a: "GetActiveAuctionByID st (mb_AuctionId msg) = Some a" "sale_denom a = cDenom (mb_SaleTokenMinimumAmount msg)"
    and msg: "0 < cAmount (mb_SaleTokenMinimumAmount msg)" "0 < cAmount (mb_MaxBidInUsomm msg)" and height: "BlockHeight ctx \<noteq> 0"
    and bid: "price_bid k ctx st msg signer a (module_balance k st (sale_denom a)) = Ok bid"
    and tr: "transfer_bid k (st_bank st) signer bid = Ok b"
  shows "\<exists>st'. SubmitBid k ctx st msg = Ok (st', bid)"
proof -
  let ?a = "sell_to k st a bid" and ?s = "record_bid (st\<lparr>st_bank := b\<rparr>) (sell_to k st a bid) bid"
  have act: "active_ok k st a" "a_Id a = mb_AuctionId msg"
    using store_wf_active [OF _ a(1), of k] inv by (simp_all add: auction_inv_def)
  then have p: "0 < a_CurrentUnitPriceInUsomm a" by (simp add: active_ok_def)
  have rem: "Coin_Sub (mk_coin (sale_denom a) (module_balance k st (sale_denom a))) (b_TotalFulfilledSaleTokens bid) =
      Ok (a_RemainingTokensForSale ?a)" "a\<lparr>a_RemainingTokensForSale := a_RemainingTokensForSale ?a\<rparr> = ?a"
    using price_bid_Ok(2) [OF bid p msg balance_nonneg] price_bid_fields(9) [OF bid] by (simp_all add: Coin_Sub_def sell_to_def)
  note rec = record_bid_inv [OF inv a(1) bid tr signer(2)]
  have "a_Id ?a = mb_AuctionId msg" using act(2) by (simp add: sell_to_def)
  then have "\<exists>st3. settle_bid k ctx ?s ?a = Ok st3"
    using FinishAuction_total [OF rec(1) _ refl refl refl height, of ?a] rec(2)
    by (auto simp: settle_bid_def)
  then show ?thesis using SubmitBid_unfold [OF signer(1) a, of ctx] by (auto simp: bid tr rem)
qed

lemma SubmitBid_user:
  assumes inv: "auction_inv k st" and msg: "MsgSubmitBid_ValidateBasic (ak_sdk k) msg = Ok ()"
    and signer: "AccAddressFromBech32 (ak_sdk k) (mb_Signer msg) = Some signer" "\<not> blocked signer" "signer \<noteq> maddr"
    and height: "BlockHeight ctx \<noteq> 0"
    and fits: "\<And>a. GetActiveAuctionByID st (mb_AuctionId msg) = Some a \<Longrightarrow> bid_fits a (module_balance k st (sale_denom a)) msg"
    and bank: "\<And>cs. \<not> is_panic (SendCoinsFromAccountToModule (ak_bank k) (st_bank st) signer auction_ModuleName cs)"
  shows "\<not> is_panic (SubmitBid k ctx st msg)"
    "GetActiveAuctionByID st (mb_AuctionId msg) = Some a \<Longrightarrow> sale_denom a = cDenom (mb_SaleTokenMinimumAmount msg) \<Longrightarrow>
      price_bid k ctx st msg signer a (module_balance k st (sale_denom a)) = Ok bid \<Longrightarrow>
      SendCoinsFromAccountToModule (ak_bank k) (st_bank st) signer auction_ModuleName [b_TotalUsommPaid bid] = Ok b1 \<Longrightarrow>
      \<exists>st'. SubmitBid k ctx st msg = Ok (st', bid)"
proof -
  have m: "0 < cAmount (mb_SaleTokenMinimumAmount msg)" "0 < cAmount (mb_MaxBidInUsomm msg)"
    using msg by (simp_all add: MsgSubmitBid_ValidateBasic_Ok)
  have act: "active_ok k st a" if "GetActiveAuctionByID st (mb_AuctionId msg) = Some a" for a
    using store_wf_active(2) [OF _ that, of k] inv by (simp add: auction_inv_def)
  have accepted: "\<exists>st'. SubmitBid k ctx st msg = Ok (st', bid)"
    if "GetActiveAuctionByID st (mb_AuctionId msg) = Some a" "sale_denom a = cDenom (mb_SaleTokenMinimumAmount msg)"
      "price_bid k ctx st msg signer a (module_balance k st (sale_denom a)) = Ok bid"
      "SendCoinsFromAccountToModule (ak_bank k) (st_bank st) signer auction_ModuleName [b_TotalUsommPaid bid] = Ok b1" for a bid b1
    using transfer_bid_total(2) [OF act [OF that(1)] that(3) m signer(2,3) that(4) refl]
      SubmitBid_transferred [OF inv signer(1,3) that(1,2) m height that(3)] by blast
  show "GetActiveAuctionByID st (mb_AuctionId msg) = Some a \<Longrightarrow> sale_denom a = cDenom (mb_SaleTokenMinimumAmount msg) \<Longrightarrow>
      price_bid k ctx st msg signer a (module_balance k st (sale_denom a)) = Ok bid \<Longrightarrow>
      SendCoinsFromAccountToModule (ak_bank k) (st_bank st) signer auction_ModuleName [b_TotalUsommPaid bid] = Ok b1 \<Longrightarrow>
      \<exists>st'. SubmitBid k ctx st msg = Ok (st', bid)" by (rule accepted)
  show "\<not> is_panic (SubmitBid k ctx st msg)"
  proof (cases "\<exists>a. GetActiveAuctionByID st (mb_AuctionId msg) = Some a \<and> sale_denom a = cDenom (mb_SaleTokenMinimumAmount msg)")
    case False
    then show ?thesis
      using signer(1) by (auto simp: SubmitBid_def MustGetSigner_def auction_account split: option.splits)
  next
    case True
    then obtain a where a: "GetActiveAuctionByID st (mb_AuctionId msg) = Some a" "sale_denom a = cDenom (mb_SaleTokenMinimumAmount msg)"
      by blast
    note no = price_bid_no_panic [OF act [OF a(1)] balance_nonneg fits [OF a(1)] m, of ctx signer]
    show ?thesis
    proof (cases "price_bid k ctx st msg signer a (module_balance k st (sale_denom a))")
      case (Ok bid)
      note split = transfer_bid_total(1) [OF act [OF a(1)] Ok m signer(2,3) refl]
      show ?thesis
        using accepted [OF a Ok] bank [of "[b_TotalUsommPaid bid]"] split SubmitBid_unfold [OF signer(1) a, of ctx]
        by (cases "SendCoinsFromAccountToModule (ak_bank k) (st_bank st) signer auction_ModuleName [b_TotalUsommPaid bid]")
          (auto simp: Ok)
    qed (use no SubmitBid_unfold [OF signer(1) a, of ctx] in auto)
  qed
qed

end

end
