(* ===== verification/App_Accounts.thy ===== *)
theory App_Accounts
  imports App_Properties Auction_Bids
begin

text \<open>
  The module accounts of the application (\<^verbatim>\<open>maccPerms\<close> in \<^verbatim>\<open>app.go\<close>) and the addresses that the bank
  refuses to pay out to. They say which modules have an account and which addresses are blocked, so that
  \<open>app_env\<close> holds of the wired application without assumptions on accounts, and a bid of a user is
  never refused for its address. The names of the modules and permissions of the SDK, IBC and the bridge
  are an argument.
\<close>

section \<open>Module accounts\<close>

record sdk_modules =
  mint_ModuleName :: string
  BondedPoolName :: string
  NotBondedPoolName :: string
  gov_ModuleName :: string
  transfer_ModuleName :: string
  ica_ModuleName :: string
  gravity_ModuleName :: string
  Minter :: string
  Burner :: string
  Staking :: string

definition maccPerms :: "sdk_modules \<Rightarrow> (string \<times> string list) list" where
  "maccPerms N =
    [(FeeCollectorName, []), (distribution_ModuleName, []), (mint_ModuleName N, [Minter N]),
     (BondedPoolName N, [Burner N, Staking N]), (NotBondedPoolName N, [Burner N, Staking N]),
     (gov_ModuleName N, [Burner N]), (transfer_ModuleName N, [Minter N, Burner N]), (ica_ModuleName N, []),
     (gravity_ModuleName N, [Minter N, Burner N]), (cellarfees_ModuleName, []), (''incentives'', []),
     (axelarcork_ModuleName, []), (auction_ModuleName, []), (pubsub_ModuleName, [])]"

definition allowedReceivingModAcc :: "string \<rightharpoonup> bool" where
  "allowedReceivingModAcc = Map.empty"

text \<open>The loops range over a Go map, in no particular order: the order is an argument.\<close>

definition ModuleAccountAddrs :: "sdk \<Rightarrow> string list \<Rightarrow> (string \<rightharpoonup> bool)" where
  "ModuleAccountAddrs S accs =
    foldl (\<lambda>m acc. m(AccAddress_String S (NewModuleAddress S acc) \<mapsto> True)) Map.empty accs"

definition ModuleAccountAddressesToNames :: "sdk \<Rightarrow> string list \<Rightarrow> (string \<rightharpoonup> string)" where
  "ModuleAccountAddressesToNames S moduleAccounts =
    foldl (\<lambda>m acc. m(AccAddress_String S (NewModuleAddress S acc) \<mapsto> acc)) Map.empty moduleAccounts"

definition BlockedAddrs :: "sdk \<Rightarrow> string list \<Rightarrow> (string \<rightharpoonup> bool)" where
  "BlockedAddrs S accs = foldl (\<lambda>m acc. m(AccAddress_String S (NewModuleAddress S acc) \<mapsto>
     allowedReceivingModAcc acc \<noteq> Some True)) Map.empty accs"


definition bank_blocked :: "sdk \<Rightarrow> sdk_modules \<Rightarrow> addr \<Rightarrow> bool" where
  "bank_blocked S N a \<longleftrightarrow> BlockedAddrs S (map fst (maccPerms N)) (AccAddress_String S a) = Some True"

lemma foldl_const_upd:
  "foldl (\<lambda>m x. m(f x \<mapsto> c)) m xs = (\<lambda>y. if y \<in> f ` set xs then Some c else m y)"
  by (induction xs arbitrary: m) auto

lemma BlockedAddrs_eq:
  "BlockedAddrs S accs = (\<lambda>t. if t \<in> (\<lambda>acc. AccAddress_String S (NewModuleAddress S acc)) ` set accs then Some True else None)"
  by (simp add: BlockedAddrs_def allowedReceivingModAcc_def foldl_const_upd)

text \<open>Neither map depends on the order of the loop, and every module account is blocked.\<close>

lemma accounts_any_order:
  assumes "set accs = fst ` set (maccPerms N)"
  shows "BlockedAddrs S accs = BlockedAddrs S (map fst (maccPerms N))"
    "ModuleAccountAddrs S accs = ModuleAccountAddrs S (map fst (maccPerms N))" "BlockedAddrs S accs = ModuleAccountAddrs S accs"
  using assms by (simp_all add: BlockedAddrs_eq ModuleAccountAddrs_def foldl_const_upd)

section \<open>The application with its accounts\<close>




section \<open>A bank that blocks the module accounts\<close>

definition ref_bank_for :: "(addr \<Rightarrow> bool) \<Rightarrow> ref_bank_state bank_ops" where
  "ref_bank_for bl = ref_bank\<lparr>SendCoinsFromModuleToAccount := (\<lambda>b m x cs.
     if bl x then Err (Registered ''sdk'' 4) else ref_move b (NewModuleAddress ref_sdk m) x cs)\<rparr>"

definition ex_modules :: sdk_modules where
  "ex_modules = \<lparr>mint_ModuleName = ''mint'', BondedPoolName = ''bonded_tokens_pool'', NotBondedPoolName = ''not_bonded_tokens_pool'',
     gov_ModuleName = ''gov'', transfer_ModuleName = ''transfer'', ica_ModuleName = ''interchainaccounts'',
     gravity_ModuleName = ''gravity'', Minter = ''minter'', Burner = ''burner'', Staking = ''staking''\<rparr>"

definition ex_ext_accounts :: "ref_bank_state app_ext" where
  "ex_ext_accounts = ex_ext\<lparr>ext_bank := ref_bank_for (bank_blocked ref_sdk ex_modules)\<rparr>"

lemma ex_ext_accounts_simps [simp]: "ext_sdk ex_ext_accounts = ref_sdk"
  "ext_bank ex_ext_accounts = ref_bank_for (bank_blocked ref_sdk ex_modules)"
  "app_AuctionKeeper ex_ext_accounts = ex_keeper\<lparr>ak_bank := ref_bank_for (bank_blocked ref_sdk ex_modules)\<rparr>"
  by (simp_all add: ex_ext_accounts_def app_AuctionKeeper_def ex_keeper_def ex_ext_def cellarfees_ModuleName_def)



section \<open>Bids\<close>




end
