(* ===== verification/Upgrades.thy ===== *)
theory Upgrades
  imports App_Histories Certificates
begin

text \<open>
  The upgrades of the chain (\<^verbatim>\<open>app/upgrades/v5\<close>, \<^verbatim>\<open>app/upgrades/v7\<close>) and the store migration of the cork
  module (\<^verbatim>\<open>x/cork/migrations/v1\<close>, \<^verbatim>\<open>x/cork/keeper/migrations.go\<close>). An upgrade handler runs once, at the
  height of the upgrade, and writes the genesis states of the modules that the upgrade introduces. The
  module manager (\<^verbatim>\<open>RunMigrations\<close>) and the parameters of the interchain accounts host are arguments.
\<close>

section \<open>The store migration of the cork module\<close>

text \<open>
  Both versions of the module use one store. \<open>v1_corks\<close> and \<open>v1_commitPeriodStart\<close> are the keys that only
  version 1 uses, \<open>v1_store\<close> is the rest as version 2 reads it: before the migration its schedule
  holds the corks of version 1, whose message is the same. \<open>v1_hasMaxCorks\<close> says whether the parameter
  that version 2 adds has been set.
\<close>

record cork_v1_state =
  v1_hasMaxCorks :: bool
  v1_corks :: "cork kvstore"
  v1_commitPeriodStart :: "bytes option"
  v1_store :: cork_state

definition v1_GetCorkForValidatorAddressKey :: "addr \<Rightarrow> addr \<Rightarrow> bytes" where
  "v1_GetCorkForValidatorAddressKey val contract = [1] @ val @ contract"

definition v1_GetScheduledCorkKey :: "u64 \<Rightarrow> addr \<Rightarrow> addr \<Rightarrow> bytes" where
  "v1_GetScheduledCorkKey blockHeight val contract = [5] @ PutUint64 blockHeight @ val @ contract"

definition removeCommitPeriod :: "cork_v1_state \<Rightarrow> cork_v1_state" where
  "removeCommitPeriod s = s\<lparr>v1_commitPeriodStart := None\<rparr>"

text \<open>
  The conversion \<^verbatim>\<open>sdk.ValAddress(validatorCork.Validator)\<close> turns the text of the address into bytes; it
  does not decode it.
\<close>

definition removeOldCorks :: "sdk \<Rightarrow> eth \<Rightarrow> cork_v1_state \<Rightarrow> cork_v1_state" where
  "removeOldCorks S E s =
    (let validatorCorks = map (\<lambda>(key, cork). (cork, ValAddress_String S (take 20 (drop 1 key)))) (kv_iter (v1_corks s) [1]);
         corks = foldl (\<lambda>m (cork, validator). kv_del m (v1_GetCorkForValidatorAddressKey (string_bytes validator)
           (HexToAddress E (c_TargetContractAddress cork)))) (v1_corks s) validatorCorks;
         sched = co_sched (v1_store s);
         scheduledCorks = map (\<lambda>(key, cork). (cork, BigEndianToUint64 (Some (take 8 (drop 1 key))),
           ValAddress_String S (take 20 (drop 9 key)))) (kv_iter sched [5])
     in s\<lparr>v1_corks := corks, v1_store := (v1_store s)\<lparr>co_sched :=
          foldl (\<lambda>m (cork, blockHeight, validator). kv_del m (v1_GetScheduledCorkKey blockHeight
            (string_bytes validator) (HexToAddress E (c_TargetContractAddress cork)))) sched scheduledCorks\<rparr>\<rparr>)"

definition cork_MigrateStore :: "sdk \<Rightarrow> eth \<Rightarrow> cork_v1_state \<Rightarrow> cork_v1_state" where
  "cork_MigrateStore S E s = removeOldCorks S E (removeCommitPeriod s)"

definition cork_MigrateParamStore :: "cork_v1_state \<Rightarrow> cork_v1_state" where
  "cork_MigrateParamStore s =
    (if \<not> v1_hasMaxCorks s
     then s\<lparr>v1_hasMaxCorks := True, v1_store := (v1_store s)\<lparr>co_params := (co_params (v1_store s))
        \<lparr>MaxCorksPerValidator := MaxCorksPerValidator cork_DefaultParams\<rparr>\<rparr>\<rparr>
     else s)"

definition cork_Migrate1to2 :: "cork_keeper \<Rightarrow> cork_v1_state \<Rightarrow> cork_v1_state" where
  "cork_Migrate1to2 k s = cork_MigrateStore (ok_sdk k) (ok_eth k) (cork_MigrateParamStore s)"

section \<open>Version 5\<close>

definition v5_incentivesInitGenesis :: "'w incentives_keeper \<Rightarrow> 'w incentives_state \<Rightarrow> 'w incentives_state res" where
  "v5_incentivesInitGenesis k st =
    (let upgradeHeight = 7766725; incentivesBlocks = 5000000
     in bind_res (NewCoin (ik_sdk k) BaseCoinUnit 2000000) (\<lambda>distribution.
        incentives_InitGenesis k st \<lparr>DistributionPerBlock = distribution,
          IncentivesCutoffHeight = upgradeHeight + incentivesBlocks\<rparr>))"

type_synonym version_map = "string \<rightharpoonup> u64"

text \<open>
  \<open>versions\<close> are the consensus versions of the modules of the application, \<open>runMigrations\<close> is the
  module manager's \<^verbatim>\<open>RunMigrations\<close>.
\<close>

definition v5_UpgradeHandler ::
  "'b app_ext \<Rightarrow> (string \<Rightarrow> u64) \<Rightarrow> (('b, 'x) app_state \<Rightarrow> version_map \<Rightarrow> (('b, 'x) app_state \<times> version_map) res)
    \<Rightarrow> ('b, 'x) app_state \<Rightarrow> version_map \<Rightarrow> (('b, 'x) app_state \<times> version_map) res" where
  "v5_UpgradeHandler e versions runMigrations s fromVM =
    bind_res (v5_incentivesInitGenesis (app_IncentivesKeeper e)
      \<lparr>in_params = app_incentives s, in_world = app_world_of s\<rparr>) (\<lambda>i.
    runMigrations (app_set_world (s\<lparr>app_incentives := in_params i\<rparr>) (in_world i))
      (fromVM(''incentives'' \<mapsto> versions ''incentives'')))"

section \<open>Version 7\<close>

definition MustNewDecFromStr :: "sdk \<Rightarrow> string \<Rightarrow> dec res" where
  "MustNewDecFromStr S s = (case NewDecFromStr S s of None \<Rightarrow> Panic ''invalid decimal'' | Some d \<Rightarrow> Ok d)"

definition v7_token_prices :: "u64 \<Rightarrow> dec \<Rightarrow> dec \<Rightarrow> dec \<Rightarrow> dec \<Rightarrow> token_price list" where
  "v7_token_prices lastUpdatedBlock usomm52WeekLow eth52WeekHigh btc52WeekHigh oneDollar =
    map (\<lambda>(denom, usd, exponent). \<lparr>tp_Denom = denom, tp_Exponent = exponent, tp_UsdPrice = usd,
        tp_LastUpdatedBlock = lastUpdatedBlock\<rparr>)
      [(''usomm'', usomm52WeekLow, 6),
       (''gravity0xA0b86991c6218b36c1d19D4a2e9Eb0cE3606eB48'', oneDollar, 6),
       (''gravity0xdAC17F958D2ee523a2206206994597C13D831ec7'', oneDollar, 6),
       (''gravity0x6B175474E89094C44Da98b954EedeAC495271d0F'', oneDollar, 18),
       (''gravity0x853d955aCEf822Db058eb8505911ED77F175b99e'', oneDollar, 18),
       (''gravity0xC02aaA39b223FE8D0A0e5C4F27eAD9083C756Cc2'', eth52WeekHigh, 18),
       (''gravity0x2260FAC5E5542a773Aa44fBCfeDf7C193bc2C599'', btc52WeekHigh, 8)]"

definition v7_auctionInitGenesis :: "'b auction_keeper \<Rightarrow> ctx \<Rightarrow> 'b auction_state \<Rightarrow> 'b auction_state res" where
  "v7_auctionInitGenesis k ctx st =
    bind_res (MustNewDecFromStr (ak_sdk k) ''0.079151'') (\<lambda>usomm52WeekLow.
    bind_res (MustNewDecFromStr (ak_sdk k) ''2618.33'') (\<lambda>eth52WeekHigh.
    bind_res (MustNewDecFromStr (ak_sdk k) ''46936.19'') (\<lambda>btc52WeekHigh.
    bind_res (MustNewDecFromStr (ak_sdk k) ''1.0'') (\<lambda>oneDollar.
    let genesisState = auction_DefaultGenesisState\<lparr>ag_Params := auction_DefaultParams\<lparr>MinimumAuctionHeight := 13020000\<rparr>,
          ag_TokenPrices := v7_token_prices (BlockHeight ctx) usomm52WeekLow eth52WeekHigh btc52WeekHigh oneDollar\<rparr>
    in bind_res (panic_on_err (auction_Genesis_Validate (ak_sdk k) genesisState)) (\<lambda>_.
       auction_InitGenesis k st genesisState)))))"

definition v7_axelar_params :: axelar_params where
  "v7_axelar_params = axelar_DefaultParams\<lparr>Enabled := True, TimeoutDuration := 21600000000000,
     IbcChannel := ''channel-5'', IbcPort := ''transfer'',
     GmpAccount := ''axelar1dv4u5k73pzqrxlzujxg3qp8kvc3pje7jtdvu72npnt5zhq05ejcsn5qme5'',
     ExecutorAccount := ''axelar1aythygn6z5thymj6tmzfwekzh05ewg3l7d6y89'', CorkTimeoutBlocks := 5000\<rparr>"

definition v7_chain :: "sdk \<Rightarrow> string \<Rightarrow> u64 \<Rightarrow> int \<Rightarrow> chain_configuration res" where
  "v7_chain S name chainID fee =
    bind_res (NewCoin S ''usomm'' fee) (\<lambda>c. bind_res (NewCoins S c) (\<lambda>bridgeFees.
    Ok \<lparr>cc_Name = name, cc_Id = chainID, cc_ProxyAddress = ''0xEe75bA2C81C04DcA4b0ED6d1B7077c188FEde4d2'',
        cc_BridgeFees = bridgeFees\<rparr>))"

definition v7_axelarcorkInitGenesis :: "ibc_host \<Rightarrow> 'x axelar_keeper \<Rightarrow> 'x axelar_state \<Rightarrow> 'x axelar_state res" where
  "v7_axelarcorkInitGenesis H k st =
    bind_res (v7_chain (xk_sdk k) ''arbitrum'' 42161 33670000) (\<lambda>arbitrum.
    bind_res (v7_chain (xk_sdk k) ''Avalanche'' 43114 10670000) (\<lambda>avalanche.
    let genesisState = axelar_DefaultGenesisState\<lparr>xg_Params := v7_axelar_params,
          xg_ChainConfigurations := [arbitrum, avalanche],
          xg_CellarIds := [\<lparr>aci_ChainId = 42161, aci_Ids = [''0x438087f7c226A89762a791F187d7c3D4a0e95ae6'']\<rparr>,
            \<lparr>aci_ChainId = 43114, aci_Ids = []\<rparr>]\<rparr>
    in bind_res (panic_on_err (axelar_Genesis_Validate (xk_sdk k) (xk_eth k) H (xk_coins k) genesisState)) (\<lambda>_.
       axelar_InitGenesis k st genesisState)))"

definition SevenSeasDomain :: string where "SevenSeasDomain = ''sevenseas.capital''"

definition v7_cellars :: "string list" where
  "v7_cellars =
    [''1:0x7bAD5DF5E11151Dc5Ee1a648800057C5c934c0d5'',
     ''1:0x03df2A53Cbed19B824347D6a45d09016C2D1676a'',
     ''1:0x6c51041A91C91C86f3F08a72cB4D3F67f1208897'',
     ''1:0x6b7f87279982d919Bbf85182DDeAB179B366D8f2'',
     ''1:0x6E2dAc3b9E9ADc0CbbaE2D0B9Fd81952a8D33872'',
     ''1:0xDBe19d1c3F21b1bB250ca7BDaE0687A97B5f77e6'',
     ''1:0xcf4B531b4Cde95BD35d71926e09B2b54c564F5b6'',
     ''1:0xC7b69E15D86C5c1581dacce3caCaF5b68cd6596F'',
     ''1:0x0274a704a6D9129F90A62dDC6f6024b33EcDad36'',
     ''1:0x18ea937aba6053bC232d9Ae2C42abE7a8a2Be440'',
     ''1:0xb5b29320d2Dde5BA5BAFA1EbcD270052070483ec'',
     ''1:0x4068BDD217a45F8F668EF19F1E3A1f043e4c4934'',
     ''1:0xcBf2250F33c4161e18D4A2FA47464520Af5216b5'',
     ''1:0x6A6AF5393DC23D7e3dB28D28Ef422DB7c40932B6'',
     ''1:0x97e6E0a40a3D02F12d1cEC30ebfbAE04e37C119E'',
     ''1:0x3F07A84eCdf494310D397d24c1C78B041D2fa622'',
     ''1:0x4986fD36b6b16f49b43282Ee2e24C5cF90ed166d'',
     ''1:0x05641a27C82799AaF22b436F20A3110410f29652'',
     ''1:0x6F069F711281618467dAe7873541EcC082761B33'',
     ''1:0x6a6731f1754e3088ea35c8ddfd55cFF4d0FA5052'',
     ''1:0x9a7b4980C6F0FCaa50CD5f288Ad7038f434c692e'',
     ''1:0x0C190DEd9Be5f512Bd72827bdaD4003e9Cc7975C'',
     ''1:0x5195222f69c5821f8095ec565E71e18aB6A2298f'',
     ''1:0xc7372Ab5dd315606dB799246E8aA112405abAeFf'',
     ''1:0xfd6db5011b171B05E1Ea3b92f9EAcaEEb055e971'',
     ''1:0xd33dAd974b938744dAC81fE00ac67cb5AA13958E'',
     ''1:0x991Fc0B9f027A80E2d642Eb260a41FfC14b2f450'',
     ''42161:0x438087f7c226A89762a791F187d7c3D4a0e95ae6'']"

definition v7_createSubscribers :: "subscriber list" where
  "v7_createSubscribers =
    [\<lparr>sub_Address = ''somm1s2q8avjykkztudpl8k60f0ns4v5mvnjp5t366c'', sub_CaCert = FigmentSubscriberCA,
      sub_PushUrl = ''sommelier-steward.staking.production.figment.io:5734''\<rparr>,
     \<lparr>sub_Address = ''somm148a27t9usz9u5xzzjnkt2u8fergs48935dzdnt'', sub_CaCert = StandardCryptoSubscriberCA,
      sub_PushUrl = ''steward.sommelier.standardcryptovc.com:5734''\<rparr>,
     \<lparr>sub_Address = ''somm1kfzuvra3ym8nxffwdlyj0xvkky87qc0ywh9d42'', sub_CaCert = RockawaySubscriberCA,
      sub_PushUrl = ''steward-01.rbf.systems:5734''\<rparr>,
     \<lparr>sub_Address = ''somm1tznv6agw8pdzv34ykdpau243kdwyvf9lz4dedh'', sub_CaCert = BlockscapeSubscriberCA,
      sub_PushUrl = ''steward.blockscape.network:5734''\<rparr>,
     \<lparr>sub_Address = ''somm1p7vn9hajt44fxwn4ecfxjs2r469l0tgmjlqzmp'', sub_CaCert = SimplySubscriberCA,
      sub_PushUrl = ''sommelier-steward.simply-vc.com.mt:5734''\<rparr>,
     \<lparr>sub_Address = ''somm1lxktamk5tw30cksdlafyzr47vc5cdm76u4tkjm'', sub_CaCert = PupmosSubscriberCA,
      sub_PushUrl = ''steward.sommelier.pupmos.network:5734''\<rparr>,
     \<lparr>sub_Address = ''somm1yrcqnv7xvfztuh0020vxrnuhgc6dghv3kxvvnk'', sub_CaCert = LavenderFiveSubscriberCA,
      sub_PushUrl = ''steward.lavenderfive.com:5734''\<rparr>,
     \<lparr>sub_Address = ''somm1y0yvuwnk7g3at6yvl6ctgsvzuxaeqjkw53tduu'', sub_CaCert = PolkachuSubscriberCA,
      sub_PushUrl = ''steward.polkachu.com:5734''\<rparr>,
     \<lparr>sub_Address = ''somm10qfl0f55vruhcuqwnqg00uykkdpnl4g3fzx2m7'', sub_CaCert = StakecitoSubscriberCA,
      sub_PushUrl = ''steward.stakesandstone.com:5734''\<rparr>,
     \<lparr>sub_Address = ''somm19ts4umurauutumqdcu5n8x73fn9dfwwshhf8a4'', sub_CaCert = ChorusOneSubscriberCA,
      sub_PushUrl = ''sommelier-steward.chorus.one:443''\<rparr>,
     \<lparr>sub_Address = ''somm1p7tskps8hya4ldeu8qfghxwq72g5fzp6aekap7'', sub_CaCert = ImperatorSubscriberCA,
      sub_PushUrl = ''steward.imperator.co:30812''\<rparr>,
     \<lparr>sub_Address = ''somm1h0df0k7wlzzg53wnglayftwnv6du74ggdu28fz'', sub_CaCert = TekuSubscriberCA,
      sub_PushUrl = ''sommelier.teku.network:5734''\<rparr>,
     \<lparr>sub_Address = ''somm1tj8echy75u4z0f04z4vda3jzgx4x02de9umhv9'', sub_CaCert = ForboleSubscriberCA,
      sub_PushUrl = ''steward.sommelier.forbole.com:5734''\<rparr>,
     \<lparr>sub_Address = ''somm15h8ls6mwt8k709wc8f48ycxa80vcu690j6rnwy'', sub_CaCert = BoubouSubscriberCA,
      sub_PushUrl = ''sommelier-steward.boubounode.com:5734''\<rparr>,
     \<lparr>sub_Address = ''somm1pajq6rx0vgxjzdccukyh3h403rqprfhcsvhrat'', sub_CaCert = SleepyKittenSubscriberCA,
      sub_PushUrl = ''steward.sommelier.sleepykitten.info:5734''\<rparr>,
     \<lparr>sub_Address = ''somm17qlejm42fz4re8cskz5hlah4hh3s8w9y2yxgu6'', sub_CaCert = EverstakeSubscriberCA,
      sub_PushUrl = ''sommelier-steward.everstake.one:5734''\<rparr>,
     \<lparr>sub_Address = ''somm1zqklnhsp0q0rew352akcg35a45ruq3vn2c7fym'', sub_CaCert = TesselatedSubscriberCA,
      sub_PushUrl = ''sommelier.tessageo.com:5734''\<rparr>,
     \<lparr>sub_Address = ''somm1z3jzvtxplxh2c7qn8j4teq63vsngkf0488w3uj'', sub_CaCert = ZtakeSubscriberCA,
      sub_PushUrl = ''sommelier.ztake.org:5734''\<rparr>,
     \<lparr>sub_Address = ''somm1ydtvj3ruqqq7zxkz9w5lze5ecylh82v03h5udg'', sub_CaCert = TwoBuckChuckSubscriberCA,
      sub_PushUrl = ''tastings.two-buck-chuck.xyz:5734''\<rparr>,
     \<lparr>sub_Address = ''somm1xvfdclzyw03ye5mfskw6lvvmervexx8hx58823'', sub_CaCert = CosmostationSubscriberCA,
      sub_PushUrl = ''steward.sommelier.cosmostation.io:15413''\<rparr>,
     \<lparr>sub_Address = ''somm1ge3qxg5ydd25huhf4v8nge8kjsgyps83qvw775'', sub_CaCert = MCBSubscriberCA,
      sub_PushUrl = ''sommelier.mcbnode.com:5734''\<rparr>,
     \<lparr>sub_Address = ''somm19e4mx2geplpm6ksexxex8dg4dr4a5p7utl4y8z'', sub_CaCert = PolychainSubscriberCA,
      sub_PushUrl = ''steward.sommelier.unit410.com:5734''\<rparr>,
     \<lparr>sub_Address = ''somm1v78rxsl5ycptaq2dq5mu6ftzqcgk2aqtfx4ryr'', sub_CaCert = KingSuperSubscriberCA,
      sub_PushUrl = ''sommelier-steward.kingsuper.services:5734''\<rparr>,
     \<lparr>sub_Address = ''somm1rs4hcjr0jgw9ah8ml5p84cvc0yxcvf8krer8wu'', sub_CaCert = ChillValidationSubscriberCA,
      sub_PushUrl = ''steward0.chillvalidation.com:5734''\<rparr>,
     \<lparr>sub_Address = ''somm1g7kwsxw5khxg2zftpfcla8x4pz7zjukzc6luqy'', sub_CaCert = ChainnodesSubscriberCA,
      sub_PushUrl = ''steward.chainnodes.net:5734''\<rparr>,
     \<lparr>sub_Address = ''somm13d6vkp03nelzu7aq4v6n88nw0tye2ht7j9xern'', sub_CaCert = SevenSeasSubscriberCA,
      sub_PushUrl = ''steward.sommelier.7seas.capital:5734''\<rparr>,
     \<lparr>sub_Address = ''somm1xlg9tu8nwyratwhppkmen62putwf3dltkeqvl9'', sub_CaCert = GoldenRatioSubscriberCA,
      sub_PushUrl = ''sommelier.goldenratiostaking.net:5734''\<rparr>,
     \<lparr>sub_Address = ''somm1kdq2pwdnn5225y0fjk7nzd93errzxmj2ncp60z'', sub_CaCert = CryptoCrewSubscriberCA,
      sub_PushUrl = ''steward-somm.ccvalidators.com:5734''\<rparr>,
     \<lparr>sub_Address = ''somm1cfdkpueekdxgax0gu5fwq30nfwd2h0mg3kwtqq'', sub_CaCert = DoraFactorySubscriberCA,
      sub_PushUrl = ''sommelier.dorafactory.org:5734''\<rparr>,
     \<lparr>sub_Address = ''somm1p0d4cg70pk9x49xzrg9dllvj6wxkvtqxfc8490'', sub_CaCert = FrenchChocolatineSubscriberCA,
      sub_PushUrl = ''sommelier.frenchchocolatine.com:5734''\<rparr>,
     \<lparr>sub_Address = ''somm1ye5qdw92yjj0a2fvpgwgmxh9yymrcmaxn8ed3u'', sub_CaCert = FreshStakingSubscriberCA,
      sub_PushUrl = ''somm-steward.mitera.net:5734''\<rparr>,
     \<lparr>sub_Address = ''somm1fmw3y7heca7qhfkt5uu3u65mk8gj5tx24k9x68'', sub_CaCert = KleomedesSubscriberCA,
      sub_PushUrl = ''steward.kleomedes.network:5734''\<rparr>,
     \<lparr>sub_Address = ''somm1q9k53u4fu2v0ksgs84ek4c0xrh269haykxuqrk'', sub_CaCert = MeriaSubscriberCA,
      sub_PushUrl = ''sommelier.meria.com:5734''\<rparr>,
     \<lparr>sub_Address = ''somm1s70pr2uyct7jtjc69kpkwm3ajysmfgzpwl32vj'', sub_CaCert = RorcualSubscriberCA,
      sub_PushUrl = ''steward.rorcualnodes.com:5734''\<rparr>,
     \<lparr>sub_Address = ''somm1u7n35gtu85qrtu92ws5fsgs6ea4ay32nach7q7'', sub_CaCert = BlockHuntersSubscriberCA,
      sub_PushUrl = ''somm.blockhunters.sbs:5734''\<rparr>]"

definition v7_pubsub_genesis :: pubsub_genesis where
  "v7_pubsub_genesis =
    \<lparr>pg_Publishers = [\<lparr>pub_Address = ''somm14zsm5frvjuqxk3f9377altc6xq368dglhmkxmp'', pub_Domain = SevenSeasDomain,
       pub_CaCert = SevenSeasPublisherCA\<rparr>],
     pg_Subscribers = v7_createSubscribers,
     pg_PublisherIntents = map (\<lambda>cellar. \<lparr>pi_SubscriptionId = cellar, pi_PublisherDomain = SevenSeasDomain,
       pi_Method = PublishMethod_PUSH, pi_PullUrl = [], pi_AllowedSubscribers = AllowedSubscribers_VALIDATORS,
       pi_AllowedAddresses = []\<rparr>) v7_cellars,
     pg_SubscriberIntents = concat (map (\<lambda>subscriber. map (\<lambda>cellar. \<lparr>si_SubscriptionId = cellar,
       si_SubscriberAddress = sub_Address subscriber, si_PublisherDomain = SevenSeasDomain\<rparr>) v7_cellars)
       (v7_createSubscribers)),
     pg_DefaultSubscriptions = map (\<lambda>cellar. \<lparr>ds_SubscriptionId = cellar, ds_PublisherDomain = SevenSeasDomain\<rparr>)
       v7_cellars\<rparr>"

definition v7_pubsubInitGenesis ::
  "web \<Rightarrow> pubsub_keeper \<Rightarrow> pubsub_state \<Rightarrow> pubsub_state res" where
  "v7_pubsubInitGenesis W k st =
    bind_res (panic_on_err (pubsub_Genesis_Validate (pk_sdk k) W (v7_pubsub_genesis))) (\<lambda>_.
    pubsub_InitGenesis k st (v7_pubsub_genesis))"

text \<open>
  The handler, step by step: \<open>setIcaParams\<close> writes the default parameters of the interchain accounts
  host, then the parameters of cork and cellarfees are reset, and auction, axelarcork and pubsub get
  their genesis states.
\<close>

definition v7_UpgradeHandler ::
  "'b app_ext \<Rightarrow> cork_keeper \<Rightarrow> 'x axelar_keeper \<Rightarrow> ibc_host \<Rightarrow> web \<Rightarrow> (string \<Rightarrow> u64)
    \<Rightarrow> (('b, 'x) app_state \<Rightarrow> ('b, 'x) app_state)
    \<Rightarrow> (('b, 'x) app_state \<Rightarrow> version_map \<Rightarrow> (('b, 'x) app_state \<times> version_map) res)
    \<Rightarrow> ctx \<Rightarrow> ('b, 'x) app_state \<Rightarrow> version_map \<Rightarrow> (('b, 'x) app_state \<times> version_map) res" where
  "v7_UpgradeHandler e ck xk H W versions setIcaParams runMigrations ctx s fromVM =
    (let s1 = setIcaParams s in
     bind_res (cork_SetParams (aw_cork (app_world_of s1)) cork_DefaultParams) (\<lambda>c.
     let s2 = app_set_world s1 ((app_world_of s1)\<lparr>aw_cork := c\<rparr>);
         vm = fromVM(auction_ModuleName \<mapsto> versions auction_ModuleName,
           axelarcork_ModuleName \<mapsto> versions axelarcork_ModuleName, pubsub_ModuleName \<mapsto> versions pubsub_ModuleName) in
     bind_res (cellarfees_SetParams (app_fees s2) cellarfees_DefaultParams) (\<lambda>f.
     let s3 = s2\<lparr>app_fees := f\<rparr> in
     bind_res (v7_auctionInitGenesis (app_AuctionKeeper e) ctx (aw_auction (app_world_of s3))) (\<lambda>a.
     let s4 = app_set_world s3 ((app_world_of s3)\<lparr>aw_auction := a\<rparr>) in
     bind_res (v7_axelarcorkInitGenesis H xk (app_axelar s4)) (\<lambda>x.
     let s5 = s4\<lparr>app_axelar := x\<rparr> in
     bind_res (v7_pubsubInitGenesis W (ok_pubsub ck) (co_pubsub (aw_cork (app_world_of s5)))) (\<lambda>p.
     runMigrations (app_set_pubsub s5 p) vm))))))"

end
