(* ===== verification/Upgrade_Properties.thy ===== *)
theory Upgrade_Properties
  imports Upgrades App_Properties Pubsub_Properties
begin

text \<open>
  What the upgrades do to the modules: the migration of the cork store leaves the corks it means to
  delete, the genesis states of the auction and pubsub modules are valid and establish the invariants of
  the modules, and the handler of version 7 cannot finish because the parameters it sets for axelarcork
  are not valid.
\<close>

section \<open>The migration of the cork store\<close>

lemma kv_dels_absent:
  assumes "\<And>e. e \<in> set es \<Longrightarrow> kv_get m (f e) = None"
  shows "foldl (\<lambda>m e. kv_del m (f e)) m es = m"
  using assms by (intro kv_eqI) (auto simp: kv_get_foldl_del)

text \<open>The keys it deletes hold the text of an address where the store holds its 20 bytes.\<close>

lemma removeOldCorks_schedule:
  assumes "eth_laws E" and longer: "\<forall>a. length a = 20 \<longrightarrow> 20 < length (ValAddress_String S a)"
    and keys: "kv_all (\<lambda>key c. length key = 49) (co_sched (v1_store s))"
  shows "co_sched (v1_store (removeOldCorks S E s)) = co_sched (v1_store s)"
proof -
  let ?m = "co_sched (v1_store s)"
  let ?key = "\<lambda>(cork, blockHeight, validator). v1_GetScheduledCorkKey blockHeight (string_bytes validator)
    (HexToAddress E (c_TargetContractAddress cork))"
  let ?es = "map (\<lambda>(key, cork). (cork, BigEndianToUint64 (Some (take 8 (drop 1 key))), ValAddress_String S (take 20 (drop 9 key))))
    (kv_iter ?m [5])"
  have "kv_get ?m (?key e) = None" if "e \<in> set ?es" for e
  proof -
    from that obtain key cork where "e = (cork, BigEndianToUint64 (Some (take 8 (drop 1 key))), ValAddress_String S (take 20 (drop 9 key)))"
      "kv_get ?m key = Some cork" by (auto simp: kv_iter_mem)
    moreover from this(2) have "length key = 49" by (rule kv_allD [OF keys])
    ultimately have "49 < length (?key e)"
      using eth_laws.address_length [OF assms(1)] longer
      by (simp add: v1_GetScheduledCorkKey_def string_bytes_def)
    then show ?thesis using keys by (cases "kv_get ?m (?key e)") (auto simp: kv_all_iff)
  qed
  from kv_dels_absent [of ?es ?m ?key, OF this]
  show ?thesis by (simp add: removeOldCorks_def Let_def case_prod_unfold)
qed

text \<open>
  C18. The migration of the cork store to version 2 means to wipe all corks, since the two versions
  lay out their keys differently. It deletes none of the scheduled ones: it builds the keys from the
  text of the validator's address. At the height of such a cork the tally reads an address of 8
  bytes out of its key, which no validator has, and the end of the block panics.
\<close>

theorem migrated_cork_halts:
  assumes "cork_env k" "\<forall>a. length a = 20 \<longrightarrow> 20 < length (ValAddress_String (ok_sdk k) a)"
    and validators: "\<forall>a. ok_ConsensusPower k a \<noteq> None \<longrightarrow> length a = 20"
    and "kv_all (\<lambda>key c. length key = 49) (co_sched (v1_store s))"
    and v1: "length v = 20" "length a = 20"
      "kv_get (co_sched (v1_store s)) (v1_GetScheduledCorkKey (BlockHeight ctx) v a) = Some c"
  shows "co_sched (v1_store (cork_Migrate1to2 k s)) = co_sched (v1_store s) \<and>
    (\<forall>st. kv_get (co_sched st) (v1_GetScheduledCorkKey (BlockHeight ctx) v a) = Some c \<longrightarrow>
      cork_EndBlocker k ctx st = Panic ''nil dereference'')"
proof (intro conjI allI impI)
  have "eth_laws (ok_eth k)" using assms(1) by (simp add: cork_env_def)
  from removeOldCorks_schedule [OF this assms(2), of "removeCommitPeriod (cork_MigrateParamStore s)"]
  show "co_sched (v1_store (cork_Migrate1to2 k s)) = co_sched (v1_store s)"
    using assms(4) by (simp add: cork_Migrate1to2_def cork_MigrateStore_def removeCommitPeriod_def cork_MigrateParamStore_def)
next
  fix st :: cork_state
  assume "kv_get (co_sched st) (v1_GetScheduledCorkKey (BlockHeight ctx) v a) = Some c"
  then have "parse_cork_entry (ok_eth k) (v1_GetScheduledCorkKey (BlockHeight ctx) v a, c) \<in> set (cork_entries k st (BlockHeight ctx))"
    unfolding cork_entries_def set_map
    by (intro imageI) (simp add: kv_iter_mem v1_GetScheduledCorkKey_def GetScheduledCorkKeyByBlockHeightPrefix_def
        GetScheduledCorkKeyPrefix_def)
  moreover have "length (fst (parse_cork_entry (ok_eth k) (v1_GetScheduledCorkKey (BlockHeight ctx) v a, c))) = 8"
    using v1 by (simp add: parse_cork_entry_def v1_GetScheduledCorkKey_def)
  then have "ok_ConsensusPower k (fst (parse_cork_entry (ok_eth k) (v1_GetScheduledCorkKey (BlockHeight ctx) v a, c))) = None"
    using validators by (metis numeral_eq_iff semiring_norm(85,87,88,89))
  ultimately show "cork_EndBlocker k ctx st = Panic ''nil dereference''"
    by (rule cork_env.cork_EndBlocker_Panic [OF assms(1)])
qed

definition ex_v1 :: cork_v1_state where
  "ex_v1 = \<lparr>v1_hasMaxCorks = False, v1_corks = kv_empty, v1_commitPeriodStart = None, v1_store = ex_cork_state\<lparr>co_sched :=
     kv_set kv_empty (v1_GetScheduledCorkKey 8 (ex_val 1) (ex_val 7)) ex_cork\<rparr>\<rparr>"

theorem migrated_cork_halts_witness:
  "cork_EndBlocker ex_cork_keeper \<lparr>BlockHeight = 8\<rparr> (v1_store (cork_Migrate1to2 ex_cork_keeper ex_v1)) =
    Panic ''nil dereference''"
proof -
  have "kv_get (co_sched (v1_store ex_v1)) (v1_GetScheduledCorkKey 8 (ex_val 1) (ex_val 7)) = Some ex_cork"
    "kv_all (\<lambda>key c. length key = 49) (co_sched (v1_store ex_v1))"
    by (simp_all add: ex_v1_def kv_all_iff v1_GetScheduledCorkKey_def)
  moreover have "\<forall>a. length a = 20 \<longrightarrow> 20 < length (ValAddress_String (ok_sdk ex_cork_keeper) a)"
    by (simp add: ex_cork_keeper_def ref_sdk_def)
  moreover have "\<forall>a. ok_ConsensusPower ex_cork_keeper a \<noteq> None \<longrightarrow> length a = 20"
    by (simp add: ex_cork_keeper_def)
  ultimately show ?thesis
    using migrated_cork_halts [OF ex_cork_ax, of ex_v1 "ex_val 1" "ex_val 7" "\<lparr>BlockHeight = 8\<rparr>" ex_cork] by simp
qed

section \<open>The handler of version 7\<close>

lemma is_panic_iff: "is_panic m \<longleftrightarrow> (\<forall>x. m \<noteq> Ok x) \<and> (\<forall>e. m \<noteq> Err e)"
  by (cases m) simp_all

lemma SetParamSet_no_error: "SetParamSet ps \<noteq> Err x"
  by (induction ps rule: SetParamSet.induct) (auto simp: bind_res_eq_Err)

lemma coin_no_error: "NewCoin S d n \<noteq> Err x" "NewCoins S c \<noteq> Err x"
  by (simp_all add: NewCoin_def NewCoins_def)

lemma auction_init_no_error: "auction_InitGenesis k st gs \<noteq> Err x"
  by (auto simp: auction_InitGenesis_def auction_setParams_def Let_def bind_res_eq_Err SetParamSet_no_error)

lemma v7_auction_no_error: "v7_auctionInitGenesis k ctx st \<noteq> Err x"
  by (auto simp: v7_auctionInitGenesis_def MustNewDecFromStr_def bind_res_eq_Err Let_def auction_init_no_error
      split: option.splits)

text \<open>The account that version 7 sets as executor is a bech32 address of the Axelar chain, 45 characters long.\<close>

lemma v7_axelar_panics:
  assumes "\<forall>a. IsHexAddress (xk_eth k) a \<longrightarrow> length a = 40 \<or> length a = 42"
  shows "is_panic (v7_axelarcorkInitGenesis H k st)"
proof -
  have "\<not> IsHexAddress (xk_eth k) (ExecutorAccount v7_axelar_params)"
    using assms by (auto simp: v7_axelar_params_def)
  then have *: "axelar_Params_ValidateBasic (xk_sdk k) (xk_eth k) H v7_axelar_params \<noteq> Ok u" for u
    by (simp add: axelar_Params_ValidateBasic_def) (simp add: v7_axelar_params_def)
  show ?thesis
    unfolding is_panic_iff v7_axelarcorkInitGenesis_def Let_def
    by (simp add: bind_res_eq_Err v7_chain_def coin_no_error axelar_Genesis_Validate_def *)
qed

text \<open>
  C5. The upgrade handler of version 7 does not return: it validates the genesis state of axelarcork
  that it has just built and panics on the error. That state enables the module with an executor
  account of the Axelar chain, where the validation asks for an EVM address.
\<close>

theorem v7_upgrade_panics:
  assumes "\<forall>a. IsHexAddress (xk_eth xk) a \<longrightarrow> length a = 40 \<or> length a = 42"
  shows "is_panic (v7_UpgradeHandler e ck xk H W versions setIcaParams runMigrations ctx s fromVM)"
proof -
  have "SetParamSet (cork_ParamSetPairs cork_DefaultParams) = Ok ()"
    "SetParamSet (cellarfees_ParamSetPairs cellarfees_DefaultParams) = Ok ()"
    by (simp_all add: cork_ParamSetPairs_def cork_DefaultParams_def cellarfees_ParamSetPairs_def
        cellarfees_DefaultParams_def dec_one_def)
  then show ?thesis
    using v7_axelar_panics [OF assms, of H]
    by (simp add: v7_UpgradeHandler_def cork_SetParams_def cellarfees_SetParams_def Let_def is_panic_bind)
      (auto simp: is_panic_iff v7_auction_no_error)
qed

text \<open>The check of go-ethereum: 40 hexadecimal digits, which may follow \<^verbatim>\<open>0x\<close>.\<close>

definition go_IsHexAddress :: "string \<Rightarrow> bool" where
  "go_IsHexAddress s =
    (let t = if take 2 s = ''0x'' \<or> take 2 s = ''0X'' then drop 2 s else s
     in length t = 40 \<and> list_all (\<lambda>c. c \<in> set ''0123456789abcdefABCDEF'') t)"

theorem v7_upgrade_panics_witness:
  "is_panic (v7_UpgradeHandler ex_ext ex_cork_keeper (ex_axelar_keeper\<lparr>xk_eth := ref_eth\<lparr>IsHexAddress := go_IsHexAddress\<rparr>\<rparr>)
    \<lparr>ChannelIdentifierValidator = (\<lambda>_. True), PortIdentifierValidator = (\<lambda>_. True)\<rparr> (pk_web ex_registry)
    (\<lambda>_. 1) (\<lambda>s. s) (\<lambda>s vm. Ok (s, vm)) \<lparr>BlockHeight = 7\<rparr> ex_app_state Map.empty)"
  by (rule v7_upgrade_panics) (auto simp: go_IsHexAddress_def Let_def split: if_splits)

section \<open>The incentives after version 5\<close>

text \<open>
  The handler of version 5 sets valid parameters and then hands the state to the migrations; whatever
  the community pool holds, the incentives are off exactly from block 12766725 on.
\<close>

lemma v5_incentives:
  assumes "ValidateDenom (ext_sdk e) BaseCoinUnit"
  shows "\<exists>p. v5_UpgradeHandler e versions runMigrations s vm =
      runMigrations (s\<lparr>app_incentives := p\<rparr>) (vm(''incentives'' \<mapsto> versions ''incentives'')) \<and>
    incentives_Params_ValidateBasic (ext_sdk e) p = Ok () \<and>
    (\<forall>ctx. incentives_off ctx p \<longleftrightarrow> 12766725 \<le> BlockHeight ctx)"
proof -
  let ?p = "\<lparr>DistributionPerBlock = mk_coin BaseCoinUnit 2000000, IncentivesCutoffHeight = 12766725\<rparr>"
  have valid: "incentives_Params_ValidateBasic (ext_sdk e) ?p = Ok ()"
    using assms by (simp add: incentives_Params_ValidateBasic_def Coin_IsValid_def)
  then have "v5_UpgradeHandler e versions runMigrations s vm =
      runMigrations (s\<lparr>app_incentives := ?p\<rparr>) (vm(''incentives'' \<mapsto> versions ''incentives''))"
    using assms by (simp add: v5_UpgradeHandler_def v5_incentivesInitGenesis_def NewCoin_def Coin_IsValid_def
        incentives_InitGenesis_def incentives_SetParams_def incentives_ParamSetPairs_def incentives_Params_ValidateBasic_def
        validateIncentivesCutoffHeight_def app_set_world_def Let_def)
  with valid show ?thesis by (auto simp: incentives_off_def)
qed

section \<open>The genesis state of the auction module\<close>

context sdk_dec begin

lemma quo_positive:
  assumes "0 < b" "b * (dec_one + 2) < 2 * a * dec_one * dec_one"
  shows "0 < Dec_Quo S a b"
proof (rule ccontr)
  assume "\<not> 0 < Dec_Quo S a b"
  then have "Dec_Quo S a b * (b * dec_one) \<le> 0" using assms(1) by (intro mult_nonpos_nonneg) (simp_all add: less_imp_le)
  moreover have "0 \<le> b * (dec_one + 2)" using assms(1) by (simp add: dec_one_def)
  with assms(2) have "0 \<le> a" by (simp add: dec_one_def)
  ultimately show False using quo_lower [of a b] assms by (simp add: algebra_simps)
qed

lemma unit_price_positive:
  assumes "dec_one \<le> tp_UsdPrice sale" "tp_Exponent sale \<le> 18" "tp_UsdPrice usomm = 79151000000000000"
  shows "\<exists>price. saleTokenPriceInUsomm S sale usomm = Ok price \<and> 0 < price"
proof -
  let ?b = "10 ^ unat (tp_Exponent sale) * dec_one" and ?u = "Dec_Quo S 79151000000000000 (10 ^ 6 * dec_one)"
  let ?s = "Dec_Quo S (tp_UsdPrice sale) ?b"
  have pow: "Dec_Power S (10 * dec_one) (tp_Exponent sale) = ?b" "Dec_Power S (10 * dec_one) CoinExponent = 10 ^ 6 * dec_one"
    using power_ten [OF assms(2)] power_ten [of CoinExponent] by (simp_all add: CoinExponent_def)
  have "(10 :: int) ^ unat (tp_Exponent sale) \<le> 10 ^ 18" using assms(2) by (intro power_increasing) (simp_all add: word_le_nat_alt)
  then have b: "0 < ?b" "?b * (dec_one + 2) < 2 * tp_UsdPrice sale * dec_one * dec_one"
    using assms(1) by (simp_all add: dec_one_def)
  have u: "0 < ?u" "?u \<le> 79151000000"
    using quo_positive [of "10 ^ 6 * dec_one" 79151000000000000] quo_upper [of 79151000000000000 "10 ^ 6 * dec_one"]
    by (simp_all add: dec_one_def)
  have s: "0 < ?s" using quo_positive [OF b] .
  with u have "0 < Dec_Quo S ?s ?u" by (intro quo_positive) (simp_all add: dec_one_def)
  then show ?thesis using pow b(1) u(1) assms(3) by (simp add: saleTokenPriceInUsomm_def Quo_def dec_one_def)
qed

end

text \<open>The state that the genesis of version 7 makes out of an empty store.\<close>

lemma v7_token_prices_ok:
  assumes "GravityDenomPrefix S = ''gravity''" "h \<noteq> 0" "0 < a" "0 < b" "0 < c" "0 < d" "t \<in> set (v7_token_prices h a b c d)"
  shows "TokenPrice_ValidateBasic S t = Ok ()"
  using assms by (auto simp: v7_token_prices_def TokenPrice_ValidateBasic_def BaseCoinUnit_def)

lemma set_prices_get:
  assumes "distinct (map tp_Denom ts)" "t \<in> set ts"
  shows "kv_get (foldl (\<lambda>s t. kv_set s (GetTokenPriceKey (tp_Denom t)) t) s ts) (GetTokenPriceKey (tp_Denom t)) = Some t"
  using assms by (induction ts rule: rev_induct) (auto simp: image_iff)

lemma set_prices_all:
  "kv_all P s \<Longrightarrow> \<forall>t \<in> set ts. P (GetTokenPriceKey (tp_Denom t)) t \<Longrightarrow>
    kv_all P (foldl (\<lambda>s t. kv_set s (GetTokenPriceKey (tp_Denom t)) t) s ts)"
  by (induction ts arbitrary: s) (simp_all add: kv_all_set)

text \<open>A genesis state with valid prices and no auctions, imported into an empty store.\<close>

lemma price_genesis:
  assumes "auction_params_ok p" "GetAuctionAccount k \<noteq> None" and nonneg: "\<And>a d. 0 \<le> GetBalance (ak_bank k) bank a d"
    and ts: "\<forall>t \<in> set ts. TokenPrice_ValidateBasic (ak_sdk k) t = Ok ()" "distinct (map tp_Denom ts)"
    and gs: "gs = auction_DefaultGenesisState\<lparr>ag_Params := p, ag_TokenPrices := ts\<rparr>"
  shows "auction_Genesis_Validate (ak_sdk k) gs = Ok ()"
    "\<exists>st. auction_InitGenesis k (empty_auction_state bank) gs = Ok st \<and> auction_inv k st \<and> st_params st = p \<and>
      GetLastAuctionID st = 0 \<and> (\<forall>t \<in> set ts. GetTokenPrice st (tp_Denom t) = Some t)"
proof -
  show "auction_Genesis_Validate (ak_sdk k) gs = Ok ()"
    using assms(1) ts(1) by (simp add: gs auction_Genesis_Validate_def auction_DefaultGenesisState_def
        auction_Params_ValidateBasic_Ok fold_res_unit_Ok)
  define st where "st = setLastBidID (setLastAuctionID ((empty_auction_state bank)\<lparr>st_params := p,
    st_prices := foldl (\<lambda>s t. kv_set s (GetTokenPriceKey (tp_Denom t)) t) kv_empty ts\<rparr>) 0) 0"
  have "auction_InitGenesis k (empty_auction_state bank) gs = Ok st"
    using assms(1,2) by (simp add: gs st_def auction_InitGenesis_def auction_setParams_def auction_SetParamSet_Ok
        auction_DefaultGenesisState_def foldl_prices Let_def) (simp add: empty_auction_state_def)
  moreover have "prices_wf k st" using ts(1) by (simp add: prices_wf_def st_def set_prices_all)
  then have "auction_inv k st"
    using assms(1) nonneg by (simp add: auction_inv_def solvent_def store_wf_def) (simp add: st_def auctions_wf_def
      one_per_denom_def bids_wf_def owed_def empty_auction_state_def kv_values_def kv_iter_def)
  moreover have "st_params st = p" "GetLastAuctionID st = 0" by (simp_all add: st_def)
  moreover have "\<forall>t \<in> set ts. GetTokenPrice st (tp_Denom t) = Some t"
    using set_prices_get [OF ts(2)] by (simp add: GetTokenPrice_def st_def)
  ultimately show "\<exists>st. auction_InitGenesis k (empty_auction_state bank) gs = Ok st \<and> auction_inv k st \<and> st_params st = p \<and>
      GetLastAuctionID st = 0 \<and> (\<forall>t \<in> set ts. GetTokenPrice st (tp_Denom t) = Some t)"
    by blast
qed

text \<open>
  C13. The genesis state that the upgrade to version 7 gives the auction module passes its validation
  and establishes the module's invariant. All six bridged denominations it prices have a positive
  unit price in usomm, for as many auctions as there are ids, so no auction of theirs can panic on its
  price; and no auction starts up to block 13020000.
\<close>

theorem v7_auctionInitGenesis_ready:
  assumes env: "auction_env k has_account blocked" and prefix: "GravityDenomPrefix (ak_sdk k) = ''gravity''"
    and height: "BlockHeight ctx \<noteq> 0"
    and dec: "NewDecFromStr (ak_sdk k) ''0.079151'' = Some 79151000000000000"
      "NewDecFromStr (ak_sdk k) ''2618.33'' = Some 2618330000000000000000"
      "NewDecFromStr (ak_sdk k) ''46936.19'' = Some 46936190000000000000000"
      "NewDecFromStr (ak_sdk k) ''1.0'' = Some 1000000000000000000"
  shows "\<exists>st. v7_auctionInitGenesis k ctx (empty_auction_state bank) = Ok st \<and> auction_inv k st \<and>
    (\<forall>t \<in> set (v7_token_prices (BlockHeight ctx) 79151000000000000 2618330000000000000000 46936190000000000000000 1000000000000000000).
      GetTokenPrice st (tp_Denom t) = Some t \<and>
      (tp_Denom t \<noteq> BaseCoinUnit \<longrightarrow> ValidateDenom (ak_sdk k) (tp_Denom t) \<longrightarrow> priced k (2 ^ 32 - 1) st (tp_Denom t))) \<and>
    (\<forall>ctx' c rate interval fund proc. BlockHeight ctx' \<le> 13020000 \<longrightarrow>
      BeginAuction k ctx' st c rate interval fund proc = Err (Wrapped ErrAuctionBelowMinimumHeight))"
proof -
  let ?ts = "v7_token_prices (BlockHeight ctx) 79151000000000000 2618330000000000000000 46936190000000000000000 1000000000000000000"
  let ?p = "auction_DefaultParams\<lparr>MinimumAuctionHeight := 13020000\<rparr>"
  have p: "auction_params_ok ?p" by (simp add: auction_params_ok_def auction_DefaultParams_def dec_one_def)
  have ts: "\<forall>t \<in> set ?ts. TokenPrice_ValidateBasic (ak_sdk k) t = Ok ()"
    by (intro ballI, erule v7_token_prices_ok [OF prefix height, rotated -1]) simp_all
  have d: "distinct (map tp_Denom ?ts)" by (simp add: v7_token_prices_def)
  have acc: "GetAuctionAccount k \<noteq> None" using env by (simp add: auction_env_def auction_env_axioms_def keeper_ok_def)
  have nonneg: "0 \<le> GetBalance (ak_bank k) bank a d" for a d
    using env by (auto simp: auction_env_def chain_env_def intro: bank_keeper.balance_nonneg)
  note g = price_genesis [OF p acc nonneg ts d refl]
  from g(2) obtain st where st: "auction_InitGenesis k (empty_auction_state bank)
      (auction_DefaultGenesisState\<lparr>ag_Params := ?p, ag_TokenPrices := ?ts\<rparr>) = Ok st" "auction_inv k st" "st_params st = ?p"
    "GetLastAuctionID st = 0" "\<forall>t \<in> set ?ts. GetTokenPrice st (tp_Denom t) = Some t"
    by blast
  have run: "v7_auctionInitGenesis k ctx (empty_auction_state bank) = Ok st"
    using g(1) st(1) by (simp add: v7_auctionInitGenesis_def MustNewDecFromStr_def dec Let_def)
  have usomm: "GetTokenPrice st BaseCoinUnit = Some (hd ?ts)" "tp_UsdPrice (hd ?ts) = 79151000000000000"
    using st(5) by (simp_all add: v7_token_prices_def BaseCoinUnit_def)
  have "priced k (2 ^ 32 - 1) st (tp_Denom t)"
    if "t \<in> set ?ts" "tp_Denom t \<noteq> BaseCoinUnit" "ValidateDenom (ak_sdk k) (tp_Denom t)" for t
  proof -
    have "dec_one \<le> tp_UsdPrice t" "tp_Exponent t \<le> 18"
      using that(1,2) by (auto simp: v7_token_prices_def BaseCoinUnit_def dec_one_def)
    moreover have "sdk_dec (ak_sdk k)" using env by (simp add: auction_env_def chain_env_def)
    ultimately obtain price where "saleTokenPriceInUsomm (ak_sdk k) t (hd ?ts) = Ok price" "0 < price"
      using sdk_dec.unit_price_positive usomm(2) by blast
    then show ?thesis using that st(4,5) usomm(1) by (simp add: priced_def)
  qed
  moreover have "BeginAuction k ctx' st c rate interval fund proc = Err (Wrapped ErrAuctionBelowMinimumHeight)"
    if "BlockHeight ctx' \<le> 13020000" for ctx' :: ctx and c rate interval fund proc
    using that st(3) by (simp add: BeginAuction_def)
  ultimately show ?thesis using run st(2,5) by blast
qed

theorem v7_auctionInitGenesis_ready_witness:
  "\<exists>st. v7_auctionInitGenesis ex_keeper \<lparr>BlockHeight = 7\<rparr> (empty_auction_state (\<lambda>_ _. 0)) = Ok st \<and>
    priced ex_keeper (2 ^ 32 - 1) st ''gravity0xA0b86991c6218b36c1d19D4a2e9Eb0cE3606eB48''"
proof -
  have "NewDecFromStr ref_sdk ''0.079151'' = Some 79151000000000000"
    "NewDecFromStr ref_sdk ''2618.33'' = Some 2618330000000000000000"
    "NewDecFromStr ref_sdk ''46936.19'' = Some 46936190000000000000000"
    "NewDecFromStr ref_sdk ''1.0'' = Some 1000000000000000000" by code_simp+
  moreover have "GravityDenomPrefix ref_sdk = ''gravity''" "ak_sdk ex_keeper = ref_sdk"
    by (simp_all add: ref_sdk_def ex_keeper_def)
  ultimately obtain st where "v7_auctionInitGenesis ex_keeper \<lparr>BlockHeight = 7\<rparr> (empty_auction_state (\<lambda>_ _. 0)) = Ok st"
    "\<forall>t \<in> set (v7_token_prices 7 79151000000000000 2618330000000000000000 46936190000000000000000 1000000000000000000).
      tp_Denom t \<noteq> BaseCoinUnit \<longrightarrow> ValidateDenom ref_sdk (tp_Denom t) \<longrightarrow> priced ex_keeper (2 ^ 32 - 1) st (tp_Denom t)"
    using v7_auctionInitGenesis_ready [OF ex_env_ax, of "\<lparr>BlockHeight = 7\<rparr>" "\<lambda>_ _. 0"] by auto
  then show ?thesis by (auto simp: v7_token_prices_def BaseCoinUnit_def ref_sdk_def)
qed

section \<open>The genesis state of the pubsub module\<close>

definition genesis_spec :: "pubsub_genesis \<Rightarrow> pubsub_spec" where
  "genesis_spec gs = \<lparr>sp_publishers = set (pg_Publishers gs), sp_subscribers = set (pg_Subscribers gs),
     sp_pintents = set (pg_PublisherIntents gs), sp_sintents = set (pg_SubscriberIntents gs),
     sp_defaults = set (pg_DefaultSubscriptions gs)\<rparr>"

text \<open>No two records of a genesis state are about the same thing.\<close>

definition genesis_distinct :: "pubsub_keeper \<Rightarrow> pubsub_genesis \<Rightarrow> bool" where
  "genesis_distinct k gs \<longleftrightarrow> inj_on pub_Domain (set (pg_Publishers gs)) \<and>
     inj_on (\<lambda>s. acc_of k (sub_Address s)) (set (pg_Subscribers gs)) \<and>
     inj_on (\<lambda>p. (pi_PublisherDomain p, pi_SubscriptionId p)) (set (pg_PublisherIntents gs)) \<and>
     inj_on (\<lambda>i. (acc_of k (si_SubscriberAddress i), si_SubscriptionId i)) (set (pg_SubscriberIntents gs)) \<and>
     inj_on ds_SubscriptionId (set (pg_DefaultSubscriptions gs))"

context pubsub_env begin

lemma genesis_import:
  assumes str: "spec_strings U k (genesis_spec gs)" and refs: "spec_refs k (genesis_spec gs)" and dist: "genesis_distinct k gs"
    and s0: "ps_publishers s0 = kv_empty" "ps_subscribers s0 = kv_empty" "ps_pintents s0 = kv_empty"
      "ps_sintents s0 = kv_empty" "ps_defaults s0 = kv_empty"
  shows "\<exists>st. pubsub_InitGenesis k s0 gs = Ok st \<and> pubsub_inv U k st \<and> pubsub_abs st = genesis_spec gs"
proof -
  note str' = str [unfolded spec_strings_def genesis_spec_def, simplified]
  note inj = dist [unfolded genesis_distinct_def]
  have meet: "p = q" if "p \<in> set (pg_Publishers gs)" "q \<in> set (pg_Publishers gs)" "set (pub_keys k p) \<inter> set (pub_keys k q) \<noteq> {}" for p q
    using that inj str' by (auto simp: pub_keys_def GetPublisherKey_def dest: inj_onD)
  note P = indexed_fill [of "pg_Publishers gs" "pub_keys k", OF _ meet]
  have meet: "p = q" if "p \<in> set (pg_Subscribers gs)" "q \<in> set (pg_Subscribers gs)" "set (sub_keys k p) \<inter> set (sub_keys k q) \<noteq> {}" for p q
    using that inj by (auto simp: sub_keys_def GetSubscriberKey_def dest: inj_onD)
  note B = indexed_fill [of "pg_Subscribers gs" "sub_keys k", OF _ meet]
  have meet: "p = q" if "p \<in> set (pg_PublisherIntents gs)" "q \<in> set (pg_PublisherIntents gs)" "set (pi_keys k p) \<inter> set (pi_keys k q) \<noteq> {}" for p q
    using that inj str' unfolding pi_keys_meet by (auto dest: inj_onD)
  note Q = indexed_fill [of "pg_PublisherIntents gs" "pi_keys k", OF _ meet]
  have meet: "i = j" if "i \<in> set (pg_SubscriberIntents gs)" "j \<in> set (pg_SubscriberIntents gs)" "set (si_keys k i) \<inter> set (si_keys k j) \<noteq> {}" for i j
    using that inj str' si_keys_meet [of i j] by (auto dest: inj_onD)
  note I = indexed_fill [of "pg_SubscriberIntents gs" "si_keys k", OF _ meet]
  have meet: "p = q" if "p \<in> set (pg_DefaultSubscriptions gs)" "q \<in> set (pg_DefaultSubscriptions gs)" "set (def_keys k p) \<inter> set (def_keys k q) \<noteq> {}" for p q
    using that inj str' by (auto simp: def_keys_def GetDefaultSubscriptionKey_def dest: inj_onD)
  note D = indexed_fill [of "pg_DefaultSubscriptions gs" "def_keys k", OF _ meet]
  define st where "st = s0\<lparr>ps_publishers := foldl (puts (pub_keys k)) kv_empty (pg_Publishers gs),
    ps_subscribers := foldl (puts (sub_keys k)) kv_empty (pg_Subscribers gs),
    ps_pintents := foldl (puts (pi_keys k)) kv_empty (pg_PublisherIntents gs),
    ps_sintents := foldl (puts (si_keys k)) kv_empty (pg_SubscriberIntents gs),
    ps_defaults := foldl (puts (def_keys k)) kv_empty (pg_DefaultSubscriptions gs)\<rparr>"
  have "pubsub_InitGenesis k s0 gs = Ok st"
    using str' by (simp add: pubsub_InitGenesis_def import_folds import_subscribers import_sintents Let_def s0 st_def)
  moreover have abs: "pubsub_abs st = genesis_spec gs"
    using P(2) B(2) Q(2) I(2) D(2) by (simp add: pubsub_abs_def genesis_spec_def st_def)
  moreover have "stores_indexed k st"
    using P(1) B(1) Q(1) I(1) D(1) by (simp add: stores_indexed_def st_def)
  ultimately show ?thesis using str refs by (auto simp: pubsub_inv_def)
qed

end

text \<open>
  The registry after version 7: exactly the records of the genesis state, so that every subscriber is
  subscribed to every cellar, with the invariant of the module. The addresses are different texts; that
  they decode to different accounts is a premise.
\<close>

lemma v7_subscribers_distinct: "inj_on sub_Address (set (v7_createSubscribers))"
proof -
  have "distinct (map sub_Address (v7_createSubscribers))" by (simp add: v7_createSubscribers_def)
  then show ?thesis by (simp only: distinct_map)
qed

lemma v7_genesis_spec:
  assumes "insert SevenSeasDomain (set v7_cellars) \<subseteq> U"
    and "\<forall>s \<in> set (v7_createSubscribers). AccAddressFromBech32 (pk_sdk k) (sub_Address s) \<noteq> None"
    and inj: "inj_on (acc_of k) (sub_Address ` set (v7_createSubscribers))"
  shows "spec_strings U k (genesis_spec (v7_pubsub_genesis))" "spec_refs k (genesis_spec (v7_pubsub_genesis))"
    "genesis_distinct k (v7_pubsub_genesis)"
proof -
  have acc: "inj_on (\<lambda>s. acc_of k (sub_Address s)) (set (v7_createSubscribers))"
    using comp_inj_on [OF v7_subscribers_distinct inj] by (simp add: comp_def)
  show "spec_strings U k (genesis_spec (v7_pubsub_genesis))"
    using assms(1,2) by (auto simp: spec_strings_def genesis_spec_def v7_pubsub_genesis_def)
  show "spec_refs k (genesis_spec (v7_pubsub_genesis))"
    by (auto simp: spec_refs_def genesis_spec_def v7_pubsub_genesis_def)
  show "genesis_distinct k (v7_pubsub_genesis)"
    using acc inj by (auto simp: genesis_distinct_def v7_pubsub_genesis_def inj_on_def)
qed

lemma v7_registry:
  assumes "pubsub_env k U" "insert SevenSeasDomain (set v7_cellars) \<subseteq> U"
    and valid: "pubsub_Genesis_Validate (pk_sdk k) W (v7_pubsub_genesis) = Ok ()"
    and "inj_on (acc_of k) (sub_Address ` set (v7_createSubscribers))"
    and "ps_publishers s0 = kv_empty" "ps_subscribers s0 = kv_empty" "ps_pintents s0 = kv_empty"
      "ps_sintents s0 = kv_empty" "ps_defaults s0 = kv_empty"
  shows "\<exists>st. v7_pubsubInitGenesis W k s0 = Ok st \<and> pubsub_inv U k st \<and>
    pubsub_abs st = genesis_spec (v7_pubsub_genesis)"
proof -
  have "\<forall>s \<in> set (v7_createSubscribers). Subscriber_ValidateBasic (pk_sdk k) W s = Ok ()"
    using valid by (simp add: pubsub_Genesis_Validate_def fold_res_unit_Ok v7_pubsub_genesis_def)
  then have "\<forall>s \<in> set (v7_createSubscribers). AccAddressFromBech32 (pk_sdk k) (sub_Address s) \<noteq> None"
    by (auto simp: Subscriber_ValidateBasic_def ValidateAddress_def split: if_splits)
  from pubsub_env.genesis_import [OF assms(1) v7_genesis_spec [OF assms(2) this assms(4)] assms(5-9)]
  show ?thesis using valid by (simp add: v7_pubsubInitGenesis_def)
qed

end
