(* ===== verification/Upgrades_Early.thy ===== *)
theory Upgrades_Early
  imports Cork_Types Cellarfees_Types
begin

text \<open>
  The upgrade handlers of versions 4 and 6 (\<^verbatim>\<open>app/upgrades/v4\<close>, \<^verbatim>\<open>app/upgrades/v6\<close>). Version 4 rebuilds
  the version map, removes an account at the address of the cellarfees module, and renames the bridged
  denominations to their normalized spelling by burning and minting. The bank and the account keeper
  are records of operations, as is the name of the gravity module. An iteration of the bank calls back a function that itself writes to the
  bank; the SDK does not say which entries such an iteration delivers, so that nothing is assumed of
  them: the locale \<open>v4_bank\<close> only knows that there are finitely many. Version 6 configures
  interchain accounts.
\<close>

section \<open>Version 4\<close>

record ('b, 'a, 'c) v4_keepers =
  v4_sdk :: sdk
  v4_ops :: "'b bank_ops"
  BurnCoins :: "'b \<Rightarrow> string \<Rightarrow> coin list \<Rightarrow> 'b res"
  MintCoins :: "'b \<Rightarrow> string \<Rightarrow> coin list \<Rightarrow> 'b res"
  IterateTotalSupply :: "'b \<Rightarrow> coin list"
  IterateAllBalances :: "(addr \<times> coin \<Rightarrow> 'b \<Rightarrow> 'b res) \<Rightarrow> 'b \<Rightarrow> 'b res"
  IterateAccountBalances :: "addr \<Rightarrow> (coin \<Rightarrow> 'b \<Rightarrow> 'b res) \<Rightarrow> 'b \<Rightarrow> 'b res"
  v4_gravity :: string
  NormalizeDenom :: "string \<Rightarrow> string"
  GetAccount :: "'a \<Rightarrow> addr \<Rightarrow> 'c option"
  RemoveAccount :: "'a \<Rightarrow> 'c \<Rightarrow> 'a"

text \<open>The map from the denominations of the supply that are not normalized to the normalized ones.\<close>

definition denomsToRepair :: "('b, 'a, 'c) v4_keepers \<Rightarrow> 'b \<Rightarrow> string \<rightharpoonup> string" where
  "denomsToRepair k b = fold (\<lambda>supply denoms.
      let normalizedDenom = NormalizeDenom k (cDenom supply)
      in if normalizedDenom \<noteq> cDenom supply then denoms(cDenom supply \<mapsto> normalizedDenom) else denoms)
    (IterateTotalSupply k b) Map.empty"

definition repair_balance ::
  "('b, 'a, 'c) v4_keepers \<Rightarrow> (string \<rightharpoonup> string) \<Rightarrow> addr \<times> coin \<Rightarrow> 'b \<Rightarrow> 'b res" where
  "repair_balance k denoms = (\<lambda>(addr, coin) b. case denoms (cDenom coin) of None \<Rightarrow> Ok b
    | Some normalizedDenom \<Rightarrow>
      bind_res (NewCoins (v4_sdk k) coin) (\<lambda>oldCoins.
      bind_res (panic_on_err (SendCoinsFromAccountToModule (v4_ops k) b addr (v4_gravity k) oldCoins)) (\<lambda>b1.
      bind_res (panic_on_err (BurnCoins k b1 (v4_gravity k) oldCoins)) (\<lambda>b2.
      bind_res (NewCoin (v4_sdk k) normalizedDenom (cAmount coin)) (\<lambda>c.
      bind_res (NewCoins (v4_sdk k) c) (\<lambda>normalizedCoins.
      bind_res (panic_on_err (MintCoins k b2 (v4_gravity k) normalizedCoins)) (\<lambda>b3.
      panic_on_err (SendCoinsFromModuleToAccount (v4_ops k) b3 (v4_gravity k) addr normalizedCoins))))))))"

definition normalizeGravityDenoms :: "('b, 'a, 'c) v4_keepers \<Rightarrow> 'b \<Rightarrow> 'b res" where
  "normalizeGravityDenoms k b = IterateAllBalances k (repair_balance k (denomsToRepair k b)) b"

definition burn_balance :: "('b, 'a, 'c) v4_keepers \<Rightarrow> addr \<Rightarrow> coin \<Rightarrow> 'b \<Rightarrow> 'b res" where
  "burn_balance k address coin b =
    bind_res (NewCoins (v4_sdk k) coin) (\<lambda>coinsToBurn.
    bind_res (panic_on_err (SendCoinsFromAccountToModule (v4_ops k) b address (v4_gravity k) coinsToBurn)) (\<lambda>b1.
    panic_on_err (BurnCoins k b1 (v4_gravity k) coinsToBurn)))"

text \<open>\<^verbatim>\<open>RemoveAccount\<close> of a nil account dereferences it.\<close>

definition removeModuleAccountOverlap :: "('b, 'a, 'c) v4_keepers \<Rightarrow> 'a \<times> 'b \<Rightarrow> ('a \<times> 'b) res" where
  "removeModuleAccountOverlap k s = (case s of (accounts, b) \<Rightarrow>
    case AccAddressFromBech32 (v4_sdk k) ''somm1hqf42j6zxfnth4xpdse05wpnjjrgc864vwujxx'' of
      None \<Rightarrow> Panic ''err''
    | Some address \<Rightarrow>
      bind_res (IterateAccountBalances k address (burn_balance k address) b) (\<lambda>b'.
      case GetAccount k accounts address of None \<Rightarrow> Panic ''nil dereference''
      | Some existingAccount \<Rightarrow> Ok (RemoveAccount k accounts existingAccount, b')))"

text \<open>
  \<open>modules\<close> and \<open>versions\<close> are the modules of the application with their consensus versions. The version map
  that the handler is given is ignored.
\<close>

definition v4_versions :: "string \<Rightarrow> string list \<Rightarrow> (string \<Rightarrow> u64) \<Rightarrow> string \<rightharpoonup> u64" where
  "v4_versions gravity modules versions =
    ((fold (\<lambda>n vm. vm(n \<mapsto> versions n)) modules Map.empty)(cork_ModuleName := None,
      cellarfees_ModuleName := None))(gravity \<mapsto> 1)"

definition v4_UpgradeHandler ::
  "('b, 'a, 'c) v4_keepers \<Rightarrow> string list \<Rightarrow> (string \<Rightarrow> u64)
    \<Rightarrow> ('a \<times> 'b \<Rightarrow> (string \<rightharpoonup> u64) \<Rightarrow> (('a \<times> 'b) \<times> (string \<rightharpoonup> u64)) res)
    \<Rightarrow> 'a \<times> 'b \<Rightarrow> (string \<rightharpoonup> u64) \<Rightarrow> (('a \<times> 'b) \<times> (string \<rightharpoonup> u64)) res" where
  "v4_UpgradeHandler k modules versions runMigrations s vm =
    bind_res (removeModuleAccountOverlap k s) (\<lambda>(accounts, b).
    bind_res (normalizeGravityDenoms k b) (\<lambda>b'.
    runMigrations (accounts, b') (v4_versions (v4_gravity k) modules versions)))"

section \<open>Version 6\<close>

record ica_host_params =
  HostEnabled :: bool
  AllowMessages :: "string list"

definition v6_host_params :: ica_host_params where
  "v6_host_params = \<lparr>HostEnabled = True, AllowMessages =
    [''/cosmos.bank.v1beta1.MsgSend'', ''/cosmos.bank.v1beta1.MsgMultiSend'',
     ''/cosmos.distribution.v1beta1.MsgSetWithdrawAddress'', ''/cosmos.distribution.v1beta1.MsgWithdrawDelegatorReward'',
     ''/cosmos.distribution.v1beta1.MsgWithdrawValidatorCommission'', ''/cosmos.distribution.v1beta1.MsgFundCommunityPool'',
     ''/cosmos.gov.v1beta1.MsgVote'', ''/cosmos.gov.v1beta1.MsgVoteWeighted'', ''/cosmos.staking.v1beta1.MsgDelegate'',
     ''/cosmos.staking.v1beta1.MsgUndelegate'', ''/cosmos.staking.v1beta1.MsgBeginRedelegate'',
     ''/ibc.applications.transfer.v1.MsgTransfer'']\<rparr>"

text \<open>
  \<open>ica\<close> is \<^verbatim>\<open>InitModule\<close> of the interchain accounts module when the module manager holds one, called with the
  default (empty) parameters of the controller and those of the host.
\<close>

definition v6_UpgradeHandler ::
  "(string \<Rightarrow> u64) \<Rightarrow> ('s \<Rightarrow> ica_host_params \<Rightarrow> 's res) option \<Rightarrow> ('s \<Rightarrow> (string \<rightharpoonup> u64) \<Rightarrow> ('s \<times> (string \<rightharpoonup> u64)) res)
    \<Rightarrow> 's \<Rightarrow> (string \<rightharpoonup> u64) \<Rightarrow> ('s \<times> (string \<rightharpoonup> u64)) res" where
  "v6_UpgradeHandler versions ica runMigrations s fromVM =
    (let vm = fromVM(''interchainaccounts'' \<mapsto> versions ''interchainaccounts'')
     in case ica of None \<Rightarrow> Panic ''not of type ica.AppModule''
        | Some initModule \<Rightarrow> bind_res (initModule s v6_host_params) (\<lambda>s'. runMigrations s' vm))"

section \<open>What the upgrade to version 4 does to balances\<close>

lemma fold_repair: "fold (\<lambda>supply denoms.
      let normalizedDenom = N (cDenom supply)
      in if normalizedDenom \<noteq> cDenom supply then denoms(cDenom supply \<mapsto> normalizedDenom) else denoms) cs m d =
    (if d \<in> cDenom ` set cs \<and> N d \<noteq> d then Some (N d) else m d)"
  by (induction cs arbitrary: m) (auto simp: Let_def)

lemma denomsToRepair_iff:
  "denomsToRepair k b d = Some n \<longleftrightarrow> d \<in> cDenom ` set (IterateTotalSupply k b) \<and> n = NormalizeDenom k d \<and> n \<noteq> d"
  by (auto simp: denomsToRepair_def fold_repair)

lemma NewCoins_amountOf: "NewCoins S c = Ok cs \<Longrightarrow> amountOf cs d = (if d = cDenom c then cAmount c else 0)"
  by (auto simp: NewCoins_def split: if_splits)

lemma v4_versions_eq:
  "v4_versions gravity modules versions n =
    (if n = gravity then Some 1 else if n = cork_ModuleName \<or> n = cellarfees_ModuleName then None
     else if n \<in> set modules then Some (versions n) else None)"
proof -
  have "fold (\<lambda>n vm. vm(n \<mapsto> versions n)) modules m n = (if n \<in> set modules then Some (versions n) else m n)" for m
    by (induction modules arbitrary: m) auto
  then show ?thesis by (auto simp: v4_versions_def)
qed

locale v4_bank = bank_keeper "v4_ops k" maddr has_account valid_denom blocked
  for k :: "('b, 'a, 'c) v4_keepers" and maddr has_account valid_denom blocked +
  assumes burn_balance_eq: "BurnCoins k b m cs = Ok b' \<Longrightarrow>
      GetBalance (v4_ops k) b' a d = GetBalance (v4_ops k) b a d - (if a = maddr m then amountOf cs d else 0)"
    and mint_balance_eq: "MintCoins k b m cs = Ok b' \<Longrightarrow>
      GetBalance (v4_ops k) b' a d = GetBalance (v4_ops k) b a d + (if a = maddr m then amountOf cs d else 0)"
    and visits_all: "\<exists>es. IterateAllBalances k f b = fold_res f es b"
    and visits_account: "\<exists>cs. IterateAccountBalances k x g b = fold_res g cs b"
begin

text \<open>A repaired entry moves its amount from one denomination of its holder to the normalized one.\<close>

lemma repair_balance_Ok:
  assumes "repair_balance k denoms (x, c) b = Ok b'"
  shows "GetBalance (v4_ops k) b' a d = GetBalance (v4_ops k) b a d +
    (case denoms (cDenom c) of None \<Rightarrow> 0 | Some n \<Rightarrow>
      if a = x then (if d = n then cAmount c else 0) - (if d = cDenom c then cAmount c else 0) else 0)"
proof (cases "denoms (cDenom c)")
  case None
  then show ?thesis using assms by (simp add: repair_balance_def)
next
  case (Some n)
  obtain old b1 b2 nc new b3 where
    old: "NewCoins (v4_sdk k) c = Ok old" and b1: "SendCoinsFromAccountToModule (v4_ops k) b x (v4_gravity k) old = Ok b1"
    and b2: "BurnCoins k b1 (v4_gravity k) old = Ok b2" and nc: "NewCoin (v4_sdk k) n (cAmount c) = Ok nc"
    and new: "NewCoins (v4_sdk k) nc = Ok new" and b3: "MintCoins k b2 (v4_gravity k) new = Ok b3"
    and b': "SendCoinsFromModuleToAccount (v4_ops k) b3 (v4_gravity k) x new = Ok b'"
    using assms by (auto simp: repair_balance_def Some)
  have "nc = mk_coin n (cAmount c)" using nc by (simp add: NewCoin_def split: if_splits)
  then have "amountOf new d = (if d = n then cAmount c else 0)" "amountOf old d = (if d = cDenom c then cAmount c else 0)"
    using NewCoins_amountOf [OF new, of d] NewCoins_amountOf [OF old, of d] by simp_all
  then show ?thesis
    using a2m_balance [OF b1, of a d] burn_balance_eq [OF b2, of a d] mint_balance_eq [OF b3, of a d]
      m2a_balance [OF b', of a d] by (auto simp: moved_def Some)
qed

lemma repair_conserves:
  assumes "finite D" "\<And>d n. denoms d = Some n \<Longrightarrow> d \<in> D \<longleftrightarrow> n \<in> D" "fold_res (repair_balance k denoms) es b = Ok b'"
  shows "(\<Sum>d\<in>D. GetBalance (v4_ops k) b' a d) = (\<Sum>d\<in>D. GetBalance (v4_ops k) b a d)"
  using assms(3)
proof (induction es arbitrary: b)
  case (Cons e es)
  obtain x c where e: "e = (x, c)" by fastforce
  from Cons.prems obtain b1 where b1: "repair_balance k denoms (x, c) b = Ok b1"
    and rest: "fold_res (repair_balance k denoms) es b1 = Ok b'" by (auto simp: e)
  have "(\<Sum>d\<in>D. GetBalance (v4_ops k) b1 a d) = (\<Sum>d\<in>D. GetBalance (v4_ops k) b a d)"
  proof (cases "denoms (cDenom c)")
    case None
    then show ?thesis by (simp add: repair_balance_Ok [OF b1])
  next
    case (Some n)
    with assms(2) [OF Some] show ?thesis
      by (cases "a = x") (simp_all add: repair_balance_Ok [OF b1] sum.distrib sum_subtractf assms(1))
  qed
  with Cons.IH [OF rest] show ?case by simp
qed simp

lemma normalize_conserves:
  assumes "finite D" "\<forall>c \<in> set (IterateTotalSupply k b). cDenom c \<in> D \<longleftrightarrow> NormalizeDenom k (cDenom c) \<in> D"
    and "normalizeGravityDenoms k b = Ok b'"
  shows "(\<Sum>d\<in>D. GetBalance (v4_ops k) b' a d) = (\<Sum>d\<in>D. GetBalance (v4_ops k) b a d)"
proof -
  obtain es where "fold_res (repair_balance k (denomsToRepair k b)) es b = Ok b'"
    using visits_all assms(3) unfolding normalizeGravityDenoms_def by metis
  with assms(1,2) show ?thesis by (intro repair_conserves) (auto simp: denomsToRepair_iff)
qed

text \<open>Removing the overlapping account touches no balance but its own: what it held is burnt.\<close>

lemma burn_others:
  assumes "fold_res (burn_balance k x) cs b = Ok b'" "a \<noteq> x"
  shows "GetBalance (v4_ops k) b' a d = GetBalance (v4_ops k) b a d"
  using assms(1)
proof (induction cs arbitrary: b)
  case (Cons c cs)
  from Cons.prems obtain old b1 b2 where "SendCoinsFromAccountToModule (v4_ops k) b x (v4_gravity k) old = Ok b1"
    "BurnCoins k b1 (v4_gravity k) old = Ok b2" and rest: "fold_res (burn_balance k x) cs b2 = Ok b'"
    by (auto simp: burn_balance_def [of k x c b])
  then have "GetBalance (v4_ops k) b2 a d = GetBalance (v4_ops k) b a d"
    using a2m_balance burn_balance_eq assms(2) by (simp add: moved_def)
  with Cons.IH [OF rest] show ?case by simp
qed simp

lemma overlap_removed:
  assumes "removeModuleAccountOverlap k (accounts, b) = Ok (accounts', b')"
  shows "\<exists>x acc. AccAddressFromBech32 (v4_sdk k) ''somm1hqf42j6zxfnth4xpdse05wpnjjrgc864vwujxx'' = Some x \<and>
    GetAccount k accounts x = Some acc \<and> accounts' = RemoveAccount k accounts acc \<and>
    (\<forall>a d. a \<noteq> x \<longrightarrow> GetBalance (v4_ops k) b' a d = GetBalance (v4_ops k) b a d)"
proof -
  obtain x acc where x: "AccAddressFromBech32 (v4_sdk k) ''somm1hqf42j6zxfnth4xpdse05wpnjjrgc864vwujxx'' = Some x"
    "GetAccount k accounts x = Some acc" "accounts' = RemoveAccount k accounts acc"
    "IterateAccountBalances k x (burn_balance k x) b = Ok b'"
    using assms by (auto simp: removeModuleAccountOverlap_def split: option.splits)
  then obtain cs where "fold_res (burn_balance k x) cs b = Ok b'" using visits_account by metis
  with x burn_others show ?thesis by blast
qed

end

section \<open>A concrete bank\<close>

text \<open>The reference bank with burning and minting, iterated over one account and two denominations.\<close>

definition ref_supply :: "bool \<Rightarrow> ref_bank_state \<Rightarrow> string \<Rightarrow> coin list \<Rightarrow> ref_bank_state res" where
  "ref_supply mint b m cs =
    (let change = (\<lambda>d. if mint then amountOf cs d else - amountOf cs d)
     in if list_all (\<lambda>c. 0 \<le> cAmount c \<and> (mint \<or> amountOf cs (cDenom c) \<le> int (b (NewModuleAddress ref_sdk m) (cDenom c)))) cs
        then Ok (\<lambda>a d. nat (int (b a d) + (if a = NewModuleAddress ref_sdk m then change d else 0)))
        else Err (Registered ''sdk'' 5))"

definition ref_coins :: "ref_bank_state \<Rightarrow> addr \<Rightarrow> coin list" where
  "ref_coins b x = filter (\<lambda>c. cAmount c \<noteq> 0) (map (\<lambda>d. mk_coin d (int (b x d))) [''gravity0xAA'', ''usomm''])"

definition ref_v4 :: "(ref_bank_state, addr list, addr) v4_keepers" where
  "ref_v4 = \<lparr>v4_sdk = ref_sdk, v4_ops = ref_bank, BurnCoins = ref_supply False, MintCoins = ref_supply True,
     IterateTotalSupply = (\<lambda>_. [mk_coin ''gravity0xAA'' 1, mk_coin ''usomm'' 1]),
     IterateAllBalances = (\<lambda>f b. fold_res f (map (Pair (string_bytes ''bob'')) (ref_coins b (string_bytes ''bob''))) b),
     IterateAccountBalances = (\<lambda>x f b. fold_res f (ref_coins b x) b),
     v4_gravity = ''gravity'', NormalizeDenom = (\<lambda>d. if d = ''gravity0xAA'' then ''gravity0xaa'' else d),
     GetAccount = (\<lambda>as x. if x \<in> set as then Some x else None), RemoveAccount = (\<lambda>as x. removeAll x as)\<rparr>"

lemma amountOf_zero: "\<forall>c \<in> set cs. cDenom c \<noteq> d \<Longrightarrow> amountOf cs d = 0"
  by (induction cs) auto

lemma amountOf_nonneg: "list_all (\<lambda>c. 0 \<le> cAmount c \<and> P c) cs \<Longrightarrow> 0 \<le> amountOf cs d"
  by (induction cs) auto

lemma ref_supply_balance:
  assumes "ref_supply mint b m cs = Ok b'"
  shows "int (b' a d) = int (b a d) +
    (if a = NewModuleAddress ref_sdk m then if mint then amountOf cs d else - amountOf cs d else 0)"
proof -
  from assms have ok: "list_all (\<lambda>c. 0 \<le> cAmount c \<and>
      (mint \<or> amountOf cs (cDenom c) \<le> int (b (NewModuleAddress ref_sdk m) (cDenom c)))) cs"
    and b': "b' = (\<lambda>a d. nat (int (b a d) + (if a = NewModuleAddress ref_sdk m
      then if mint then amountOf cs d else - amountOf cs d else 0)))"
    by (auto simp: ref_supply_def Let_def split: if_splits)
  have "mint \<or> amountOf cs d \<le> int (b (NewModuleAddress ref_sdk m) d)"
  proof (cases "\<exists>c \<in> set cs. cDenom c = d")
    case True
    with ok show ?thesis by (auto simp: list_all_iff)
  next
    case False
    then show ?thesis using amountOf_zero [of cs d] by auto
  qed
  with amountOf_nonneg [OF ok, of d] show ?thesis by (auto simp: b')
qed

interpretation ref_v4: v4_bank ref_v4 "NewModuleAddress ref_sdk" "\<lambda>_. True" "ValidateDenom ref_sdk" ref_blocked
proof (intro v4_bank.intro v4_bank_axioms.intro)
  show "bank_keeper (v4_ops ref_v4) (NewModuleAddress ref_sdk) (\<lambda>_. True) (ValidateDenom ref_sdk) ref_blocked"
    by (simp add: ref_v4_def) (rule ref_bk.bank_keeper_axioms)
  show "\<exists>es. IterateAllBalances ref_v4 f b = fold_res f es b" for f b
    unfolding ref_v4_def v4_keepers.simps by blast
  show "\<exists>cs. IterateAccountBalances ref_v4 x g b = fold_res g cs b" for x g b
    unfolding ref_v4_def v4_keepers.simps by blast
  show "GetBalance (v4_ops ref_v4) b' a d =
      GetBalance (v4_ops ref_v4) b a d - (if a = NewModuleAddress ref_sdk m then amountOf cs d else 0)"
    if "BurnCoins ref_v4 b m cs = Ok b'" for b m cs b' a d
    using that ref_supply_balance [of False b m cs b' a d] by (simp add: ref_v4_def ref_bank_def)
  show "GetBalance (v4_ops ref_v4) b' a d =
      GetBalance (v4_ops ref_v4) b a d + (if a = NewModuleAddress ref_sdk m then amountOf cs d else 0)"
    if "MintCoins ref_v4 b m cs = Ok b'" for b m cs b' a d
    using that ref_supply_balance [of True b m cs b' a d] by (simp add: ref_v4_def ref_bank_def)
qed

text \<open>
  C9. The upgrade to version 4 loses no one's money: when its handler returns, the module migrations ran on balances
  in which every account but the removed one holds, summed over any set of denominations that is closed
  under normalization, what it held before. This holds whatever entries the bank's iterators deliver
  while the handler writes to it. The migrations see no version for cork and cellarfees, whose
  genesis they therefore run, and version 1 for the gravity module.
\<close>

theorem v4_upgrade_conserves:
  assumes "v4_bank k maddr has_account valid_denom blocked"
    and "v4_UpgradeHandler k modules versions runMigrations (accounts, b) vm = Ok result"
    and "finite D" "\<forall>d. d \<in> D \<longleftrightarrow> NormalizeDenom k d \<in> D"
  shows "\<exists>x accounts' b' vm'. AccAddressFromBech32 (v4_sdk k) ''somm1hqf42j6zxfnth4xpdse05wpnjjrgc864vwujxx'' = Some x \<and>
    runMigrations (accounts', b') vm' = Ok result \<and>
    (\<forall>a. a \<noteq> x \<longrightarrow> (\<Sum>d\<in>D. GetBalance (v4_ops k) b' a d) = (\<Sum>d\<in>D. GetBalance (v4_ops k) b a d)) \<and>
    vm' = (\<lambda>n. if n = v4_gravity k then Some 1 else if n = cork_ModuleName \<or> n = cellarfees_ModuleName then None
      else if n \<in> set modules then Some (versions n) else None)"
proof -
  obtain accounts' b1 b' where b1: "removeModuleAccountOverlap k (accounts, b) = Ok (accounts', b1)"
    and b': "normalizeGravityDenoms k b1 = Ok b'"
    and run: "runMigrations (accounts', b') (v4_versions (v4_gravity k) modules versions) = Ok result"
    using assms(2) by (auto simp: v4_UpgradeHandler_def)
  obtain x where x: "AccAddressFromBech32 (v4_sdk k) ''somm1hqf42j6zxfnth4xpdse05wpnjjrgc864vwujxx'' = Some x"
    "\<forall>a d. a \<noteq> x \<longrightarrow> GetBalance (v4_ops k) b1 a d = GetBalance (v4_ops k) b a d"
    using v4_bank.overlap_removed [OF assms(1) b1] by blast
  have "(\<Sum>d\<in>D. GetBalance (v4_ops k) b' a d) = (\<Sum>d\<in>D. GetBalance (v4_ops k) b1 a d)" for a
    using v4_bank.normalize_conserves [OF assms(1,3) _ b', of a] assms(4) by blast
  then have "\<forall>a. a \<noteq> x \<longrightarrow> (\<Sum>d\<in>D. GetBalance (v4_ops k) b' a d) = (\<Sum>d\<in>D. GetBalance (v4_ops k) b a d)"
    using x(2) by simp
  with x(1) run v4_versions_eq show ?thesis by (intro exI conjI) (assumption | rule ext)+
qed

definition ex_overlap :: addr where
  "ex_overlap = string_bytes ''hqf42j6zxfnth4xpdse05wpnjjrgc864vwujxx''"

definition ex_v4_bank :: ref_bank_state where
  "ex_v4_bank = (\<lambda>a d. if a = string_bytes ''bob'' then if d = ''gravity0xAA'' then 7 else 2 else 0)"

definition ex_v4_run :: "((addr list \<times> ref_bank_state) \<times> (string \<rightharpoonup> u64)) res" where
  "ex_v4_run = v4_UpgradeHandler ref_v4 [''bank'', ''cork'', ''gravity''] (\<lambda>_. 2) (\<lambda>s vm. Ok (s, vm))
     ([ex_overlap], ex_v4_bank) Map.empty"

lemma ex_v4_run_ok: "is_ok ex_v4_run"
  by code_simp

theorem v4_upgrade_conserves_witness:
  "case ex_v4_run of
     Ok ((_, b'), vm) \<Rightarrow> int (b' (string_bytes ''bob'') ''gravity0xAA'') + int (b' (string_bytes ''bob'') ''gravity0xaa'') = 9 \<and>
       vm ''cork'' = None \<and> vm ''gravity'' = Some 1
   | _ \<Rightarrow> False"
proof -
  obtain a b' vm where r: "ex_v4_run = Ok ((a, b'), vm)" using is_ok_val [OF ex_v4_run_ok] by (metis prod.collapse)
  from v4_upgrade_conserves [OF ref_v4.v4_bank_axioms r [unfolded ex_v4_run_def], of "{''gravity0xAA'', ''gravity0xaa''}"]
  show ?thesis
    by (simp add: r ref_v4_def ref_bank_def ref_sdk_def ex_v4_bank_def string_bytes_def cork_ModuleName_def
        cellarfees_ModuleName_def split: if_splits)
qed

end
