(* ===== verification/Client.thy ===== *)
theory Client
  imports Auction_Keeper Cork_Keeper Axelarcork_Msgs Pubsub_Keeper
begin

text \<open>
  The command line of the modules: the transaction commands of \<^verbatim>\<open>x/*/client/cli/tx.go\<close>, which
  read their arguments (or a JSON file), check some of them and hand a message to the transaction
  builder of the SDK, and the constructors they call. A command is a record like the
  \<^verbatim>\<open>cobra.Command\<close> the code builds: its usage line, the check of the number of arguments, whether the
  flags of a transaction (\<^verbatim>\<open>--from\<close> among them) have been added, and the body \<^verbatim>\<open>RunE\<close>.
  \<open>execute\<close> runs a command the way cobra does: flags, then arguments, then body.
  What the commands take from outside (the client context, the file system, the JSON codec, the
  parsers of coins and integers) are fields of the record \<open>client\<close>. The value of a run is the message
  given to \<^verbatim>\<open>tx.GenerateOrBroadcastTxCLI\<close>.
\<close>

section \<open>Commands\<close>

record 'r cobra_command =
  cmd_Use :: string
  cmd_Args :: "string list \<Rightarrow> unit res"
  cmd_TxFlags :: bool
  cmd_RunE :: "string option \<Rightarrow> string list \<Rightarrow> 'r res"

text \<open>The name of a command is the first word of its usage line.\<close>

definition cmd_Name :: "'r cobra_command \<Rightarrow> string" where
  "cmd_Name c = takeWhile (\<lambda>ch. ch \<noteq> CHR '' '') (cmd_Use c)"

definition ExactArgs :: "nat \<Rightarrow> string list \<Rightarrow> unit res" where
  "ExactArgs n args = check (length args = n) (Errorf ''wrong number of args'')"

definition MinimumNArgs :: "nat \<Rightarrow> string list \<Rightarrow> unit res" where
  "MinimumNArgs n args = check (n \<le> length args) (Errorf ''too few args'')"

definition NoArgs :: "string list \<Rightarrow> unit res" where
  "NoArgs args = check (args = []) (Errorf ''unknown command'')"

definition AddTxFlagsToCmd :: "'r cobra_command \<Rightarrow> 'r cobra_command" where
  "AddTxFlagsToCmd c = c\<lparr>cmd_TxFlags := True\<rparr>"

text \<open>A run: the value of the \<^verbatim>\<open>--from\<close> flag, if it was given, and the arguments.\<close>

definition execute :: "'r cobra_command \<Rightarrow> string option \<Rightarrow> string list \<Rightarrow> 'r res" where
  "execute c from args =
    bind_res (check (from = None \<or> cmd_TxFlags c) (Errorf ''unknown flag: --from'')) (\<lambda>_.
    bind_res (cmd_Args c args) (\<lambda>_. cmd_RunE c from args))"

text \<open>Indexing a slice, and \<^verbatim>\<open>math.Uint.Uint64\<close>, which panics on a larger number.\<close>

definition arg :: "string list \<Rightarrow> nat \<Rightarrow> string res" where
  "arg args i = (if i < length args then Ok (args ! i) else Panic ''index out of range'')"

definition Uint_Uint64 :: "nat \<Rightarrow> u64 res" where
  "Uint_Uint64 n = (if n < 2 ^ 64 then Ok (of_nat n) else Panic ''Uint64() out of bounds'')"

definition or_fail :: "'a option \<Rightarrow> string \<Rightarrow> 'a res" where
  "or_fail x e = (case x of None \<Rightarrow> Err (Errorf e) | Some a \<Rightarrow> Ok a)"

text \<open>\<^verbatim>\<open>strings.Split\<close> at a one-character separator: always at least one piece.\<close>

fun strings_Split :: "string \<Rightarrow> char \<Rightarrow> string list" where
  "strings_Split [] sep = [[]]"
| "strings_Split (ch # s) sep =
    (if ch = sep then [] # strings_Split s sep
     else case strings_Split s sep of [] \<Rightarrow> [[ch]] | w # ws \<Rightarrow> (ch # w) # ws)"

section \<open>The proposals as they are read from a file\<close>

record set_token_prices_with_deposit = set_token_prices_proposal +
  stp_Deposit :: string

record add_managed_cellars_with_deposit =
  amd_Title :: string
  amd_Description :: string
  amd_CellarIds :: "string list"
  amd_PublisherDomain :: string
  amd_Deposit :: string

record remove_managed_cellars_with_deposit =
  rmd_Title :: string
  rmd_Description :: string
  rmd_CellarIds :: "string list"
  rmd_Deposit :: string

record scheduled_cork_with_deposit = scheduled_cork_proposal +
  scp_Deposit :: string

record add_axelar_cellars_with_deposit =
  aad_Title :: string
  aad_Description :: string
  aad_ChainId :: u64
  aad_CellarIds :: "string list"
  aad_PublisherDomain :: string
  aad_Deposit :: string

record remove_axelar_cellars_with_deposit =
  rad_Title :: string
  rad_Description :: string
  rad_ChainId :: u64
  rad_CellarIds :: "string list"
  rad_Deposit :: string

record axelar_scheduled_cork_with_deposit = axelar_scheduled_cork_proposal +
  asp_Deposit :: string

record axelar_community_spend_for_cli =
  csc_Title :: string
  csc_Description :: string
  csc_Recipient :: string
  csc_ChainId :: u64
  csc_Amount :: string
  csc_Deposit :: string

record add_chain_configuration_with_deposit =
  acd_Title :: string
  acd_Description :: string
  acd_ChainConfiguration :: "chain_configuration option"
  acd_Deposit :: string

record remove_chain_configuration_with_deposit = chain_proposal +
  rcd_Deposit :: string

record upgrade_proxy_with_deposit = upgrade_proxy_proposal +
  upd_Deposit :: string

record cancel_upgrade_with_deposit = chain_proposal +
  cud_Deposit :: string

record add_publisher_with_deposit = add_publisher_proposal +
  app_Deposit :: string

record remove_publisher_with_deposit = remove_publisher_proposal +
  rpp_Deposit :: string

record add_default_subscription_with_deposit = add_default_subscription_proposal +
  adp_Deposit :: string

record remove_default_subscription_with_deposit = remove_default_subscription_proposal +
  rdp_Deposit :: string

section \<open>Messages and the client\<close>

datatype proposal_content =
  AuctionContent auction_content
| CorkContent cork_content
| AxelarContent axelar_content
| PubsubContent pubsub_content

text \<open>
  The message a command builds: one of a module, or a proposal with its content, the initial deposit
  and the proposer (\<^verbatim>\<open>govtypesv1beta1.NewMsgSubmitProposal\<close>).
\<close>

datatype client_tx =
  AuctionTx auction_msg
| AxelarTx axelar_msg
| PubsubTx pubsub_msg
| SubmitProposalTx proposal_content "coin list" string

text \<open>The JSON codec: one decoder for each of the structures above.\<close>

record codec =
  json_SetTokenPrices :: "string \<Rightarrow> set_token_prices_with_deposit option"
  json_AddManagedCellars :: "string \<Rightarrow> add_managed_cellars_with_deposit option"
  json_RemoveManagedCellars :: "string \<Rightarrow> remove_managed_cellars_with_deposit option"
  json_ScheduledCork :: "string \<Rightarrow> scheduled_cork_with_deposit option"
  json_AddAxelarCellars :: "string \<Rightarrow> add_axelar_cellars_with_deposit option"
  json_RemoveAxelarCellars :: "string \<Rightarrow> remove_axelar_cellars_with_deposit option"
  json_AxelarScheduledCork :: "string \<Rightarrow> axelar_scheduled_cork_with_deposit option"
  json_AxelarCommunitySpend :: "string \<Rightarrow> axelar_community_spend_for_cli option"
  json_AddChainConfiguration :: "string \<Rightarrow> add_chain_configuration_with_deposit option"
  json_RemoveChainConfiguration :: "string \<Rightarrow> remove_chain_configuration_with_deposit option"
  json_UpgradeProxy :: "string \<Rightarrow> upgrade_proxy_with_deposit option"
  json_CancelUpgrade :: "string \<Rightarrow> cancel_upgrade_with_deposit option"
  json_AddPublisher :: "string \<Rightarrow> add_publisher_with_deposit option"
  json_RemovePublisher :: "string \<Rightarrow> remove_publisher_with_deposit option"
  json_AddDefaultSubscription :: "string \<Rightarrow> add_default_subscription_with_deposit option"
  json_RemoveDefaultSubscription :: "string \<Rightarrow> remove_default_subscription_with_deposit option"

text \<open>
  \<open>GetClientTxContext\<close> maps the value of \<^verbatim>\<open>--from\<close> to the address of
  \<^verbatim>\<open>clientCtx.GetFromAddress\<close>, a nil address being \<open>None\<close>; it may also fail.
  \<open>SetContent\<close> is the packing of a proposal's content into its message.
\<close>

record client =
  cl_sdk :: sdk
  cl_eth :: eth
  cl_web :: web
  cl_coins :: coins_ops
  cl_codec :: codec
  GetClientTxContext :: "string option \<Rightarrow> addr option res"
  ReadFile :: "string \<Rightarrow> string option"
  ParseUint :: "string \<Rightarrow> nat option"
  ParseCoinNormalized :: "string \<Rightarrow> coin option"
  ParseCoinsNormalized :: "string \<Rightarrow> coin list option"
  SetContent :: "proposal_content \<Rightarrow> unit res"
  GetClientQueryContext :: "unit res"

text \<open>\<^verbatim>\<open>from.String()\<close> of a nil address is empty.\<close>

definition From_String :: "client \<Rightarrow> addr option \<Rightarrow> string" where
  "From_String C from = (case from of None \<Rightarrow> [] | Some a \<Rightarrow> AccAddress_String (cl_sdk C) a)"

definition parse_uint :: "client \<Rightarrow> string list \<Rightarrow> nat \<Rightarrow> nat res" where
  "parse_uint C args i = bind_res (arg args i) (\<lambda>s. or_fail (ParseUint C s) ''invalid uint'')"

definition parse_coin :: "client \<Rightarrow> string \<Rightarrow> coin res" where
  "parse_coin C s = or_fail (ParseCoinNormalized C s) ''invalid decimal coin expression''"

definition parse_deposit :: "client \<Rightarrow> string \<Rightarrow> coin list res" where
  "parse_deposit C s = or_fail (ParseCoinsNormalized C s) ''invalid deposit''"

text \<open>The first steps of every proposal command (client context, file, codec) and the last one.\<close>

definition read_proposal ::
  "client \<Rightarrow> (string \<Rightarrow> 'p option) \<Rightarrow> string option \<Rightarrow> string list \<Rightarrow> (addr option \<times> 'p) res" where
  "read_proposal C unmarshal from args =
    bind_res (GetClientTxContext C from) (\<lambda>fromAddress.
    bind_res (arg args 0) (\<lambda>path.
    bind_res (or_fail (ReadFile C path) ''cannot read file'') (\<lambda>contents.
    bind_res (or_fail (unmarshal contents) ''invalid proposal JSON'') (\<lambda>proposal.
    Ok (fromAddress, proposal)))))"

definition submit_proposal :: "client \<Rightarrow> proposal_content \<Rightarrow> coin list \<Rightarrow> addr option \<Rightarrow> client_tx res" where
  "submit_proposal C content deposit from =
    bind_res (SetContent C content) (\<lambda>_. Ok (SubmitProposalTx content deposit (From_String C from)))"

section \<open>Constructors\<close>

definition NewSetTokenPricesProposal ::
  "string \<Rightarrow> string \<Rightarrow> proposed_token_price list \<Rightarrow> set_token_prices_proposal" where
  "NewSetTokenPricesProposal title description proposedTokenPrices =
    \<lparr>stp_Title = title, stp_Description = description, stp_TokenPrices = proposedTokenPrices\<rparr>"

definition NewAddManagedCellarIDsProposal ::
  "string \<Rightarrow> string \<Rightarrow> cellar_id_set \<Rightarrow> string \<Rightarrow> add_managed_cellars_proposal" where
  "NewAddManagedCellarIDsProposal title description cellarIds publisherDomain =
    \<lparr>amc_Title = title, amc_Description = description, amc_CellarIds = cellarIds,
     amc_PublisherDomain = publisherDomain\<rparr>"

definition NewRemoveManagedCellarIDsProposal ::
  "string \<Rightarrow> string \<Rightarrow> cellar_id_set \<Rightarrow> remove_managed_cellars_proposal" where
  "NewRemoveManagedCellarIDsProposal title description cellarIds =
    \<lparr>rmc_Title = title, rmc_Description = description, rmc_CellarIds = cellarIds\<rparr>"

definition NewScheduledCorkProposal ::
  "string \<Rightarrow> string \<Rightarrow> u64 \<Rightarrow> string \<Rightarrow> string \<Rightarrow> scheduled_cork_proposal" where
  "NewScheduledCorkProposal title description blockHeight target contractCall =
    \<lparr>scp_Title = title, scp_Description = description, scp_BlockHeight = blockHeight,
     scp_TargetContractAddress = target, scp_ContractCallProtoJson = contractCall\<rparr>"

definition NewAddAxelarManagedCellarIDsProposal ::
  "string \<Rightarrow> string \<Rightarrow> u64 \<Rightarrow> axelar_cellar_ids \<Rightarrow> string \<Rightarrow> add_axelar_cellars_proposal" where
  "NewAddAxelarManagedCellarIDsProposal title description chainID cellarIds publisherDomain =
    \<lparr>aac_Title = title, aac_Description = description, aac_ChainId = chainID, aac_CellarIds = cellarIds,
     aac_PublisherDomain = publisherDomain\<rparr>"

definition NewRemoveAxelarManagedCellarIDsProposal ::
  "string \<Rightarrow> string \<Rightarrow> u64 \<Rightarrow> axelar_cellar_ids \<Rightarrow> remove_axelar_cellars_proposal" where
  "NewRemoveAxelarManagedCellarIDsProposal title description chainID cellarIds =
    \<lparr>rac_Title = title, rac_Description = description, rac_ChainId = chainID, rac_CellarIds = cellarIds\<rparr>"

definition NewAxelarScheduledCorkProposal ::
  "string \<Rightarrow> string \<Rightarrow> u64 \<Rightarrow> u64 \<Rightarrow> string \<Rightarrow> string \<Rightarrow> u64 \<Rightarrow> axelar_scheduled_cork_proposal" where
  "NewAxelarScheduledCorkProposal title description blockHeight chainID target contractCall deadline =
    \<lparr>asp_Title = title, asp_Description = description, asp_BlockHeight = blockHeight, asp_ChainId = chainID,
     asp_TargetContractAddress = target, asp_ContractCallProtoJson = contractCall, asp_Deadline = deadline\<rparr>"

definition NewAxelarCommunitySpendProposal ::
  "string \<Rightarrow> string \<Rightarrow> string \<Rightarrow> u64 \<Rightarrow> coin \<Rightarrow> axelar_community_spend_proposal" where
  "NewAxelarCommunitySpendProposal title description recipient chainID amount =
    \<lparr>acs_Title = title, acs_Description = description, acs_Recipient = recipient, acs_ChainId = chainID,
     acs_Amount = amount\<rparr>"

definition NewAddChainConfigurationProposal ::
  "string \<Rightarrow> string \<Rightarrow> chain_configuration \<Rightarrow> add_chain_configuration_proposal" where
  "NewAddChainConfigurationProposal title description configuration =
    \<lparr>acp_Title = title, acp_Description = description, acp_ChainConfiguration = configuration\<rparr>"

definition NewRemoveChainConfigurationProposal :: "string \<Rightarrow> string \<Rightarrow> u64 \<Rightarrow> chain_proposal" where
  "NewRemoveChainConfigurationProposal title description chainID =
    \<lparr>chp_Title = title, chp_Description = description, chp_ChainId = chainID\<rparr>"

definition NewUpgradeAxelarProxyContractProposal ::
  "string \<Rightarrow> string \<Rightarrow> u64 \<Rightarrow> string \<Rightarrow> upgrade_proxy_proposal" where
  "NewUpgradeAxelarProxyContractProposal title description chainID newProxyAddress =
    \<lparr>chp_Title = title, chp_Description = description, chp_ChainId = chainID,
     chp_NewProxyAddress = newProxyAddress\<rparr>"

definition NewCancelAxelarProxyContractUpgradeProposal :: "string \<Rightarrow> string \<Rightarrow> u64 \<Rightarrow> chain_proposal" where
  "NewCancelAxelarProxyContractUpgradeProposal title description chainID =
    \<lparr>chp_Title = title, chp_Description = description, chp_ChainId = chainID\<rparr>"

definition NewAddPublisherProposal ::
  "string \<Rightarrow> string \<Rightarrow> string \<Rightarrow> string \<Rightarrow> string \<Rightarrow> string \<Rightarrow> add_publisher_proposal" where
  "NewAddPublisherProposal title description domain address proofURL caCert =
    \<lparr>app_Title = title, app_Description = description, app_Domain = domain, app_Address = address,
     app_ProofUrl = proofURL, app_CaCert = caCert\<rparr>"

definition NewRemovePublisherProposal :: "string \<Rightarrow> string \<Rightarrow> string \<Rightarrow> remove_publisher_proposal" where
  "NewRemovePublisherProposal title description domain =
    \<lparr>rpp_Title = title, rpp_Description = description, rpp_Domain = domain\<rparr>"

definition NewAddDefaultSubscriptionProposal ::
  "string \<Rightarrow> string \<Rightarrow> string \<Rightarrow> string \<Rightarrow> add_default_subscription_proposal" where
  "NewAddDefaultSubscriptionProposal title description subscriptionID publisherDomain =
    \<lparr>adp_Title = title, adp_Description = description, adp_SubscriptionId = subscriptionID,
     adp_PublisherDomain = publisherDomain\<rparr>"

definition NewRemoveDefaultSubscriptionProposal ::
  "string \<Rightarrow> string \<Rightarrow> string \<Rightarrow> remove_default_subscription_proposal" where
  "NewRemoveDefaultSubscriptionProposal title description subscriptionID =
    \<lparr>rdp_Title = title, rdp_Description = description, rdp_SubscriptionId = subscriptionID\<rparr>"

text \<open>The constructors of the pubsub messages refuse a nil signer.\<close>

definition need_signer :: "client \<Rightarrow> addr option \<Rightarrow> string res" where
  "need_signer C signer =
    (case signer of None \<Rightarrow> Err (Errorf ''no signer provided'') | Some a \<Rightarrow> Ok (AccAddress_String (cl_sdk C) a))"

definition NewMsgAddPublisherIntentRequest ::
  "client \<Rightarrow> publisher_intent \<Rightarrow> addr option \<Rightarrow> msg_add_publisher_intent res" where
  "NewMsgAddPublisherIntentRequest C publisherIntent signer =
    bind_res (need_signer C signer) (\<lambda>s. Ok \<lparr>mapi_PublisherIntent = Some publisherIntent, mapi_Signer = s\<rparr>)"

definition NewMsgAddSubscriberIntentRequest ::
  "client \<Rightarrow> subscriber_intent \<Rightarrow> addr option \<Rightarrow> msg_add_subscriber_intent res" where
  "NewMsgAddSubscriberIntentRequest C subscriberIntent signer =
    bind_res (need_signer C signer) (\<lambda>s. Ok \<lparr>masi_SubscriberIntent = Some subscriberIntent, masi_Signer = s\<rparr>)"

definition NewMsgAddSubscriberRequest :: "client \<Rightarrow> subscriber \<Rightarrow> addr option \<Rightarrow> msg_add_subscriber res" where
  "NewMsgAddSubscriberRequest C subscriber signer =
    bind_res (need_signer C signer) (\<lambda>s. Ok \<lparr>mas_Subscriber = Some subscriber, mas_Signer = s\<rparr>)"

definition NewMsgRemovePublisherIntentRequest ::
  "client \<Rightarrow> string \<Rightarrow> string \<Rightarrow> addr option \<Rightarrow> msg_remove_publisher_intent res" where
  "NewMsgRemovePublisherIntentRequest C subscriptionID publisherDomain signer =
    bind_res (need_signer C signer) (\<lambda>s.
      Ok \<lparr>mrpi_SubscriptionId = subscriptionID, mrpi_PublisherDomain = publisherDomain, mrpi_Signer = s\<rparr>)"

definition NewMsgRemoveSubscriberIntentRequest ::
  "client \<Rightarrow> string \<Rightarrow> string \<Rightarrow> addr option \<Rightarrow> msg_remove_subscriber_intent res" where
  "NewMsgRemoveSubscriberIntentRequest C subscriptionID subscriberAddress signer =
    bind_res (need_signer C signer) (\<lambda>s.
      Ok \<lparr>mrsi_SubscriptionId = subscriptionID, mrsi_SubscriberAddress = subscriberAddress, mrsi_Signer = s\<rparr>)"

definition NewMsgRemoveSubscriberRequest :: "client \<Rightarrow> string \<Rightarrow> addr option \<Rightarrow> msg_remove_subscriber res" where
  "NewMsgRemoveSubscriberRequest C subscriberAddress signer =
    bind_res (need_signer C signer) (\<lambda>s. Ok \<lparr>mrs_SubscriberAddress = subscriberAddress, mrs_Signer = s\<rparr>)"

definition NewMsgRemovePublisherRequest :: "client \<Rightarrow> string \<Rightarrow> addr option \<Rightarrow> msg_remove_publisher res" where
  "NewMsgRemovePublisherRequest C publisherDomain signer =
    bind_res (need_signer C signer) (\<lambda>s. Ok \<lparr>mrp_PublisherDomain = publisherDomain, mrp_Signer = s\<rparr>)"

end
