(* ===== verification/Client_Tx.thy ===== *)
theory Client_Tx
  imports Client
begin

text \<open>
  The transaction commands of \<^verbatim>\<open>x/auction\<close>, \<^verbatim>\<open>x/cork\<close>, \<^verbatim>\<open>x/axelarcork\<close> and
  \<^verbatim>\<open>x/pubsub\<close>, one definition for each constructor of a \<^verbatim>\<open>cobra.Command\<close>, the command groups
  (\<^verbatim>\<open>GetTxCmd\<close>) and the list of proposal commands that \<^verbatim>\<open>app.go\<close> gives to the governance
  module, which adds the flags of a transaction to each of them.
\<close>

section \<open>Auction\<close>

definition GetCmdSubmitSetTokenPricesProposal :: "client \<Rightarrow> client_tx cobra_command" where
  "GetCmdSubmitSetTokenPricesProposal C =
    \<lparr>cmd_Use = ''set-token-prices [proposal-file]'', cmd_Args = ExactArgs 1, cmd_TxFlags = False,
     cmd_RunE = (\<lambda>flag args.
       bind_res (read_proposal C (json_SetTokenPrices (cl_codec C)) flag args) (\<lambda>(from, proposal).
       bind_res (parse_deposit C (stp_Deposit proposal)) (\<lambda>deposit.
       let content = NewSetTokenPricesProposal (stp_Title proposal) (stp_Description proposal) (stp_TokenPrices proposal)
       in bind_res (SetTokenPricesProposal_ValidateBasic (cl_sdk C) content) (\<lambda>_.
          submit_proposal C (AuctionContent (SetTokenPricesContent content)) deposit from))))\<rparr>"

definition GetCmdSubmitBid :: "client \<Rightarrow> client_tx cobra_command" where
  "GetCmdSubmitBid C = AddTxFlagsToCmd
    \<lparr>cmd_Use = ''submit-bid [auction-id] [max-bid-in-usomm] [sale-token-minimum-amount]'',
     cmd_Args = ExactArgs 3, cmd_TxFlags = False,
     cmd_RunE = (\<lambda>flag args.
       bind_res (GetClientTxContext C flag) (\<lambda>bidder.
       bind_res (parse_uint C args 0) (\<lambda>auctionID.
       bind_res (arg args 1) (\<lambda>a1.
       bind_res (parse_coin C a1) (\<lambda>maxBidInUsomm.
       bind_res (arg args 2) (\<lambda>a2.
       bind_res (parse_coin C a2) (\<lambda>saleTokenMinimumAmount.
       case bidder of None \<Rightarrow> Err (Errorf ''must include `--from` flag'')
       | Some b \<Rightarrow>
         bind_res (Uint_Uint64 auctionID) (\<lambda>i.
         Ok (AuctionTx (MsgSubmitBidRequest
           (NewMsgSubmitBidRequest (cl_sdk C) (ucast i) maxBidInUsomm saleTokenMinimumAmount b)))))))))))\<rparr>"

definition auction_GetTxCmd :: "client \<Rightarrow> client_tx cobra_command list" where
  "auction_GetTxCmd C = [GetCmdSubmitBid C]"

section \<open>Cork\<close>

text \<open>The loop over the identifiers of a proposal.\<close>

definition check_hex :: "client \<Rightarrow> string \<Rightarrow> string list \<Rightarrow> unit res" where
  "check_hex C e ids =
    fold_res (\<lambda>id _. if \<not> IsHexAddress (cl_eth C) id then Err (Errorf e) else Ok ()) ids ()"

definition GetCmdSubmitAddProposal :: "client \<Rightarrow> client_tx cobra_command" where
  "GetCmdSubmitAddProposal C =
    \<lparr>cmd_Use = ''add-cellar-id [proposal-file]'', cmd_Args = ExactArgs 1, cmd_TxFlags = False,
     cmd_RunE = (\<lambda>flag args.
       bind_res (read_proposal C (json_AddManagedCellars (cl_codec C)) flag args) (\<lambda>(from, proposal).
       bind_res (parse_deposit C (amd_Deposit proposal)) (\<lambda>deposit.
       bind_res (check_hex C ''not a valid ethereum address'' (amd_CellarIds proposal)) (\<lambda>_.
       bind_res (ValidateDomain (cl_web C) (amd_PublisherDomain proposal)) (\<lambda>_.
       let content = NewAddManagedCellarIDsProposal (amd_Title proposal) (amd_Description proposal)
             (amd_CellarIds proposal) (amd_PublisherDomain proposal)
       in submit_proposal C (CorkContent (AddManagedCellarIDsProposal content)) deposit from)))))\<rparr>"

definition GetCmdSubmitRemoveProposal :: "client \<Rightarrow> client_tx cobra_command" where
  "GetCmdSubmitRemoveProposal C =
    \<lparr>cmd_Use = ''remove-cellar-id [proposal-file]'', cmd_Args = ExactArgs 1, cmd_TxFlags = False,
     cmd_RunE = (\<lambda>flag args.
       bind_res (read_proposal C (json_RemoveManagedCellars (cl_codec C)) flag args) (\<lambda>(from, proposal).
       bind_res (parse_deposit C (rmd_Deposit proposal)) (\<lambda>deposit.
       bind_res (check_hex C ''not a valid ethereum address'' (rmd_CellarIds proposal)) (\<lambda>_.
       let content = NewRemoveManagedCellarIDsProposal (rmd_Title proposal) (rmd_Description proposal)
             (rmd_CellarIds proposal)
       in submit_proposal C (CorkContent (RemoveManagedCellarIDsProposal content)) deposit from))))\<rparr>"

definition GetCmdSubmitScheduledCorkProposal :: "client \<Rightarrow> client_tx cobra_command" where
  "GetCmdSubmitScheduledCorkProposal C =
    \<lparr>cmd_Use = ''schedule-cork [proposal-file]'', cmd_Args = ExactArgs 1, cmd_TxFlags = False,
     cmd_RunE = (\<lambda>flag args.
       bind_res (read_proposal C (json_ScheduledCork (cl_codec C)) flag args) (\<lambda>(from, proposal).
       bind_res (parse_deposit C (scp_Deposit proposal)) (\<lambda>deposit.
       if \<not> IsHexAddress (cl_eth C) (scp_TargetContractAddress proposal)
       then Err (Errorf ''not a valid contract address'')
       else
         let content = NewScheduledCorkProposal (scp_Title proposal) (scp_Description proposal)
               (scp_BlockHeight proposal) (scp_TargetContractAddress proposal) (scp_ContractCallProtoJson proposal)
         in bind_res (ScheduledCorkProposal_ValidateBasic (cl_sdk C) (cl_eth C) (cl_web C) content) (\<lambda>_.
            submit_proposal C (CorkContent (ScheduledCorkProposal content)) deposit from))))\<rparr>"

definition cork_GetTxCmd :: "client \<Rightarrow> client_tx cobra_command list" where
  "cork_GetTxCmd C = []"

section \<open>Axelarcork: messages\<close>

definition CmdScheduleAxelarCork :: "client \<Rightarrow> client_tx cobra_command" where
  "CmdScheduleAxelarCork C =
    \<lparr>cmd_Use = ''schedule-axelar-cork [chain-id] [contract-address] [block-height] [contract-call]'',
     cmd_Args = ExactArgs 4, cmd_TxFlags = False,
     cmd_RunE = (\<lambda>flag args.
       bind_res (GetClientTxContext C flag) (\<lambda>from.
       bind_res (parse_uint C args 0) (\<lambda>chainID.
       bind_res (arg args 1) (\<lambda>contractAddr.
       if \<not> IsHexAddress (cl_eth C) contractAddr then Err (Errorf ''contract address is invalid'')
       else
       bind_res (parse_uint C args 2) (\<lambda>blockHeight.
       bind_res (arg args 3) (\<lambda>contractCall.
       bind_res (Uint_Uint64 chainID) (\<lambda>chain.
       bind_res (Uint_Uint64 blockHeight) (\<lambda>height.
       let scheduleCorkMsg =
         \<lparr>mac_Cork = Some \<lparr>ac_EncodedContractCall = string_bytes contractCall, ac_ChainId = chain,
            ac_TargetContractAddress = contractAddr, ac_Deadline = 0\<rparr>,
          mac_ChainId = chain, mac_BlockHeight = height, mac_Signer = From_String C from\<rparr>
       in bind_res (MsgScheduleAxelarCork_ValidateBasic (cl_sdk C) (cl_eth C) scheduleCorkMsg) (\<lambda>_.
          Ok (AxelarTx (MsgScheduleAxelarCorkRequest scheduleCorkMsg)))))))))))\<rparr>"

definition CmdRelayAxelarCork :: "client \<Rightarrow> client_tx cobra_command" where
  "CmdRelayAxelarCork C =
    \<lparr>cmd_Use = ''relay-axelar-cork [chain-id] [contract-address] [token] [fee]'',
     cmd_Args = ExactArgs 4, cmd_TxFlags = False,
     cmd_RunE = (\<lambda>flag args.
       bind_res (GetClientTxContext C flag) (\<lambda>from.
       bind_res (parse_uint C args 0) (\<lambda>chainID.
       bind_res (arg args 1) (\<lambda>contractAddr.
       if \<not> IsHexAddress (cl_eth C) contractAddr then Err (Errorf ''contract address is invalid'')
       else
       bind_res (arg args 2) (\<lambda>a2.
       bind_res (parse_coin C a2) (\<lambda>token.
       bind_res (parse_uint C args 3) (\<lambda>fee.
       bind_res (Uint_Uint64 fee) (\<lambda>fee64.
       bind_res (Uint_Uint64 chainID) (\<lambda>chain.
       let relayCorkMsg = \<lparr>mrc_Signer = From_String C from, mrc_Token = token, mrc_Fee = fee64,
             mrc_ChainId = chain, mrc_TargetContractAddress = contractAddr\<rparr>
       in bind_res (MsgRelayAxelarCork_ValidateBasic (cl_sdk C) (cl_eth C) relayCorkMsg) (\<lambda>_.
          Ok (AxelarTx (MsgRelayAxelarCorkRequest relayCorkMsg))))))))))))\<rparr>"

text \<open>The upgrade command asks for four arguments and reads the first, the third and the fourth.\<close>

definition CmdRelayAxelarProxyUpgrade :: "client \<Rightarrow> client_tx cobra_command" where
  "CmdRelayAxelarProxyUpgrade C =
    \<lparr>cmd_Use = ''relay-axelar-proxy-upgrade [chain-id] [token] [fee]'',
     cmd_Args = ExactArgs 4, cmd_TxFlags = False,
     cmd_RunE = (\<lambda>flag args.
       bind_res (GetClientTxContext C flag) (\<lambda>from.
       bind_res (parse_uint C args 0) (\<lambda>chainID.
       bind_res (arg args 2) (\<lambda>a2.
       bind_res (parse_coin C a2) (\<lambda>token.
       bind_res (parse_uint C args 3) (\<lambda>fee.
       bind_res (Uint_Uint64 fee) (\<lambda>fee64.
       bind_res (Uint_Uint64 chainID) (\<lambda>chain.
       let relayProxyUpgradeMsg =
         \<lparr>mru_Signer = From_String C from, mru_Token = token, mru_Fee = fee64, mru_ChainId = chain\<rparr>
       in bind_res (MsgRelayAxelarProxyUpgrade_ValidateBasic (cl_sdk C) relayProxyUpgradeMsg) (\<lambda>_.
          Ok (AxelarTx (MsgRelayAxelarProxyUpgradeRequest relayProxyUpgradeMsg)))))))))))\<rparr>"

definition CmdBumpAxelarCorkGas :: "client \<Rightarrow> client_tx cobra_command" where
  "CmdBumpAxelarCorkGas C =
    \<lparr>cmd_Use = ''bump-axelar-cork-gas [token] [message-id]'', cmd_Args = ExactArgs 2, cmd_TxFlags = False,
     cmd_RunE = (\<lambda>flag args.
       bind_res (GetClientTxContext C flag) (\<lambda>from.
       bind_res (arg args 0) (\<lambda>a0.
       bind_res (parse_coin C a0) (\<lambda>token.
       bind_res (arg args 1) (\<lambda>messageID.
       let bumpAxelarCorkGasMsg = \<lparr>mbg_Signer = From_String C from, mbg_Token = token, mbg_MessageId = messageID\<rparr>
       in bind_res (MsgBumpAxelarCorkGas_ValidateBasic (cl_sdk C) bumpAxelarCorkGasMsg) (\<lambda>_.
          Ok (AxelarTx (MsgBumpAxelarCorkGasRequest bumpAxelarCorkGasMsg))))))))\<rparr>"

definition axelarcork_GetTxCmd :: "client \<Rightarrow> client_tx cobra_command list" where
  "axelarcork_GetTxCmd C =
    [CmdScheduleAxelarCork C, CmdRelayAxelarCork C, CmdBumpAxelarCorkGas C, CmdRelayAxelarProxyUpgrade C]"

section \<open>Axelarcork: proposals\<close>

definition GetCmdSubmitAddAxelarCellarIDProposal :: "client \<Rightarrow> client_tx cobra_command" where
  "GetCmdSubmitAddAxelarCellarIDProposal C =
    \<lparr>cmd_Use = ''add-axelar-cellar-id [proposal-file]'', cmd_Args = ExactArgs 1, cmd_TxFlags = False,
     cmd_RunE = (\<lambda>flag args.
       bind_res (read_proposal C (json_AddAxelarCellars (cl_codec C)) flag args) (\<lambda>(from, proposal).
       bind_res (parse_deposit C (aad_Deposit proposal)) (\<lambda>deposit.
       if aad_ChainId proposal = 0 then Err (Errorf ''chain ID must be non-zero'')
       else
       bind_res (check_hex C ''not a valid EVM address'' (aad_CellarIds proposal)) (\<lambda>_.
       bind_res (ValidateDomain (cl_web C) (aad_PublisherDomain proposal)) (\<lambda>_.
       let content = NewAddAxelarManagedCellarIDsProposal (aad_Title proposal) (aad_Description proposal)
             (aad_ChainId proposal) \<lparr>aci_ChainId = aad_ChainId proposal, aci_Ids = aad_CellarIds proposal\<rparr>
             (aad_PublisherDomain proposal)
       in submit_proposal C (AxelarContent (AddAxelarManagedCellarIDsProposal content)) deposit from)))))\<rparr>"

definition GetCmdSubmitRemoveAxelarCellarIDProposal :: "client \<Rightarrow> client_tx cobra_command" where
  "GetCmdSubmitRemoveAxelarCellarIDProposal C =
    \<lparr>cmd_Use = ''remove-axelar-cellar-id [proposal-file]'', cmd_Args = ExactArgs 1, cmd_TxFlags = False,
     cmd_RunE = (\<lambda>flag args.
       bind_res (read_proposal C (json_RemoveAxelarCellars (cl_codec C)) flag args) (\<lambda>(from, proposal).
       bind_res (parse_deposit C (rad_Deposit proposal)) (\<lambda>deposit.
       if rad_ChainId proposal = 0 then Err (Errorf ''chain ID must be non-zero'')
       else
       bind_res (check_hex C ''not a valid EVM address'' (rad_CellarIds proposal)) (\<lambda>_.
       let content = NewRemoveAxelarManagedCellarIDsProposal (rad_Title proposal) (rad_Description proposal)
             (rad_ChainId proposal) \<lparr>aci_ChainId = rad_ChainId proposal, aci_Ids = rad_CellarIds proposal\<rparr>
       in submit_proposal C (AxelarContent (RemoveAxelarManagedCellarIDsProposal content)) deposit from))))\<rparr>"

definition GetCmdSubmitScheduledAxelarCorkProposal :: "client \<Rightarrow> client_tx cobra_command" where
  "GetCmdSubmitScheduledAxelarCorkProposal C =
    \<lparr>cmd_Use = ''schedule-axelar-cork [proposal-file]'', cmd_Args = ExactArgs 1, cmd_TxFlags = False,
     cmd_RunE = (\<lambda>flag args.
       bind_res (read_proposal C (json_AxelarScheduledCork (cl_codec C)) flag args) (\<lambda>(from, proposal).
       bind_res (parse_deposit C (asp_Deposit proposal)) (\<lambda>deposit.
       let content = NewAxelarScheduledCorkProposal (asp_Title proposal) (asp_Description proposal)
             (asp_BlockHeight proposal) (asp_ChainId proposal) (asp_TargetContractAddress proposal)
             (asp_ContractCallProtoJson proposal) (asp_Deadline proposal)
       in bind_res (AxelarScheduledCorkProposal_ValidateBasic (cl_sdk C) (cl_eth C) (cl_web C) content) (\<lambda>_.
          submit_proposal C (AxelarContent (AxelarScheduledCorkProposal content)) deposit from))))\<rparr>"

definition CmdSubmitAxelarCommunityPoolSpendProposal :: "client \<Rightarrow> client_tx cobra_command" where
  "CmdSubmitAxelarCommunityPoolSpendProposal C =
    \<lparr>cmd_Use = ''axelar-community-pool-spend [proposal-file]'', cmd_Args = ExactArgs 2, cmd_TxFlags = False,
     cmd_RunE = (\<lambda>flag args.
       bind_res (read_proposal C (json_AxelarCommunitySpend (cl_codec C)) flag args) (\<lambda>(from, proposal).
       if csc_ChainId proposal = 0 then Err (Errorf ''chain ID must be non-zero'')
       else if \<not> IsHexAddress (cl_eth C) (csc_Recipient proposal)
       then Err (Errorf ''recipient is not a valid EVM address'')
       else
       bind_res (parse_coin C (csc_Amount proposal)) (\<lambda>amount.
       if \<not> Coin_IsPositive amount then Err (Errorf ''amount must be positive'')
       else
       bind_res (parse_deposit C (csc_Deposit proposal)) (\<lambda>deposit.
       let content = NewAxelarCommunitySpendProposal (csc_Title proposal) (csc_Description proposal)
             (csc_Recipient proposal) (csc_ChainId proposal) amount
       in submit_proposal C (AxelarContent (AxelarCommunityPoolSpendProposal content)) deposit from))))\<rparr>"

text \<open>
  The configuration is a pointer: \<^verbatim>\<open>ValidateBasic\<close> has a value receiver, so that a file without one
  makes the command panic.
\<close>

definition GetCmdSubmitAddChainConfigurationProposal :: "client \<Rightarrow> client_tx cobra_command" where
  "GetCmdSubmitAddChainConfigurationProposal C =
    \<lparr>cmd_Use = ''add-axelar-chain-config [proposal-file]'', cmd_Args = ExactArgs 1, cmd_TxFlags = False,
     cmd_RunE = (\<lambda>flag args.
       bind_res (read_proposal C (json_AddChainConfiguration (cl_codec C)) flag args) (\<lambda>(from, proposal).
       bind_res (parse_deposit C (acd_Deposit proposal)) (\<lambda>deposit.
       case acd_ChainConfiguration proposal of None \<Rightarrow> Panic ''nil dereference''
       | Some configuration \<Rightarrow>
         bind_res (ChainConfiguration_ValidateBasic (cl_eth C) (cl_coins C) configuration) (\<lambda>_.
         let content = NewAddChainConfigurationProposal (acd_Title proposal) (acd_Description proposal) configuration
         in submit_proposal C (AxelarContent (AddChainConfigurationProposal content)) deposit from))))\<rparr>"

definition GetCmdSubmitRemoveChainConfigurationProposal :: "client \<Rightarrow> client_tx cobra_command" where
  "GetCmdSubmitRemoveChainConfigurationProposal C =
    \<lparr>cmd_Use = ''remove-axelar-chain-config [proposal-file]'', cmd_Args = ExactArgs 1, cmd_TxFlags = False,
     cmd_RunE = (\<lambda>flag args.
       bind_res (read_proposal C (json_RemoveChainConfiguration (cl_codec C)) flag args) (\<lambda>(from, proposal).
       bind_res (parse_deposit C (rcd_Deposit proposal)) (\<lambda>deposit.
       if chp_ChainId proposal = 0 then Err (Errorf ''chain ID cannot be zero'')
       else
       let content = NewRemoveChainConfigurationProposal (chp_Title proposal) (chp_Description proposal)
             (chp_ChainId proposal)
       in submit_proposal C (AxelarContent (RemoveChainConfigurationProposal content)) deposit from)))\<rparr>"

definition GetCmdSubmitUpgradeAxelarProxyContractProposal :: "client \<Rightarrow> client_tx cobra_command" where
  "GetCmdSubmitUpgradeAxelarProxyContractProposal C =
    \<lparr>cmd_Use = ''upgrade-axelar-proxy-contract [proposal-file]'', cmd_Args = ExactArgs 1, cmd_TxFlags = False,
     cmd_RunE = (\<lambda>flag args.
       bind_res (read_proposal C (json_UpgradeProxy (cl_codec C)) flag args) (\<lambda>(from, proposal).
       bind_res (parse_deposit C (upd_Deposit proposal)) (\<lambda>deposit.
       if chp_ChainId proposal = 0 then Err (Errorf ''chain ID cannot be zero'')
       else if \<not> IsHexAddress (cl_eth C) (chp_NewProxyAddress proposal)
       then Err (Errorf ''new proxy address is not a valid EVM address'')
       else
       let content = NewUpgradeAxelarProxyContractProposal (chp_Title proposal) (chp_Description proposal)
             (chp_ChainId proposal) (chp_NewProxyAddress proposal)
       in submit_proposal C (AxelarContent (UpgradeAxelarProxyContractProposal content)) deposit from)))\<rparr>"

definition GetCmdSubmitCancelAxelarProxyContractUpgradeProposal :: "client \<Rightarrow> client_tx cobra_command" where
  "GetCmdSubmitCancelAxelarProxyContractUpgradeProposal C =
    \<lparr>cmd_Use = ''cancel-axelar-proxy-contract-upgrade [proposal-file]'', cmd_Args = ExactArgs 1, cmd_TxFlags = False,
     cmd_RunE = (\<lambda>flag args.
       bind_res (read_proposal C (json_CancelUpgrade (cl_codec C)) flag args) (\<lambda>(from, proposal).
       bind_res (parse_deposit C (cud_Deposit proposal)) (\<lambda>deposit.
       if chp_ChainId proposal = 0 then Err (Errorf ''chain ID cannot be zero'')
       else
       let content = NewCancelAxelarProxyContractUpgradeProposal (chp_Title proposal) (chp_Description proposal)
             (chp_ChainId proposal)
       in submit_proposal C (AxelarContent (CancelAxelarProxyContractUpgradeProposal content)) deposit from)))\<rparr>"

section \<open>Pubsub: proposals\<close>

definition GetCmdSubmitAddPublisherProposal :: "client \<Rightarrow> client_tx cobra_command" where
  "GetCmdSubmitAddPublisherProposal C =
    \<lparr>cmd_Use = ''add-publisher [proposal-file]'', cmd_Args = ExactArgs 1, cmd_TxFlags = False,
     cmd_RunE = (\<lambda>flag args.
       bind_res (read_proposal C (json_AddPublisher (cl_codec C)) flag args) (\<lambda>(from, proposal).
       bind_res (parse_deposit C (app_Deposit proposal)) (\<lambda>deposit.
       let content = NewAddPublisherProposal (app_Title proposal) (app_Description proposal)
             (app_Domain proposal) (app_Address proposal) (app_ProofUrl proposal) (app_CaCert proposal)
       in bind_res (AddPublisherProposal_ValidateBasic (cl_sdk C) (cl_web C) content) (\<lambda>_.
          submit_proposal C (PubsubContent (AddPublisherProposal content)) deposit from))))\<rparr>"

definition GetCmdSubmitRemovePublisherProposal :: "client \<Rightarrow> client_tx cobra_command" where
  "GetCmdSubmitRemovePublisherProposal C =
    \<lparr>cmd_Use = ''remove-publisher [proposal-file]'', cmd_Args = ExactArgs 1, cmd_TxFlags = False,
     cmd_RunE = (\<lambda>flag args.
       bind_res (read_proposal C (json_RemovePublisher (cl_codec C)) flag args) (\<lambda>(from, proposal).
       bind_res (parse_deposit C (rpp_Deposit proposal)) (\<lambda>deposit.
       let content = NewRemovePublisherProposal (rpp_Title proposal) (rpp_Description proposal) (rpp_Domain proposal)
       in bind_res (RemovePublisherProposal_ValidateBasic (cl_sdk C) (cl_web C) content) (\<lambda>_.
          submit_proposal C (PubsubContent (RemovePublisherProposal content)) deposit from))))\<rparr>"

definition GetCmdSubmitAddDefaultSubscriptionProposal :: "client \<Rightarrow> client_tx cobra_command" where
  "GetCmdSubmitAddDefaultSubscriptionProposal C =
    \<lparr>cmd_Use = ''add-default-subscription [proposal-file]'', cmd_Args = ExactArgs 1, cmd_TxFlags = False,
     cmd_RunE = (\<lambda>flag args.
       bind_res (read_proposal C (json_AddDefaultSubscription (cl_codec C)) flag args) (\<lambda>(from, proposal).
       bind_res (parse_deposit C (adp_Deposit proposal)) (\<lambda>deposit.
       let content = NewAddDefaultSubscriptionProposal (adp_Title proposal) (adp_Description proposal)
             (adp_SubscriptionId proposal) (adp_PublisherDomain proposal)
       in bind_res (AddDefaultSubscriptionProposal_ValidateBasic (cl_sdk C) (cl_web C) content) (\<lambda>_.
          submit_proposal C (PubsubContent (AddDefaultSubscriptionProposal content)) deposit from))))\<rparr>"

definition GetCmdSubmitRemoveDefaultSubscriptionProposal :: "client \<Rightarrow> client_tx cobra_command" where
  "GetCmdSubmitRemoveDefaultSubscriptionProposal C =
    \<lparr>cmd_Use = ''remove-default-subscription [proposal-file]'', cmd_Args = ExactArgs 1, cmd_TxFlags = False,
     cmd_RunE = (\<lambda>flag args.
       bind_res (read_proposal C (json_RemoveDefaultSubscription (cl_codec C)) flag args) (\<lambda>(from, proposal).
       bind_res (parse_deposit C (rdp_Deposit proposal)) (\<lambda>deposit.
       let content = NewRemoveDefaultSubscriptionProposal (rdp_Title proposal) (rdp_Description proposal)
             (rdp_SubscriptionId proposal)
       in bind_res (RemoveDefaultSubscriptionProposal_ValidateBasic (cl_sdk C) content) (\<lambda>_.
          submit_proposal C (PubsubContent (RemoveDefaultSubscriptionProposal content)) deposit from))))\<rparr>"

section \<open>Pubsub: messages\<close>

fun parseAllowedSubscribers :: "string \<Rightarrow> allowed_subscribers res" where
  "parseAllowedSubscribers s =
    (if s = ''ANY'' then Ok AllowedSubscribers_ANY
     else if s = ''VALIDATORS'' then Ok AllowedSubscribers_VALIDATORS
     else if s = ''LIST'' then Ok AllowedSubscribers_LIST
     else Err (Errorf ''invalid allowed subcribers selection, choose ANY, VALIDATORS, or LIST''))"

text \<open>The signer a message command insists on.\<close>

definition from_signer :: "client \<Rightarrow> string option \<Rightarrow> addr option res" where
  "from_signer C flag =
    bind_res (GetClientTxContext C flag) (\<lambda>signer.
    if signer = None then Err (Errorf ''must include `--from` flag'') else Ok signer)"

definition GetCmdAddPublisherPullIntent :: "client \<Rightarrow> client_tx cobra_command" where
  "GetCmdAddPublisherPullIntent C = AddTxFlagsToCmd
    \<lparr>cmd_Use = ''add-publisher-pull-intent [subscription-id] [publisher-domain] [pull-url] [ANY|VALIDATORS|LIST] <optional_allowed_addresses>'',
     cmd_Args = MinimumNArgs 4, cmd_TxFlags = False,
     cmd_RunE = (\<lambda>flag args.
       bind_res (GetClientTxContext C flag) (\<lambda>signer.
       if 5 < length args then Err (Errorf ''too many arguments'')
       else if signer = None then Err (Errorf ''must include `--from` flag'')
       else
       bind_res (arg args 3) (\<lambda>a3.
       bind_res (parseAllowedSubscribers a3) (\<lambda>allowedSubscribers.
       bind_res (if length args = 5 then bind_res (arg args 4) (\<lambda>a4. Ok (strings_Split a4 (CHR '',''))) else Ok [])
         (\<lambda>allowedAddresses.
       bind_res (arg args 0) (\<lambda>a0. bind_res (arg args 1) (\<lambda>a1. bind_res (arg args 2) (\<lambda>a2.
       bind_res (NewMsgAddPublisherIntentRequest C
         \<lparr>pi_SubscriptionId = a0, pi_PublisherDomain = a1, pi_Method = PublishMethod_PULL, pi_PullUrl = a2,
          pi_AllowedSubscribers = allowedSubscribers, pi_AllowedAddresses = allowedAddresses\<rparr> signer) (\<lambda>msg.
       Ok (PubsubTx (MsgAddPublisherIntent msg)))))))))))\<rparr>"

definition GetCmdAddPublisherPushIntent :: "client \<Rightarrow> client_tx cobra_command" where
  "GetCmdAddPublisherPushIntent C = AddTxFlagsToCmd
    \<lparr>cmd_Use = ''add-publisher-push-intent [subscription-id] [publisher-domain] [ANY|VALIDATORS|LIST] <optional_allowed_addresses>'',
     cmd_Args = MinimumNArgs 3, cmd_TxFlags = False,
     cmd_RunE = (\<lambda>flag args.
       bind_res (GetClientTxContext C flag) (\<lambda>signer.
       if 4 < length args then Err (Errorf ''too many arguments'')
       else if signer = None then Err (Errorf ''must include `--from` flag'')
       else
       bind_res (arg args 2) (\<lambda>a2.
       bind_res (parseAllowedSubscribers a2) (\<lambda>allowedSubscribers.
       bind_res (if length args = 4 then bind_res (arg args 3) (\<lambda>a3. Ok (strings_Split a3 (CHR '',''))) else Ok [])
         (\<lambda>allowedAddresses.
       bind_res (arg args 0) (\<lambda>a0. bind_res (arg args 1) (\<lambda>a1.
       bind_res (NewMsgAddPublisherIntentRequest C
         \<lparr>pi_SubscriptionId = a0, pi_PublisherDomain = a1, pi_Method = PublishMethod_PUSH, pi_PullUrl = [],
          pi_AllowedSubscribers = allowedSubscribers, pi_AllowedAddresses = allowedAddresses\<rparr> signer) (\<lambda>msg.
       Ok (PubsubTx (MsgAddPublisherIntent msg))))))))))\<rparr>"

definition GetCmdAddSubscriberIntent :: "client \<Rightarrow> client_tx cobra_command" where
  "GetCmdAddSubscriberIntent C = AddTxFlagsToCmd
    \<lparr>cmd_Use = ''add-subscriber-intent [subscription-id] [subscriber-address] [publisher-domain]'',
     cmd_Args = ExactArgs 3, cmd_TxFlags = False,
     cmd_RunE = (\<lambda>flag args.
       bind_res (from_signer C flag) (\<lambda>signer.
       bind_res (arg args 0) (\<lambda>a0. bind_res (arg args 1) (\<lambda>a1. bind_res (arg args 2) (\<lambda>a2.
       bind_res (NewMsgAddSubscriberIntentRequest C
         \<lparr>si_SubscriptionId = a0, si_SubscriberAddress = a1, si_PublisherDomain = a2\<rparr> signer) (\<lambda>msg.
       Ok (PubsubTx (MsgAddSubscriberIntent msg))))))))\<rparr>"

definition GetCmdAddSubscriber :: "client \<Rightarrow> client_tx cobra_command" where
  "GetCmdAddSubscriber C = AddTxFlagsToCmd
    \<lparr>cmd_Use = ''add-subscriber [address] <optional_ca_cert> <optional_push_url>'',
     cmd_Args = MinimumNArgs 1, cmd_TxFlags = False,
     cmd_RunE = (\<lambda>flag args.
       bind_res (GetClientTxContext C flag) (\<lambda>signer.
       if 3 < length args then Err (Errorf ''too many arguments'')
       else if signer = None then Err (Errorf ''must include `--from` flag'')
       else if 1 < length args \<and> length args \<noteq> 3
       then Err (Errorf ''must include both CA cert path and push URL for push subscriptions'')
       else
       bind_res (if length args = 3 then
           bind_res (arg args 1) (\<lambda>a1.
           bind_res (or_fail (ReadFile C a1) ''cannot read CA cert'') (\<lambda>caCertContent.
           bind_res (arg args 2) (\<lambda>a2. Ok (caCertContent, a2))))
         else Ok ([], [])) (\<lambda>(caCert, pushURL).
       bind_res (arg args 0) (\<lambda>a0.
       bind_res (NewMsgAddSubscriberRequest C
         \<lparr>sub_Address = a0, sub_CaCert = caCert, sub_PushUrl = pushURL\<rparr> signer) (\<lambda>msg.
       Ok (PubsubTx (MsgAddSubscriber msg)))))))\<rparr>"

definition GetCmdRemovePublisherIntent :: "client \<Rightarrow> client_tx cobra_command" where
  "GetCmdRemovePublisherIntent C = AddTxFlagsToCmd
    \<lparr>cmd_Use = ''remove-publisher-intent [subscription-id] [publisher-domain]'',
     cmd_Args = ExactArgs 2, cmd_TxFlags = False,
     cmd_RunE = (\<lambda>flag args.
       bind_res (from_signer C flag) (\<lambda>signer.
       bind_res (arg args 0) (\<lambda>a0. bind_res (arg args 1) (\<lambda>a1.
       bind_res (NewMsgRemovePublisherIntentRequest C a0 a1 signer) (\<lambda>msg.
       Ok (PubsubTx (MsgRemovePublisherIntent msg)))))))\<rparr>"

definition GetCmdRemoveSubscriberIntent :: "client \<Rightarrow> client_tx cobra_command" where
  "GetCmdRemoveSubscriberIntent C = AddTxFlagsToCmd
    \<lparr>cmd_Use = ''remove-subscriber-intent [subscription-id] [subscriber-address]'',
     cmd_Args = ExactArgs 2, cmd_TxFlags = False,
     cmd_RunE = (\<lambda>flag args.
       bind_res (from_signer C flag) (\<lambda>signer.
       bind_res (arg args 0) (\<lambda>a0. bind_res (arg args 1) (\<lambda>a1.
       bind_res (NewMsgRemoveSubscriberIntentRequest C a0 a1 signer) (\<lambda>msg.
       Ok (PubsubTx (MsgRemoveSubscriberIntent msg)))))))\<rparr>"

definition GetCmdRemoveSubscriber :: "client \<Rightarrow> client_tx cobra_command" where
  "GetCmdRemoveSubscriber C = AddTxFlagsToCmd
    \<lparr>cmd_Use = ''remove-subscriber [subscriber-address]'', cmd_Args = ExactArgs 1, cmd_TxFlags = False,
     cmd_RunE = (\<lambda>flag args.
       bind_res (from_signer C flag) (\<lambda>signer.
       bind_res (arg args 0) (\<lambda>a0.
       bind_res (NewMsgRemoveSubscriberRequest C a0 signer) (\<lambda>msg.
       Ok (PubsubTx (MsgRemoveSubscriber msg))))))\<rparr>"

definition GetCmdRemovePublisher :: "client \<Rightarrow> client_tx cobra_command" where
  "GetCmdRemovePublisher C = AddTxFlagsToCmd
    \<lparr>cmd_Use = ''remove-publisher [publisher-domain]'', cmd_Args = ExactArgs 1, cmd_TxFlags = False,
     cmd_RunE = (\<lambda>flag args.
       bind_res (from_signer C flag) (\<lambda>signer.
       bind_res (arg args 0) (\<lambda>a0.
       bind_res (NewMsgRemovePublisherRequest C a0 signer) (\<lambda>msg.
       Ok (PubsubTx (MsgRemovePublisher msg))))))\<rparr>"

definition pubsub_GetTxCmd :: "client \<Rightarrow> client_tx cobra_command list" where
  "pubsub_GetTxCmd C =
    [GetCmdAddPublisherPullIntent C, GetCmdAddPublisherPushIntent C, GetCmdAddSubscriberIntent C,
     GetCmdAddSubscriber C, GetCmdRemovePublisherIntent C, GetCmdRemoveSubscriberIntent C,
     GetCmdRemoveSubscriber C, GetCmdRemovePublisher C]"

section \<open>The commands of the application\<close>

text \<open>
  The module's entries of the list of proposal handlers in \<^verbatim>\<open>app.go\<close>, in its order; the governance
  module calls \<^verbatim>\<open>flags.AddTxFlagsToCmd\<close> on each.
\<close>

definition gov_proposal_commands :: "client \<Rightarrow> client_tx cobra_command list" where
  "gov_proposal_commands C = map AddTxFlagsToCmd
    [GetCmdSubmitAddProposal C, GetCmdSubmitRemoveProposal C,
     GetCmdSubmitAddAxelarCellarIDProposal C, GetCmdSubmitRemoveAxelarCellarIDProposal C,
     GetCmdSubmitAddChainConfigurationProposal C, GetCmdSubmitRemoveChainConfigurationProposal C,
     GetCmdSubmitScheduledAxelarCorkProposal C, CmdSubmitAxelarCommunityPoolSpendProposal C,
     GetCmdSubmitUpgradeAxelarProxyContractProposal C, GetCmdSubmitCancelAxelarProxyContractUpgradeProposal C,
     GetCmdSubmitScheduledCorkProposal C, GetCmdSubmitSetTokenPricesProposal C,
     GetCmdSubmitAddPublisherProposal C, GetCmdSubmitRemovePublisherProposal C,
     GetCmdSubmitAddDefaultSubscriptionProposal C, GetCmdSubmitRemoveDefaultSubscriptionProposal C]"

definition tx_commands :: "client \<Rightarrow> client_tx cobra_command list" where
  "tx_commands C =
    auction_GetTxCmd C @ cork_GetTxCmd C @ axelarcork_GetTxCmd C @ pubsub_GetTxCmd C @ gov_proposal_commands C"

end
