(* ===== verification/Client_Query.thy ===== *)
theory Client_Query
  imports Client Pubsub_Queries Cellarfees_Keeper Incentives
begin

text \<open>
  The query commands of \<^verbatim>\<open>x/*/client/cli/query.go\<close>. A command reads its arguments, builds a request
  and sends it through the query client of its module; it prints the answer. The requests of a module
  are a datatype, the query client is the argument \<open>ask\<close> of its commands, and the servers at the end of
  each section answer the requests from the state of the keeper, as the registered query services do.
\<close>

definition query_command ::
  "client \<Rightarrow> string \<Rightarrow> (string list \<Rightarrow> unit res) \<Rightarrow> (string list \<Rightarrow> 'r res) \<Rightarrow> 'r cobra_command" where
  "query_command C use args_check run =
    \<lparr>cmd_Use = use, cmd_Args = args_check, cmd_TxFlags = False,
     cmd_RunE = (\<lambda>_ args. bind_res (GetClientQueryContext C) (\<lambda>_. run args))\<rparr>"

text \<open>Four commands of cellarfees take their context from \<^verbatim>\<open>GetClientContextFromCmd\<close>, which does not fail.\<close>

definition plain_query_command ::
  "string \<Rightarrow> (string list \<Rightarrow> unit res) \<Rightarrow> (string list \<Rightarrow> 'r res) \<Rightarrow> 'r cobra_command" where
  "plain_query_command use args_check run =
    \<lparr>cmd_Use = use, cmd_Args = args_check, cmd_TxFlags = False, cmd_RunE = (\<lambda>_ args. run args)\<rparr>"

definition parse_u64 :: "client \<Rightarrow> string list \<Rightarrow> nat \<Rightarrow> u64 res" where
  "parse_u64 C args i = bind_res (parse_uint C args i) Uint_Uint64"

section \<open>Auction\<close>

datatype auction_query =
  AQ_Params | AQ_ActiveAuction u32 | AQ_EndedAuction u32 | AQ_ActiveAuctions | AQ_EndedAuctions
| AQ_Bid u32 u64 | AQ_BidsByAuction u32

datatype auction_answer =
  AA_Params auction_params | AA_Auction auction | AA_Auctions "auction list" | AA_Bid bid | AA_Bids "bid list"

definition auction_queryParams ::
  "client \<Rightarrow> (auction_query \<Rightarrow> auction_answer res) \<Rightarrow> auction_answer cobra_command" where
  "auction_queryParams C ask = query_command C ''parameters'' NoArgs (\<lambda>_. ask AQ_Params)"

definition queryActiveAuction ::
  "client \<Rightarrow> (auction_query \<Rightarrow> auction_answer res) \<Rightarrow> auction_answer cobra_command" where
  "queryActiveAuction C ask = query_command C ''active-auction'' (ExactArgs 1) (\<lambda>args.
    bind_res (parse_u64 C args 0) (\<lambda>auctionID. ask (AQ_ActiveAuction (ucast auctionID))))"

definition queryEndedAuction ::
  "client \<Rightarrow> (auction_query \<Rightarrow> auction_answer res) \<Rightarrow> auction_answer cobra_command" where
  "queryEndedAuction C ask = query_command C ''ended-auction'' (ExactArgs 1) (\<lambda>args.
    bind_res (parse_u64 C args 0) (\<lambda>auctionID. ask (AQ_EndedAuction (ucast auctionID))))"

definition queryActiveAuctions ::
  "client \<Rightarrow> (auction_query \<Rightarrow> auction_answer res) \<Rightarrow> auction_answer cobra_command" where
  "queryActiveAuctions C ask = query_command C ''active-auctions'' NoArgs (\<lambda>_. ask AQ_ActiveAuctions)"

text \<open>The list inside an answer (\<^verbatim>\<open>res.GetAuctions()\<close>).\<close>

fun GetAuctions :: "auction_answer \<Rightarrow> auction list" where
  "GetAuctions (AA_Auctions xs) = xs"
| "GetAuctions _ = []"

definition queryActiveAuctionsByDenom ::
  "client \<Rightarrow> (auction_query \<Rightarrow> auction_answer res) \<Rightarrow> auction_answer cobra_command" where
  "queryActiveAuctionsByDenom C ask = query_command C ''active-auctions-by-denom'' (ExactArgs 1) (\<lambda>args.
    bind_res (ask AQ_ActiveAuctions) (\<lambda>res.
    bind_res (arg args 0) (\<lambda>denom.
    case iterate (\<lambda>a found. if cDenom (a_StartingTokensForSale a) = denom then (Some a, True) else (found, False))
           (GetAuctions res) None of
      Some a \<Rightarrow> Ok (AA_Auction a)
    | None \<Rightarrow> Err (Errorf ''no active auction for denom''))))"

definition queryEndedAuctions ::
  "client \<Rightarrow> (auction_query \<Rightarrow> auction_answer res) \<Rightarrow> auction_answer cobra_command" where
  "queryEndedAuctions C ask = query_command C ''ended-auctions'' NoArgs (\<lambda>_. ask AQ_EndedAuctions)"

definition queryEndedAuctionsByDenom ::
  "client \<Rightarrow> (auction_query \<Rightarrow> auction_answer res) \<Rightarrow> auction_answer cobra_command" where
  "queryEndedAuctionsByDenom C ask = query_command C ''ended-auctions-by-denom'' (ExactArgs 1) (\<lambda>args.
    bind_res (ask AQ_EndedAuctions) (\<lambda>res.
    bind_res (arg args 0) (\<lambda>denom.
    let endedAuctions = filter (\<lambda>a. cDenom (a_StartingTokensForSale a) = denom) (GetAuctions res)
    in if endedAuctions = [] then Err (Errorf ''no ended auction for denom'')
       else Ok (AA_Auctions endedAuctions))))"

text \<open>Both numbers of the bid command are read from the first argument.\<close>

definition queryBid ::
  "client \<Rightarrow> (auction_query \<Rightarrow> auction_answer res) \<Rightarrow> auction_answer cobra_command" where
  "queryBid C ask = query_command C ''bid'' (ExactArgs 2) (\<lambda>args.
    bind_res (parse_uint C args 0) (\<lambda>auctionID.
    bind_res (parse_uint C args 0) (\<lambda>bidID.
    bind_res (Uint_Uint64 auctionID) (\<lambda>a.
    bind_res (Uint_Uint64 bidID) (\<lambda>b.
    ask (AQ_Bid (ucast a) b))))))"

definition queryBidsByAuction ::
  "client \<Rightarrow> (auction_query \<Rightarrow> auction_answer res) \<Rightarrow> auction_answer cobra_command" where
  "queryBidsByAuction C ask = query_command C ''bids-by-auction'' (ExactArgs 1) (\<lambda>args.
    bind_res (parse_u64 C args 0) (\<lambda>auctionID. ask (AQ_BidsByAuction (ucast auctionID))))"

definition auction_GetQueryCmd ::
  "client \<Rightarrow> (auction_query \<Rightarrow> auction_answer res) \<Rightarrow> auction_answer cobra_command list" where
  "auction_GetQueryCmd C ask =
    [auction_queryParams C ask, queryActiveAuction C ask, queryEndedAuction C ask, queryActiveAuctions C ask,
     queryActiveAuctionsByDenom C ask, queryEndedAuctions C ask, queryEndedAuctionsByDenom C ask,
     queryBid C ask, queryBidsByAuction C ask]"

text \<open>
  The two paginated queries hand a prefix store and a callback to \<^verbatim>\<open>query.FilteredPaginate\<close> of the
  SDK. The callback counts every entry and appends those of the page, so that the answer is the page;
  \<open>page_auctions\<close> and \<open>page_bids\<close> give the page of a list of values for the request the commands send, an
  empty one.
\<close>

record pager =
  page_auctions :: "auction list \<Rightarrow> auction list res"
  page_bids :: "bid list \<Rightarrow> bid list res"

definition QueryEndedAuctions :: "pager \<Rightarrow> 'b auction_state \<Rightarrow> auction list res" where
  "QueryEndedAuctions P st = or_err (page_auctions P (map snd (kv_iter (st_auctions st) GetEndedAuctionsPrefix)))
    (Errorf ''Internal'')"

definition QueryBidsByAuction :: "pager \<Rightarrow> 'b auction_state \<Rightarrow> u32 \<Rightarrow> bid list res" where
  "QueryBidsByAuction P st auctionID =
    or_err (page_bids P (map snd (kv_iter (st_bids st) (GetBidsByAuctionIDPrefix auctionID)))) (Errorf ''Internal'')"

fun auction_server :: "pager \<Rightarrow> 'b auction_state \<Rightarrow> auction_query \<Rightarrow> auction_answer res" where
  "auction_server P st AQ_Params = Ok (AA_Params (auction_QueryParams st))"
| "auction_server P st (AQ_ActiveAuction i) = bind_res (QueryActiveAuction st i) (\<lambda>a. Ok (AA_Auction a))"
| "auction_server P st (AQ_EndedAuction i) = bind_res (QueryEndedAuction st i) (\<lambda>a. Ok (AA_Auction a))"
| "auction_server P st AQ_ActiveAuctions = Ok (AA_Auctions (QueryActiveAuctions st))"
| "auction_server P st AQ_EndedAuctions = bind_res (QueryEndedAuctions P st) (\<lambda>xs. Ok (AA_Auctions xs))"
| "auction_server P st (AQ_Bid i b) = bind_res (QueryBid st i b) (\<lambda>x. Ok (AA_Bid x))"
| "auction_server P st (AQ_BidsByAuction i) = bind_res (QueryBidsByAuction P st i) (\<lambda>xs. Ok (AA_Bids xs))"

section \<open>Cork\<close>

datatype cork_query =
  CQ_Params | CQ_CellarIDs | CQ_ScheduledCorks | CQ_ScheduledCorksByBlockHeight u64 | CQ_ScheduledBlockHeights
| CQ_ScheduledCorksByID string | CQ_CorkResult string | CQ_CorkResults

datatype cork_answer =
  CA_Params cork_params | CA_Ids "string list" | CA_Corks "scheduled_cork list" | CA_Heights "u64 list"
| CA_Result cork_result | CA_Results "cork_result list"

text \<open>An identifier of a cork is the text of a Keccak-256 hash.\<close>

definition check_id :: "string \<Rightarrow> unit res" where
  "check_id i = check (length i = 64) (Errorf ''invalid ID length, must be a keccak256 hash'')"

definition cork_queryParams :: "client \<Rightarrow> (cork_query \<Rightarrow> cork_answer res) \<Rightarrow> cork_answer cobra_command" where
  "cork_queryParams C ask = query_command C ''parameters'' NoArgs (\<lambda>_. ask CQ_Params)"

definition cork_queryCellarIDs :: "client \<Rightarrow> (cork_query \<Rightarrow> cork_answer res) \<Rightarrow> cork_answer cobra_command" where
  "cork_queryCellarIDs C ask = query_command C ''cellar-ids'' NoArgs (\<lambda>_. ask CQ_CellarIDs)"

definition cork_queryScheduledCorks :: "client \<Rightarrow> (cork_query \<Rightarrow> cork_answer res) \<Rightarrow> cork_answer cobra_command" where
  "cork_queryScheduledCorks C ask = query_command C ''scheduled-corks'' NoArgs (\<lambda>_. ask CQ_ScheduledCorks)"

definition cork_queryScheduledCorksByBlockHeight ::
  "client \<Rightarrow> (cork_query \<Rightarrow> cork_answer res) \<Rightarrow> cork_answer cobra_command" where
  "cork_queryScheduledCorksByBlockHeight C ask =
    query_command C ''scheduled-corks-by-block-height'' (ExactArgs 1) (\<lambda>args.
    bind_res (parse_u64 C args 0) (\<lambda>height. ask (CQ_ScheduledCorksByBlockHeight height)))"

definition cork_queryScheduledBlockHeights ::
  "client \<Rightarrow> (cork_query \<Rightarrow> cork_answer res) \<Rightarrow> cork_answer cobra_command" where
  "cork_queryScheduledBlockHeights C ask =
    query_command C ''scheduled-block-heights'' NoArgs (\<lambda>_. ask CQ_ScheduledBlockHeights)"

definition cork_queryScheduledCorksByID ::
  "client \<Rightarrow> (cork_query \<Rightarrow> cork_answer res) \<Rightarrow> cork_answer cobra_command" where
  "cork_queryScheduledCorksByID C ask = query_command C ''scheduled-corks-by-id'' (ExactArgs 1) (\<lambda>args.
    bind_res (arg args 0) (\<lambda>id. bind_res (check_id id) (\<lambda>_. ask (CQ_ScheduledCorksByID id))))"

definition cork_queryCorkResult :: "client \<Rightarrow> (cork_query \<Rightarrow> cork_answer res) \<Rightarrow> cork_answer cobra_command" where
  "cork_queryCorkResult C ask = query_command C ''cork-result'' (ExactArgs 1) (\<lambda>args.
    bind_res (arg args 0) (\<lambda>corkID. bind_res (check_id corkID) (\<lambda>_. ask (CQ_CorkResult corkID))))"

definition cork_queryCorkResults :: "client \<Rightarrow> (cork_query \<Rightarrow> cork_answer res) \<Rightarrow> cork_answer cobra_command" where
  "cork_queryCorkResults C ask = query_command C ''cork-results'' NoArgs (\<lambda>_. ask CQ_CorkResults)"

definition cork_GetQueryCmd :: "client \<Rightarrow> (cork_query \<Rightarrow> cork_answer res) \<Rightarrow> cork_answer cobra_command list" where
  "cork_GetQueryCmd C ask =
    [cork_queryParams C ask, cork_queryScheduledCorks C ask, cork_queryCellarIDs C ask,
     cork_queryScheduledBlockHeights C ask, cork_queryScheduledCorksByBlockHeight C ask,
     cork_queryScheduledCorksByID C ask, cork_queryCorkResult C ask, cork_queryCorkResults C ask]"

fun cork_server :: "cork_keeper \<Rightarrow> cork_state \<Rightarrow> cork_query \<Rightarrow> cork_answer res" where
  "cork_server k st CQ_Params = bind_res (cork_QueryParams st (Some ())) (\<lambda>x. Ok (CA_Params x))"
| "cork_server k st CQ_CellarIDs = bind_res (QueryCellarIDs k st (Some ())) (\<lambda>x. Ok (CA_Ids x))"
| "cork_server k st CQ_ScheduledCorks = bind_res (QueryScheduledCorks k st (Some ())) (\<lambda>x. Ok (CA_Corks x))"
| "cork_server k st (CQ_ScheduledCorksByBlockHeight h) =
    bind_res (QueryScheduledCorksByBlockHeight k st (Some h)) (\<lambda>x. Ok (CA_Corks x))"
| "cork_server k st CQ_ScheduledBlockHeights =
    bind_res (QueryScheduledBlockHeights k st (Some ())) (\<lambda>x. Ok (CA_Heights x))"
| "cork_server k st (CQ_ScheduledCorksByID i) =
    bind_res (QueryScheduledCorksByID k st (Some i)) (\<lambda>x. Ok (CA_Corks x))"
| "cork_server k st (CQ_CorkResult i) = bind_res (QueryCorkResult st (Some i)) (\<lambda>x. Ok (CA_Result x))"
| "cork_server k st CQ_CorkResults = bind_res (QueryCorkResults st (Some ())) (\<lambda>x. Ok (CA_Results x))"

section \<open>Axelarcork\<close>

datatype axelar_query =
  XQ_Params | XQ_CellarIDs | XQ_CellarIDsByChainID u64 | XQ_ScheduledCorks u64
| XQ_ScheduledCorksByBlockHeight u64 u64 | XQ_ScheduledBlockHeights u64 | XQ_ScheduledCorksByID u64 string
| XQ_CorkResult u64 string | XQ_CorkResults u64 | XQ_ChainConfigurations | XQ_ContractCallNonces
| XQ_ProxyUpgradeData

datatype axelar_answer =
  XA_Params axelar_params | XA_IdSets "axelar_cellar_ids list" | XA_Ids "string list"
| XA_Corks "scheduled_axelar_cork list" | XA_Heights "u64 list" | XA_Result axelar_cork_result
| XA_Results "axelar_cork_result list" | XA_Chains "chain_configuration list"
| XA_Nonces "axelar_contract_call_nonce list" | XA_Upgrades "axelar_upgrade_data list"

definition axelar_queryParams :: "client \<Rightarrow> (axelar_query \<Rightarrow> axelar_answer res) \<Rightarrow> axelar_answer cobra_command" where
  "axelar_queryParams C ask = query_command C ''parameters'' NoArgs (\<lambda>_. ask XQ_Params)"

definition axelar_queryCellarIDs :: "client \<Rightarrow> (axelar_query \<Rightarrow> axelar_answer res) \<Rightarrow> axelar_answer cobra_command" where
  "axelar_queryCellarIDs C ask = query_command C ''cellar-ids'' NoArgs (\<lambda>_. ask XQ_CellarIDs)"

definition queryCellarIDsByChainID ::
  "client \<Rightarrow> (axelar_query \<Rightarrow> axelar_answer res) \<Rightarrow> axelar_answer cobra_command" where
  "queryCellarIDsByChainID C ask = query_command C ''cellar-ids-by-chain-id [chain-id]'' (ExactArgs 1) (\<lambda>args.
    bind_res (parse_u64 C args 0) (\<lambda>chainID. ask (XQ_CellarIDsByChainID chainID)))"

definition axelar_queryScheduledCorks ::
  "client \<Rightarrow> (axelar_query \<Rightarrow> axelar_answer res) \<Rightarrow> axelar_answer cobra_command" where
  "axelar_queryScheduledCorks C ask = query_command C ''scheduled-corks [chain-id]'' (ExactArgs 1) (\<lambda>args.
    bind_res (parse_u64 C args 0) (\<lambda>chainID. ask (XQ_ScheduledCorks chainID)))"

text \<open>Height and chain are both read from the only argument.\<close>

definition axelar_queryScheduledCorksByBlockHeight ::
  "client \<Rightarrow> (axelar_query \<Rightarrow> axelar_answer res) \<Rightarrow> axelar_answer cobra_command" where
  "axelar_queryScheduledCorksByBlockHeight C ask =
    query_command C ''scheduled-corks-by-block-height [chain-id]'' (ExactArgs 1) (\<lambda>args.
    bind_res (parse_uint C args 0) (\<lambda>height.
    bind_res (parse_uint C args 0) (\<lambda>chainID.
    bind_res (Uint_Uint64 height) (\<lambda>h.
    bind_res (Uint_Uint64 chainID) (\<lambda>c.
    ask (XQ_ScheduledCorksByBlockHeight c h))))))"

definition axelar_queryScheduledBlockHeights ::
  "client \<Rightarrow> (axelar_query \<Rightarrow> axelar_answer res) \<Rightarrow> axelar_answer cobra_command" where
  "axelar_queryScheduledBlockHeights C ask =
    query_command C ''scheduled-block-heights [chain-id]'' (ExactArgs 1) (\<lambda>args.
    bind_res (parse_u64 C args 0) (\<lambda>chainID. ask (XQ_ScheduledBlockHeights chainID)))"

text \<open>So are the identifier and the chain here.\<close>

definition axelar_queryScheduledCorksByID ::
  "client \<Rightarrow> (axelar_query \<Rightarrow> axelar_answer res) \<Rightarrow> axelar_answer cobra_command" where
  "axelar_queryScheduledCorksByID C ask =
    query_command C ''scheduled-corks-by-id [chain-id]'' (ExactArgs 1) (\<lambda>args.
    bind_res (arg args 0) (\<lambda>id.
    bind_res (check_id id) (\<lambda>_.
    bind_res (parse_u64 C args 0) (\<lambda>chainID. ask (XQ_ScheduledCorksByID chainID id)))))"

text \<open>The usage line names the chain first; the code reads it from the second argument.\<close>

definition axelar_queryCorkResult :: "client \<Rightarrow> (axelar_query \<Rightarrow> axelar_answer res) \<Rightarrow> axelar_answer cobra_command" where
  "axelar_queryCorkResult C ask = query_command C ''cork-result [chain-id] [cork-id]'' (ExactArgs 2) (\<lambda>args.
    bind_res (arg args 0) (\<lambda>corkID.
    bind_res (check_id corkID) (\<lambda>_.
    bind_res (parse_u64 C args 1) (\<lambda>chainID. ask (XQ_CorkResult chainID corkID)))))"

definition axelar_queryCorkResults ::
  "client \<Rightarrow> (axelar_query \<Rightarrow> axelar_answer res) \<Rightarrow> axelar_answer cobra_command" where
  "axelar_queryCorkResults C ask = query_command C ''cork-results [chain-id]'' (ExactArgs 1) (\<lambda>args.
    bind_res (parse_u64 C args 0) (\<lambda>chainID. ask (XQ_CorkResults chainID)))"

definition queryChainConfigurations ::
  "client \<Rightarrow> (axelar_query \<Rightarrow> axelar_answer res) \<Rightarrow> axelar_answer cobra_command" where
  "queryChainConfigurations C ask = query_command C ''chain-configurations'' NoArgs (\<lambda>_. ask XQ_ChainConfigurations)"

definition queryAxelarContractCallNonces ::
  "client \<Rightarrow> (axelar_query \<Rightarrow> axelar_answer res) \<Rightarrow> axelar_answer cobra_command" where
  "queryAxelarContractCallNonces C ask =
    query_command C ''axelar-contract-call-nonces'' NoArgs (\<lambda>_. ask XQ_ContractCallNonces)"

definition queryAxelayProxyUpgradeData ::
  "client \<Rightarrow> (axelar_query \<Rightarrow> axelar_answer res) \<Rightarrow> axelar_answer cobra_command" where
  "queryAxelayProxyUpgradeData C ask =
    query_command C ''axelar-proxy-upgrade-data'' NoArgs (\<lambda>_. ask XQ_ProxyUpgradeData)"

definition axelar_GetQueryCmd ::
  "client \<Rightarrow> (axelar_query \<Rightarrow> axelar_answer res) \<Rightarrow> axelar_answer cobra_command list" where
  "axelar_GetQueryCmd C ask =
    [axelar_queryParams C ask, axelar_queryScheduledCorks C ask, axelar_queryCellarIDs C ask,
     queryCellarIDsByChainID C ask, axelar_queryScheduledBlockHeights C ask,
     axelar_queryScheduledCorksByBlockHeight C ask, axelar_queryScheduledCorksByID C ask,
     axelar_queryCorkResult C ask, axelar_queryCorkResults C ask, queryChainConfigurations C ask,
     queryAxelarContractCallNonces C ask, queryAxelayProxyUpgradeData C ask]"

fun axelar_server :: "'w axelar_keeper \<Rightarrow> 'w axelar_state \<Rightarrow> axelar_query \<Rightarrow> axelar_answer res" where
  "axelar_server k st XQ_Params = bind_res (axelar_QueryParams st (Some ())) (\<lambda>x. Ok (XA_Params x))"
| "axelar_server k st XQ_CellarIDs = bind_res (axelar_QueryCellarIDs k st (Some ())) (\<lambda>x. Ok (XA_IdSets x))"
| "axelar_server k st (XQ_CellarIDsByChainID c) = bind_res (QueryCellarIDsByChainID k st (Some c)) (\<lambda>x. Ok (XA_Ids x))"
| "axelar_server k st (XQ_ScheduledCorks c) = bind_res (axelar_QueryScheduledCorks k st (Some c)) (\<lambda>x. Ok (XA_Corks x))"
| "axelar_server k st (XQ_ScheduledCorksByBlockHeight c h) =
    bind_res (axelar_QueryScheduledCorksByBlockHeight k st (Some (c, h))) (\<lambda>x. Ok (XA_Corks x))"
| "axelar_server k st (XQ_ScheduledBlockHeights c) =
    bind_res (axelar_QueryScheduledBlockHeights k st (Some c)) (\<lambda>x. Ok (XA_Heights x))"
| "axelar_server k st (XQ_ScheduledCorksByID c i) =
    bind_res (axelar_QueryScheduledCorksByID k st (Some (c, i))) (\<lambda>x. Ok (XA_Corks x))"
| "axelar_server k st (XQ_CorkResult c i) = bind_res (axelar_QueryCorkResult st (Some (c, i))) (\<lambda>x. Ok (XA_Result x))"
| "axelar_server k st (XQ_CorkResults c) = bind_res (axelar_QueryCorkResults st (Some c)) (\<lambda>x. Ok (XA_Results x))"
| "axelar_server k st XQ_ChainConfigurations = bind_res (QueryChainConfigurations st (Some ())) (\<lambda>x. Ok (XA_Chains x))"
| "axelar_server k st XQ_ContractCallNonces =
    bind_res (QueryAxelarContractCallNonces k st (Some ())) (\<lambda>x. Ok (XA_Nonces x))"
| "axelar_server k st XQ_ProxyUpgradeData =
    bind_res (QueryAxelarProxyUpgradeData st (Some ())) (\<lambda>x. Ok (XA_Upgrades x))"

section \<open>Pubsub\<close>

datatype pubsub_query =
  PQ_Params | PQ_Publisher string | PQ_Publishers | PQ_Subscriber string | PQ_Subscribers
| PQ_PublisherIntent string string | PQ_PublisherIntents | PQ_PublisherIntentsByPublisherDomain string
| PQ_PublisherIntentsBySubscriptionID string | PQ_SubscriberIntent string string | PQ_SubscriberIntents
| PQ_SubscriberIntentsBySubscriberAddress string | PQ_SubscriberIntentsBySubscriptionID string
| PQ_SubscriberIntentsByPublisherDomain string | PQ_DefaultSubscription string | PQ_DefaultSubscriptions

datatype pubsub_answer =
  PA_Params | PA_Publisher publisher | PA_Publishers "publisher list" | PA_Subscriber subscriber
| PA_Subscribers "subscriber list" | PA_PublisherIntent publisher_intent
| PA_PublisherIntents "publisher_intent list" | PA_SubscriberIntent subscriber_intent
| PA_SubscriberIntents "subscriber_intent list" | PA_DefaultSubscription default_subscription
| PA_DefaultSubscriptions "default_subscription list"

definition pubsub_CmdQueryParams ::
  "client \<Rightarrow> (pubsub_query \<Rightarrow> pubsub_answer res) \<Rightarrow> pubsub_answer cobra_command" where
  "pubsub_CmdQueryParams C ask = query_command C ''params'' NoArgs (\<lambda>_.
    ask PQ_Params)"

definition CmdQueryPublisher ::
  "client \<Rightarrow> (pubsub_query \<Rightarrow> pubsub_answer res) \<Rightarrow> pubsub_answer cobra_command" where
  "CmdQueryPublisher C ask = query_command C ''publisher'' (ExactArgs 1) (\<lambda>args.
    bind_res (arg args 0) (\<lambda>a0. ask (PQ_Publisher a0)))"

definition CmdQueryPublishers ::
  "client \<Rightarrow> (pubsub_query \<Rightarrow> pubsub_answer res) \<Rightarrow> pubsub_answer cobra_command" where
  "CmdQueryPublishers C ask = query_command C ''publishers'' NoArgs (\<lambda>_.
    ask PQ_Publishers)"

definition CmdQuerySubscriber ::
  "client \<Rightarrow> (pubsub_query \<Rightarrow> pubsub_answer res) \<Rightarrow> pubsub_answer cobra_command" where
  "CmdQuerySubscriber C ask = query_command C ''subscriber'' (ExactArgs 1) (\<lambda>args.
    bind_res (arg args 0) (\<lambda>a0. ask (PQ_Subscriber a0)))"

definition CmdQuerySubscribers ::
  "client \<Rightarrow> (pubsub_query \<Rightarrow> pubsub_answer res) \<Rightarrow> pubsub_answer cobra_command" where
  "CmdQuerySubscribers C ask = query_command C ''subscribers'' NoArgs (\<lambda>_.
    ask PQ_Subscribers)"

definition CmdQueryPublisherIntent ::
  "client \<Rightarrow> (pubsub_query \<Rightarrow> pubsub_answer res) \<Rightarrow> pubsub_answer cobra_command" where
  "CmdQueryPublisherIntent C ask = query_command C ''publisher-intent'' (ExactArgs 2) (\<lambda>args.
    bind_res (arg args 0) (\<lambda>a0. bind_res (arg args 1) (\<lambda>a1. ask (PQ_PublisherIntent a0 a1))))"

definition CmdQueryPublisherIntents ::
  "client \<Rightarrow> (pubsub_query \<Rightarrow> pubsub_answer res) \<Rightarrow> pubsub_answer cobra_command" where
  "CmdQueryPublisherIntents C ask = query_command C ''publisher-intents'' NoArgs (\<lambda>_.
    ask PQ_PublisherIntents)"

definition CmdQueryPublisherIntentsByPublisherDomain ::
  "client \<Rightarrow> (pubsub_query \<Rightarrow> pubsub_answer res) \<Rightarrow> pubsub_answer cobra_command" where
  "CmdQueryPublisherIntentsByPublisherDomain C ask = query_command C ''publisher-intents-by-publisher-domain'' (ExactArgs 1) (\<lambda>args.
    bind_res (arg args 0) (\<lambda>a0. ask (PQ_PublisherIntentsByPublisherDomain a0)))"

definition CmdQueryPublisherIntentsBySubscriptionID ::
  "client \<Rightarrow> (pubsub_query \<Rightarrow> pubsub_answer res) \<Rightarrow> pubsub_answer cobra_command" where
  "CmdQueryPublisherIntentsBySubscriptionID C ask = query_command C ''publisher-intents-by-subscription-id'' (ExactArgs 1) (\<lambda>args.
    bind_res (arg args 0) (\<lambda>a0. ask (PQ_PublisherIntentsBySubscriptionID a0)))"

definition CmdQuerySubscriberIntent ::
  "client \<Rightarrow> (pubsub_query \<Rightarrow> pubsub_answer res) \<Rightarrow> pubsub_answer cobra_command" where
  "CmdQuerySubscriberIntent C ask = query_command C ''subscriber-intent'' (ExactArgs 2) (\<lambda>args.
    bind_res (arg args 0) (\<lambda>a0. bind_res (arg args 1) (\<lambda>a1. ask (PQ_SubscriberIntent a0 a1))))"

definition CmdQuerySubscriberIntents ::
  "client \<Rightarrow> (pubsub_query \<Rightarrow> pubsub_answer res) \<Rightarrow> pubsub_answer cobra_command" where
  "CmdQuerySubscriberIntents C ask = query_command C ''subscriber-intents'' NoArgs (\<lambda>_.
    ask PQ_SubscriberIntents)"

definition CmdQuerySubscriberIntentsBySubscriberAddress ::
  "client \<Rightarrow> (pubsub_query \<Rightarrow> pubsub_answer res) \<Rightarrow> pubsub_answer cobra_command" where
  "CmdQuerySubscriberIntentsBySubscriberAddress C ask = query_command C ''subscriber-intents-by-subscriber-address'' (ExactArgs 1) (\<lambda>args.
    bind_res (arg args 0) (\<lambda>a0. ask (PQ_SubscriberIntentsBySubscriberAddress a0)))"

definition CmdQuerySubscriberIntentsBySubscriptionID ::
  "client \<Rightarrow> (pubsub_query \<Rightarrow> pubsub_answer res) \<Rightarrow> pubsub_answer cobra_command" where
  "CmdQuerySubscriberIntentsBySubscriptionID C ask = query_command C ''subscriber-intents-by-subscription-id'' (ExactArgs 1) (\<lambda>args.
    bind_res (arg args 0) (\<lambda>a0. ask (PQ_SubscriberIntentsBySubscriptionID a0)))"

definition CmdQuerySubscriberIntentsByPublisherDomain ::
  "client \<Rightarrow> (pubsub_query \<Rightarrow> pubsub_answer res) \<Rightarrow> pubsub_answer cobra_command" where
  "CmdQuerySubscriberIntentsByPublisherDomain C ask = query_command C ''subscriber-intents-by-publisher-domain'' (ExactArgs 1) (\<lambda>args.
    bind_res (arg args 0) (\<lambda>a0. ask (PQ_SubscriberIntentsByPublisherDomain a0)))"

definition CmdQueryDefaultSubscription ::
  "client \<Rightarrow> (pubsub_query \<Rightarrow> pubsub_answer res) \<Rightarrow> pubsub_answer cobra_command" where
  "CmdQueryDefaultSubscription C ask = query_command C ''default-subscription'' (ExactArgs 1) (\<lambda>args.
    bind_res (arg args 0) (\<lambda>a0. ask (PQ_DefaultSubscription a0)))"

definition CmdQueryDefaultSubscriptions ::
  "client \<Rightarrow> (pubsub_query \<Rightarrow> pubsub_answer res) \<Rightarrow> pubsub_answer cobra_command" where
  "CmdQueryDefaultSubscriptions C ask = query_command C ''default-subscriptions'' NoArgs (\<lambda>_.
    ask PQ_DefaultSubscriptions)"

definition pubsub_GetQueryCmd ::
  "client \<Rightarrow> (pubsub_query \<Rightarrow> pubsub_answer res) \<Rightarrow> pubsub_answer cobra_command list" where
  "pubsub_GetQueryCmd C ask =
    [pubsub_CmdQueryParams C ask,
     CmdQueryPublisher C ask,
     CmdQueryPublishers C ask,
     CmdQuerySubscriber C ask,
     CmdQuerySubscribers C ask,
     CmdQueryPublisherIntent C ask,
     CmdQueryPublisherIntents C ask,
     CmdQueryPublisherIntentsByPublisherDomain C ask,
     CmdQueryPublisherIntentsBySubscriptionID C ask,
     CmdQuerySubscriberIntent C ask,
     CmdQuerySubscriberIntents C ask,
     CmdQuerySubscriberIntentsBySubscriberAddress C ask,
     CmdQuerySubscriberIntentsBySubscriptionID C ask,
     CmdQuerySubscriberIntentsByPublisherDomain C ask,
     CmdQueryDefaultSubscription C ask,
     CmdQueryDefaultSubscriptions C ask]"

fun pubsub_server :: "pubsub_keeper \<Rightarrow> pubsub_state \<Rightarrow> pubsub_query \<Rightarrow> pubsub_answer res" where
  "pubsub_server k st PQ_Params =
    Ok PA_Params"
| "pubsub_server k st (PQ_Publisher d) =
    bind_res (QueryPublisher k st (Some d)) (\<lambda>x. Ok (PA_Publisher x))"
| "pubsub_server k st PQ_Publishers =
    Ok (PA_Publishers (QueryPublishers st))"
| "pubsub_server k st (PQ_Subscriber a) =
    bind_res (QuerySubscriber k st (Some a)) (\<lambda>x. Ok (PA_Subscriber x))"
| "pubsub_server k st PQ_Subscribers =
    Ok (PA_Subscribers (QuerySubscribers st))"
| "pubsub_server k st (PQ_PublisherIntent d i) =
    bind_res (QueryPublisherIntent k st (Some (d, i))) (\<lambda>x. Ok (PA_PublisherIntent x))"
| "pubsub_server k st PQ_PublisherIntents =
    Ok (PA_PublisherIntents (QueryPublisherIntents st))"
| "pubsub_server k st (PQ_PublisherIntentsByPublisherDomain d) =
    bind_res (QueryPublisherIntentsByPublisherDomain k st (Some d)) (\<lambda>x. Ok (PA_PublisherIntents x))"
| "pubsub_server k st (PQ_PublisherIntentsBySubscriptionID i) =
    bind_res (QueryPublisherIntentsBySubscriptionID k st (Some i)) (\<lambda>x. Ok (PA_PublisherIntents x))"
| "pubsub_server k st (PQ_SubscriberIntent a i) =
    bind_res (QuerySubscriberIntent k st (Some (a, i))) (\<lambda>x. Ok (PA_SubscriberIntent x))"
| "pubsub_server k st PQ_SubscriberIntents =
    Ok (PA_SubscriberIntents (QuerySubscriberIntents st))"
| "pubsub_server k st (PQ_SubscriberIntentsBySubscriberAddress a) =
    bind_res (QuerySubscriberIntentsBySubscriberAddress k st (Some a)) (\<lambda>x. Ok (PA_SubscriberIntents x))"
| "pubsub_server k st (PQ_SubscriberIntentsBySubscriptionID i) =
    bind_res (QuerySubscriberIntentsBySubscriptionID k st (Some i)) (\<lambda>x. Ok (PA_SubscriberIntents x))"
| "pubsub_server k st (PQ_SubscriberIntentsByPublisherDomain d) =
    bind_res (QuerySubscriberIntentsByPublisherDomain k st (Some d)) (\<lambda>x. Ok (PA_SubscriberIntents x))"
| "pubsub_server k st (PQ_DefaultSubscription i) =
    bind_res (QueryDefaultSubscription k st (Some i)) (\<lambda>x. Ok (PA_DefaultSubscription x))"
| "pubsub_server k st PQ_DefaultSubscriptions =
    Ok (PA_DefaultSubscriptions (QueryDefaultSubscriptions st))"

section \<open>Cellarfees and incentives\<close>

datatype cellarfees_query =
  FQ_Params | FQ_ModuleAccounts | FQ_LastRewardSupplyPeak | FQ_FeeAccrualCounters | FQ_APY

datatype cellarfees_answer =
  FA_Params cellarfees_params | FA_FeesAddress string | FA_Peak int | FA_Counters fee_accrual_counters | FA_APY string

definition cellarfees_CmdQueryParams ::
  "client \<Rightarrow> (cellarfees_query \<Rightarrow> cellarfees_answer res) \<Rightarrow> cellarfees_answer cobra_command" where
  "cellarfees_CmdQueryParams C ask = plain_query_command ''params'' NoArgs (\<lambda>_. ask FQ_Params)"

definition CmdQueryModuleAccounts ::
  "client \<Rightarrow> (cellarfees_query \<Rightarrow> cellarfees_answer res) \<Rightarrow> cellarfees_answer cobra_command" where
  "CmdQueryModuleAccounts C ask = plain_query_command ''module-accounts'' NoArgs (\<lambda>_. ask FQ_ModuleAccounts)"

definition CmdQueryLastRewardSupplyPeak ::
  "client \<Rightarrow> (cellarfees_query \<Rightarrow> cellarfees_answer res) \<Rightarrow> cellarfees_answer cobra_command" where
  "CmdQueryLastRewardSupplyPeak C ask = plain_query_command ''last-reward-supply-peak'' NoArgs (\<lambda>_. ask FQ_LastRewardSupplyPeak)"

definition CmdQueryFeeAccrualCounters ::
  "client \<Rightarrow> (cellarfees_query \<Rightarrow> cellarfees_answer res) \<Rightarrow> cellarfees_answer cobra_command" where
  "CmdQueryFeeAccrualCounters C ask = plain_query_command ''fee-accrual-counters'' NoArgs (\<lambda>_. ask FQ_FeeAccrualCounters)"

definition cellarfees_CmdQueryAPY ::
  "client \<Rightarrow> (cellarfees_query \<Rightarrow> cellarfees_answer res) \<Rightarrow> cellarfees_answer cobra_command" where
  "cellarfees_CmdQueryAPY C ask = query_command C ''apy'' NoArgs (\<lambda>_. ask FQ_APY)"

definition cellarfees_GetQueryCmd ::
  "client \<Rightarrow> (cellarfees_query \<Rightarrow> cellarfees_answer res) \<Rightarrow> cellarfees_answer cobra_command list" where
  "cellarfees_GetQueryCmd C ask =
    [cellarfees_CmdQueryParams C ask, CmdQueryModuleAccounts C ask, CmdQueryFeeAccrualCounters C ask,
     CmdQueryLastRewardSupplyPeak C ask, cellarfees_CmdQueryAPY C ask]"

fun cellarfees_server ::
  "'w cellarfees_keeper \<Rightarrow> 'w cellarfees_state \<Rightarrow> cellarfees_query \<Rightarrow> cellarfees_answer res" where
  "cellarfees_server k st FQ_Params = bind_res (cellarfees_QueryParams st (Some ())) (\<lambda>x. Ok (FA_Params x))"
| "cellarfees_server k st FQ_ModuleAccounts =
    bind_res (cellarfees_QueryModuleAccounts k (Some ())) (\<lambda>x. Ok (FA_FeesAddress x))"
| "cellarfees_server k st FQ_LastRewardSupplyPeak =
    bind_res (QueryLastRewardSupplyPeak st (Some ())) (\<lambda>x. Ok (FA_Peak x))"
| "cellarfees_server k st FQ_FeeAccrualCounters =
    bind_res (QueryFeeAccrualCounters st (Some ())) (\<lambda>x. Ok (FA_Counters x))"
| "cellarfees_server k st FQ_APY = bind_res (cellarfees_QueryAPY k st) (\<lambda>x. Ok (FA_APY x))"

datatype incentives_query = IQ_Params | IQ_APY

datatype incentives_answer = IA_Params incentives_params | IA_APY string

definition incentives_CmdQueryParams ::
  "client \<Rightarrow> (incentives_query \<Rightarrow> incentives_answer res) \<Rightarrow> incentives_answer cobra_command" where
  "incentives_CmdQueryParams C ask = query_command C ''params'' NoArgs (\<lambda>_. ask IQ_Params)"

definition incentives_CmdQueryAPY ::
  "client \<Rightarrow> (incentives_query \<Rightarrow> incentives_answer res) \<Rightarrow> incentives_answer cobra_command" where
  "incentives_CmdQueryAPY C ask = query_command C ''apy'' NoArgs (\<lambda>_. ask IQ_APY)"

definition incentives_GetQueryCmd ::
  "client \<Rightarrow> (incentives_query \<Rightarrow> incentives_answer res) \<Rightarrow> incentives_answer cobra_command list" where
  "incentives_GetQueryCmd C ask = [incentives_CmdQueryParams C ask, incentives_CmdQueryAPY C ask]"

fun incentives_server ::
  "'w incentives_keeper \<Rightarrow> ctx \<Rightarrow> 'w incentives_state \<Rightarrow> incentives_query \<Rightarrow> incentives_answer res" where
  "incentives_server k ctx st IQ_Params = Ok (IA_Params (incentives_QueryParams st))"
| "incentives_server k ctx st IQ_APY = bind_res (incentives_QueryAPY k ctx st) (\<lambda>x. Ok (IA_APY x))"

end
