(* ===== verification/Client_Safety.thy ===== *)
theory Client_Safety
  imports Client_Tx Client_Query
begin

text \<open>
  Lemmas about the command line: what a successful run of a command says about its parts, what every
  transaction command has checked of the message it hands over (\<open>checked\<close>), how the pieces of a list
  survive joining and splitting, and the usage lines against the number of arguments a command takes.
\<close>

section \<open>Runs\<close>

lemma execute_Ok [simp]:
  "execute c flag args = Ok r \<longleftrightarrow>
    (flag = None \<or> cmd_TxFlags c) \<and> cmd_Args c args = Ok () \<and> cmd_RunE c flag args = Ok r"
  by (auto simp: execute_def)

lemma AddTxFlags_simps [simp]:
  "cmd_Use (AddTxFlagsToCmd c) = cmd_Use c" "cmd_Args (AddTxFlagsToCmd c) = cmd_Args c"
  "cmd_TxFlags (AddTxFlagsToCmd c)" "cmd_RunE (AddTxFlagsToCmd c) = cmd_RunE c"
  "cmd_Name (AddTxFlagsToCmd c) = cmd_Name c"
  by (simp_all add: AddTxFlagsToCmd_def cmd_Name_def)

lemma ExactArgs_Ok [simp]: "ExactArgs n args = Ok () \<longleftrightarrow> length args = n"
  by (simp add: ExactArgs_def)

lemma MinimumNArgs_Ok [simp]: "MinimumNArgs n args = Ok () \<longleftrightarrow> n \<le> length args"
  by (simp add: MinimumNArgs_def)

lemma NoArgs_Ok [simp]: "NoArgs args = Ok () \<longleftrightarrow> args = []"
  by (simp add: NoArgs_def)

lemma arg_Ok [simp]: "arg args i = Ok s \<longleftrightarrow> i < length args \<and> s = args ! i"
  by (auto simp: arg_def)

lemma or_fail_Ok [simp]: "or_fail x e = Ok a \<longleftrightarrow> x = Some a"
  by (simp add: or_fail_def split: option.splits)

lemma Uint_Uint64_Ok [simp]: "Uint_Uint64 n = Ok w \<longleftrightarrow> n < 2 ^ 64 \<and> w = of_nat n"
  by (auto simp: Uint_Uint64_def)

lemma parse_uint_Ok [simp]: "parse_uint C args i = Ok n \<longleftrightarrow> i < length args \<and> ParseUint C (args ! i) = Some n"
  by (auto simp: parse_uint_def)

lemma parse_u64_Ok [simp]:
  "parse_u64 C args i = Ok w \<longleftrightarrow>
    (\<exists>n. i < length args \<and> ParseUint C (args ! i) = Some n \<and> n < 2 ^ 64 \<and> w = of_nat n)"
  by (auto simp: parse_u64_def)

lemma read_proposal_Ok [simp]:
  "read_proposal C unmarshal flag args = Ok (from, p) \<longleftrightarrow>
    GetClientTxContext C flag = Ok from \<and> 0 < length args \<and>
    (\<exists>s. ReadFile C (args ! 0) = Some s \<and> unmarshal s = Some p)"
  by (auto simp: read_proposal_def)

lemma submit_proposal_Ok [simp]:
  "submit_proposal C content deposit from = Ok tx \<longleftrightarrow>
    SetContent C content = Ok () \<and> tx = SubmitProposalTx content deposit (From_String C from)"
  by (auto simp: submit_proposal_def)

lemma need_signer_Ok [simp]:
  "need_signer C signer = Ok s \<longleftrightarrow> (\<exists>a. signer = Some a \<and> s = AccAddress_String (cl_sdk C) a)"
  by (auto simp: need_signer_def split: option.splits)

lemma from_signer_Ok [simp]:
  "from_signer C flag = Ok signer \<longleftrightarrow> GetClientTxContext C flag = Ok signer \<and> signer \<noteq> None"
  by (auto simp: from_signer_def)

text \<open>A word of 64 bits cut to 32 bits, as the conversion of an auction id does.\<close>

lemma ucast_of_nat_32: "ucast (of_nat n :: u64) = (of_nat n :: u32)"
  by (rule bit_word_eqI) (simp add: bit_simps)

section \<open>What a command has checked\<close>

fun content_ValidateBasic :: "client \<Rightarrow> proposal_content \<Rightarrow> unit res" where
  "content_ValidateBasic C (AuctionContent (SetTokenPricesContent p)) = SetTokenPricesProposal_ValidateBasic (cl_sdk C) p"
| "content_ValidateBasic C (AuctionContent (OtherContent _)) = Err (Wrapped ErrUnknownRequest)"
| "content_ValidateBasic C (CorkContent (AddManagedCellarIDsProposal p)) =
    AddManagedCellarIDsProposal_ValidateBasic (cl_sdk C) (cl_web C) p"
| "content_ValidateBasic C (CorkContent (RemoveManagedCellarIDsProposal p)) =
    RemoveManagedCellarIDsProposal_ValidateBasic (cl_sdk C) p"
| "content_ValidateBasic C (CorkContent (ScheduledCorkProposal p)) =
    ScheduledCorkProposal_ValidateBasic (cl_sdk C) (cl_eth C) (cl_web C) p"
| "content_ValidateBasic C (CorkContent (CorkOtherContent _)) = Err (Wrapped ErrUnknownRequest)"
| "content_ValidateBasic C (AxelarContent (AddAxelarManagedCellarIDsProposal p)) =
    AddAxelarManagedCellarIDsProposal_ValidateBasic (cl_sdk C) (cl_eth C) (cl_web C) p"
| "content_ValidateBasic C (AxelarContent (RemoveAxelarManagedCellarIDsProposal p)) =
    RemoveAxelarManagedCellarIDsProposal_ValidateBasic (cl_sdk C) (cl_eth C) p"
| "content_ValidateBasic C (AxelarContent (AxelarScheduledCorkProposal p)) =
    AxelarScheduledCorkProposal_ValidateBasic (cl_sdk C) (cl_eth C) (cl_web C) p"
| "content_ValidateBasic C (AxelarContent (AxelarCommunityPoolSpendProposal p)) =
    AxelarCommunityPoolSpendProposal_ValidateBasic (cl_sdk C) (cl_eth C) p"
| "content_ValidateBasic C (AxelarContent (AddChainConfigurationProposal p)) =
    AddChainConfigurationProposal_ValidateBasic (cl_sdk C) (cl_eth C) (cl_coins C) p"
| "content_ValidateBasic C (AxelarContent (RemoveChainConfigurationProposal p)) =
    RemoveChainConfigurationProposal_ValidateBasic (cl_sdk C) p"
| "content_ValidateBasic C (AxelarContent (UpgradeAxelarProxyContractProposal p)) =
    UpgradeAxelarProxyContractProposal_ValidateBasic (cl_sdk C) (cl_eth C) p"
| "content_ValidateBasic C (AxelarContent (CancelAxelarProxyContractUpgradeProposal p)) =
    CancelAxelarProxyContractUpgradeProposal_ValidateBasic (cl_sdk C) p"
| "content_ValidateBasic C (AxelarContent (AxelarOtherContent _)) = Err (Wrapped ErrUnknownRequest)"
| "content_ValidateBasic C (PubsubContent (AddPublisherProposal p)) =
    AddPublisherProposal_ValidateBasic (cl_sdk C) (cl_web C) p"
| "content_ValidateBasic C (PubsubContent (RemovePublisherProposal p)) =
    RemovePublisherProposal_ValidateBasic (cl_sdk C) (cl_web C) p"
| "content_ValidateBasic C (PubsubContent (AddDefaultSubscriptionProposal p)) =
    AddDefaultSubscriptionProposal_ValidateBasic (cl_sdk C) (cl_web C) p"
| "content_ValidateBasic C (PubsubContent (RemoveDefaultSubscriptionProposal p)) =
    RemoveDefaultSubscriptionProposal_ValidateBasic (cl_sdk C) p"
| "content_ValidateBasic C (PubsubContent (PubsubOtherContent _)) = Err (Wrapped ErrUnknownRequest)"

text \<open>What the commands of nine proposals leave to the chain: title, description, an empty list of cellars.\<close>

fun content_abstract :: "client \<Rightarrow> proposal_content \<Rightarrow> unit res" where
  "content_abstract C (CorkContent (AddManagedCellarIDsProposal p)) =
    bind_res (ValidateAbstract (cl_sdk C) (amc_Title p) (amc_Description p)) (\<lambda>_.
    check (amc_CellarIds p \<noteq> []) (Errorf ''can't have an add prosoposal with no cellars''))"
| "content_abstract C (CorkContent (RemoveManagedCellarIDsProposal p)) =
    bind_res (ValidateAbstract (cl_sdk C) (rmc_Title p) (rmc_Description p)) (\<lambda>_.
    check (rmc_CellarIds p \<noteq> []) (Errorf ''can't have a remove prosoposal with no cellars''))"
| "content_abstract C (AxelarContent (AddAxelarManagedCellarIDsProposal p)) =
    ValidateAbstract (cl_sdk C) (aac_Title p) (aac_Description p)"
| "content_abstract C (AxelarContent (RemoveAxelarManagedCellarIDsProposal p)) =
    ValidateAbstract (cl_sdk C) (rac_Title p) (rac_Description p)"
| "content_abstract C (AxelarContent (AxelarCommunityPoolSpendProposal p)) =
    ValidateAbstract (cl_sdk C) (acs_Title p) (acs_Description p)"
| "content_abstract C (AxelarContent (AddChainConfigurationProposal p)) =
    ValidateAbstract (cl_sdk C) (acp_Title p) (acp_Description p)"
| "content_abstract C (AxelarContent (RemoveChainConfigurationProposal p)) =
    ValidateAbstract (cl_sdk C) (chp_Title p) (chp_Description p)"
| "content_abstract C (AxelarContent (UpgradeAxelarProxyContractProposal p)) =
    ValidateAbstract (cl_sdk C) (chp_Title p) (chp_Description p)"
| "content_abstract C (AxelarContent (CancelAxelarProxyContractUpgradeProposal p)) =
    ValidateAbstract (cl_sdk C) (chp_Title p) (chp_Description p)"
| "content_abstract C _ = Ok ()"

fun axelar_msg_ValidateBasic :: "client \<Rightarrow> axelar_msg \<Rightarrow> unit res" where
  "axelar_msg_ValidateBasic C (MsgScheduleAxelarCorkRequest m) = MsgScheduleAxelarCork_ValidateBasic (cl_sdk C) (cl_eth C) m"
| "axelar_msg_ValidateBasic C (MsgRelayAxelarCorkRequest m) = MsgRelayAxelarCork_ValidateBasic (cl_sdk C) (cl_eth C) m"
| "axelar_msg_ValidateBasic C (MsgRelayAxelarProxyUpgradeRequest m) = MsgRelayAxelarProxyUpgrade_ValidateBasic (cl_sdk C) m"
| "axelar_msg_ValidateBasic C (MsgBumpAxelarCorkGasRequest m) = MsgBumpAxelarCorkGas_ValidateBasic (cl_sdk C) m"
| "axelar_msg_ValidateBasic C (AxelarOtherMsg _) = Err (Wrapped ErrUnknownRequest)"

fun pubsub_signer :: "pubsub_msg \<Rightarrow> string" where
  "pubsub_signer (MsgRemovePublisher m) = mrp_Signer m"
| "pubsub_signer (MsgAddSubscriber m) = mas_Signer m"
| "pubsub_signer (MsgRemoveSubscriber m) = mrs_Signer m"
| "pubsub_signer (MsgAddPublisherIntent m) = mapi_Signer m"
| "pubsub_signer (MsgRemovePublisherIntent m) = mrpi_Signer m"
| "pubsub_signer (MsgAddSubscriberIntent m) = masi_Signer m"
| "pubsub_signer (MsgRemoveSubscriberIntent m) = mrsi_Signer m"
| "pubsub_signer (PubsubOtherMsg _) = []"

text \<open>
  \<open>checked\<close> of a message: a proposal passes its validation exactly when the part in \<open>content_abstract\<close>
  does, and is proposed by the sender; an axelarcork message passes its validation; a bid and a pubsub
  message carry the sender, and a bid the number of its first argument, cut to 32 bits.
\<close>

fun checked :: "client \<Rightarrow> string option \<Rightarrow> string list \<Rightarrow> client_tx \<Rightarrow> bool" where
  "checked C flag args (SubmitProposalTx content deposit proposer) \<longleftrightarrow>
    (\<exists>from. GetClientTxContext C flag = Ok from \<and> proposer = From_String C from) \<and>
    (content_ValidateBasic C content = Ok () \<longleftrightarrow> content_abstract C content = Ok ())"
| "checked C flag args (AxelarTx m) \<longleftrightarrow> axelar_msg_ValidateBasic C m = Ok ()"
| "checked C flag args (AuctionTx m) \<longleftrightarrow>
    (\<exists>bidder n maxBid saleMin. GetClientTxContext C flag = Ok (Some bidder) \<and>
      ParseUint C (args ! 0) = Some n \<and> n < 2 ^ 64 \<and>
      ParseCoinNormalized C (args ! 1) = Some maxBid \<and> ParseCoinNormalized C (args ! 2) = Some saleMin \<and>
      m = MsgSubmitBidRequest (NewMsgSubmitBidRequest (cl_sdk C) (of_nat n) maxBid saleMin bidder))"
| "checked C flag args (PubsubTx m) \<longleftrightarrow>
    (\<exists>signer. GetClientTxContext C flag = Ok (Some signer) \<and>
      pubsub_signer m = AccAddress_String (cl_sdk C) signer)"

definition sound_command :: "client \<Rightarrow> client_tx cobra_command \<Rightarrow> bool" where
  "sound_command C c \<longleftrightarrow> (\<forall>flag args tx. cmd_RunE c flag args = Ok tx \<longrightarrow> checked C flag args tx)"

lemma sound_commandI:
  "(\<And>flag args tx. cmd_RunE c flag args = Ok tx \<Longrightarrow> checked C flag args tx) \<Longrightarrow> sound_command C c"
  by (simp add: sound_command_def)

lemma sound_AddTxFlags [simp]: "sound_command C (AddTxFlagsToCmd c) = sound_command C c"
  by (simp add: sound_command_def)

lemma check_hex_Ok [simp]: "check_hex C e ids = Ok () \<longleftrightarrow> (\<forall>i \<in> set ids. IsHexAddress (cl_eth C) i)"
  by (induction ids) (auto simp: check_hex_def)

lemma AxelarCellarIDSet_Ok:
  "AxelarCellarIDSet_ValidateBasic E c = Ok () \<longleftrightarrow> aci_ChainId c \<noteq> 0 \<and> (\<forall>i \<in> set (aci_Ids c). IsHexAddress E i)"
proof -
  have "fold_res (\<lambda>a _. if \<not> IsHexAddress E a then Err (Wrapped ErrInvalidEVMAddress) else Ok ()) ids () = Ok ()
      \<longleftrightarrow> (\<forall>i \<in> set ids. IsHexAddress E i)" for ids
    by (induction ids) auto
  then show ?thesis by (simp add: AxelarCellarIDSet_ValidateBasic_def)
qed

subsection \<open>Auction and cork\<close>

lemma auction_commands_sound:
  "sound_command C (GetCmdSubmitSetTokenPricesProposal C)" "sound_command C (GetCmdSubmitBid C)"
  by (auto intro!: sound_commandI simp: GetCmdSubmitSetTokenPricesProposal_def GetCmdSubmitBid_def Let_def
      parse_deposit_def parse_coin_def ucast_of_nat_32 split: option.splits)

lemma cork_commands_sound:
  "sound_command C (GetCmdSubmitAddProposal C)" "sound_command C (GetCmdSubmitRemoveProposal C)"
  "sound_command C (GetCmdSubmitScheduledCorkProposal C)"
  by (auto intro!: sound_commandI simp: GetCmdSubmitAddProposal_def GetCmdSubmitRemoveProposal_def
      GetCmdSubmitScheduledCorkProposal_def Let_def NewAddManagedCellarIDsProposal_def
      NewRemoveManagedCellarIDsProposal_def AddManagedCellarIDsProposal_ValidateBasic_def
      RemoveManagedCellarIDsProposal_ValidateBasic_def split: if_splits)

subsection \<open>Axelarcork\<close>

lemma axelar_msg_commands_sound:
  "sound_command C (CmdScheduleAxelarCork C)" "sound_command C (CmdRelayAxelarCork C)"
  "sound_command C (CmdRelayAxelarProxyUpgrade C)" "sound_command C (CmdBumpAxelarCorkGas C)"
  by (auto intro!: sound_commandI simp: CmdScheduleAxelarCork_def CmdRelayAxelarCork_def
      CmdRelayAxelarProxyUpgrade_def CmdBumpAxelarCorkGas_def Let_def split: if_splits)

lemma axelar_cellar_commands_sound:
  "sound_command C (GetCmdSubmitAddAxelarCellarIDProposal C)"
  "sound_command C (GetCmdSubmitRemoveAxelarCellarIDProposal C)"
  "sound_command C (GetCmdSubmitScheduledAxelarCorkProposal C)"
  by (auto intro!: sound_commandI simp: GetCmdSubmitAddAxelarCellarIDProposal_def
      GetCmdSubmitRemoveAxelarCellarIDProposal_def GetCmdSubmitScheduledAxelarCorkProposal_def Let_def
      NewAddAxelarManagedCellarIDsProposal_def NewRemoveAxelarManagedCellarIDsProposal_def
      AddAxelarManagedCellarIDsProposal_ValidateBasic_def RemoveAxelarManagedCellarIDsProposal_ValidateBasic_def
      AxelarCellarIDSet_Ok split: if_splits)

lemma axelar_spend_command_sound:
  assumes "\<And>s x. ParseCoinNormalized C s = Some x \<Longrightarrow> Coin_IsValid (cl_sdk C) x"
  shows "sound_command C (CmdSubmitAxelarCommunityPoolSpendProposal C)"
  using assms by (auto intro!: sound_commandI simp: CmdSubmitAxelarCommunityPoolSpendProposal_def Let_def parse_coin_def
      NewAxelarCommunitySpendProposal_def AxelarCommunityPoolSpendProposal_ValidateBasic_def split: if_splits)

lemma axelar_chain_commands_sound:
  "sound_command C (GetCmdSubmitAddChainConfigurationProposal C)"
  "sound_command C (GetCmdSubmitRemoveChainConfigurationProposal C)"
  "sound_command C (GetCmdSubmitUpgradeAxelarProxyContractProposal C)"
  "sound_command C (GetCmdSubmitCancelAxelarProxyContractUpgradeProposal C)"
  by (auto intro!: sound_commandI simp: GetCmdSubmitAddChainConfigurationProposal_def
      GetCmdSubmitRemoveChainConfigurationProposal_def GetCmdSubmitUpgradeAxelarProxyContractProposal_def
      GetCmdSubmitCancelAxelarProxyContractUpgradeProposal_def Let_def
      NewAddChainConfigurationProposal_def NewRemoveChainConfigurationProposal_def
      NewUpgradeAxelarProxyContractProposal_def NewCancelAxelarProxyContractUpgradeProposal_def
      AddChainConfigurationProposal_ValidateBasic_def RemoveChainConfigurationProposal_ValidateBasic_def
      UpgradeAxelarProxyContractProposal_ValidateBasic_def CancelAxelarProxyContractUpgradeProposal_ValidateBasic_def
      split: if_splits option.splits)

subsection \<open>Pubsub\<close>

lemma pubsub_proposal_commands_sound:
  "sound_command C (GetCmdSubmitAddPublisherProposal C)" "sound_command C (GetCmdSubmitRemovePublisherProposal C)"
  "sound_command C (GetCmdSubmitAddDefaultSubscriptionProposal C)"
  "sound_command C (GetCmdSubmitRemoveDefaultSubscriptionProposal C)"
  by (auto intro!: sound_commandI simp: GetCmdSubmitAddPublisherProposal_def GetCmdSubmitRemovePublisherProposal_def
      GetCmdSubmitAddDefaultSubscriptionProposal_def GetCmdSubmitRemoveDefaultSubscriptionProposal_def Let_def)

lemma pubsub_msg_commands_sound:
  "sound_command C (GetCmdAddSubscriberIntent C)" "sound_command C (GetCmdRemovePublisherIntent C)"
  "sound_command C (GetCmdRemoveSubscriberIntent C)" "sound_command C (GetCmdRemoveSubscriber C)"
  "sound_command C (GetCmdRemovePublisher C)"
  by (auto intro!: sound_commandI simp: GetCmdAddSubscriberIntent_def GetCmdRemovePublisherIntent_def
      GetCmdRemoveSubscriberIntent_def GetCmdRemoveSubscriber_def GetCmdRemovePublisher_def
      NewMsgAddSubscriberIntentRequest_def NewMsgRemovePublisherIntentRequest_def
      NewMsgRemoveSubscriberIntentRequest_def NewMsgRemoveSubscriberRequest_def NewMsgRemovePublisherRequest_def)

lemma pubsub_intent_commands_sound:
  "sound_command C (GetCmdAddPublisherPullIntent C)" "sound_command C (GetCmdAddPublisherPushIntent C)"
  "sound_command C (GetCmdAddSubscriber C)"
  by (auto intro!: sound_commandI simp: GetCmdAddPublisherPullIntent_def GetCmdAddPublisherPushIntent_def
      GetCmdAddSubscriber_def NewMsgAddPublisherIntentRequest_def NewMsgAddSubscriberRequest_def split: if_splits)

lemmas commands_sound =
  auction_commands_sound cork_commands_sound axelar_msg_commands_sound axelar_cellar_commands_sound
  axelar_chain_commands_sound pubsub_proposal_commands_sound pubsub_msg_commands_sound pubsub_intent_commands_sound

section \<open>The client context\<close>

text \<open>
  What the commands rely on: without \<^verbatim>\<open>--from\<close> the context has no sender, an empty text is no address,
  and a parsed coin has a valid denomination and an amount that is not negative.
\<close>

locale client_laws =
  fixes C :: client
  assumes no_flag: "GetClientTxContext C None = Ok from \<Longrightarrow> from = None"
    and no_address: "AccAddressFromBech32 (cl_sdk C) [] = None"
    and coin_valid: "ParseCoinNormalized C s = Some x \<Longrightarrow> Coin_IsValid (cl_sdk C) x"
begin

lemma tx_commands_sound: "c \<in> set (tx_commands C) \<Longrightarrow> sound_command C c"
  using commands_sound [of C] axelar_spend_command_sound [of C, OF coin_valid]
  by (auto simp: tx_commands_def auction_GetTxCmd_def cork_GetTxCmd_def axelarcork_GetTxCmd_def
      pubsub_GetTxCmd_def gov_proposal_commands_def)

lemma no_signer: "GetClientTxContext C None = Ok from \<Longrightarrow> check_signer (cl_sdk C) (From_String C from) \<noteq> Ok ()"
  using no_flag no_address by (auto simp: check_signer_def From_String_def)

lemma axelar_unsigned:
  assumes "c \<in> set (axelarcork_GetTxCmd C)"
  shows "cmd_TxFlags c = False" "cmd_RunE c None args \<noteq> Ok tx"
proof -
  show "cmd_TxFlags c = False"
    using assms by (auto simp: axelarcork_GetTxCmd_def CmdScheduleAxelarCork_def CmdRelayAxelarCork_def
        CmdRelayAxelarProxyUpgrade_def CmdBumpAxelarCorkGas_def)
  show "cmd_RunE c None args \<noteq> Ok tx"
    using assms no_signer by (auto simp: axelarcork_GetTxCmd_def CmdScheduleAxelarCork_def CmdRelayAxelarCork_def
        CmdRelayAxelarProxyUpgrade_def CmdBumpAxelarCorkGas_def Let_def MsgScheduleAxelarCork_ValidateBasic_def
        MsgRelayAxelarCork_ValidateBasic_def MsgRelayAxelarProxyUpgrade_ValidateBasic_def
        MsgBumpAxelarCorkGas_ValidateBasic_def split: if_splits)
qed

lemma axelar_refused: "c \<in> set (axelarcork_GetTxCmd C) \<Longrightarrow> execute c flag args \<noteq> Ok tx"
  using axelar_unsigned [of c] by (cases flag) auto

end

lemma schedule_lacks_deadline: "cmd_RunE (CmdScheduleAxelarCork C) flag args \<noteq> Ok tx"
  by (auto simp: CmdScheduleAxelarCork_def Let_def MsgScheduleAxelarCork_ValidateBasic_def
      AxelarCork_ValidateBasic_def split: if_splits)

section \<open>Usage\<close>

text \<open>
  The number of arguments a usage line asks for is the number of its bracketed words. Every command
  takes that many, except two, which refuse it.
\<close>

definition usage_args :: "'r cobra_command \<Rightarrow> nat" where
  "usage_args c = length (filter (\<lambda>ch. ch = CHR ''['') (cmd_Use c))"

lemma message_usage:
  assumes "c \<in> set (auction_GetTxCmd C @ cork_GetTxCmd C @ axelarcork_GetTxCmd C @ pubsub_GetTxCmd C)"
    and "length args = usage_args c"
  shows "cmd_Args c args = Ok () \<longleftrightarrow> cmd_Name c \<noteq> ''relay-axelar-proxy-upgrade''"
  using assms
  by (auto simp: auction_GetTxCmd_def cork_GetTxCmd_def axelarcork_GetTxCmd_def pubsub_GetTxCmd_def usage_args_def
      cmd_Name_def GetCmdSubmitBid_def CmdScheduleAxelarCork_def CmdRelayAxelarCork_def CmdRelayAxelarProxyUpgrade_def
      CmdBumpAxelarCorkGas_def GetCmdAddSubscriberIntent_def GetCmdRemovePublisherIntent_def
      GetCmdRemoveSubscriberIntent_def GetCmdRemoveSubscriber_def GetCmdRemovePublisher_def
      GetCmdAddPublisherPullIntent_def GetCmdAddPublisherPushIntent_def GetCmdAddSubscriber_def)

lemma proposal_usage:
  assumes "c \<in> set (gov_proposal_commands C)" and "length args = usage_args c"
  shows "cmd_Args c args = Ok () \<longleftrightarrow> cmd_Name c \<noteq> ''axelar-community-pool-spend''"
  using assms
  by (auto simp: gov_proposal_commands_def usage_args_def cmd_Name_def GetCmdSubmitAddProposal_def
      GetCmdSubmitRemoveProposal_def GetCmdSubmitScheduledCorkProposal_def GetCmdSubmitSetTokenPricesProposal_def
      GetCmdSubmitAddAxelarCellarIDProposal_def GetCmdSubmitRemoveAxelarCellarIDProposal_def
      GetCmdSubmitScheduledAxelarCorkProposal_def CmdSubmitAxelarCommunityPoolSpendProposal_def
      GetCmdSubmitAddChainConfigurationProposal_def GetCmdSubmitRemoveChainConfigurationProposal_def
      GetCmdSubmitUpgradeAxelarProxyContractProposal_def GetCmdSubmitCancelAxelarProxyContractUpgradeProposal_def
      GetCmdSubmitAddPublisherProposal_def GetCmdSubmitRemovePublisherProposal_def
      GetCmdSubmitAddDefaultSubscriptionProposal_def GetCmdSubmitRemoveDefaultSubscriptionProposal_def)

section \<open>Lists of addresses\<close>

text \<open>Joining with the separator is undone by splitting, when no piece contains the separator.\<close>

fun strings_Join :: "string list \<Rightarrow> char \<Rightarrow> string" where
  "strings_Join [] sep = []"
| "strings_Join [x] sep = x"
| "strings_Join (x # xs) sep = x @ sep # strings_Join xs sep"

lemma strings_Split_nonempty: "strings_Split s sep \<noteq> []"
  by (induction s) (auto split: list.splits)

lemma strings_Split_plain: "sep \<notin> set x \<Longrightarrow> strings_Split x sep = [x]"
  by (induction x) auto

lemma strings_Split_append: "sep \<notin> set x \<Longrightarrow> strings_Split (x @ sep # s) sep = x # strings_Split s sep"
  by (induction x) (auto split: list.splits)

lemma strings_Split_Join:
  assumes "xs \<noteq> []" "\<forall>x \<in> set xs. sep \<notin> set x"
  shows "strings_Split (strings_Join xs sep) sep = xs"
  using assms
  by (induction xs sep rule: strings_Join.induct) (auto simp: strings_Split_plain strings_Split_append)

lemma pull_intent_addresses:
  assumes "GetClientTxContext C flag = Ok (Some a)" "xs \<noteq> []" "\<forall>x \<in> set xs. CHR '','' \<notin> set x"
  shows "execute (GetCmdAddPublisherPullIntent C) flag [i, d, url, ''LIST'', strings_Join xs (CHR '','')] =
    Ok (PubsubTx (MsgAddPublisherIntent
      \<lparr>mapi_PublisherIntent = Some \<lparr>pi_SubscriptionId = i, pi_PublisherDomain = d, pi_Method = PublishMethod_PULL,
         pi_PullUrl = url, pi_AllowedSubscribers = AllowedSubscribers_LIST, pi_AllowedAddresses = xs\<rparr>,
       mapi_Signer = AccAddress_String (cl_sdk C) a\<rparr>))"
  using assms by (simp add: GetCmdAddPublisherPullIntent_def NewMsgAddPublisherIntentRequest_def strings_Split_Join)

section \<open>Commands that read the wrong argument\<close>

lemma query_command_simps [simp]:
  "cmd_Use (query_command C use chk run) = use" "cmd_Args (query_command C use chk run) = chk"
  "cmd_RunE (query_command C use chk run) flag args = bind_res (GetClientQueryContext C) (\<lambda>_. run args)"
  by (simp_all add: query_command_def)

lemma queryBid_Ok:
  "execute (queryBid C ask) None args = Ok a \<longleftrightarrow>
    length args = 2 \<and> GetClientQueryContext C = Ok () \<and>
    (\<exists>n < 2 ^ 64. ParseUint C (args ! 0) = Some n \<and> ask (AQ_Bid (of_nat n) (of_nat n)) = Ok a)"
  by (auto simp: queryBid_def ucast_of_nat_32)

text \<open>
  The same slip in axelarcork: one argument stands for height and chain, and for identifier and chain;
  and \<^verbatim>\<open>cork-result\<close> takes its arguments in the opposite order of its usage line.
\<close>

lemma axelar_query_conflates:
  "execute (axelar_queryScheduledCorksByBlockHeight C ask) None args = Ok a \<longleftrightarrow>
    length args = 1 \<and> GetClientQueryContext C = Ok () \<and>
    (\<exists>n < 2 ^ 64. ParseUint C (args ! 0) = Some n \<and> ask (XQ_ScheduledCorksByBlockHeight (of_nat n) (of_nat n)) = Ok a)"
  "execute (axelar_queryScheduledCorksByID C ask) None args = Ok a \<longleftrightarrow>
    length args = 1 \<and> GetClientQueryContext C = Ok () \<and> length (args ! 0) = 64 \<and>
    (\<exists>n < 2 ^ 64. ParseUint C (args ! 0) = Some n \<and> ask (XQ_ScheduledCorksByID (of_nat n) (args ! 0)) = Ok a)"
  "execute (axelar_queryCorkResult C ask) None args = Ok a \<longleftrightarrow>
    length args = 2 \<and> GetClientQueryContext C = Ok () \<and> length (args ! 0) = 64 \<and>
    (\<exists>n < 2 ^ 64. ParseUint C (args ! 1) = Some n \<and> ask (XQ_CorkResult (of_nat n) (args ! 0)) = Ok a)"
  by (auto simp: axelar_queryScheduledCorksByBlockHeight_def axelar_queryScheduledCorksByID_def
      axelar_queryCorkResult_def check_id_def)

end
