(* ===== verification/Client_Properties.thy ===== *)
theory Client_Properties
  imports Client_Safety Auction_Properties Pubsub_Properties
begin

text \<open>
  The properties of the command line: what a message has been checked for when a command hands it
  over, the axelarcork commands that can never hand one over, and the query commands against the
  query server of the auction keeper.
\<close>

section \<open>A concrete client\<close>

text \<open>Numbers in decimal, coins as a number followed by a denomination, and a file system with one proposal.\<close>

definition ref_ParseUint :: "string \<Rightarrow> nat option" where
  "ref_ParseUint s = (if s = [] \<or> \<not> list_all (\<lambda>c. c \<in> set ''0123456789'') s then None
    else Some (foldl (\<lambda>n c. 10 * n + (of_char c - 48)) 0 s))"

definition ref_ParseCoin :: "string \<Rightarrow> coin option" where
  "ref_ParseCoin s = (let digits = takeWhile (\<lambda>c. c \<in> set ''0123456789'') s; denom = drop (length digits) s
    in case ref_ParseUint digits of None \<Rightarrow> None
       | Some n \<Rightarrow> if ValidateDenom ref_sdk denom then Some (mk_coin denom (int n)) else None)"

definition ref_codec :: codec where
  "ref_codec = \<lparr>json_SetTokenPrices = (\<lambda>_. None),
     json_AddManagedCellars = (\<lambda>s. if s = ''{}'' then Some \<lparr>amd_Title = ''t'', amd_Description = ''d'',
       amd_CellarIds = [], amd_PublisherDomain = ''example.com'', amd_Deposit = ''5usomm''\<rparr> else None),
     json_RemoveManagedCellars = (\<lambda>_. None), json_ScheduledCork = (\<lambda>_. None), json_AddAxelarCellars = (\<lambda>_. None),
     json_RemoveAxelarCellars = (\<lambda>_. None), json_AxelarScheduledCork = (\<lambda>_. None),
     json_AxelarCommunitySpend = (\<lambda>_. None), json_AddChainConfiguration = (\<lambda>_. None),
     json_RemoveChainConfiguration = (\<lambda>_. None), json_UpgradeProxy = (\<lambda>_. None), json_CancelUpgrade = (\<lambda>_. None),
     json_AddPublisher = (\<lambda>_. None), json_RemovePublisher = (\<lambda>_. None),
     json_AddDefaultSubscription = (\<lambda>_. None), json_RemoveDefaultSubscription = (\<lambda>_. None)\<rparr>"

definition ref_client :: client where
  "ref_client = \<lparr>cl_sdk = ref_sdk, cl_eth = ref_eth, cl_web = pk_web ex_registry,
     cl_coins = \<lparr>Coins_IsValid = (\<lambda>_. True), Coins_Find = (\<lambda>cs d. find (\<lambda>c. cDenom c = d) cs)\<rparr>,
     cl_codec = ref_codec,
     GetClientTxContext = (\<lambda>flag. case flag of None \<Rightarrow> Ok None | Some s \<Rightarrow> Ok (AccAddressFromBech32 ref_sdk s)),
     ReadFile = (\<lambda>path. if path = ''proposal.json'' then Some ''{}'' else None),
     ParseUint = ref_ParseUint, ParseCoinNormalized = ref_ParseCoin,
     ParseCoinsNormalized = (\<lambda>s. map_option (\<lambda>c. [c]) (ref_ParseCoin s)),
     SetContent = (\<lambda>_. Ok ()), GetClientQueryContext = Ok ()\<rparr>"

interpretation ref_client: client_laws ref_client
proof
  show "sender = None" if "GetClientTxContext ref_client None = Ok sender" for sender
    using that by (simp add: ref_client_def)
  show "AccAddressFromBech32 (cl_sdk ref_client) [] = None" by (simp add: ref_client_def ref_sdk_def)
  show "Coin_IsValid (cl_sdk ref_client) x" if "ParseCoinNormalized ref_client s = Some x" for s x
    using that by (auto simp: ref_client_def ref_ParseCoin_def Let_def Coin_IsValid_def split: option.splits if_splits)
qed

section \<open>Transactions\<close>





text \<open>
  C11. No transaction command of the axelarcork module can ever hand over a message. The flags of a
  transaction are never added to them, so that \<^verbatim>\<open>--from\<close> is refused as unknown, and without a sender their
  own validation fails. The command that schedules a cork would fail with the flags too: it builds a
  cork without a deadline, which the validation refuses.
\<close>

theorem axelar_tx_commands_refused:
  assumes "client_laws C" "c \<in> set (axelarcork_GetTxCmd C)"
  shows "execute c flag args \<noteq> Ok tx \<and> execute (AddTxFlagsToCmd (CmdScheduleAxelarCork C)) flag args \<noteq> Ok tx"
  using client_laws.axelar_refused [OF assms] schedule_lacks_deadline [of C flag args tx] by simp

theorem axelar_tx_commands_refused_witness:
  "\<forall>tx. execute (CmdBumpAxelarCorkGas ref_client) (Some ''somm1bob'') [''5usomm'', ''id''] \<noteq> Ok tx"
  using axelar_tx_commands_refused [OF ref_client.client_laws_axioms, of "CmdBumpAxelarCorkGas ref_client"]
  by (simp only: axelarcork_GetTxCmd_def list.set insert_iff simp_thms)

section \<open>Queries\<close>

text \<open>
  C22. The command that queries a bid reads both the auction id and the bid id from its first argument.
  Whatever it shows is a bid whose id agrees with the id of its auction, cut to 32 bits; the second argument
  does not matter. All other bids are out of its reach.
\<close>

theorem queryBid_shows:
  assumes "store_wf k st" "execute (queryBid C (auction_server P st)) None [i, j] = Ok answer"
  shows "\<exists>b. answer = AA_Bid b \<and> GetBid st (b_AuctionId b) (b_Id b) = Some b \<and> b_AuctionId b = ucast (b_Id b) \<and>
    (\<forall>j'. execute (queryBid C (auction_server P st)) None [i, j'] = Ok answer)"
proof -
  obtain n where n: "n < 2 ^ 64" "ParseUint C i = Some n"
    "auction_server P st (AQ_Bid (of_nat n) (of_nat n)) = Ok answer"
    using assms(2) unfolding queryBid_Ok by auto
  then obtain b where b: "answer = AA_Bid b" "GetBid st (of_nat n) (of_nat n) = Some b"
    by (auto simp: QueryBid_def split: option.splits)
  have "GetBidKey (of_nat n) (of_nat n) = GetBidKey (b_AuctionId b) (b_Id b)"
    using store_wf_bid(1) [OF assms(1)] b(2) by (simp add: GetBid_def)
  then have "b_AuctionId b = of_nat n" "b_Id b = of_nat n" by (simp_all add: key_simps)
  moreover have "execute (queryBid C (auction_server P st)) None [i, j'] = Ok answer" for j'
    using assms(2) unfolding queryBid_Ok by simp
  ultimately show ?thesis using b by (simp add: ucast_of_nat_32)
qed

lemma ex_bid_state_wf: "store_wf ex_keeper (fst (ex_bid_result 9 1))"
  unfolding ex_bid_result_def by code_simp

definition ref_pager :: pager where
  "ref_pager = \<lparr>page_auctions = (\<lambda>xs. Ok (take 100 xs)), page_bids = (\<lambda>xs. Ok (take 100 xs))\<rparr>"

definition ex_bid_query :: "string \<Rightarrow> auction_answer res" where
  "ex_bid_query j = execute (queryBid ref_client (auction_server ref_pager (fst (ex_bid_result 9 1)))) None [''1'', j]"

lemma ex_bid_query_ok: "is_ok (ex_bid_query ''7'')"
  by code_simp

theorem queryBid_shows_witness:
  "\<exists>b. ok_val (ex_bid_query ''7'') = AA_Bid b \<and> b_AuctionId b = ucast (b_Id b) \<and>
    ex_bid_query ''1'' = ex_bid_query ''7''"
  using queryBid_shows [OF ex_bid_state_wf is_ok_val [OF ex_bid_query_ok [unfolded ex_bid_query_def]]]
    is_ok_val [OF ex_bid_query_ok] unfolding ex_bid_query_def [symmetric] by metis

text \<open>The search of the client finds the active auction of a denomination, since there is only one.\<close>

lemma find_active:
  assumes "store_wf k st"
  shows "find (\<lambda>a. sale_denom a = d) (GetActiveAuctions st) = Some a \<longleftrightarrow>
    (\<exists>i. GetActiveAuctionByID st i = Some a \<and> sale_denom a = d)"
proof -
  have mem: "b \<in> set (GetActiveAuctions st) \<longleftrightarrow> (\<exists>i. GetActiveAuctionByID st i = Some b)" for b
    using store_wf_active_mem [OF assms, of b] store_wf_active(1) [OF assms] by blast
  have uniq: "b = a" if "GetActiveAuctionByID st i = Some a" "GetActiveAuctionByID st j = Some b"
      "sale_denom b = sale_denom a" for i j a b
    using store_wf_denom [OF assms that(1,2)] that by simp
  show ?thesis
  proof (cases "find (\<lambda>a. sale_denom a = d) (GetActiveAuctions st)")
    case None
    then have "\<forall>x \<in> set (GetActiveAuctions st). sale_denom x \<noteq> d" by (simp add: find_None_iff)
    with None mem show ?thesis by auto
  next
    case (Some b)
    then have "b \<in> set (GetActiveAuctions st)" "sale_denom b = d"
      by (auto simp: find_Some_iff in_set_conv_nth)
    with Some mem uniq show ?thesis by (metis option.inject)
  qed
qed

text \<open>
  C36. The commands that query auctions by denomination. The one for active auctions shows exactly the active
  auction that sells the denomination, of which there is at most one. The one for ended auctions sends an
  empty page request, which the SDK answers with the first hundred entries: it shows the auctions of the
  denomination among the hundred with the lowest ids, and fails when there is none among them.
\<close>

theorem query_auctions_by_denom:
  assumes "store_wf k st" "GetClientQueryContext C = Ok ()" "\<forall>xs. page_auctions P xs = Ok (take 100 xs)"
  shows "(execute (queryActiveAuctionsByDenom C (auction_server P st)) None [d] = Ok answer \<longleftrightarrow>
      (\<exists>i a. answer = AA_Auction a \<and> GetActiveAuctionByID st i = Some a \<and> sale_denom a = d)) \<and>
    (execute (queryEndedAuctionsByDenom C (auction_server P st)) None [d] = Ok answer \<longleftrightarrow>
      (let shown = filter (\<lambda>a. sale_denom a = d) (take 100 (GetEndedAuctions st))
       in shown \<noteq> [] \<and> answer = AA_Auctions shown))"
proof
  have "execute (queryActiveAuctionsByDenom C (auction_server P st)) None [d] = Ok answer \<longleftrightarrow>
      (\<exists>a. answer = AA_Auction a \<and> find (\<lambda>a. sale_denom a = d) (GetActiveAuctions st) = Some a)"
    using assms(2) iterate_find [of "\<lambda>a. sale_denom a = d" "\<lambda>a. a" "GetActiveAuctions st"]
    by (auto simp: queryActiveAuctionsByDenom_def QueryActiveAuctions_def split: option.splits)
  also have "\<dots> \<longleftrightarrow> (\<exists>i a. answer = AA_Auction a \<and> GetActiveAuctionByID st i = Some a \<and> sale_denom a = d)"
    using find_active [OF assms(1)] by metis
  finally show "execute (queryActiveAuctionsByDenom C (auction_server P st)) None [d] = Ok answer \<longleftrightarrow>
      (\<exists>i a. answer = AA_Auction a \<and> GetActiveAuctionByID st i = Some a \<and> sale_denom a = d)" .
  show "execute (queryEndedAuctionsByDenom C (auction_server P st)) None [d] = Ok answer \<longleftrightarrow>
      (let shown = filter (\<lambda>a. sale_denom a = d) (take 100 (GetEndedAuctions st))
       in shown \<noteq> [] \<and> answer = AA_Auctions shown)"
    using assms(2,3) by (auto simp: queryEndedAuctionsByDenom_def QueryEndedAuctions_def GetEndedAuctions_values
        kv_values_def Let_def)
qed

theorem query_auctions_by_denom_witness:
  "execute (queryActiveAuctionsByDenom ref_client (auction_server ref_pager ex_state)) None [ex_denom] =
      Ok (AA_Auction ex_auction) \<and>
    execute (queryEndedAuctionsByDenom ref_client (auction_server ref_pager ex_state)) None [ex_denom] \<noteq>
      Ok (AA_Auction ex_auction)"
proof -
  have wf: "store_wf ex_keeper ex_state" using ex_state_inv by (simp add: auction_inv_def)
  have "GetActiveAuctionByID ex_state 1 = Some ex_auction" "sale_denom ex_auction = ex_denom" by code_simp+
  then show ?thesis
    using query_auctions_by_denom [OF wf, of ref_client ref_pager ex_denom "AA_Auction ex_auction"]
    by (auto simp: ref_client_def ref_pager_def Let_def simp del: execute_Ok)
qed

end
