(* ===== verification/Spec2Isabelle.thy ===== *)
theory Spec2Isabelle
  imports Auction_Properties Pubsub_Queries Pubsub_Properties Cork_Properties
    Axelarcork_Msgs Axelarcork_Properties App_Properties App_Accounts Upgrade_Properties Upgrades_Early Client_Properties
begin

text \<open>
  Verification of the modules of the Sommelier chain (\<^verbatim>\<open>x/\<close>, their command lines and their wiring in \<^verbatim>\<open>app/app.go\<close>).

  \<^bold>\<open>The program.\<close> Sommelier is a Cosmos SDK chain whose validators steer vaults (cellars) on other
  chains. Validators schedule contract calls (\<^emph>\<open>corks\<close>) for a block height; at that height the votes
  are tallied and the calls with more than 67 percent of the power go to the Ethereum bridge
  (\<^verbatim>\<open>x/cork\<close>) or become relayable over Axelar (\<^verbatim>\<open>x/axelarcork\<close>). Cellars send their fees over the
  bridge; \<^verbatim>\<open>x/cellarfees\<close> counts them, has \<^verbatim>\<open>x/auction\<close> sell them for usomm in falling-price auctions,
  and pays the proceeds out as staking rewards. \<^verbatim>\<open>x/incentives\<close> adds a fixed reward from the community
  pool. \<^verbatim>\<open>x/pubsub\<close> is a registry of publishers and subscribers of cellar messages.

  \<^bold>\<open>How it is modelled.\<close> Every Go function is a HOL function of the same name (with the module's name in
  front where two modules use one name). A store is a \<open>kvstore\<close> per key prefix, a finite map from byte
  strings that is iterated in key order; keys are built bytewise as in the code. Protobuf values are
  kept decoded. Integers of 64 and 32 bits are words, \<^verbatim>\<open>sdk.Int\<close> is \<open>int\<close>, \<^verbatim>\<open>sdk.Dec\<close> the integer scaled by
  \<open>10\<^sup>1\<^sup>8\<close>. A function that can fail returns \<open>'a res\<close>: \<open>Ok\<close>, \<open>Err\<close> with the error, or \<open>Panic\<close>. An \<open>Err\<close> has no
  state since the SDK discards it; a \<open>Panic\<close> at the beginning or end of a block halts the chain.
  The SDK, the bridge, IBC, go-ethereum, X.509 and JSON are records of operations (\<open>sdk\<close>, \<open>bank_ops\<close>, \<open>eth\<close>,
  \<open>abi\<close>, \<open>web\<close>, \<open>json_ops\<close>, fields of the keepers) whose documented laws are locales; the instances
  \<open>ref_sdk\<close>, \<open>ref_bank\<close>, \<open>ref_eth\<close>, \<open>ref_abi\<close> show that the laws can be met and carry the witnesses.

  \<^bold>\<open>The theories.\<close>
  \<^item> \<open>Prelude\<close>, \<open>KVStore\<close>, \<open>Indexed\<close>, \<open>Sdk\<close>, \<open>Ethereum\<close>, \<open>Abi\<close>, \<open>Tally\<close>: results and loops, big-endian and
    hexadecimal coding, stores and stores with several indexes, decimals and bank, addresses and hashes,
    the ABI codec, and the weighted tally with its reference definition.
  \<^item> \<open>Auction_Types\<close>, \<open>Auction_Keeper\<close>: \<^verbatim>\<open>x/auction/types\<close> and \<^verbatim>\<open>keeper\<close>. \<open>Auction_Invariants\<close>,
    \<open>Auction_Safety\<close>, \<open>Auction_Genesis\<close>, \<open>Auction_Liveness\<close>, \<open>Auction_Prune\<close>, \<open>Auction_Properties\<close> (C1 to C4, C6, C7, C10, C12, C14, C15): the store
    stays well formed and solvent under every history of bids, new auctions, proposals and blocks, so
    the end of a block never panics; what a bid buys and pays and by how much it can be overcharged; how
    auctions start, lose price, end and are pruned; genesis.
  \<^item> \<open>Cork_Types\<close>, \<open>Cork_Keeper\<close>, \<open>Cork_Safety\<close>, \<open>Cork_Properties\<close> (C16, C17, C19 to C21): the tally equals the obvious one,
    the end of a block submits the approved calls with consecutive nonces, no cork is missed, the
    list of cellars stays sorted and distinct; a cork of a removed validator halts the chain.
  \<^item> \<open>Axelarcork_Types\<close>, \<open>Axelarcork_Keeper\<close>, \<open>Axelarcork_Msgs\<close>, \<open>Axelarcork_Safety\<close>, \<open>Axelarcork_Properties\<close> (C23 to
    C28): the tally per chain, which winning corks the end of a block keeps, what a relay sends, what the
    check of outgoing packets lets through, the delay of proxy upgrades, and a panic of the export.
  \<^item> \<open>Pubsub_Types\<close>, \<open>Pubsub_Keeper\<close>, \<open>Pubsub_Queries\<close>, \<open>Pubsub_Safety\<close>, \<open>Pubsub_Properties\<close> (C29 to C32): the indexes
    agree in every reachable state and references are intact, deletion refines deletion from sets of
    records, genesis, and who may subscribe.
  \<^item> \<open>Cellarfees_Types\<close>, \<open>Cellarfees_Keeper\<close>, \<open>Cellarfees_Safety\<close>, \<open>Incentives\<close>: fee counters, fee auctions and
    emissions against the interface \<open>fee_env\<close>; the incentives against \<open>incentives_env\<close>.
  \<^item> \<open>App_Wiring\<close>, \<open>App_Safety\<close>, \<open>App_Histories\<close>, \<open>App_Properties\<close> (C33 to C35, C37, C38, C40): the keepers as \<^verbatim>\<open>app.go\<close> connects
    them, one block of all modules in the order of the application, and the histories from genesis:
    blocks, messages, proposals, bridge events, parameter changes and the activity of other modules in any
    order. The wired keepers satisfy the interfaces, so every state of a history has the invariants and a
    block returns in it; what the beginning of a block does to fees and rewards, that
    a bad parameter halts the chain, which transfers count as fees, that the counters refine a map,
    that rewards are spent in bounded time, genesis, and the incentives.
  \<^item> \<open>Auction_Bids\<close>, \<open>App_Accounts\<close> (C39): when a bid is accepted, and the module accounts of \<^verbatim>\<open>app.go\<close> with
    the blocked addresses they imply: a bid of a user never panics, and nothing can stop it once it is
    priced and paid.
  \<^item> \<open>Certificates\<close>, \<open>Upgrades\<close>, \<open>Upgrade_Properties\<close> (C5, C13, C18): the handlers of \<^verbatim>\<open>app/upgrades/v5\<close> and \<^verbatim>\<open>v7\<close> and the
    migration of the cork store. The genesis state of the auction module is sound and its tokens can be
    sold, that of axelarcork fails its own validation and stops the upgrade, the registry holds exactly
    the listed records, and corks that the migration leaves behind halt the chain.
  \<^item> \<open>Upgrades_Early\<close> (C9): the handlers of \<^verbatim>\<open>app/upgrades/v4\<close> and \<^verbatim>\<open>v6\<close>. Renaming the bridged denominations
    conserves what every account but the removed one holds, whatever the bank's iterators deliver.
  \<^item> \<open>Client\<close>, \<open>Client_Tx\<close>, \<open>Client_Query\<close>, \<open>Client_Safety\<close>, \<open>Client_Properties\<close> (C8, C11, C22, C36): the command
    line of the modules. Commands are records like those of cobra, with usage line, check of the number
    of arguments, flags and body; \<^verbatim>\<open>client/cli/tx.go\<close> up to the message given to the transaction builder,
    \<^verbatim>\<open>client/cli/query.go\<close> up to the answer, over the query servers of the keepers. What a message has been
    checked for, which commands can never work, which bids and auctions the queries can show; lists of
    addresses survive joining and splitting, and which usage lines disagree with the code.

  \<^bold>\<open>Interfaces.\<close> \<open>sdk_dec\<close>, \<open>bank_keeper\<close> and \<open>chain_env\<close> are the laws of decimals and bank; \<open>eth_laws\<close> and
  \<open>abi_codec\<close> those of addresses, hashes and the ABI; \<open>ordered_kv\<close> iteration in key order; \<open>vote_tally\<close> the tally over any equivalence of
  candidates, interpreted for both cork modules; \<open>counter_ops\<close> the fee counters; \<open>auction_env\<close>, \<open>cork_env\<close>,
  \<open>axelar_env\<close>, \<open>pubsub_env\<close> the environments of the modules; \<open>fee_env\<close> and \<open>incentives_env\<close> what cellarfees and
  incentives rely on. \<open>app_env\<close> has sublocales to \<open>auction_env\<close>, \<open>fee_env\<close> and \<open>incentives_env\<close>: the auction
  module's own lemmas discharge what cellarfees assumes of it. \<open>axelar_chain\<close> extends \<open>axelar_env\<close> by what
  axelarcork relies on in the transfer module, \<open>app_chain\<close> joins it with \<open>app_env\<close> for the histories;
  \<open>app_accounts\<close> gives \<open>app_env\<close> with the accounts and blocked addresses of the application; \<open>v4_bank\<close>
  extends \<open>bank_keeper\<close> by burning, minting and iterators of which nothing but finiteness is known; \<open>client_laws\<close>
  is what the commands rely on in the client context.

  \<^bold>\<open>Bounds.\<close> No fuel is used: all loops run over slices or stores and are folds, \<open>run_EndBlockers\<close> and
  \<open>emission_blocks\<close> recurse on a number of blocks. The tally assumes a total power of at most \<open>10\<^sup>1\<^sup>6\<close>,
  below which the 18 decimal places of the quotient separate any two shares at the threshold; the
  chain's power is below it by orders of magnitude.

  \<^bold>\<open>Not modelled.\<close> Gateway code and module registration (generated, or without chain state); aliases of
  commands and the printing of answers; pagination, which is the SDK's; sign bytes and routing names;
  the callbacks of \<^verbatim>\<open>ibc_middleware.go\<close> that only call the wrapped application (\<^verbatim>\<open>SendPacket\<close> is modelled);
  the module manager and the interchain accounts module, which are arguments of the upgrade handlers; gas,
  logging and telemetry. Hash functions are arbitrary up to their length; where distinct hashes matter
  (\<open>pubsub_env\<close>) the property says so.
\<close>

end
